(* ===== verification/Prelude.thy ===== *)
theory Prelude
  imports Complex_Main
begin

text \<open>
  Shared vocabulary of the development: the fixed-width integers of Go, the clock values of
  package \<open>time\<close>, and the generic facts on lists and maps that several components use.

  A Go \<open>int64\<close> (and \<open>int\<close>, which is 64 bits wide on the targets of the program) is an
  \<open>int\<close> whose arithmetic is written with the explicit wrap-around \<open>wrap64\<close>; the predicate
  \<open>is_i64\<close> says that a value is in range.  Division and remainder truncate towards zero, as
  in Go.  A \<open>time.Time\<close> is the number of nanoseconds since 1 January of year 1 UTC, so that
  the zero value of the Go type is \<open>0\<close>; the monotonic reading that \<open>time.Now\<close> adds is not
  modelled.  A \<open>time.Duration\<close> is a 64-bit count of nanoseconds, and \<open>Time.Sub\<close> saturates.
\<close>

named_theorems i64_simps \<open>wrap-around arithmetic on values that stay in range\<close>
named_theorems time_simps \<open>clock arithmetic\<close>
named_theorems step_simps \<open>unfolding of one step of a component\<close>

subsection \<open>Integers of 64 bits\<close>

type_synonym int64 = int
type_synonym duration = int
type_synonym gotime = int

definition max_i64 :: int where "max_i64 = 9223372036854775807"
definition min_i64 :: int where "min_i64 = -9223372036854775808"

definition is_i64 :: "int \<Rightarrow> bool" where
  "is_i64 x \<longleftrightarrow> min_i64 \<le> x \<and> x \<le> max_i64"

definition wrap64 :: "int \<Rightarrow> int64" where
  "wrap64 x = (x + 9223372036854775808) mod 18446744073709551616 - 9223372036854775808"

definition add64 :: "int64 \<Rightarrow> int64 \<Rightarrow> int64" where "add64 a b = wrap64 (a + b)"
definition sub64 :: "int64 \<Rightarrow> int64 \<Rightarrow> int64" where "sub64 a b = wrap64 (a - b)"
definition mul64 :: "int64 \<Rightarrow> int64 \<Rightarrow> int64" where "mul64 a b = wrap64 (a * b)"
definition neg64 :: "int64 \<Rightarrow> int64" where "neg64 a = wrap64 (- a)"

text \<open>Quotient and remainder truncate towards zero.\<close>

definition tquot :: "int \<Rightarrow> int \<Rightarrow> int" where
  "tquot a b = sgn a * sgn b * (\<bar>a\<bar> div \<bar>b\<bar>)"

definition trem :: "int \<Rightarrow> int \<Rightarrow> int" where
  "trem a b = a - b * tquot a b"

definition div64 :: "int64 \<Rightarrow> int64 \<Rightarrow> int64" where "div64 a b = wrap64 (tquot a b)"
definition rem64 :: "int64 \<Rightarrow> int64 \<Rightarrow> int64" where "rem64 a b = wrap64 (trem a b)"

lemmas i64_bounds = is_i64_def max_i64_def min_i64_def

lemma wrap64_id: "is_i64 x \<Longrightarrow> wrap64 x = x"
  by (simp add: i64_bounds wrap64_def)

lemma wrap64_range [simp, intro]: "is_i64 (wrap64 x)"
proof -
  have "0 \<le> (x + 9223372036854775808) mod (18446744073709551616::int)"
    and "(x + 9223372036854775808) mod (18446744073709551616::int) < 18446744073709551616"
    by simp_all
  then show ?thesis unfolding i64_bounds wrap64_def by linarith
qed

lemma add64_id [i64_simps]: "is_i64 (a + b) \<Longrightarrow> add64 a b = a + b"
  by (simp add: add64_def wrap64_id)

lemma sub64_id [i64_simps]: "is_i64 (a - b) \<Longrightarrow> sub64 a b = a - b"
  by (simp add: sub64_def wrap64_id)

lemma mul64_id [i64_simps]: "is_i64 (a * b) \<Longrightarrow> mul64 a b = a * b"
  by (simp add: mul64_def wrap64_id)

lemma neg64_id [i64_simps]: "is_i64 (- a) \<Longrightarrow> neg64 a = - a"
  by (simp add: neg64_def wrap64_id)

text \<open>Wrapping is a homomorphism, so inner wrap-arounds do not matter.\<close>

lemma wrap64_mod: "wrap64 x mod 18446744073709551616 = x mod 18446744073709551616"
  unfolding wrap64_def by (simp add: mod_diff_left_eq)

lemma wrap64_cong:
  "x mod 18446744073709551616 = y mod 18446744073709551616 \<Longrightarrow> wrap64 x = wrap64 y"
proof -
  assume "x mod 18446744073709551616 = y mod 18446744073709551616"
  from mod_add_cong [OF this refl] show ?thesis by (simp add: wrap64_def)
qed

lemma wrap64_add [simp]: "wrap64 (wrap64 x + y) = wrap64 (x + y)" "wrap64 (y + wrap64 x) = wrap64 (y + x)"
  by (rule wrap64_cong, rule mod_add_cong [OF wrap64_mod refl],
    rule wrap64_cong, rule mod_add_cong [OF refl wrap64_mod])

lemma wrap64_diff [simp]: "wrap64 (wrap64 x - y) = wrap64 (x - y)" "wrap64 (y - wrap64 x) = wrap64 (y - x)"
  by (rule wrap64_cong, rule mod_diff_cong [OF wrap64_mod refl],
    rule wrap64_cong, rule mod_diff_cong [OF refl wrap64_mod])

lemma wrap64_wrap64 [simp]: "wrap64 (wrap64 x) = wrap64 x"
  by (simp add: wrap64_id)

lemma i64_range [simp, intro]:
  "is_i64 (add64 a b)" "is_i64 (sub64 a b)" "is_i64 (mul64 a b)" "is_i64 (neg64 a)"
  "is_i64 (div64 a b)" "is_i64 (rem64 a b)"
  by (simp_all add: add64_def sub64_def mul64_def neg64_def div64_def rem64_def)

lemma div_le_self_int: "0 \<le> a \<Longrightarrow> 0 < b \<Longrightarrow> a div b \<le> (a::int)"
  using zdiv_mono2 [of a 1 b] by simp

lemma tquot_nonneg: "0 \<le> a \<Longrightarrow> 0 < b \<Longrightarrow> tquot a b = a div b"
  by (cases "a = 0") (simp_all add: tquot_def)

lemma tquot_neg: "a < 0 \<Longrightarrow> 0 < b \<Longrightarrow> tquot a b = - ((- a) div b)"
  by (simp add: tquot_def)

lemma trem_nonneg: "0 \<le> a \<Longrightarrow> 0 < b \<Longrightarrow> trem a b = a mod b"
  by (simp add: trem_def tquot_nonneg minus_mult_div_eq_mod)

lemma trem_neg: "a < 0 \<Longrightarrow> 0 < b \<Longrightarrow> trem a b = - ((- a) mod b)"
  using minus_mult_div_eq_mod [of "- a" b] by (simp add: trem_def tquot_neg)

lemma trem_zero_iff: "0 < b \<Longrightarrow> trem a b = 0 \<longleftrightarrow> b dvd a"
proof (cases "0 \<le> a")
  case True
  assume "0 < b" with True show ?thesis by (simp add: trem_nonneg dvd_eq_mod_eq_0)
next
  case False
  assume "0 < b"
  with False have "trem a b = 0 \<longleftrightarrow> b dvd - a" by (simp add: trem_neg dvd_eq_mod_eq_0)
  then show ?thesis by simp
qed

lemma tquot_abs_le: "0 < b \<Longrightarrow> \<bar>tquot a b\<bar> \<le> \<bar>a\<bar>"
proof -
  assume b: "0 < b"
  have "\<bar>a\<bar> div b \<le> \<bar>a\<bar>" and "0 \<le> \<bar>a\<bar> div b"
    using b by (simp_all add: pos_imp_zdiv_nonneg_iff div_le_self_int)
  then show ?thesis
    using b by (cases "0 \<le> a") (simp_all add: tquot_nonneg tquot_neg)
qed

lemma trem_abs_less: "0 < b \<Longrightarrow> \<bar>trem a b\<bar> < b"
  by (cases "0 \<le> a") (simp_all add: trem_nonneg trem_neg)

lemma div64_id: "is_i64 a \<Longrightarrow> 0 < b \<Longrightarrow> div64 a b = tquot a b"
proof -
  assume a: "is_i64 a" and b: "0 < b"
  have "is_i64 (tquot a b)"
  proof (cases "0 \<le> a")
    case True
    have "tquot a b = a div b" using True b by (rule tquot_nonneg)
    moreover have "a div b \<le> a" using True b by (simp add: div_le_self_int)
    moreover have "0 \<le> a div b" using True b by (simp add: pos_imp_zdiv_nonneg_iff)
    ultimately show ?thesis using a by (simp add: i64_bounds)
  next
    case False
    then have "tquot a b = - ((- a) div b)" using b by (simp add: tquot_neg)
    moreover have "(- a) div b \<le> - a" using False b by (simp add: div_le_self_int)
    moreover have "0 \<le> (- a) div b" using False b by (simp add: pos_imp_zdiv_nonneg_iff)
    ultimately show ?thesis using a by (simp add: i64_bounds)
  qed
  then show ?thesis by (simp add: div64_def wrap64_id)
qed

lemma rem64_id: "is_i64 b \<Longrightarrow> 0 < b \<Longrightarrow> rem64 a b = trem a b"
proof -
  assume b: "is_i64 b" and p: "0 < b"
  from trem_abs_less [OF p, of a] have "is_i64 (trem a b)"
    using b unfolding i64_bounds by linarith
  then show ?thesis by (simp add: rem64_def wrap64_id)
qed

subsection \<open>Clock values\<close>

text \<open>\<open>time.Time\<close> counts from year 1; the Unix epoch is \<open>unix_epoch\<close> nanoseconds later.\<close>

definition unix_epoch :: gotime where "unix_epoch = 62135596800000000000"

definition t_is_zero :: "gotime \<Rightarrow> bool" where "t_is_zero t \<longleftrightarrow> t = 0"

definition t_sub :: "gotime \<Rightarrow> gotime \<Rightarrow> duration" where
  "t_sub t u = max min_i64 (min max_i64 (t - u))"

definition t_add :: "gotime \<Rightarrow> duration \<Rightarrow> gotime" where "t_add t d = t + d"

definition unix_ms :: "gotime \<Rightarrow> int64" where
  "unix_ms t = wrap64 ((t - unix_epoch) div 1000000)"

definition time_unix_ms :: "int64 \<Rightarrow> gotime" where
  "time_unix_ms ms = unix_epoch + ms * 1000000"

definition second :: duration where "second = 1000000000"
definition millisecond :: duration where "millisecond = 1000000"

lemma t_sub_le_iff [time_simps]:
  "min_i64 \<le> d \<Longrightarrow> d < max_i64 \<Longrightarrow> t_sub t u \<le> d \<longleftrightarrow> t - u \<le> d"
  by (auto simp: t_sub_def min_i64_def max_i64_def)

lemma t_sub_less_iff [time_simps]:
  "min_i64 < d \<Longrightarrow> d \<le> max_i64 \<Longrightarrow> t_sub t u < d \<longleftrightarrow> t - u < d"
  by (auto simp: t_sub_def min_i64_def max_i64_def)

lemma t_sub_mono: "t \<le> t' \<Longrightarrow> t_sub t u \<le> t_sub t' u"
  by (auto simp: t_sub_def)

lemma t_sub_range [simp, intro]: "is_i64 (t_sub t u)"
  by (auto simp: t_sub_def i64_bounds)

lemma t_sub_self [simp]: "t_sub t t = 0"
  by (simp add: t_sub_def min_i64_def max_i64_def)

lemma unix_ms_inverse: "is_i64 ms \<Longrightarrow> unix_ms (time_unix_ms ms) = ms"
  by (simp add: unix_ms_def time_unix_ms_def wrap64_id)

subsection \<open>Lists and maps\<close>

lemma nth_list_update_swap:
  "i < length xs \<Longrightarrow> j < length xs \<Longrightarrow> k < length xs \<Longrightarrow>
   xs[i := xs ! j, j := xs ! i] ! k = (if k = j then xs ! i else if k = i then xs ! j else xs ! k)"
  by (auto simp: nth_list_update)

text \<open>\<open>m[k]++\<close> on a Go map of counters: a missing key counts as zero.\<close>

definition map_get :: "('k \<rightharpoonup> 'v) \<Rightarrow> 'v \<Rightarrow> 'k \<Rightarrow> 'v" where
  "map_get m d k = (case m k of None \<Rightarrow> d | Some v \<Rightarrow> v)"

definition map_incr :: "('k \<rightharpoonup> int64) \<Rightarrow> 'k \<Rightarrow> ('k \<rightharpoonup> int64)" where
  "map_incr m k = m(k \<mapsto> add64 (map_get m 0 k) 1)"

lemma map_get_upd [simp]: "map_get (m(k \<mapsto> v)) d k' = (if k' = k then v else map_get m d k')"
  by (simp add: map_get_def)

lemma map_get_empty [simp]: "map_get Map.empty d k = d"
  by (simp add: map_get_def)

lemma map_get_incr:
  "map_get (map_incr m k) 0 k' = (if k' = k then add64 (map_get m 0 k) 1 else map_get m 0 k')"
  by (simp add: map_incr_def)

end
