(* ===== verification/Go_Strings.thy ===== *)
theory Go_Strings
  imports Prelude
begin

text \<open>
  The parts of Go's \<open>strings\<close>, \<open>strconv\<close> and \<open>fmt\<close> packages that the program calls.
  A Go string is a sequence of bytes, so it is a HOL \<open>string\<close> (a list of 8-bit characters).

  \<open>trim_space\<close> is \<open>strings.TrimSpace\<close> with all the white space of Unicode, in its UTF-8
  encoding; \<open>trim_ascii\<close> is the local helper \<open>stringsTrimSpace\<close> of internal/advisory and
  cmd/riskadvisory.  \<open>to_lower\<close> and \<open>to_upper\<close> change the 26 ASCII letters only: case
  mapping of other code points is outside the model.  \<open>parse_int\<close> is
  \<open>strconv.ParseInt(s, 10, 64)\<close> (and \<open>strconv.Atoi\<close>), \<open>parse_uint n\<close> is
  \<open>strconv.ParseUint(s, 10, n)\<close>, \<open>big_set_string\<close> is \<open>big.Int.SetString(s, 10)\<close>, and
  \<open>itoa\<close> is the verb \<open>%d\<close>.
\<close>

subsection \<open>Searching\<close>

definition has_prefix :: "string \<Rightarrow> string \<Rightarrow> bool" where
  "has_prefix s p \<longleftrightarrow> take (length p) s = p"

definition has_suffix :: "string \<Rightarrow> string \<Rightarrow> bool" where
  "has_suffix s p \<longleftrightarrow> has_prefix (rev s) (rev p)"

fun str_index :: "string \<Rightarrow> string \<Rightarrow> nat option" where
  "str_index [] m = (if m = [] then Some 0 else None)"
| "str_index (c # s) m =
     (if has_prefix (c # s) m then Some 0 else map_option Suc (str_index s m))"

definition contains :: "string \<Rightarrow> string \<Rightarrow> bool" where
  "contains s m \<longleftrightarrow> str_index s m \<noteq> None"

lemma has_prefix_append [simp]: "has_prefix (p @ s) p"
  by (simp add: has_prefix_def)

lemma has_prefix_iff: "has_prefix s p \<longleftrightarrow> (\<exists>t. s = p @ t)"
  by (metis append_take_drop_id has_prefix_append has_prefix_def)

lemma has_prefix_nil [simp]: "has_prefix s []"
  by (simp add: has_prefix_def)

lemma has_prefix_Cons [simp]: "has_prefix (c # s) (d # p) \<longleftrightarrow> c = d \<and> has_prefix s p"
  by (auto simp: has_prefix_def)

lemma has_prefix_empty [simp]: "has_prefix [] (d # p) \<longleftrightarrow> False"
  by (simp add: has_prefix_def)

text \<open>The index of a marker is the length of the text before its first occurrence.\<close>

lemma str_index_SomeD: "str_index s m = Some i \<Longrightarrow> \<exists>a b. s = a @ m @ b \<and> length a = i"
proof (induction s m arbitrary: i rule: str_index.induct)
  case (1 m)
  then show ?case by (auto split: if_splits)
next
  case (2 c s m)
  show ?case
  proof (cases "has_prefix (c # s) m")
    case True
    with 2 show ?thesis by (auto simp: has_prefix_iff)
  next
    case False
    with 2 obtain j where "str_index s m = Some j" and i: "i = Suc j" by auto
    with 2(1) [OF False] obtain a b where "s = a @ m @ b" "length a = j" by blast
    with i have "c # s = (c # a) @ m @ b \<and> length (c # a) = i" by simp
    then show ?thesis by blast
  qed
qed

lemma str_index_self: "str_index (m @ b) m = Some 0"
  using has_prefix_append [of m b] by (cases "m @ b") simp_all

lemma contains_iff: "contains s m \<longleftrightarrow> (\<exists>a b. s = a @ m @ b)"
proof
  assume "contains s m"
  then show "\<exists>a b. s = a @ m @ b"
    unfolding contains_def using str_index_SomeD by blast
next
  assume "\<exists>a b. s = a @ m @ b"
  then obtain a b where s: "s = a @ m @ b" by blast
  have "str_index (a @ m @ b) m \<noteq> None"
  proof (induction a)
    case Nil
    show ?case by (simp add: str_index_self)
  next
    case (Cons c a)
    then show ?case by auto
  qed
  with s show "contains s m" by (simp add: contains_def)
qed

text \<open>A marker of which the text \<open>a\<close>, extended by all but the last byte of the marker,
  has no occurrence is found exactly after \<open>a\<close>.\<close>

lemma str_index_after:
  assumes m: "m \<noteq> []" and no: "\<not> contains (a @ butlast m) m"
  shows "str_index (a @ m @ b) m = Some (length a)"
  using no
proof (induction a)
  case Nil
  show ?case by (simp add: str_index_self)
next
  case (Cons c a)
  have "\<not> has_prefix ((c # a) @ m @ b) m"
  proof
    assume "has_prefix ((c # a) @ m @ b) m"
    then have "take (length m) ((c # a) @ m @ b) = m" by (simp add: has_prefix_def)
    moreover have "take (length m) ((c # a) @ m @ b) = take (length m) ((c # a) @ butlast m)"
      using m by (cases m rule: rev_cases) (simp_all add: take_Cons')
    ultimately have "(c # a) @ butlast m = [] @ m @ drop (length m) ((c # a) @ butlast m)"
      by (metis append.left_neutral append_take_drop_id)
    then have "contains ((c # a) @ butlast m) m" unfolding contains_iff by blast
    with Cons.prems show False by simp
  qed
  moreover have "\<not> contains (a @ butlast m) m"
    using Cons.prems unfolding contains_iff by (metis append_Cons)
  ultimately show ?case using Cons.IH by simp
qed

text \<open>A byte that the marker does not have separates its occurrences.\<close>

lemma contains_append_Cons:
  assumes "c \<notin> set m"
  shows "contains (a @ c # b) m \<longleftrightarrow> contains a m \<or> contains b m"
proof
  assume "contains (a @ c # b) m"
  then obtain x y where e: "a @ c # b = x @ m @ y" unfolding contains_iff by blast
  show "contains a m \<or> contains b m"
  proof (cases "length x + length m \<le> length a")
    case True
    from e have "take (length x + length m) (a @ c # b) = x @ m" by simp
    with True have "x @ m = take (length x + length m) a" by simp
    then have "a = x @ m @ drop (length x + length m) a"
      by (metis append.assoc append_take_drop_id)
    then show ?thesis unfolding contains_iff by blast
  next
    case False
    show ?thesis
    proof (cases "length x \<le> length a")
      case True
      have "(a @ c # b) ! length a = c" by simp
      moreover have "length a - length x < length m" using True False by simp
      then have "(x @ m @ y) ! length a = m ! (length a - length x)"
        using True by (simp add: nth_append)
      moreover have "m ! (length a - length x) \<in> set m" using True False by simp
      ultimately show ?thesis using e assms by metis
    next
      case False
      then have l: "Suc (length a) \<le> length x" by simp
      from e have "drop (Suc (length a)) (a @ c # b) = drop (Suc (length a)) (x @ m @ y)" by simp
      with l have "b = drop (Suc (length a)) x @ m @ y" by simp
      then show ?thesis unfolding contains_iff by blast
    qed
  qed
next
  assume "contains a m \<or> contains b m"
  then show "contains (a @ c # b) m"
    unfolding contains_iff by (metis append.assoc append_Cons)
qed

text \<open>Neither does a marker cross its own last byte, if that byte occurs in it only there.\<close>

lemma contains_append_last:
  assumes "c \<notin> set m"
  shows "contains (a @ c # b) (m @ [c]) \<longleftrightarrow> contains (a @ [c]) (m @ [c]) \<or> contains b (m @ [c])"
proof
  assume "contains (a @ c # b) (m @ [c])"
  then obtain x y where e: "a @ c # b = x @ (m @ [c]) @ y" unfolding contains_iff by blast
  from e consider us where "a @ [c] = x @ us" "us @ b = (m @ [c]) @ y"
    | us where "(a @ [c]) @ us = x" "b = us @ (m @ [c]) @ y"
    using append_eq_append_conv2 [of "a @ [c]" b x "(m @ [c]) @ y"] by auto
  then show "contains (a @ [c]) (m @ [c]) \<or> contains b (m @ [c])"
  proof cases
    case 1
    show ?thesis
    proof (cases "us = []")
      case True
      with 1 show ?thesis unfolding contains_iff by (metis append_Nil)
    next
      case False
      with 1(1) have "last us = c" by (metis last_appendR last_snoc)
      with False obtain vs where us: "us = vs @ [c]" by (metis append_butlast_last_id)
      from 1(2) have "vs @ c # b = m @ c # y" by (simp add: us)
      then obtain ws where "us = (m @ [c]) @ ws"
        using assms us by (auto simp: append_eq_append_conv2 append_eq_Cons_conv Cons_eq_append_conv)
      with 1(1) show ?thesis unfolding contains_iff by (metis append.assoc)
    qed
  next
    case 2
    then show ?thesis unfolding contains_iff by blast
  qed
next
  assume "contains (a @ [c]) (m @ [c]) \<or> contains b (m @ [c])"
  then show "contains (a @ c # b) (m @ [c])"
    unfolding contains_iff by (metis append.assoc append_Cons append_Nil)
qed

lemma not_contains_if_missing: "c \<in> set m \<Longrightarrow> c \<notin> set s \<Longrightarrow> \<not> contains s m"
  unfolding contains_iff by auto

subsection \<open>White space\<close>

definition ascii_space :: "char \<Rightarrow> bool" where
  "ascii_space c \<longleftrightarrow> c \<in> {CHR 0x09, CHR 0x0A, CHR 0x0B, CHR 0x0C, CHR 0x0D, CHR '' ''}"

text \<open>The UTF-8 encodings of the other white-space code points: U+0085, U+00A0, U+1680,
  U+2000 to U+200A, U+2028, U+2029, U+202F, U+205F and U+3000.\<close>

definition wide_spaces :: "string list" where
  "wide_spaces =
     [[CHR 0xC2, CHR 0x85], [CHR 0xC2, CHR 0xA0], [CHR 0xE1, CHR 0x9A, CHR 0x80],
      [CHR 0xE2, CHR 0x80, CHR 0x80], [CHR 0xE2, CHR 0x80, CHR 0x81],
      [CHR 0xE2, CHR 0x80, CHR 0x82], [CHR 0xE2, CHR 0x80, CHR 0x83],
      [CHR 0xE2, CHR 0x80, CHR 0x84], [CHR 0xE2, CHR 0x80, CHR 0x85],
      [CHR 0xE2, CHR 0x80, CHR 0x86], [CHR 0xE2, CHR 0x80, CHR 0x87],
      [CHR 0xE2, CHR 0x80, CHR 0x88], [CHR 0xE2, CHR 0x80, CHR 0x89],
      [CHR 0xE2, CHR 0x80, CHR 0x8A], [CHR 0xE2, CHR 0x80, CHR 0xA8],
      [CHR 0xE2, CHR 0x80, CHR 0xA9], [CHR 0xE2, CHR 0x80, CHR 0xAF],
      [CHR 0xE2, CHR 0x81, CHR 0x9F], [CHR 0xE3, CHR 0x80, CHR 0x80]]"

text \<open>Length of the white-space code point at the head of a string, \<open>0\<close> if there is none.
  The argument \<open>ws\<close> is \<open>wide_spaces\<close>, reversed when the string is read from its end.\<close>

definition lead_space :: "string list \<Rightarrow> string \<Rightarrow> nat" where
  "lead_space ws s =
     (case s of [] \<Rightarrow> 0
      | c # _ \<Rightarrow> if ascii_space c then 1
                 else case List.find (has_prefix s) ws of Some w \<Rightarrow> length w | None \<Rightarrow> 0)"

function trim_with :: "string list \<Rightarrow> string \<Rightarrow> string" where
  "trim_with ws s =
     (if lead_space ws s = 0 then s else trim_with ws (drop (lead_space ws s) s))"
  by pat_completeness auto
termination
  by (relation "measure (\<lambda>(ws, s). length s)")
    (auto simp: lead_space_def split: list.splits)

declare trim_with.simps [simp del]

definition trim_space :: "string \<Rightarrow> string" where
  "trim_space s = rev (trim_with (map rev wide_spaces) (rev (trim_with wide_spaces s)))"

text \<open>The helper \<open>stringsTrimSpace\<close> of the advisory packages: four ASCII bytes only.\<close>

definition trim_ascii :: "string \<Rightarrow> string" where
  "trim_ascii s =
     (let sp = (\<lambda>c. c \<in> {CHR '' '', CHR 0x0A, CHR 0x0D, CHR 0x09})
      in rev (dropWhile sp (rev (dropWhile sp s))))"

text \<open>A printable ASCII byte is never part of a white-space code point.\<close>

definition graphic :: "char \<Rightarrow> bool" where
  "graphic c \<longleftrightarrow> 33 \<le> (of_char c :: nat) \<and> (of_char c :: nat) < 127"

lemma graphic_not_space:
  assumes "graphic c"
  shows "\<not> ascii_space c"
  using assms by (auto simp: graphic_def ascii_space_def)

lemma graphic_not_wide:
  assumes "graphic c" "w \<in> set wide_spaces"
  shows "hd w \<noteq> c \<and> last w \<noteq> c"
  using assms by (auto simp: graphic_def wide_spaces_def)

lemma wide_spaces_nonempty: "w \<in> set wide_spaces \<Longrightarrow> w \<noteq> []"
  by (auto simp: wide_spaces_def)

lemma trim_with_stop: "lead_space ws s = 0 \<Longrightarrow> trim_with ws s = s"
  by (subst trim_with.simps) simp

lemma find_prefix_None:
  assumes "\<And>w. w \<in> set ws \<Longrightarrow> w \<noteq> [] \<and> hd w \<noteq> c"
  shows "List.find (has_prefix (c # s)) ws = None"
  using assms by (auto simp: find_None_iff has_prefix_iff) (metis hd_append2 list.sel(1))

lemma trim_space_id:
  assumes "s \<noteq> []" "graphic (hd s)" "graphic (last s)"
  shows "trim_space s = s"
proof -
  obtain c t where s: "s = c # t" using assms(1) by (cases s) auto
  have 1: "lead_space wide_spaces s = 0"
    using assms graphic_not_wide [of c] wide_spaces_nonempty s
    by (auto simp: lead_space_def graphic_not_space find_prefix_None)
  obtain d u where r: "rev s = d # u" using assms(1) by (cases "rev s") auto
  then have d: "d = last s" by (metis hd_rev list.sel(1))
  have "\<And>w. w \<in> set (map rev wide_spaces) \<Longrightarrow> w \<noteq> [] \<and> hd w \<noteq> d"
    using graphic_not_wide [of d] wide_spaces_nonempty assms(3) d by (auto simp: hd_rev)
  then have "List.find (has_prefix (d # u)) (map rev wide_spaces) = None"
    by (rule find_prefix_None)
  moreover have "\<not> ascii_space d" using assms(3) d by (simp add: graphic_not_space)
  ultimately have 2: "lead_space (map rev wide_spaces) (rev s) = 0"
    unfolding r by (simp add: lead_space_def)
  show ?thesis by (simp add: trim_space_def trim_with_stop 1 2)
qed

lemma trim_space_nil [simp]: "trim_space [] = []"
  by (simp add: trim_space_def trim_with.simps lead_space_def)

text \<open>Trimming leaves no white space at either end, so trimming twice is trimming once.\<close>

lemma lead_space_trim_with: "lead_space ws (trim_with ws s) = 0"
proof (induction ws s rule: trim_with.induct)
  case (1 ws s)
  then show ?case by (cases "lead_space ws s = 0") (simp_all add: trim_with.simps [of ws s])
qed

lemma trim_with_suffix: "\<exists>a. s = a @ trim_with ws s"
proof (induction ws s rule: trim_with.induct)
  case (1 ws s)
  show ?case
  proof (cases "lead_space ws s = 0")
    case True
    then show ?thesis by (simp add: trim_with_stop)
  next
    case False
    with 1 obtain a where
      "drop (lead_space ws s) s = a @ trim_with ws (drop (lead_space ws s) s)" by blast
    then have "s = (take (lead_space ws s) s @ a) @ trim_with ws (drop (lead_space ws s) s)"
      by (metis append.assoc append_take_drop_id)
    moreover have "trim_with ws s = trim_with ws (drop (lead_space ws s) s)"
      using False by (simp add: trim_with.simps [of ws s])
    ultimately show ?thesis by metis
  qed
qed

lemma lead_space_append_zero:
  assumes "lead_space ws (p @ t) = 0" "\<And>w. w \<in> set ws \<Longrightarrow> w \<noteq> []"
  shows "lead_space ws p = 0"
proof (cases p)
  case (Cons c q)
  have sp: "\<not> ascii_space c" using assms(1) by (auto simp: lead_space_def Cons split: if_splits)
  have "List.find (has_prefix (p @ t)) ws = None"
  proof (rule ccontr)
    assume "List.find (has_prefix (p @ t)) ws \<noteq> None"
    then obtain w where w: "List.find (has_prefix (p @ t)) ws = Some w" by blast
    then have "w \<in> set ws" by (auto simp: find_Some_iff)
    with assms(2) have "length w \<noteq> 0" by simp
    with w sp assms(1) show False by (simp add: lead_space_def Cons)
  qed
  then have "List.find (has_prefix p) ws = None"
    by (auto simp: find_None_iff has_prefix_iff)
  with sp show ?thesis by (simp add: lead_space_def Cons)
qed (simp add: lead_space_def)

lemma trim_space_idem [simp]: "trim_space (trim_space s) = trim_space s"
proof -
  let ?l = "trim_with wide_spaces s" and ?r = "map rev wide_spaces"
  let ?t = "trim_with ?r (rev ?l)"
  have t: "trim_space s = rev ?t" by (simp add: trim_space_def)
  obtain a where "rev ?l = a @ ?t" using trim_with_suffix by blast
  then have "rev (rev ?l) = rev (a @ ?t)" by simp
  then have "?l = rev ?t @ rev a" by (simp only: rev_rev_ident rev_append)
  then have "lead_space wide_spaces (rev ?t @ rev a) = 0"
    using lead_space_trim_with [of wide_spaces s] by simp
  then have "lead_space wide_spaces (rev ?t) = 0"
    by (rule lead_space_append_zero) (auto dest: wide_spaces_nonempty)
  then have "trim_with wide_spaces (rev ?t) = rev ?t" by (rule trim_with_stop)
  then show ?thesis
    unfolding t by (simp add: trim_space_def trim_with_stop lead_space_trim_with)
qed

subsection \<open>Letter case\<close>

definition lower_char :: "char \<Rightarrow> char" where
  "lower_char c =
     (if 65 \<le> (of_char c :: nat) \<and> (of_char c :: nat) \<le> 90
      then char_of ((of_char c :: nat) + 32) else c)"

definition upper_char :: "char \<Rightarrow> char" where
  "upper_char c =
     (if 97 \<le> (of_char c :: nat) \<and> (of_char c :: nat) \<le> 122
      then char_of ((of_char c :: nat) - 32) else c)"

definition to_lower :: "string \<Rightarrow> string" where "to_lower s = map lower_char s"
definition to_upper :: "string \<Rightarrow> string" where "to_upper s = map upper_char s"

lemma lower_char_idem [simp]: "lower_char (lower_char c) = lower_char c"
  by (auto simp: lower_char_def)

lemma to_lower_idem [simp]: "to_lower (to_lower s) = to_lower s"
  by (simp add: to_lower_def)

subsection \<open>Splitting and joining\<close>

text \<open>\<open>strings.Split\<close> with a separator of one byte; the result is never empty.\<close>

fun split_on :: "char \<Rightarrow> string \<Rightarrow> string list" where
  "split_on d [] = [[]]"
| "split_on d (c # s) =
     (if c = d then [] # split_on d s
      else case split_on d s of [] \<Rightarrow> [[c]] | w # ws \<Rightarrow> (c # w) # ws)"

fun join :: "string \<Rightarrow> string list \<Rightarrow> string" where
  "join sep [] = []"
| "join sep [w] = w"
| "join sep (w # ws) = w @ sep @ join sep ws"

lemma split_on_nonempty [simp]: "split_on d s \<noteq> []"
  by (cases s) (auto split: list.splits)

text \<open>\<open>strings.SplitN(s, d, 2)\<close> for a string that has the separator.\<close>

definition cut_at :: "char \<Rightarrow> string \<Rightarrow> string \<times> string" where
  "cut_at d s = (takeWhile (\<lambda>c. c \<noteq> d) s, tl (dropWhile (\<lambda>c. c \<noteq> d) s))"

lemma join_split_on: "join [d] (split_on d s) = s"
proof (induction s)
  case Nil
  show ?case by simp
next
  case (Cons c s)
  obtain w ws where "split_on d s = w # ws" by (cases "split_on d s") auto
  with Cons show ?case by (cases ws) auto
qed

subsection \<open>Numbers\<close>

definition digit_char :: "nat \<Rightarrow> char" where "digit_char d = char_of (48 + d)"

fun nat_digits :: "nat \<Rightarrow> string" where
  "nat_digits n =
     (if n < 10 then [digit_char n] else nat_digits (n div 10) @ [digit_char (n mod 10)])"

declare nat_digits.simps [simp del]

definition itoa :: "int \<Rightarrow> string" where
  "itoa n = (if n < 0 then CHR ''-'' # nat_digits (nat (- n)) else nat_digits (nat n))"

definition is_digit :: "char \<Rightarrow> bool" where
  "is_digit c \<longleftrightarrow> 48 \<le> (of_char c :: nat) \<and> (of_char c :: nat) \<le> 57"

definition digit_val :: "char \<Rightarrow> nat" where "digit_val c = of_char c - 48"

fun digits_val :: "nat \<Rightarrow> string \<Rightarrow> nat" where
  "digits_val n [] = n"
| "digits_val n (c # s) = digits_val (10 * n + digit_val c) s"

text \<open>Decimal digits, at least one, no sign, no underscore: \<open>None\<close> is a syntax error.\<close>

definition parse_nat :: "string \<Rightarrow> nat option" where
  "parse_nat s = (if s \<noteq> [] \<and> list_all is_digit s then Some (digits_val 0 s) else None)"

definition parse_signed :: "string \<Rightarrow> int option" where
  "parse_signed s =
     (case s of [] \<Rightarrow> None
      | c # t \<Rightarrow> if c = CHR ''-'' then map_option (\<lambda>n. - int n) (parse_nat t)
                 else if c = CHR ''+'' then map_option int (parse_nat t)
                 else map_option int (parse_nat s))"

definition parse_int :: "string \<Rightarrow> int64 option" where
  "parse_int s =
     (case parse_signed s of None \<Rightarrow> None | Some n \<Rightarrow> if is_i64 n then Some n else None)"

definition parse_uint :: "nat \<Rightarrow> string \<Rightarrow> nat option" where
  "parse_uint bits s =
     (case parse_nat s of None \<Rightarrow> None | Some n \<Rightarrow> if n < 2 ^ bits then Some n else None)"

definition big_set_string :: "string \<Rightarrow> int option" where
  "big_set_string s = parse_signed s"

lemma digit_char_val [simp]: "d < 10 \<Longrightarrow> digit_val (digit_char d) = d"
  by (simp add: digit_val_def digit_char_def of_char_of)

lemma digit_char_is_digit [simp]: "d < 10 \<Longrightarrow> is_digit (digit_char d)"
  by (simp add: is_digit_def digit_char_def of_char_of)

lemma is_digit_graphic: "is_digit c \<Longrightarrow> graphic c"
  by (simp add: is_digit_def graphic_def)

lemma nat_digits_all: "list_all is_digit (nat_digits n)"
proof (induction n rule: nat_digits.induct)
  case (1 n)
  then show ?case by (cases "n < 10") (simp_all add: nat_digits.simps [of n])
qed

lemma nat_digits_nonempty [simp]: "nat_digits n \<noteq> []"
  by (simp add: nat_digits.simps [of n])

lemma digits_val_append: "digits_val n (s @ t) = digits_val (digits_val n s) t"
  by (induction s arbitrary: n) auto

lemma digits_val_nat_digits: "digits_val 0 (nat_digits n) = n"
proof (induction n rule: nat_digits.induct)
  case (1 n)
  show ?case
  proof (cases "n < 10")
    case True
    then show ?thesis by (simp add: nat_digits.simps [of n])
  next
    case False
    with 1 show ?thesis by (simp add: nat_digits.simps [of n] digits_val_append)
  qed
qed

lemma parse_nat_digits [simp]: "parse_nat (nat_digits n) = Some n"
  by (simp add: parse_nat_def nat_digits_all digits_val_nat_digits)

lemma is_digit_not_sign: "is_digit c \<Longrightarrow> c \<noteq> CHR ''-'' \<and> c \<noteq> CHR ''+''"
  by (auto simp: is_digit_def)

lemma parse_signed_itoa [simp]: "parse_signed (itoa n) = Some n"
proof (cases "n < 0")
  case True
  then show ?thesis by (simp add: parse_signed_def itoa_def)
next
  case False
  obtain c t where d: "nat_digits (nat n) = c # t" by (cases "nat_digits (nat n)") auto
  with nat_digits_all [of "nat n"] have "is_digit c" by simp
  then have "c \<noteq> CHR ''-''" "c \<noteq> CHR ''+''" using is_digit_not_sign by blast+
  with False d parse_nat_digits [of "nat n"] show ?thesis
    by (simp add: parse_signed_def itoa_def)
qed

lemma parse_int_itoa [simp]: "is_i64 n \<Longrightarrow> parse_int (itoa n) = Some n"
  by (simp add: parse_int_def)

lemma itoa_chars: "c \<in> set (itoa n) \<Longrightarrow> is_digit c \<or> c = CHR ''-''"
  using nat_digits_all by (auto simp: itoa_def list_all_iff split: if_splits)

lemma itoa_nonempty [simp]: "itoa n \<noteq> []"
  by (simp add: itoa_def)

lemma itoa_graphic: "c \<in> set (itoa n) \<Longrightarrow> graphic c"
  using itoa_chars [of c n] by (auto simp: is_digit_graphic) (simp add: graphic_def)

lemma trim_space_itoa [simp]: "trim_space (itoa n) = itoa n"
  by (intro trim_space_id) (simp_all add: itoa_graphic [of _ n])

lemma itoa_inject [simp]: "itoa m = itoa n \<longleftrightarrow> m = n"
  by (metis option.inject parse_signed_itoa)

lemma itoa_missing: "c \<notin> set (itoa n)" if "\<not> is_digit c" "c \<noteq> CHR ''-''"
  using that itoa_chars by blast

text \<open>The verbs \<open>%v\<close> on booleans and \<open>%q\<close> on strings (\<open>strconv.Quote\<close>).  Bytes from 128 on
  are kept, as Go keeps printable code points.\<close>

definition bool_str :: "bool \<Rightarrow> string" where
  "bool_str b = (if b then ''true'' else ''false'')"

definition hex_char :: "nat \<Rightarrow> char" where
  "hex_char d = (if d < 10 then char_of (48 + d) else char_of (87 + d))"

definition quote_char :: "char \<Rightarrow> string" where
  "quote_char c =
     (let n = (of_char c :: nat) in
      if c = CHR 0x22 \<or> c = CHR 0x5C then [CHR 0x5C, c]
      else if n = 7 then [CHR 0x5C, CHR ''a''] else if n = 8 then [CHR 0x5C, CHR ''b'']
      else if n = 12 then [CHR 0x5C, CHR ''f''] else if n = 10 then [CHR 0x5C, CHR ''n'']
      else if n = 13 then [CHR 0x5C, CHR ''r''] else if n = 9 then [CHR 0x5C, CHR ''t'']
      else if n = 11 then [CHR 0x5C, CHR ''v'']
      else if n < 32 \<or> n = 127
        then [CHR 0x5C, CHR ''x'', hex_char (n div 16), hex_char (n mod 16)]
      else [c])"

definition quote :: "string \<Rightarrow> string" where
  "quote s = CHR 0x22 # concat (map quote_char s) @ [CHR 0x22]"

text \<open>A text of printable bytes other than the quote and the backslash is quoted as it is.\<close>

definition plain :: "string \<Rightarrow> bool" where
  "plain s \<longleftrightarrow> (\<forall>c \<in> set s. 32 \<le> (of_char c :: nat) \<and> (of_char c :: nat) < 127
     \<and> c \<noteq> CHR 0x22 \<and> c \<noteq> CHR 0x5C)"

lemma quote_plain: "plain s \<Longrightarrow> quote s = CHR 0x22 # s @ [CHR 0x22]"
proof -
  assume p: "plain s"
  have "quote_char c = [c]" if "c \<in> set s" for c
  proof -
    define n where "n = (of_char c :: nat)"
    have n: "32 \<le> n" "n < 127" and c: "c \<noteq> CHR 0x22" "c \<noteq> CHR 0x5C"
      using p that by (simp_all add: plain_def n_def)
    show ?thesis
      unfolding quote_char_def Let_def n_def [symmetric] using n c by simp
  qed
  then have "concat (map quote_char s) = s" by (induction s) simp_all
  then show ?thesis by (simp add: quote_def)
qed

end
