(* ===== verification/Go_Float64.thy ===== *)
theory Go_Float64
  imports Go_Strings "HOL-Library.Log_Nat"
begin

text \<open>
  IEEE binary64, the \<open>float64\<close> of Go.  A value is a NaN, an infinity or a finite number, kept
  as the rational it denotes; every arithmetic operation is the exact rational operation
  followed by \<open>rnd\<close>, rounding to nearest with ties to even, gradual underflow and overflow to
  an infinity.  The two zeros are one value: the program never divides by a zero.

  The first half is the theory of the rounding function: it is monotone and leaves
  representable numbers alone (locale \<open>rounding\<close>), so a computation between two representable
  numbers stays between them.  The second half is the operators of the language and the
  functions of package \<open>math\<close> that are exact (\<open>Abs\<close>, \<open>Max\<close>, \<open>Min\<close>, \<open>Floor\<close>, \<open>Ceil\<close>,
  \<open>Round\<close>, \<open>IsNaN\<close>, \<open>IsInf\<close>), the conversions, and the verb \<open>%.nf\<close>.  A conversion
  \<open>int64(f)\<close> of a value that is out of range is what the amd64 instruction returns, the
  least \<open>int64\<close>.
\<close>

subsection \<open>Rounding\<close>

locale rounding =
  fixes rd :: "rat \<Rightarrow> rat"
  assumes rd_mono: "x \<le> y \<Longrightarrow> rd x \<le> rd y"
    and rd_idem: "rd (rd x) = rd x"
begin

lemma rd_between: "rd a = a \<Longrightarrow> rd b = b \<Longrightarrow> a \<le> x \<Longrightarrow> x \<le> b \<Longrightarrow> a \<le> rd x \<and> rd x \<le> b"
  using rd_mono [of a x] rd_mono [of x b] by simp

lemma rd_ge: "rd a = a \<Longrightarrow> a \<le> x \<Longrightarrow> a \<le> rd x"
  using rd_mono [of a x] by simp

lemma rd_le: "rd b = b \<Longrightarrow> x \<le> b \<Longrightarrow> rd x \<le> b"
  using rd_mono [of x b] by simp

end

definition pow2 :: "int \<Rightarrow> rat" where "pow2 e = 2 powi e"

lemma pow2_pos [simp]: "0 < pow2 e"
  by (simp add: pow2_def zero_less_power_int)

lemma pow2_nonzero [simp]: "pow2 e \<noteq> 0"
  using pow2_pos [of e] by linarith

lemma pow2_add: "pow2 (a + b) = pow2 a * pow2 b"
  by (simp add: pow2_def power_int_add)

lemma pow2_diff: "pow2 (a - b) = pow2 a / pow2 b"
  by (simp add: pow2_def power_int_diff)

lemma pow2_mono: "a \<le> b \<Longrightarrow> pow2 a \<le> pow2 b"
  by (simp add: pow2_def power_int_increasing)

lemma pow2_strict_mono: "a < b \<Longrightarrow> pow2 a < pow2 b"
  by (simp add: pow2_def power_int_strict_increasing)

lemma pow2_less_iff: "pow2 a < pow2 b \<longleftrightarrow> a < b"
  by (meson linorder_not_le pow2_mono pow2_strict_mono)

lemma pow2_nat: "pow2 (int n) = of_int (2 ^ n)"
  by (simp add: pow2_def)

lemma pow2_multiple:
  assumes "q \<le> e"
  obtains m where "pow2 e = of_int m * pow2 q"
proof
  show "pow2 e = of_int (2 ^ nat (e - q)) * pow2 q"
    using assms pow2_add [of "e - q" q] pow2_nat [of "nat (e - q)"] by simp
qed

text \<open>Floor of the binary logarithm of a positive rational.\<close>

definition ilog2 :: "rat \<Rightarrow> int" where
  "ilog2 x =
     (let (n, d) = quotient_of x; k = bitlen n - bitlen d
      in if pow2 k \<le> x then k else k - 1)"

lemma bitlen_pow2: "0 < n \<Longrightarrow> pow2 (bitlen n - 1) \<le> of_int n \<and> of_int n < pow2 (bitlen n)"
proof -
  assume n: "0 < n"
  from bitlen_bounds [OF n] have b: "2 ^ nat (bitlen n - 1) \<le> n" "n < 2 ^ nat (bitlen n)"
    by auto
  have p: "0 < bitlen n" using n by (metis bitlen_eq_zero_iff bitlen_nonneg order_le_less leD)
  from b(1) have "(of_int (2 ^ nat (bitlen n - 1)) :: rat) \<le> of_int n" by (simp only: of_int_le_iff)
  moreover from b(2) have "(of_int n :: rat) < of_int (2 ^ nat (bitlen n))"
    by (simp only: of_int_less_iff)
  ultimately show ?thesis
    using p pow2_nat [of "nat (bitlen n - 1)"] pow2_nat [of "nat (bitlen n)"] by simp
qed

lemma ilog2_bounds:
  assumes "0 < x"
  shows "pow2 (ilog2 x) \<le> x \<and> x < pow2 (ilog2 x + 1)"
proof -
  obtain n d where q: "quotient_of x = (n, d)" by (cases "quotient_of x")
  have d: "0 < d" using q by (rule quotient_of_denom_pos)
  have x: "x = of_int n / of_int d" using q by (rule quotient_of_div)
  have n: "0 < n" using assms d x by (simp add: zero_less_divide_iff)
  let ?k = "bitlen n - bitlen d"
  note N = bitlen_pow2 [OF n] and D = bitlen_pow2 [OF d]
  have "x < pow2 (bitlen n) / pow2 (bitlen d - 1)"
    unfolding x using N D d n by (intro frac_less) simp_all
  also have "\<dots> = pow2 (?k + 1)"
    using pow2_diff [of "bitlen n" "bitlen d - 1"] by (simp add: algebra_simps)
  finally have up: "x < pow2 (?k + 1)" .
  have "pow2 (?k - 1) = pow2 (bitlen n - 1) / pow2 (bitlen d)"
    using pow2_diff [of "bitlen n - 1" "bitlen d"] by (simp add: algebra_simps)
  also have "\<dots> \<le> x"
    unfolding x using N D d n by (intro frac_le) simp_all
  finally have low: "pow2 (?k - 1) \<le> x" .
  show ?thesis using up low by (auto simp: ilog2_def q Let_def)
qed

lemma ilog2_mono: "0 < x \<Longrightarrow> x \<le> y \<Longrightarrow> ilog2 x \<le> ilog2 y"
proof -
  assume "0 < x" "x \<le> y"
  with ilog2_bounds [of x] ilog2_bounds [of y] have "pow2 (ilog2 x) < pow2 (ilog2 y + 1)"
    by linarith
  then show ?thesis by (simp add: pow2_less_iff)
qed

lemma ilog2_unique: "pow2 e \<le> x \<Longrightarrow> x < pow2 (e + 1) \<Longrightarrow> ilog2 x = e"
proof -
  assume e: "pow2 e \<le> x" "x < pow2 (e + 1)"
  with pow2_pos [of e] have "0 < x" by linarith
  with e ilog2_bounds [of x] have "pow2 e < pow2 (ilog2 x + 1)" "pow2 (ilog2 x) < pow2 (e + 1)"
    by linarith+
  then show ?thesis by (simp add: pow2_less_iff)
qed

text \<open>Round half to even on the integers.\<close>

definition rne :: "rat \<Rightarrow> int" where
  "rne r =
     (let f = \<lfloor>r\<rfloor>; d = r - of_int f
      in if d < 1 / 2 then f else if 1 / 2 < d then f + 1 else if even f then f else f + 1)"

lemma rne_int [simp]: "rne (of_int m) = m"
  by (simp add: rne_def)

lemma rne_floor: "\<lfloor>r\<rfloor> \<le> rne r \<and> rne r \<le> \<lfloor>r\<rfloor> + 1"
  by (simp add: rne_def Let_def)

lemma rne_mono: "x \<le> y \<Longrightarrow> rne x \<le> rne y"
proof (cases "\<lfloor>x\<rfloor> = \<lfloor>y\<rfloor>")
  case True
  assume "x \<le> y"
  with True show ?thesis by (auto simp: rne_def Let_def)
next
  case False
  assume "x \<le> y"
  with False have "\<lfloor>x\<rfloor> + 1 \<le> \<lfloor>y\<rfloor>" using floor_mono [of x y] by linarith
  then show ?thesis using rne_floor [of x] rne_floor [of y] by linarith
qed

lemma rne_minus: "rne (- r) = - rne r"
proof (cases "r = of_int \<lfloor>r\<rfloor>")
  case True
  then have "rne r = \<lfloor>r\<rfloor>" by (metis rne_int)
  moreover from True have "rne (- r) = - \<lfloor>r\<rfloor>" by (metis of_int_minus rne_int)
  ultimately show ?thesis by simp
next
  case False
  have f: "\<lfloor>- r\<rfloor> = - \<lfloor>r\<rfloor> - 1"
  proof (rule floor_unique)
    have "of_int \<lfloor>r\<rfloor> < r" using False of_int_floor_le [of r] by linarith
    then show "- r < of_int (- \<lfloor>r\<rfloor> - 1) + 1" by simp
    show "of_int (- \<lfloor>r\<rfloor> - 1) \<le> - r" using floor_correct [of r] by simp
  qed
  show ?thesis unfolding rne_def Let_def f by (auto simp: field_simps)
qed

text \<open>The exponent of the unit in the last place, and rounding to its multiples.\<close>

definition qexp :: "rat \<Rightarrow> int" where "qexp a = max (ilog2 a - 52) (- 1074)"

definition rq :: "int \<Rightarrow> rat \<Rightarrow> rat" where "rq q x = of_int (rne (x / pow2 q)) * pow2 q"

definition rdl :: "rat \<Rightarrow> rat" where "rdl x = (if x = 0 then 0 else rq (qexp \<bar>x\<bar>) x)"

lemma rq_mono: "x \<le> y \<Longrightarrow> rq q x \<le> rq q y"
  by (simp add: rq_def rne_mono divide_right_mono less_imp_le)

lemma rq_multiple: "x = of_int m * pow2 q \<Longrightarrow> rq q x = x"
  by (simp add: rq_def)

lemma rq_zero [simp]: "rq q 0 = 0"
  by (simp add: rq_def rne_def)

lemma rdl_zero [simp]: "rdl 0 = 0"
  by (simp add: rdl_def)

lemma rdl_minus: "rdl (- x) = - rdl x"
  by (simp add: rdl_def rq_def rne_minus)

lemma rdl_pos_eq: "0 < x \<Longrightarrow> rdl x = rq (qexp x) x"
  by (simp add: rdl_def)

lemma rdl_pow2_le:
  assumes "0 < x" "pow2 e \<le> x" "qexp x \<le> e"
  shows "pow2 e \<le> rdl x"
proof -
  obtain m where "pow2 e = of_int m * pow2 (qexp x)" using pow2_multiple assms(3) by blast
  then have "rq (qexp x) (pow2 e) = pow2 e" by (rule rq_multiple)
  then show ?thesis using rq_mono [OF assms(2), of "qexp x"] assms(1) by (simp add: rdl_pos_eq)
qed

lemma rdl_le_pow2:
  assumes "0 < x" "x \<le> pow2 e" "qexp x \<le> e"
  shows "rdl x \<le> pow2 e"
proof -
  obtain m where "pow2 e = of_int m * pow2 (qexp x)" using pow2_multiple assms(3) by blast
  then have "rq (qexp x) (pow2 e) = pow2 e" by (rule rq_multiple)
  then show ?thesis using rq_mono [OF assms(2), of "qexp x"] assms(1) by (simp add: rdl_pos_eq)
qed

lemma qexp_mono: "0 < x \<Longrightarrow> x \<le> y \<Longrightarrow> qexp x \<le> qexp y"
  using ilog2_mono [of x y] by (simp add: qexp_def)

lemma rdl_nonneg: "0 \<le> x \<Longrightarrow> 0 \<le> rdl x"
  using rq_mono [of 0 x "qexp x"] by (cases "x = 0") (simp_all add: rdl_def)

lemma rdl_mono_pos:
  assumes "0 < x" "x \<le> y"
  shows "rdl x \<le> rdl y"
proof (cases "qexp x = qexp y")
  case True
  then show ?thesis using assms rq_mono [of x y "qexp x"] by (simp add: rdl_pos_eq)
next
  case False
  with qexp_mono [OF assms] have lt: "qexp x < qexp y" by simp
  have e: "ilog2 x + 1 \<le> ilog2 y" "qexp y = ilog2 y - 52"
    using lt by (simp_all add: qexp_def max_def split: if_splits)
  have "x \<le> pow2 (ilog2 y)"
    using ilog2_bounds [OF assms(1)] pow2_mono [OF e(1)] by linarith
  then have "rdl x \<le> pow2 (ilog2 y)"
    using assms(1) lt e(2) by (intro rdl_le_pow2) simp_all
  also have "pow2 (ilog2 y) \<le> rdl y"
    using assms e(2) ilog2_bounds [of y] by (intro rdl_pow2_le) simp_all
  finally show ?thesis .
qed

lemma rdl_mono: "x \<le> y \<Longrightarrow> rdl x \<le> rdl y"
proof -
  assume le: "x \<le> y"
  consider "0 < x" | "x \<le> 0" "0 \<le> y" | "y < 0" using le by linarith
  then show ?thesis
  proof cases
    case 1
    then show ?thesis using le by (rule rdl_mono_pos)
  next
    case 2
    then show ?thesis using rdl_nonneg [of y] rdl_nonneg [of "- x"] by (simp add: rdl_minus)
  next
    case 3
    then show ?thesis using rdl_mono_pos [of "- y" "- x"] le by (simp add: rdl_minus)
  qed
qed

lemma rdl_multiple:
  assumes "x = of_int m * pow2 q" "qexp \<bar>x\<bar> \<le> q"
  shows "rdl x = x"
proof (cases "x = 0")
  case False
  obtain k where "pow2 q = of_int k * pow2 (qexp \<bar>x\<bar>)" using pow2_multiple assms(2) by blast
  with assms(1) have "x = of_int (m * k) * pow2 (qexp \<bar>x\<bar>)" by simp
  then have "rq (qexp \<bar>x\<bar>) x = x" by (rule rq_multiple)
  with False show ?thesis by (simp add: rdl_def)
qed simp

lemma rdl_idem_pos:
  assumes x: "0 < x"
  shows "rdl (rdl x) = rdl x"
proof (cases "rdl x = 0")
  case False
  with rdl_nonneg [of x] x have pos: "0 < rdl x" by linarith
  let ?e = "max (ilog2 x + 1) (- 1074)"
  have "qexp x \<le> ?e" by (auto simp: qexp_def)
  moreover have "x \<le> pow2 ?e"
    using ilog2_bounds [OF x] pow2_mono [of "ilog2 x + 1" ?e] by linarith
  ultimately have up: "rdl x \<le> pow2 ?e" using x by (intro rdl_le_pow2)
  show ?thesis
  proof (cases "rdl x = pow2 ?e")
    case True
    have "ilog2 (pow2 ?e) = ?e" by (intro ilog2_unique) (simp_all add: pow2_strict_mono)
    then have "qexp \<bar>pow2 ?e\<bar> \<le> ?e" by (simp add: qexp_def less_imp_le)
    then have "rdl (pow2 ?e) = pow2 ?e" by (intro rdl_multiple [of _ 1 ?e]) simp_all
    with True show ?thesis by simp
  next
    case False
    with up have "rdl x < pow2 ?e" by simp
    then have "pow2 (ilog2 (rdl x)) < pow2 ?e" using ilog2_bounds [OF pos] by linarith
    then have "ilog2 (rdl x) < ?e" by (simp add: pow2_less_iff)
    then have "qexp \<bar>rdl x\<bar> \<le> qexp x" using pos by (auto simp: qexp_def)
    moreover have "rdl x = of_int (rne (x / pow2 (qexp x))) * pow2 (qexp x)"
      using x by (simp add: rdl_pos_eq rq_def)
    ultimately show ?thesis by (intro rdl_multiple)
  qed
qed simp

lemma rdl_idem: "rdl (rdl x) = rdl x"
  using rdl_idem_pos [of x] rdl_idem_pos [of "- x"]
  by (cases "x = 0"; cases "0 < x") (simp_all add: rdl_minus)

interpretation b64: rounding rdl
  by unfold_locales (rule rdl_mono, assumption, rule rdl_idem)

lemma rdl_pow2_53: "rdl (pow2 53) = pow2 53"
proof -
  have "qexp (pow2 53) = 1"
    using ilog2_unique [of 53 "pow2 53"] by (simp add: qexp_def pow2_strict_mono)
  moreover have "\<bar>pow2 53\<bar> = pow2 53" using pow2_pos [of 53] by linarith
  ultimately show ?thesis by (intro rdl_multiple [of _ 1 53]) simp_all
qed

lemma rdl_int_small: "\<bar>m\<bar> < 2 ^ 53 \<Longrightarrow> rdl (of_int m) = of_int m"
proof (cases "m = 0")
  case False
  assume "\<bar>m\<bar> < 2 ^ 53"
  then have "(of_int \<bar>m\<bar> :: rat) < of_int (2 ^ 53)" by (simp only: of_int_less_iff)
  then have "of_int \<bar>m\<bar> < pow2 53" using pow2_nat [of 53] by simp
  moreover have "0 < (of_int \<bar>m\<bar> :: rat)" using False by simp
  ultimately have "pow2 (ilog2 (of_int \<bar>m\<bar>)) < pow2 53"
    using ilog2_bounds [of "of_int \<bar>m\<bar>"] by linarith
  then have "ilog2 (of_int \<bar>m\<bar>) < 53" by (simp add: pow2_less_iff)
  then have "qexp \<bar>of_int m\<bar> \<le> 0" by (simp add: qexp_def)
  then show ?thesis by (intro rdl_multiple [of _ m 0]) (simp_all add: pow2_def)
qed simp

lemma rdl_int: "\<bar>m\<bar> \<le> 2 ^ 53 \<Longrightarrow> rdl (of_int m) = of_int m"
proof -
  have p: "rdl (of_int (2 ^ 53)) = of_int (2 ^ 53)"
    using rdl_pow2_53 pow2_nat [of 53] by simp
  have n: "rdl (of_int (- (2 ^ 53))) = of_int (- (2 ^ 53))"
    using p rdl_minus [of "of_int (2 ^ 53)"] by (simp only: of_int_minus)
  assume "\<bar>m\<bar> \<le> 2 ^ 53"
  then consider "\<bar>m\<bar> < 2 ^ 53" | "m = 2 ^ 53" | "m = - (2 ^ 53)" by linarith
  then show ?thesis using p n rdl_int_small [of m] by cases simp_all
qed

subsection \<open>Values and operators\<close>

datatype float64 = NaN | PInf | NInf | Fin rat

definition rnd :: "rat \<Rightarrow> float64" where
  "rnd x =
     (let y = rdl x
      in if pow2 1024 \<le> y then PInf else if y \<le> - pow2 1024 then NInf else Fin y)"

text \<open>The rationals that are finite values of the type.\<close>

definition repr :: "rat \<Rightarrow> bool" where
  "repr x \<longleftrightarrow> rdl x = x \<and> x < pow2 1024 \<and> - pow2 1024 < x"

fun is_f64 :: "float64 \<Rightarrow> bool" where
  "is_f64 (Fin x) = repr x"
| "is_f64 _ = True"

text \<open>The comparison operators of Go: every comparison with a NaN is false.\<close>

fun f_lt :: "float64 \<Rightarrow> float64 \<Rightarrow> bool" where
  "f_lt NaN _ = False"
| "f_lt _ NaN = False"
| "f_lt _ NInf = False"
| "f_lt NInf _ = True"
| "f_lt PInf _ = False"
| "f_lt (Fin _) PInf = True"
| "f_lt (Fin x) (Fin y) = (x < y)"

fun f_eq :: "float64 \<Rightarrow> float64 \<Rightarrow> bool" where
  "f_eq NaN _ = False"
| "f_eq _ NaN = False"
| "f_eq x y = (x = y)"

definition f_le :: "float64 \<Rightarrow> float64 \<Rightarrow> bool" where
  "f_le x y \<longleftrightarrow> f_lt x y \<or> f_eq x y"

fun f_neg :: "float64 \<Rightarrow> float64" where
  "f_neg NaN = NaN"
| "f_neg PInf = NInf"
| "f_neg NInf = PInf"
| "f_neg (Fin x) = Fin (- x)"

fun f_add :: "float64 \<Rightarrow> float64 \<Rightarrow> float64" where
  "f_add (Fin x) (Fin y) = rnd (x + y)"
| "f_add NaN _ = NaN"
| "f_add _ NaN = NaN"
| "f_add PInf NInf = NaN"
| "f_add NInf PInf = NaN"
| "f_add PInf _ = PInf"
| "f_add _ PInf = PInf"
| "f_add NInf _ = NInf"
| "f_add _ NInf = NInf"

definition f_sub :: "float64 \<Rightarrow> float64 \<Rightarrow> float64" where
  "f_sub x y = f_add x (f_neg y)"

definition inf_of_sign :: "rat \<Rightarrow> float64" where
  "inf_of_sign s = (if s = 0 then NaN else if 0 < s then PInf else NInf)"

fun f_sgn :: "float64 \<Rightarrow> rat" where
  "f_sgn NaN = 0"
| "f_sgn PInf = 1"
| "f_sgn NInf = -1"
| "f_sgn (Fin x) = sgn x"

fun f_mul :: "float64 \<Rightarrow> float64 \<Rightarrow> float64" where
  "f_mul (Fin x) (Fin y) = rnd (x * y)"
| "f_mul NaN _ = NaN"
| "f_mul _ NaN = NaN"
| "f_mul x y = inf_of_sign (f_sgn x * f_sgn y)"

fun f_div :: "float64 \<Rightarrow> float64 \<Rightarrow> float64" where
  "f_div (Fin x) (Fin y) = (if y = 0 then inf_of_sign (sgn x) else rnd (x / y))"
| "f_div NaN _ = NaN"
| "f_div _ NaN = NaN"
| "f_div (Fin x) _ = Fin 0"
| "f_div x (Fin y) = (if y = 0 then x else inf_of_sign (f_sgn x * sgn y))"
| "f_div _ _ = NaN"

text \<open>Constants of the source, conversions and the exact functions of package \<open>math\<close>.\<close>

definition f_lit :: "rat \<Rightarrow> float64" where "f_lit x = rnd x"
definition f_of_int :: "int \<Rightarrow> float64" where "f_of_int n = rnd (of_int n)"

definition rat_trunc :: "rat \<Rightarrow> int" where
  "rat_trunc x = (if x < 0 then - \<lfloor>- x\<rfloor> else \<lfloor>x\<rfloor>)"

fun f_to_i64 :: "float64 \<Rightarrow> int64" where
  "f_to_i64 (Fin x) = (if is_i64 (rat_trunc x) then rat_trunc x else min_i64)"
| "f_to_i64 _ = min_i64"

fun f_abs :: "float64 \<Rightarrow> float64" where
  "f_abs (Fin x) = Fin \<bar>x\<bar>"
| "f_abs NInf = PInf"
| "f_abs x = x"

fun f_max :: "float64 \<Rightarrow> float64 \<Rightarrow> float64" where
  "f_max (Fin x) (Fin y) = Fin (max x y)"
| "f_max PInf _ = PInf"
| "f_max _ PInf = PInf"
| "f_max NaN _ = NaN"
| "f_max _ NaN = NaN"
| "f_max NInf y = y"
| "f_max x NInf = x"

fun f_min :: "float64 \<Rightarrow> float64 \<Rightarrow> float64" where
  "f_min (Fin x) (Fin y) = Fin (min x y)"
| "f_min NInf _ = NInf"
| "f_min _ NInf = NInf"
| "f_min NaN _ = NaN"
| "f_min _ NaN = NaN"
| "f_min PInf y = y"
| "f_min x PInf = x"

fun f_round :: "float64 \<Rightarrow> float64" where
  "f_round (Fin x) =
     Fin (of_int (if x < 0 then - \<lfloor>- x + 1 / 2\<rfloor> else \<lfloor>x + 1 / 2\<rfloor>))"
| "f_round x = x"

fun f_floor :: "float64 \<Rightarrow> float64" where
  "f_floor (Fin x) = Fin (of_int \<lfloor>x\<rfloor>)"
| "f_floor x = x"

fun f_ceil :: "float64 \<Rightarrow> float64" where
  "f_ceil (Fin x) = Fin (of_int \<lceil>x\<rceil>)"
| "f_ceil x = x"

definition f_is_nan :: "float64 \<Rightarrow> bool" where "f_is_nan x \<longleftrightarrow> x = NaN"
definition f_is_inf :: "float64 \<Rightarrow> bool" where "f_is_inf x \<longleftrightarrow> x = PInf \<or> x = NInf"

text \<open>The verb \<open>%.nf\<close>: the exact decimal expansion, rounded half to even at digit \<open>n\<close>.\<close>

definition pad_zeros :: "nat \<Rightarrow> string \<Rightarrow> string" where
  "pad_zeros n s = replicate (n - length s) (CHR ''0'') @ s"

definition fixed_str :: "nat \<Rightarrow> rat \<Rightarrow> string" where
  "fixed_str n x =
     (let m = nat (rne (\<bar>x\<bar> * 10 ^ n));
          i = nat_digits (m div 10 ^ n);
          f = pad_zeros n (nat_digits (m mod 10 ^ n))
      in (if x < 0 then ''-'' else []) @ (if n = 0 then i else i @ ''.'' @ f))"

fun fmt_fixed :: "nat \<Rightarrow> float64 \<Rightarrow> string" where
  "fmt_fixed n NaN = ''NaN''"
| "fmt_fixed n PInf = ''+Inf''"
| "fmt_fixed n NInf = ''-Inf''"
| "fmt_fixed n (Fin x) = fixed_str n x"

subsection \<open>Facts on the operators\<close>

lemma repr_zero [simp]: "repr 0"
  by (simp add: repr_def)

lemma repr_int: "\<bar>m\<bar> \<le> 2 ^ 53 \<Longrightarrow> repr (of_int m)"
proof -
  assume m: "\<bar>m\<bar> \<le> 2 ^ 53"
  have "(of_int \<bar>m\<bar> :: rat) \<le> of_int (2 ^ 53)" using m by (simp only: of_int_le_iff)
  moreover have "of_int (2 ^ 53) < pow2 1024"
    using pow2_nat [of 53] pow2_strict_mono [of 53 1024] by simp
  ultimately show ?thesis using rdl_int [OF m] by (simp add: repr_def abs_le_iff)
qed

lemma repr_numeral: "numeral k \<le> (2 ^ 53 :: int) \<Longrightarrow> repr (numeral k)"
  using repr_int [of "numeral k"] by simp

lemma repr_one [simp]: "repr 1"
  using repr_int [of 1] by simp

lemma repr_minus: "repr x \<Longrightarrow> repr (- x)"
  by (simp add: repr_def rdl_minus)

lemma rnd_repr: "repr x \<Longrightarrow> rnd x = Fin x"
  by (simp add: repr_def rnd_def Let_def)

lemma rnd_is_f64 [simp]: "is_f64 (rnd x)"
  by (auto simp: rnd_def Let_def repr_def rdl_idem)

lemma f_of_int_exact: "\<bar>m\<bar> \<le> 2 ^ 53 \<Longrightarrow> f_of_int m = Fin (of_int m)"
  by (simp add: f_of_int_def rnd_repr repr_int)

text \<open>A result between two representable bounds is finite and stays between them.\<close>

lemma rnd_between:
  assumes "repr a" "repr b" "a \<le> x" "x \<le> b"
  shows "\<exists>y. rnd x = Fin y \<and> a \<le> y \<and> y \<le> b \<and> repr y"
proof -
  have ab: "a \<le> rdl x" "rdl x \<le> b"
    using b64.rd_between [of a b x] assms by (simp_all add: repr_def)
  with assms have "rdl x < pow2 1024" "- pow2 1024 < rdl x" by (simp_all add: repr_def)
  with ab show ?thesis by (auto simp: rnd_def Let_def repr_def rdl_idem)
qed

lemma f_le_refl: "x \<noteq> NaN \<Longrightarrow> f_le x x"
  by (cases x) (simp_all add: f_le_def)

lemma f_le_Fin [simp]: "f_le (Fin x) (Fin y) \<longleftrightarrow> x \<le> y"
  by (auto simp: f_le_def)

lemma rnd_mono: "x \<le> y \<Longrightarrow> f_le (rnd x) (rnd y)"
  using rdl_mono [of x y] pow2_pos [of 1024] by (auto simp: rnd_def Let_def f_le_def)

lemma f_lt_irrefl [simp]: "\<not> f_lt x x"
  by (cases x) simp_all

lemma f_lt_trans: "f_lt x y \<Longrightarrow> f_lt y z \<Longrightarrow> f_lt x z"
  by (cases x; cases y; cases z) auto

lemma f_le_trans: "f_le x y \<Longrightarrow> f_le y z \<Longrightarrow> f_le x z"
  by (cases x; cases y; cases z) (auto simp: f_le_def)

lemma f_not_le: "x \<noteq> NaN \<Longrightarrow> y \<noteq> NaN \<Longrightarrow> \<not> f_le x y \<longleftrightarrow> f_lt y x"
  by (cases x; cases y) (auto simp: f_le_def)

lemma f_le_NaN [simp]: "\<not> f_le NaN x" "\<not> f_le x NaN"
  by (cases x; simp add: f_le_def)+

lemma f_eq_Fin [simp]: "f_eq (Fin x) (Fin y) \<longleftrightarrow> x = y"
  by simp

lemma f_add_is_f64 [simp]: "is_f64 (f_add x y)"
  by (cases x; cases y) simp_all

lemma inf_of_sign_is_f64 [simp]: "is_f64 (inf_of_sign s)"
  by (simp add: inf_of_sign_def)

lemma f_mul_is_f64 [simp]: "is_f64 (f_mul x y)"
  by (cases x; cases y) simp_all

lemma f_div_is_f64 [simp]: "is_f64 (f_div x y)"
  by (cases x; cases y) (simp_all add: inf_of_sign_def)

text \<open>Doubling is exact as long as it does not overflow, so the mean of two numbers, computed
  as \<open>(x + y) / 2\<close>, stays between them.\<close>

lemma rdl_double: "rdl x = x \<Longrightarrow> rdl (2 * x) = 2 * x"
proof (cases "x = 0")
  case False
  assume x: "rdl x = x"
  let ?q = "qexp \<bar>x\<bar>"
  have "pow2 (?q + 1) = 2 * pow2 ?q" by (simp add: pow2_def power_int_add)
  moreover have "x = of_int (rne (x / pow2 ?q)) * pow2 ?q"
    using x False by (simp add: rdl_def rq_def)
  ultimately have m: "2 * x = of_int (rne (x / pow2 ?q)) * pow2 (?q + 1)" by simp
  have p: "0 < \<bar>x\<bar>" using False by simp
  have "pow2 (ilog2 \<bar>x\<bar> + 1) = 2 * pow2 (ilog2 \<bar>x\<bar>)"
    and "pow2 (ilog2 \<bar>x\<bar> + 1 + 1) = 2 * pow2 (ilog2 \<bar>x\<bar> + 1)"
    by (simp_all add: pow2_def power_int_add)
  with ilog2_bounds [OF p] have "ilog2 (2 * \<bar>x\<bar>) = ilog2 \<bar>x\<bar> + 1"
    by (intro ilog2_unique) linarith+
  then have "qexp \<bar>2 * x\<bar> \<le> ?q + 1" by (auto simp: qexp_def abs_mult)
  with m show ?thesis by (rule rdl_multiple)
qed simp

lemma repr_double: "repr x \<Longrightarrow> \<bar>2 * x\<bar> < pow2 1024 \<Longrightarrow> repr (2 * x)"
  by (auto simp: repr_def rdl_double abs_less_iff)

lemma mean_between:
  assumes "repr a" "repr b" "repr (2 * a)" "repr (2 * b)" "a \<le> x" "x \<le> b" "a \<le> y" "y \<le> b"
  shows "\<exists>m. f_div (f_add (Fin x) (Fin y)) (Fin 2) = Fin m \<and> a \<le> m \<and> m \<le> b \<and> repr m"
proof -
  obtain z where z: "rnd (x + y) = Fin z" "2 * a \<le> z" "z \<le> 2 * b"
    using rnd_between [of "2 * a" "2 * b" "x + y"] assms by auto
  obtain m where "rnd (z / 2) = Fin m" "a \<le> m" "m \<le> b" "repr m"
    using rnd_between [of a b "z / 2"] assms z by auto
  with z show ?thesis by auto
qed

text \<open>The digits of a formatted number.\<close>

lemma set_nat_digits: "c \<in> set (nat_digits m) \<Longrightarrow> is_digit c"
  using nat_digits_all by (auto simp: list_all_iff)

lemma set_pad_zeros: "c \<in> set (pad_zeros n (nat_digits m)) \<Longrightarrow> is_digit c"
  using set_nat_digits [of c m] by (auto simp: pad_zeros_def is_digit_def)

lemma fixed_str_chars: "c \<in> set (fixed_str n x) \<Longrightarrow> is_digit c \<or> c = CHR ''.'' \<or> c = CHR ''-''"
  unfolding fixed_str_def Let_def
  by (auto dest: set_nat_digits set_pad_zeros split: if_splits)

lemma fmt_fixed_missing:
  assumes "\<not> is_digit c" "c \<notin> set ''.-+InfNaN''"
  shows "c \<notin> set (fmt_fixed n x)"
  using assms fixed_str_chars [of c n] by (cases x) auto

subsection \<open>Error bounds\<close>

lemma rne_error: "\<bar>of_int (rne r) - r\<bar> \<le> 1 / 2"
proof -
  have "of_int \<lfloor>r\<rfloor> \<le> r" "r < of_int \<lfloor>r\<rfloor> + 1"
    using floor_correct [of r] by simp_all
  then show ?thesis unfolding rne_def Let_def by (auto simp: abs_le_iff)
qed

lemma rq_error: "\<bar>rq q x - x\<bar> \<le> pow2 q / 2"
proof -
  have "rq q x - x = (of_int (rne (x / pow2 q)) - x / pow2 q) * pow2 q"
    by (simp add: rq_def algebra_simps)
  then have "\<bar>rq q x - x\<bar> = \<bar>of_int (rne (x / pow2 q)) - x / pow2 q\<bar> * pow2 q"
    by (simp add: abs_mult abs_of_pos)
  also have "\<dots> \<le> 1 / 2 * pow2 q" by (intro mult_right_mono rne_error) (simp add: less_imp_le)
  finally show ?thesis by simp
qed

text \<open>Rounding errs by half a unit in the last place, or half of the smallest positive value.\<close>

lemma rdl_error: "\<bar>rdl x - x\<bar> \<le> \<bar>x\<bar> * pow2 (- 53) + pow2 (- 1075)"
proof (cases "x = 0")
  case False
  have "\<bar>rdl x - x\<bar> \<le> pow2 (qexp \<bar>x\<bar>) / 2"
    using rq_error [of "qexp \<bar>x\<bar>" x] False by (simp add: rdl_def)
  also have "\<dots> \<le> \<bar>x\<bar> * pow2 (- 53) + pow2 (- 1075)"
  proof (cases "ilog2 \<bar>x\<bar> - 52 \<le> - 1074")
    case True
    have "pow2 (- 1074) = 2 * pow2 (- 1075)"
      using pow2_add [of 1 "- 1075"] by (simp add: pow2_def)
    moreover have "0 \<le> \<bar>x\<bar> * pow2 (- 53)" by (intro mult_nonneg_nonneg) (simp_all add: less_imp_le)
    ultimately show ?thesis using True by (simp add: qexp_def max_def)
  next
    case False
    have le: "pow2 (ilog2 \<bar>x\<bar>) \<le> \<bar>x\<bar>" using ilog2_bounds [of "\<bar>x\<bar>"] \<open>x \<noteq> 0\<close> by simp
    have "pow2 (ilog2 \<bar>x\<bar> - 52) / 2 = pow2 (ilog2 \<bar>x\<bar>) * pow2 (- 53)"
      unfolding pow2_diff [of "ilog2 \<bar>x\<bar>" 52] by (simp add: pow2_def power_int_minus)
    also have "\<dots> \<le> \<bar>x\<bar> * pow2 (- 53)" using le by (intro mult_right_mono) (simp_all add: less_imp_le)
    finally have "pow2 (ilog2 \<bar>x\<bar> - 52) / 2 \<le> \<bar>x\<bar> * pow2 (- 53)" .
    moreover have "0 \<le> pow2 (- 1075)" by (simp add: less_imp_le)
    ultimately show ?thesis using False by (simp add: qexp_def max_def)
  qed
  finally show ?thesis .
next
  case True
  then show ?thesis by (simp add: less_imp_le)
qed

lemma rnd_small: "\<bar>x\<bar> \<le> 2 ^ 53 \<Longrightarrow> rnd x = Fin (rdl x)"
proof -
  assume x: "\<bar>x\<bar> \<le> 2 ^ 53"
  have "repr (2 ^ 53)" "repr (- (2 ^ 53))"
    using repr_int [of "2 ^ 53"] repr_int [of "- (2 ^ 53)"] by simp_all
  then obtain y where "rnd x = Fin y"
    using rnd_between [of "- (2 ^ 53)" "2 ^ 53" x] x by (auto simp: abs_le_iff)
  then show ?thesis by (auto simp: rnd_def Let_def split: if_splits)
qed

subsection \<open>Parsing\<close>

text \<open>\<open>strconv.ParseFloat (s, 64)\<close> on decimal numerals, infinities and NaN, correctly rounded; a
  value out of range is an error.  Hexadecimal numerals are outside the model.\<close>

definition parse_special :: "string \<Rightarrow> float64 option" where
  "parse_special s =
     (let l = to_lower s in
      if l = ''nan'' then Some NaN
      else if l \<in> {''inf'', ''+inf'', ''infinity'', ''+infinity''} then Some PInf
      else if l \<in> {''-inf'', ''-infinity''} then Some NInf else None)"

definition parse_unsigned :: "string \<Rightarrow> rat option" where
  "parse_unsigned s =
     (let ip = takeWhile is_digit s; r = dropWhile is_digit s;
          (fp, r) = (case r of CHR ''.'' # t \<Rightarrow> (takeWhile is_digit t, dropWhile is_digit t)
                     | _ \<Rightarrow> ([], r));
          ex = (case r of [] \<Rightarrow> Some 0
                | c # t \<Rightarrow> if c = CHR ''e'' \<or> c = CHR ''E'' then parse_signed t else None)
      in if ip = [] \<and> fp = [] then None
         else map_option (\<lambda>e. of_nat (digits_val 0 (ip @ fp)) * 10 powi (e - int (length fp))) ex)"

definition parse_float :: "string \<Rightarrow> float64 option" where
  "parse_float s =
     (case parse_special s of Some v \<Rightarrow> Some v
      | None \<Rightarrow>
          let q = (case s of
                     CHR ''-'' # t \<Rightarrow> map_option uminus (parse_unsigned t)
                   | CHR ''+'' # t \<Rightarrow> parse_unsigned t
                   | _ \<Rightarrow> parse_unsigned s)
          in case q of None \<Rightarrow> None
             | Some x \<Rightarrow> (case rnd x of Fin y \<Rightarrow> Some (Fin y) | _ \<Rightarrow> None))"

lemma parse_float_is_f64: "parse_float s = Some v \<Longrightarrow> is_f64 v"
  by (auto simp: parse_float_def parse_special_def Let_def split: option.splits float64.splits if_splits)

end
