(* ===== verification/Contracts.thy ===== *)
theory Contracts
  imports Go_Float64
begin

text \<open>
  The shared data of the program: internal/contracts/types.go (intents, engine input and
  output, market tickers) and shared/contracts/contract/v1/types.go (the \<open>contract v1\<close> records
  that the bot publishes).  A Go map is \<open>None\<close> when it is nil; reading a nil map is reading
  an empty one.  A value of type \<open>any\<close> in a receipt or in a params map is a \<open>jval\<close>.
  Closed enumerations are datatypes; \<open>IntentType\<close> stays a string, since it is read from
  requests.
\<close>

type_synonym metadata = "(string \<rightharpoonup> string) option"

definition meta_get :: "metadata \<Rightarrow> string \<Rightarrow> string" where
  "meta_get m k = (case m of None \<Rightarrow> [] | Some f \<Rightarrow> map_get f [] k)"

definition meta_put :: "metadata \<Rightarrow> string \<Rightarrow> string \<Rightarrow> metadata" where
  "meta_put m k v = map_option (\<lambda>f. f(k \<mapsto> v)) m"

lemma meta_get_put [simp]:
  "m \<noteq> None \<Longrightarrow> meta_get (meta_put m k v) k' = (if k' = k then v else meta_get m k')"
  by (auto simp: meta_get_def meta_put_def)

lemma meta_get_None [simp]: "meta_get None k = []"
  by (simp add: meta_get_def)

lemma meta_get_Some: "meta_get (Some f) k = map_get f [] k"
  by (simp add: meta_get_def)

subsection \<open>Intents\<close>

type_synonym intent_type = string

abbreviation IntentRebalance :: intent_type where "IntentRebalance \<equiv> ''rebalance''"
abbreviation IntentWithdraw :: intent_type where "IntentWithdraw \<equiv> ''withdraw''"
abbreviation IntentCollectFee :: intent_type where "IntentCollectFee \<equiv> ''collect_fee''"
abbreviation IntentSwap :: intent_type where "IntentSwap \<equiv> ''swap''"
abbreviation IntentMockRebalance :: intent_type where "IntentMockRebalance \<equiv> ''mock_rebalance''"
abbreviation IntentRebalanceV3 :: intent_type where "IntentRebalanceV3 \<equiv> ''v3_rebalance''"

record intent =
  int_ID :: string
  int_Type :: intent_type
  int_PoolID :: string
  int_ChainID :: int64
  int_Urgency :: int64
  int_Deadline :: gotime
  int_ExpectedPnL :: float64
  int_StrategyVersion :: string
  int_RiskMode :: string
  int_Metadata :: metadata

definition zero_intent :: intent where
  "zero_intent =
     \<lparr>int_ID = [], int_Type = [], int_PoolID = [], int_ChainID = 0, int_Urgency = 0,
      int_Deadline = 0, int_ExpectedPnL = Fin 0, int_StrategyVersion = [],
      int_RiskMode = [], int_Metadata = None\<rparr>"

subsection \<open>Engine\<close>

record current_position =
  cp_LowerTick :: int64
  cp_UpperTick :: int64
  cp_Liquidity :: float64

record engine_input =
  ei_CexPrice :: float64
  ei_DexPrice :: float64
  ei_Volatility :: float64
  ei_Position :: current_position
  ei_RiskFactor :: float64

record engine_output =
  eo_TargetLowerTick :: int64
  eo_TargetUpperTick :: int64
  eo_TargetDelta :: float64

record ticker =
  tk_Symbol :: string
  tk_Price :: float64
  tk_Timestamp :: gotime

subsection \<open>Contract v1\<close>

definition SchemaVersion :: string where "SchemaVersion = ''v1''"

datatype intent_type_v1 = RebalanceV3_v1 | CexMake_v1 | Arbitrage_v1 | HedgePerp_v1

fun intent_type_v1_str :: "intent_type_v1 \<Rightarrow> string" where
  "intent_type_v1_str RebalanceV3_v1 = ''REBALANCE_V3''"
| "intent_type_v1_str CexMake_v1 = ''CEX_MAKE''"
| "intent_type_v1_str Arbitrage_v1 = ''ARBITRAGE''"
| "intent_type_v1_str HedgePerp_v1 = ''HEDGE_PERP''"

datatype risk_level = LevelSafe | LevelDeny | LevelPause | LevelSafeMode | LevelHalt

datatype exec_status =
  ExecSimulated | ExecSkipped | ExecSubmitted | ExecPartiallyFilled | ExecFilled
| ExecCanceled | ExecFailed

datatype error_kind =
  ErrNone | ErrTransient | ErrAuth | ErrRateLimit | ErrInsufficientBalance | ErrBadParams
| ErrUnknown

datatype v1_mode = ModeDryRun | ModeShadow | ModeLive | ModePaper
datatype v1_state = StateRunning | StatePaused | StateSafeMode | StateError

datatype jval = JStr string | JInt int | JBool bool

type_synonym jmap = "string \<rightharpoonup> jval"

record intent_v1 =
  iv_SchemaVersion :: string
  iv_IntentID :: string
  iv_IntentType :: intent_type_v1
  iv_TsLocalMS :: int64
  iv_DryRun :: bool
  iv_TTLms :: int64
  iv_Params :: jmap
  iv_Fields :: jmap
  iv_Summary :: string

record risk_decision_v1 =
  rv_SchemaVersion :: string
  rv_RunID :: string
  rv_TsLocalMS :: int64
  rv_Level :: risk_level
  rv_Reasons :: "string list"
  rv_Fields :: "string \<rightharpoonup> string"
  rv_CooldownMS :: int64

record executor_result_v1 =
  xv_SchemaVersion :: string
  xv_IntentID :: string
  xv_TsLocalMS :: int64
  xv_Status :: exec_status
  xv_ErrorKind :: error_kind
  xv_Receipt :: jmap

record status_intent_v1 =
  si_IntentType :: intent_type_v1
  si_IntentID :: string
  si_TsLocalMS :: int64
  si_Summary :: string
  si_Fields :: jmap

record status_risk_v1 =
  sr_Level :: risk_level
  sr_TsLocalMS :: int64
  sr_ReasonsCount :: nat

record status_exec_v1 =
  se_Status :: exec_status
  se_TsLocalMS :: int64
  se_ErrorKind :: error_kind

record status_v1 =
  sv_SchemaVersion :: string
  sv_RunID :: string
  sv_Mode :: v1_mode
  sv_State :: v1_state
  sv_LastIntent :: "status_intent_v1 option"
  sv_LastRisk :: "status_risk_v1 option"
  sv_LastExec :: "status_exec_v1 option"
  sv_UptimeSec :: int64

text \<open>The risk levels are ordered by how much they stop, from \<open>SAFE\<close> to \<open>HALT\<close>, so that
  \<open>LevelSafe < l\<close> says that a published level blocks execution.\<close>

fun level_rank :: "risk_level \<Rightarrow> nat" where
  "level_rank LevelSafe = 0"
| "level_rank LevelDeny = 1"
| "level_rank LevelPause = 2"
| "level_rank LevelSafeMode = 3"
| "level_rank LevelHalt = 4"

lemma level_rank_inject: "level_rank a = level_rank b \<longleftrightarrow> a = b"
  by (cases a; cases b) simp_all

instantiation risk_level :: linorder
begin
definition less_eq_risk_level :: "risk_level \<Rightarrow> risk_level \<Rightarrow> bool" where
  "less_eq_risk_level a b \<longleftrightarrow> level_rank a \<le> level_rank b"
definition less_risk_level :: "risk_level \<Rightarrow> risk_level \<Rightarrow> bool" where
  "less_risk_level a b \<longleftrightarrow> level_rank a < level_rank b"
instance
  by standard
    (auto simp: less_eq_risk_level_def less_risk_level_def level_rank_inject [symmetric])
end

end
