(* ===== verification/Files.thy ===== *)
theory Files
  imports Contracts
begin

text \<open>
  The files that the program polls: internal/control/filecontrol and the state store of
  internal/riskcontrol read a JSON file again when its modification time or size changes.

  A file is its modification time, its size and its document: what \<open>json.Unmarshal\<close> makes of
  its bytes, \<open>None\<close> when they do not decode.  \<open>json.Marshal\<close> followed by \<open>json.Unmarshal\<close>
  is the identity on the structs that are stored.  Which system calls fail in one
  operation is an input, the record \<open>faults\<close>, so that every error path is a branch of the
  model.
\<close>

record 'v stored =
  fl_mod :: gotime
  fl_size :: int
  fl_doc :: "'v option"

type_synonym 'v disk = "'v stored option"

text \<open>The system calls that fail in one operation, and the time stamp and size of a file that
  the operation writes.\<close>

record faults =
  ft_stat :: bool
  ft_read :: bool
  ft_write :: bool
  ft_restat :: bool
  ft_mod :: gotime
  ft_size :: int

definition no_faults :: "gotime \<Rightarrow> int \<Rightarrow> faults" where
  "no_faults t n =
     \<lparr>ft_stat = False, ft_read = False, ft_write = False, ft_restat = False,
      ft_mod = t, ft_size = n\<rparr>"

datatype load_error = LoadOk | StatErr | ReadErr | DecodeErr

text \<open>Which document a reader can take from the disk in one operation.\<close>

definition readable :: "faults \<Rightarrow> 'v disk \<Rightarrow> 'v option" where
  "readable ft d =
     (if ft_stat ft \<or> ft_read ft then None
      else case d of None \<Rightarrow> None | Some f \<Rightarrow> fl_doc f)"

text \<open>
  The contract of a polling reader, whatever it stores besides the value: a load gives the old
  value, the default (only if the file is gone), or the normal form of the document that is on
  disk.  A client that runs any number of loads therefore never sees anything but the value it
  started from, the default, and documents that were on disk.
\<close>

locale polled_file =
  fixes load :: "gotime \<Rightarrow> faults \<Rightarrow> 'v disk \<Rightarrow> 's \<Rightarrow> 's"
    and current :: "'s \<Rightarrow> 'w"
    and norm :: "'v \<Rightarrow> 'w"
    and dflt :: "'w"
  assumes load_current:
    "current (load now ft d s) = current s
     \<or> (d = None \<and> \<not> ft_stat ft \<and> current (load now ft d s) = dflt)
     \<or> (\<exists>v. readable ft d = Some v \<and> current (load now ft d s) = norm v)"
begin

fun loads :: "(gotime \<times> faults \<times> 'v disk) list \<Rightarrow> 's \<Rightarrow> 's" where
  "loads [] s = s"
| "loads ((now, ft, d) # os) s = loads os (load now ft d s)"

lemma unreadable_keeps:
  "readable ft d = None \<Longrightarrow> d \<noteq> None \<or> ft_stat ft \<Longrightarrow> current (load now ft d s) = current s"
  using load_current [of now ft d s] by auto

lemma current_loads:
  assumes "\<And>v. P (norm v)" "P dflt" "P (current s)"
  shows "P (current (loads os s))"
  using assms(3)
proof (induction os s rule: loads.induct)
  case (2 now ft d os s)
  have "P (current (load now ft d s))"
    using load_current [of now ft d s] assms(1,2) 2(2) by auto
  then show ?case using 2(1) by simp
qed simp

lemma current_loads_origin:
  "current (loads os s) = current s \<or> current (loads os s) = dflt
   \<or> (\<exists>(now, ft, d) \<in> set os. \<exists>v. readable ft d = Some v \<and> current (loads os s) = norm v)"
proof (induction os s rule: loads.induct)
  case (2 now ft d os s)
  from load_current [of now ft d s] 2 show ?case by auto
qed simp

end

end
