(* ===== verification/File_Control.thy ===== *)
theory File_Control
  imports Files
begin

text \<open>
  The control plane: internal/control/filecontrol/control.go.  An operator writes
  \<open>control.json\<close>; the bot polls it at most once a second and keeps the last good value.
\<close>

record control_state =
  cs_DesiredState :: string
  cs_ForceDryRun :: bool
  cs_RiskMode :: string
  cs_Reason :: string

definition control_default :: control_state where
  "control_default =
     \<lparr>cs_DesiredState = ''RUNNING'', cs_ForceDryRun = False, cs_RiskMode = [], cs_Reason = []\<rparr>"

record loader =
  ld_lastCheckAt :: gotime
  ld_lastModTime :: gotime
  ld_lastSize :: int
  ld_lastExists :: bool
  ld_lastState :: control_state

definition new_loader :: loader where
  "new_loader =
     \<lparr>ld_lastCheckAt = 0, ld_lastModTime = 0, ld_lastSize = 0, ld_lastExists = False,
      ld_lastState = control_default\<rparr>"

definition control_equal :: "control_state \<Rightarrow> control_state \<Rightarrow> bool" where
  "control_equal a b \<longleftrightarrow>
     cs_DesiredState a = cs_DesiredState b \<and> cs_ForceDryRun a = cs_ForceDryRun b
     \<and> cs_RiskMode a = cs_RiskMode b \<and> cs_Reason a = cs_Reason b"

text \<open>The trimming and defaulting that \<open>LoadIfChanged\<close> applies to a decoded document.\<close>

definition normalize_control :: "control_state \<Rightarrow> control_state" where
  "normalize_control c =
     (let ds = trim_space (cs_DesiredState c)
      in c\<lparr>cs_DesiredState := (if ds = [] then ''RUNNING'' else ds),
           cs_RiskMode := trim_space (cs_RiskMode c),
           cs_Reason := trim_space (cs_Reason c)\<rparr>)"

text \<open>\<open>Loader.LoadIfChanged\<close>: the new loader, the state, whether it changed, and the error.\<close>

definition load_if_changed ::
    "gotime \<Rightarrow> faults \<Rightarrow> control_state disk \<Rightarrow> loader
      \<Rightarrow> loader \<times> control_state \<times> bool \<times> load_error" where
  "load_if_changed now ft d l =
     (if \<not> t_is_zero (ld_lastCheckAt l) \<and> t_sub now (ld_lastCheckAt l) < second
      then (l, ld_lastState l, False, LoadOk)
      else
        let l = l\<lparr>ld_lastCheckAt := now\<rparr> in
        if ft_stat ft then (l, ld_lastState l, False, StatErr)
        else case d of
          None \<Rightarrow>
            if ld_lastExists l
            then (l\<lparr>ld_lastExists := False, ld_lastModTime := 0, ld_lastSize := 0,
                    ld_lastState := control_default\<rparr>, control_default, True, LoadOk)
            else (l\<lparr>ld_lastState := control_default\<rparr>, control_default, False, LoadOk)
        | Some f \<Rightarrow>
            if ld_lastExists l \<and> fl_mod f = ld_lastModTime l \<and> fl_size f = ld_lastSize l
            then (l, ld_lastState l, False, LoadOk)
            else if ft_read ft then (l, ld_lastState l, False, ReadErr)
            else case fl_doc f of
              None \<Rightarrow> (l, ld_lastState l, False, DecodeErr)
            | Some doc \<Rightarrow>
                let next = normalize_control doc;
                    changed = (\<not> control_equal (ld_lastState l) next \<or> \<not> ld_lastExists l)
                in (l\<lparr>ld_lastExists := True, ld_lastModTime := fl_mod f,
                      ld_lastSize := fl_size f, ld_lastState := next\<rparr>, next, changed, LoadOk))"

subsection \<open>What the loader promises\<close>

lemma control_equal_iff [simp]: "control_equal a b \<longleftrightarrow> a = b"
  by (cases a; cases b) (auto simp: control_equal_def)

text \<open>A control state in normal form: trimmed, with a desired state.\<close>

definition control_ok :: "control_state \<Rightarrow> bool" where
  "control_ok c \<longleftrightarrow> normalize_control c = c"

lemma normalize_control_idem: "normalize_control (normalize_control c) = normalize_control c"
proof -
  have "trim_space ''RUNNING'' = ''RUNNING''" by (rule trim_space_id) (simp_all add: graphic_def)
  then show ?thesis by (simp add: normalize_control_def Let_def)
qed

lemma control_ok_normalize [simp]: "control_ok (normalize_control c)"
  by (simp add: control_ok_def normalize_control_idem)

lemma control_ok_default [simp]: "control_ok control_default"
proof -
  have "trim_space ''RUNNING'' = ''RUNNING''" by (rule trim_space_id) (simp_all add: graphic_def)
  then show ?thesis by (simp add: control_ok_def normalize_control_def control_default_def)
qed

definition load_step :: "gotime \<Rightarrow> faults \<Rightarrow> control_state disk \<Rightarrow> loader \<Rightarrow> loader" where
  "load_step now ft d l = fst (load_if_changed now ft d l)"

text \<open>The state that a load returns is the state it keeps.\<close>

lemma load_returns_kept:
  "load_if_changed now ft d l = (l', st, ch, e) \<Longrightarrow> ld_lastState l' = st"
  by (auto simp: load_if_changed_def Let_def split: if_splits option.splits)

lemma load_error_keeps:
  "load_if_changed now ft d l = (l', st, ch, e) \<Longrightarrow> e \<noteq> LoadOk \<Longrightarrow>
   st = ld_lastState l \<and> \<not> ch \<and> ld_lastState l' = ld_lastState l"
  by (auto simp: load_if_changed_def Let_def split: if_splits option.splits)

interpretation ctl: polled_file load_step ld_lastState normalize_control control_default
  by unfold_locales
    (auto simp: load_step_def load_if_changed_def readable_def Let_def split: option.splits)

text \<open>The flag \<open>changed\<close> is raised exactly when the kept state moves, apart from the first
  sight of a file.\<close>

lemma load_changed_iff:
  assumes "load_if_changed now ft d l = (l', st, ch, e)" "ld_lastExists l"
    "ld_lastState l \<noteq> control_default \<or> d \<noteq> None"
  shows "ch \<longleftrightarrow> st \<noteq> ld_lastState l"
  using assms by (auto simp: load_if_changed_def Let_def split: if_splits option.splits)

lemma load_fresh_file:
  assumes "t_is_zero (ld_lastCheckAt l) \<or> second \<le> t_sub now (ld_lastCheckAt l)"
    "\<not> ft_stat ft" "\<not> ft_read ft" "d = Some f" "fl_doc f = Some doc"
    "\<not> ld_lastExists l \<or> fl_mod f \<noteq> ld_lastModTime l \<or> fl_size f \<noteq> ld_lastSize l"
  shows "\<exists>l' ch. load_if_changed now ft d l = (l', normalize_control doc, ch, LoadOk)"
  using assms by (auto simp: load_if_changed_def Let_def)

end
