(* ===== verification/Price_Aggregator.thy ===== *)
theory Price_Aggregator
  imports File_Control "HOL-Library.Multiset" "HOL-Library.List_Lexorder" "HOL-Library.Char_ord"
begin

text \<open>
  The market data plane: internal/feed/price_types.go, price_config.go and
  price_aggregator.go.  Two web-socket feeds send prices and connection events; the
  aggregator keeps one state per source, recomputes the aggregate price and the market risk
  mode after every event and on a one-second tick, and answers \<open>Snapshot\<close>, \<open>GetRisk\<close> and
  \<open>GetGate\<close>.

  The Go map of sources is a list of source states with distinct names, in any order: the
  order of iteration of the map.  Everything that is computed from it is sorted by name first.
  The output channel is the list of the tickers it holds, at most 64; log lines are left out.
\<close>

subsection \<open>Data\<close>

record price_update =
  pu_Source :: string
  pu_Symbol :: string
  pu_Price :: float64
  pu_EventTime :: gotime
  pu_ReceivedAt :: gotime

record source_event =
  sev_Source :: string
  sev_Connected :: bool
  sev_Err :: "string option"
  sev_At :: gotime

record source_state =
  ss_Name :: string
  ss_Connected :: bool
  ss_LastPrice :: float64
  ss_LastUpdateAt :: gotime
  ss_Fresh :: bool
  ss_UpdateAgeMs :: int64
  ss_NeverUpdated :: bool
  ss_LatencyMs :: int64
  ss_Err1m :: nat
  ss_LastErr :: string
  ss_LastErrAt :: gotime
  ss_errTimes :: "gotime list"

record aggregate_state =
  ag_AggPrice :: float64
  ag_AggUpdatedAt :: gotime
  ag_Stale :: bool
  ag_StaleAgeMs :: int64
  ag_Confidence :: float64
  ag_DivergencePct :: float64

record market_risk =
  mr_Mode :: string
  mr_Reason :: string

record market_snapshot =
  ms_Symbol :: string
  ms_Aggregate :: aggregate_state
  ms_Sources :: "source_state list"
  ms_Risk :: market_risk

record agg_config =
  ac_Symbol :: string
  ac_StaleWindow :: duration
  ac_FreezeWindow :: duration
  ac_DivergencePct :: float64
  ac_LogInterval :: duration

record symbol_spec =
  sy_Display :: string
  sy_Binance :: string
  sy_OKX :: string

record aggregator =
  pa_cfg :: agg_config
  pa_sym :: symbol_spec
  pa_sources :: "source_state list"
  pa_agg :: aggregate_state
  pa_risk :: market_risk
  pa_out :: "ticker list"
  pa_lastLoggedAt :: gotime
  pa_lastStale :: bool
  pa_lastFrozen :: bool
  pa_lastMode :: string

definition zero_aggregate :: aggregate_state where
  "zero_aggregate =
     \<lparr>ag_AggPrice = Fin 0, ag_AggUpdatedAt = 0, ag_Stale = False, ag_StaleAgeMs = 0,
      ag_Confidence = Fin 0, ag_DivergencePct = Fin 0\<rparr>"

definition zero_snapshot :: market_snapshot where
  "zero_snapshot =
     \<lparr>ms_Symbol = [], ms_Aggregate = zero_aggregate, ms_Sources = [],
      ms_Risk = \<lparr>mr_Mode = [], mr_Reason = []\<rparr>\<rparr>"

subsection \<open>Symbols\<close>

definition NormalizeSymbol :: "string \<Rightarrow> symbol_spec" where
  "NormalizeSymbol input =
     (let raw = filter (\<lambda>c. c \<noteq> CHR '' '') (to_upper (trim_space input));
          raw = (if raw = [] then ''ETH/USDT'' else raw);
          (base, quot) =
            (if CHR ''/'' \<in> set raw then cut_at (CHR ''/'') raw
             else if CHR ''-'' \<in> set raw then cut_at (CHR ''-'') raw
             else if 6 \<le> length raw then
               (if has_suffix raw ''USDT'' then (take (length raw - 4) raw, ''USDT'')
                else (take 3 raw, drop 3 raw))
             else ([], []));
          (base, quot) = (if base = [] \<or> quot = [] then (''ETH'', ''USDT'') else (base, quot))
      in \<lparr>sy_Display = base @ ''/'' @ quot, sy_Binance = to_lower (base @ quot),
          sy_OKX = base @ ''-'' @ quot\<rparr>)"

definition upper_no_sep :: "string \<Rightarrow> string" where
  "upper_no_sep display =
     map upper_char (filter (\<lambda>c. c \<notin> {CHR ''/'', CHR ''-'', CHR ''_'', CHR '' ''}) display)"

definition legacy_symbol :: "symbol_spec \<Rightarrow> string" where
  "legacy_symbol sp = upper_no_sep (sy_Display sp)"

subsection \<open>Construction\<close>

definition NewPriceAggregator :: "agg_config \<Rightarrow> aggregator" where
  "NewPriceAggregator cfg =
     (let cfg = cfg\<lparr>ac_StaleWindow :=
            (if ac_StaleWindow cfg \<le> 0 then 5 * second else ac_StaleWindow cfg)\<rparr>;
          cfg = cfg\<lparr>ac_FreezeWindow :=
            (if ac_FreezeWindow cfg \<le> 0 then 20 * second else ac_FreezeWindow cfg)\<rparr>;
          cfg = cfg\<lparr>ac_LogInterval :=
            (if ac_LogInterval cfg \<le> 0 then 7 * second else ac_LogInterval cfg)\<rparr>;
          cfg = cfg\<lparr>ac_DivergencePct :=
            (if f_le (ac_DivergencePct cfg) (Fin 0) then f_lit (3 / 1000)
             else ac_DivergencePct cfg)\<rparr>;
          cfg = cfg\<lparr>ac_Symbol := (if ac_Symbol cfg = [] then ''ETH/USDT'' else ac_Symbol cfg)\<rparr>
      in \<lparr>pa_cfg = cfg, pa_sym = NormalizeSymbol (ac_Symbol cfg), pa_sources = [],
          pa_agg = zero_aggregate,
          pa_risk = \<lparr>mr_Mode = ''degraded'', mr_Reason = ''starting''\<rparr>, pa_out = [],
          pa_lastLoggedAt = 0, pa_lastStale = False, pa_lastFrozen = False, pa_lastMode = []\<rparr>)"

subsection \<open>Recomputing the aggregate\<close>

definition durationMs :: "duration \<Rightarrow> int64" where
  "durationMs d = (if d \<le> 0 then 0 else tquot d millisecond)"

definition maxTime :: "gotime \<Rightarrow> gotime \<Rightarrow> gotime" where
  "maxTime a b = (if b < a then a else b)"

definition never_updated :: "source_state \<Rightarrow> bool" where
  "never_updated st \<longleftrightarrow> t_is_zero (ss_LastUpdateAt st) \<or> f_le (ss_LastPrice st) (Fin 0)"

definition is_fresh :: "agg_config \<Rightarrow> gotime \<Rightarrow> source_state \<Rightarrow> bool" where
  "is_fresh cfg now st \<longleftrightarrow>
     \<not> never_updated st \<and> t_sub now (ss_LastUpdateAt st) \<le> ac_StaleWindow cfg"

definition connected_stale :: "agg_config \<Rightarrow> gotime \<Rightarrow> source_state \<Rightarrow> bool" where
  "connected_stale cfg now st \<longleftrightarrow>
     \<not> is_fresh cfg now st \<and> ss_Connected st \<and> \<not> never_updated st
     \<and> ac_StaleWindow cfg < t_sub now (ss_LastUpdateAt st)"

definition connected_never :: "agg_config \<Rightarrow> gotime \<Rightarrow> source_state \<Rightarrow> bool" where
  "connected_never cfg now st \<longleftrightarrow>
     \<not> is_fresh cfg now st \<and> ss_Connected st \<and> never_updated st"

definition mid_price :: "float64 \<Rightarrow> float64 \<Rightarrow> float64" where
  "mid_price p1 p2 = f_div (f_add p1 p2) (Fin 2)"

definition divergence :: "float64 \<Rightarrow> float64 \<Rightarrow> float64" where
  "divergence p1 p2 =
     (let mean = mid_price p1 p2
      in if f_lt (Fin 0) mean then f_div (f_abs (f_sub p1 p2)) mean else Fin 0)"

record agg_result =
  ar_price :: float64
  ar_at :: gotime
  ar_div :: float64
  ar_conf :: float64
  ar_mode :: string
  ar_reason :: string

text \<open>The three cases of \<open>recomputeLocked\<close>: two or more fresh sources, one, none.  The lists
  are sorted by name.\<close>

definition combine ::
    "agg_config \<Rightarrow> aggregate_state \<Rightarrow> source_state list \<Rightarrow> string list \<Rightarrow> string list
      \<Rightarrow> agg_result" where
  "combine cfg old freshes cstale cnever =
     (case freshes of
        s1 # s2 # _ \<Rightarrow>
          let d = divergence (ss_LastPrice s1) (ss_LastPrice s2);
              bad = f_lt (ac_DivergencePct cfg) d
          in \<lparr>ar_price = mid_price (ss_LastPrice s1) (ss_LastPrice s2),
              ar_at = maxTime (ss_LastUpdateAt s1) (ss_LastUpdateAt s2), ar_div = d,
              ar_conf = (if bad then f_lit (6 / 10) else Fin 1),
              ar_mode = (if bad then ''degraded'' else ''normal''),
              ar_reason = (if bad then ''divergence'' else [])\<rparr>
      | [s1] \<Rightarrow>
          \<lparr>ar_price = ss_LastPrice s1, ar_at = ss_LastUpdateAt s1, ar_div = Fin 0,
           ar_conf = f_lit (7 / 10), ar_mode = ''degraded'',
           ar_reason =
             (case cstale of n # _ \<Rightarrow> ''one_source_stale:'' @ n
              | [] \<Rightarrow> (case cnever of n # _ \<Rightarrow> ''one_source_missing:'' @ n
                      | [] \<Rightarrow> ''single_source''))\<rparr>
      | [] \<Rightarrow>
          \<lparr>ar_price = ag_AggPrice old, ar_at = ag_AggUpdatedAt old,
           ar_div = ag_DivergencePct old, ar_conf = Fin 0, ar_mode = ''degraded'',
           ar_reason = ''no_fresh_source''\<rparr>)"

definition agg_age :: "gotime \<Rightarrow> gotime \<Rightarrow> duration" where
  "agg_age now tm = (if t_is_zero tm then 0 else t_sub now tm)"

definition agg_stale :: "agg_config \<Rightarrow> gotime \<Rightarrow> gotime \<Rightarrow> bool" where
  "agg_stale cfg now tm \<longleftrightarrow> t_is_zero tm \<or> ac_StaleWindow cfg < agg_age now tm"

definition agg_frozen :: "agg_config \<Rightarrow> gotime \<Rightarrow> gotime \<Rightarrow> bool" where
  "agg_frozen cfg now tm \<longleftrightarrow> t_is_zero tm \<or> ac_FreezeWindow cfg < agg_age now tm"

definition fresh_sources :: "agg_config \<Rightarrow> gotime \<Rightarrow> source_state list \<Rightarrow> source_state list" where
  "fresh_sources cfg now ss = sort_key ss_Name (filter (is_fresh cfg now) ss)"

definition names_where :: "(source_state \<Rightarrow> bool) \<Rightarrow> source_state list \<Rightarrow> string list" where
  "names_where P ss = sort (map ss_Name (filter P ss))"

definition recompute :: "gotime \<Rightarrow> aggregator \<Rightarrow> aggregator \<times> bool" where
  "recompute now a =
     (let cfg = pa_cfg a; old = pa_agg a;
          r = combine cfg old (fresh_sources cfg now (pa_sources a))
                (names_where (connected_stale cfg now) (pa_sources a))
                (names_where (connected_never cfg now) (pa_sources a));
          stale = agg_stale cfg now (ar_at r);
          frozen = agg_frozen cfg now (ar_at r);
          mode = (if frozen then ''frozen'' else if stale then ''degraded'' else ar_mode r);
          reason = (if frozen then ''price_frozen'' else if stale then ''price_stale''
                    else ar_reason r);
          conf = (if frozen \<or> stale then Fin 0 else ar_conf r);
          new = \<lparr>ag_AggPrice = ar_price r, ag_AggUpdatedAt = ar_at r, ag_Stale = stale,
                 ag_StaleAgeMs = durationMs (agg_age now (ar_at r)), ag_Confidence = conf,
                 ag_DivergencePct = ar_div r\<rparr>
      in (a\<lparr>pa_agg := new, pa_risk := \<lparr>mr_Mode = mode, mr_Reason = reason\<rparr>,
            pa_lastStale := stale, pa_lastFrozen := frozen, pa_lastMode := mode\<rparr>,
          ag_AggUpdatedAt old \<noteq> ar_at r \<or> \<not> f_eq (ag_AggPrice old) (ar_price r)
          \<or> \<not> f_eq (ag_DivergencePct old) (ar_div r) \<or> \<not> f_eq (ag_Confidence old) conf))"

subsection \<open>Handlers\<close>

definition new_source :: "string \<Rightarrow> source_state" where
  "new_source n =
     \<lparr>ss_Name = n, ss_Connected = False, ss_LastPrice = Fin 0, ss_LastUpdateAt = 0,
      ss_Fresh = False, ss_UpdateAgeMs = 0, ss_NeverUpdated = False, ss_LatencyMs = 0,
      ss_Err1m = 0, ss_LastErr = [], ss_LastErrAt = 0, ss_errTimes = []\<rparr>"

text \<open>\<open>getOrCreateSourceLocked\<close> followed by an update of the source through its pointer.\<close>

definition update_source ::
    "string \<Rightarrow> (source_state \<Rightarrow> source_state) \<Rightarrow> source_state list \<Rightarrow> source_state list" where
  "update_source n f ss =
     (if n \<in> set (map ss_Name ss)
      then map (\<lambda>s. if ss_Name s = n then f s else s) ss
      else ss @ [f (new_source n)])"

definition price_source :: "price_update \<Rightarrow> source_state \<Rightarrow> source_state" where
  "price_source u st =
     st\<lparr>ss_Connected := True, ss_LastPrice := pu_Price u,
        ss_LastUpdateAt := pu_ReceivedAt u,
        ss_LatencyMs :=
          (if t_is_zero (pu_EventTime u) then ss_LatencyMs st
           else durationMs (max 0 (t_sub (pu_ReceivedAt u) (pu_EventTime u))))\<rparr>"

definition out_capacity :: nat where "out_capacity = 64"

definition onPriceUpdate :: "price_update \<Rightarrow> aggregator \<Rightarrow> aggregator" where
  "onPriceUpdate u a =
     (if pu_Source u = [] \<or> f_le (pu_Price u) (Fin 0) \<or> t_is_zero (pu_ReceivedAt u) then a
      else
        let a = a\<lparr>pa_sources := update_source (pu_Source u) (price_source u) (pa_sources a)\<rparr>;
            (a, updated) = recompute (pu_ReceivedAt u) a;
            out = \<lparr>tk_Symbol = legacy_symbol (pa_sym a), tk_Price = ag_AggPrice (pa_agg a),
                   tk_Timestamp = ag_AggUpdatedAt (pa_agg a)\<rparr>
        in if updated \<and> f_lt (Fin 0) (tk_Price out) \<and> \<not> t_is_zero (tk_Timestamp out)
              \<and> length (pa_out a) < out_capacity
           then a\<lparr>pa_out := pa_out a @ [out]\<rparr> else a)"

definition pruneTimes :: "gotime list \<Rightarrow> gotime \<Rightarrow> gotime list" where
  "pruneTimes xs cutoff = filter (\<lambda>t. cutoff < t) xs"

definition event_source :: "source_event \<Rightarrow> gotime \<Rightarrow> source_state \<Rightarrow> source_state" where
  "event_source ev tm st =
     (case sev_Err ev of
        None \<Rightarrow> st\<lparr>ss_Connected := sev_Connected ev\<rparr>
      | Some e \<Rightarrow>
          let ts = pruneTimes (ss_errTimes st @ [tm]) (t_add tm (- 60 * second))
          in st\<lparr>ss_Connected := sev_Connected ev, ss_LastErr := e, ss_LastErrAt := tm,
                ss_errTimes := ts, ss_Err1m := length ts\<rparr>)"

definition onSourceEvent :: "gotime \<Rightarrow> source_event \<Rightarrow> aggregator \<Rightarrow> aggregator" where
  "onSourceEvent now ev a =
     (if sev_Source ev = [] then a
      else
        let tm = (if t_is_zero (sev_At ev) then now else sev_At ev)
        in fst (recompute tm
             (a\<lparr>pa_sources := update_source (sev_Source ev) (event_source ev tm)
                                 (pa_sources a)\<rparr>)))"

definition maybeLog :: "gotime \<Rightarrow> aggregator \<Rightarrow> aggregator" where
  "maybeLog now a =
     (if ac_LogInterval (pa_cfg a) \<le> 0 then a
      else if \<not> t_is_zero (pa_lastLoggedAt a)
              \<and> t_sub now (pa_lastLoggedAt a) < ac_LogInterval (pa_cfg a) then a
      else a\<lparr>pa_lastLoggedAt := now\<rparr>)"

definition onTimeTick :: "gotime \<Rightarrow> aggregator \<Rightarrow> aggregator" where
  "onTimeTick now a = maybeLog now (fst (recompute now a))"

text \<open>One iteration of \<open>loop\<close>, for the case that \<open>select\<close> takes; \<open>Recv\<close> is the consumer of
  the output channel.\<close>

datatype agg_input =
  InPrice price_update | InEvent gotime source_event | InTick gotime | InRecv

fun agg_step :: "agg_input \<Rightarrow> aggregator \<Rightarrow> aggregator" where
  "agg_step (InPrice u) a = onPriceUpdate u a"
| "agg_step (InEvent now ev) a = onSourceEvent now ev a"
| "agg_step (InTick now) a = onTimeTick now a"
| "agg_step InRecv a = a\<lparr>pa_out := tl (pa_out a)\<rparr>"

definition agg_run :: "agg_input list \<Rightarrow> aggregator \<Rightarrow> aggregator" where
  "agg_run is a = fold agg_step is a"

subsection \<open>Queries\<close>

definition snapshot_source :: "agg_config \<Rightarrow> gotime \<Rightarrow> source_state \<Rightarrow> source_state" where
  "snapshot_source cfg now s =
     (let never = never_updated s;
          age = (if t_is_zero (ss_LastUpdateAt s) then 0
                 else max 0 (t_sub now (ss_LastUpdateAt s)))
      in s\<lparr>ss_NeverUpdated := never,
           ss_UpdateAgeMs := (if never then -1 else durationMs age),
           ss_Fresh := (\<not> never \<and> age \<le> ac_StaleWindow cfg)\<rparr>)"

definition Snapshot :: "gotime \<Rightarrow> aggregator \<Rightarrow> market_snapshot" where
  "Snapshot now a =
     (let agg = pa_agg a; cfg = pa_cfg a; age = agg_age now (ag_AggUpdatedAt agg)
      in \<lparr>ms_Symbol = sy_Display (pa_sym a),
          ms_Aggregate = agg\<lparr>ag_StaleAgeMs := durationMs age,
                              ag_Stale := t_is_zero (ag_AggUpdatedAt agg)
                                          \<or> ac_StaleWindow cfg < age\<rparr>,
          ms_Sources = sort_key ss_Name (map (snapshot_source cfg now) (pa_sources a)),
          ms_Risk = pa_risk a\<rparr>)"

definition GetGate :: "gotime \<Rightarrow> aggregator \<Rightarrow> bool \<times> string \<times> duration \<times> string" where
  "GetGate now a =
     (let tm = ag_AggUpdatedAt (pa_agg a); cfg = pa_cfg a; age = t_sub now tm
      in if t_is_zero tm then (True, ''price_stale'', 0, mr_Mode (pa_risk a))
         else if ac_FreezeWindow cfg < age then (True, ''price_frozen'', age, ''frozen'')
         else if ac_StaleWindow cfg < age
              then (True, ''price_stale'', age, mr_Mode (pa_risk a))
         else (False, [], age, mr_Mode (pa_risk a)))"

subsection \<open>The invariant of the aggregator\<close>

text \<open>Names are distinct and not empty, windows are positive, the output channel is within its
  capacity, and the error counter of a source counts the errors that are remembered.\<close>

definition source_ok :: "source_state \<Rightarrow> bool" where
  "source_ok s \<longleftrightarrow> ss_Name s \<noteq> [] \<and> ss_Err1m s = length (ss_errTimes s)"

definition agg_inv :: "aggregator \<Rightarrow> bool" where
  "agg_inv a \<longleftrightarrow>
     distinct (map ss_Name (pa_sources a)) \<and> (\<forall>s \<in> set (pa_sources a). source_ok s)
     \<and> 0 < ac_StaleWindow (pa_cfg a) \<and> 0 < ac_FreezeWindow (pa_cfg a)
     \<and> length (pa_out a) \<le> out_capacity"

lemma recompute_frame [simp]:
  "pa_sources (fst (recompute now a)) = pa_sources a"
  "pa_cfg (fst (recompute now a)) = pa_cfg a"
  "pa_sym (fst (recompute now a)) = pa_sym a"
  "pa_out (fst (recompute now a)) = pa_out a"
  by (simp_all add: recompute_def Let_def)

lemma update_source_names:
  assumes "\<And>s. ss_Name (f s) = ss_Name s"
  shows "map ss_Name (update_source n f ss) =
    (if n \<in> set (map ss_Name ss) then map ss_Name ss else map ss_Name ss @ [n])"
  using assms by (auto simp: update_source_def new_source_def)

lemma update_source_set:
  "s \<in> set (update_source n f ss) \<Longrightarrow>
   s \<in> set ss \<or> (\<exists>t. (t \<in> set ss \<or> t = new_source n) \<and> s = f t)"
  by (auto simp: update_source_def split: if_splits)

lemma price_source_name [simp]: "ss_Name (price_source u s) = ss_Name s"
  by (simp add: price_source_def)

lemma event_source_name [simp]: "ss_Name (event_source ev tm s) = ss_Name s"
  by (simp add: event_source_def Let_def split: option.splits)

lemma agg_inv_update_source:
  assumes "agg_inv a" "n \<noteq> []" "\<And>s. ss_Name (f s) = ss_Name s"
    "\<And>s. source_ok s \<Longrightarrow> source_ok (f s)"
  shows "agg_inv (a\<lparr>pa_sources := update_source n f (pa_sources a)\<rparr>)"
proof -
  have "source_ok (new_source n)" using assms(2) by (simp add: source_ok_def new_source_def)
  with assms show ?thesis
    by (auto simp: agg_inv_def update_source_names dest!: update_source_set)
qed

lemma agg_inv_recompute: "agg_inv a \<Longrightarrow> agg_inv (fst (recompute now a))"
  by (simp add: agg_inv_def)

lemma source_ok_price: "source_ok s \<Longrightarrow> source_ok (price_source u s)"
  by (simp add: source_ok_def price_source_def)

lemma source_ok_event: "source_ok s \<Longrightarrow> source_ok (event_source ev tm s)"
  by (simp add: source_ok_def event_source_def Let_def split: option.splits)

text \<open>The three shapes of the state after a step, shared by the invariant proofs.\<close>

lemma onPriceUpdate_cases:
  obtains "onPriceUpdate u a = a"
  | b where "pu_Source u \<noteq> []" "\<not> f_le (pu_Price u) (Fin 0)" "\<not> t_is_zero (pu_ReceivedAt u)"
      "b = fst (recompute (pu_ReceivedAt u)
         (a\<lparr>pa_sources := update_source (pu_Source u) (price_source u) (pa_sources a)\<rparr>))"
      "onPriceUpdate u a = b
       \<or> (length (pa_out b) < out_capacity
           \<and> onPriceUpdate u a =
              b\<lparr>pa_out := pa_out b @ [\<lparr>tk_Symbol = legacy_symbol (pa_sym b),
                tk_Price = ag_AggPrice (pa_agg b),
                tk_Timestamp = ag_AggUpdatedAt (pa_agg b)\<rparr>]\<rparr>)"
proof (cases "pu_Source u = [] \<or> f_le (pu_Price u) (Fin 0) \<or> t_is_zero (pu_ReceivedAt u)")
  case True
  then have "onPriceUpdate u a = a" by (simp add: onPriceUpdate_def)
  then show thesis by (rule that(1))
next
  case False
  obtain b upd where b: "recompute (pu_ReceivedAt u)
      (a\<lparr>pa_sources := update_source (pu_Source u) (price_source u) (pa_sources a)\<rparr>) = (b, upd)"
    by (metis surj_pair)
  show thesis
  proof (rule that(2) [of b])
    show "pu_Source u \<noteq> []" "\<not> f_le (pu_Price u) (Fin 0)" "\<not> t_is_zero (pu_ReceivedAt u)"
      using False by simp_all
    show "b = fst (recompute (pu_ReceivedAt u)
      (a\<lparr>pa_sources := update_source (pu_Source u) (price_source u) (pa_sources a)\<rparr>))"
      by (simp add: b)
    from False show "onPriceUpdate u a = b
       \<or> (length (pa_out b) < out_capacity
           \<and> onPriceUpdate u a =
              b\<lparr>pa_out := pa_out b @ [\<lparr>tk_Symbol = legacy_symbol (pa_sym b),
                tk_Price = ag_AggPrice (pa_agg b),
                tk_Timestamp = ag_AggUpdatedAt (pa_agg b)\<rparr>]\<rparr>)"
      by (simp add: onPriceUpdate_def b Let_def)
  qed
qed

lemma agg_inv_step: "agg_inv a \<Longrightarrow> agg_inv (agg_step i a)"
proof (cases i)
  case (InPrice u)
  assume a: "agg_inv a"
  show ?thesis
  proof (cases rule: onPriceUpdate_cases [of u a])
    case 1
    with a InPrice show ?thesis by simp
  next
    case (2 b)
    have "agg_inv b"
      unfolding 2(4) using a 2(1)
      by (intro agg_inv_recompute agg_inv_update_source) (simp_all add: source_ok_price)
    with 2(5) InPrice show ?thesis by (auto simp: agg_inv_def)
  qed
next
  case (InEvent now ev)
  assume "agg_inv a"
  with InEvent show ?thesis
    by (auto simp: onSourceEvent_def Let_def source_ok_event
        intro!: agg_inv_recompute agg_inv_update_source)
next
  case (InTick now)
  assume "agg_inv a"
  then have "agg_inv (fst (recompute now a))" by (rule agg_inv_recompute)
  with InTick show ?thesis by (simp add: onTimeTick_def maybeLog_def agg_inv_def)
next
  case InRecv
  assume "agg_inv a"
  with InRecv show ?thesis by (auto simp: agg_inv_def)
qed

lemma agg_inv_run: "agg_inv a \<Longrightarrow> agg_inv (agg_run is a)"
  unfolding agg_run_def by (induction "is" arbitrary: a) (simp_all add: agg_inv_step)

lemma agg_inv_new: "agg_inv (NewPriceAggregator cfg)"
  by (simp add: NewPriceAggregator_def agg_inv_def Let_def second_def out_capacity_def)

subsection \<open>What the aggregate means\<close>

lemma fresh_sources_set: "set (fresh_sources cfg now ss) = {s \<in> set ss. is_fresh cfg now s}"
  by (auto simp: fresh_sources_def)

lemma fresh_sources_distinct:
  "distinct (map ss_Name ss) \<Longrightarrow> distinct (map ss_Name (fresh_sources cfg now ss))"
proof -
  assume "distinct (map ss_Name ss)"
  then have "distinct (map ss_Name (filter (is_fresh cfg now) ss))"
    by (simp add: distinct_map_filter)
  moreover have "mset (map ss_Name (fresh_sources cfg now ss))
      = mset (map ss_Name (filter (is_fresh cfg now) ss))"
    by (simp add: fresh_sources_def)
  ultimately show ?thesis using mset_eq_imp_distinct_iff by blast
qed

text \<open>The order in which Go iterates over the map of sources has no influence.\<close>

lemma sorted_filter_perm:
  assumes "mset xs = mset ys" "distinct (map ss_Name xs)"
  shows "sort_key ss_Name (filter P xs) = sort_key ss_Name (filter P ys)"
proof (rule sort_key_inj_key_eq)
  show "mset (filter P xs) = mset (sort_key ss_Name (filter P ys))" using assms(1) by simp
  show "inj_on ss_Name (set (filter P xs))"
    using assms(2) by (auto simp: distinct_map inj_on_def)
qed simp

lemma names_where_perm: "mset xs = mset ys \<Longrightarrow> names_where P xs = names_where P ys"
proof -
  assume "mset xs = mset ys"
  then have "mset (filter P xs) = mset (filter P ys)" by simp
  then have "mset (map ss_Name (filter P xs)) = mset (map ss_Name (filter P ys))"
    by (metis mset_map)
  then show ?thesis unfolding names_where_def by (intro properties_for_sort) simp_all
qed

lemma recompute_perm:
  assumes "distinct (map ss_Name (pa_sources a))" "mset ss = mset (pa_sources a)"
  shows "recompute now (a\<lparr>pa_sources := ss\<rparr>) =
    (let (b, u) = recompute now a in (b\<lparr>pa_sources := ss\<rparr>, u))"
proof -
  have "fresh_sources cfg now ss = fresh_sources cfg now (pa_sources a)" for cfg
    unfolding fresh_sources_def
    using sorted_filter_perm [of "pa_sources a" ss "is_fresh cfg now"] assms by simp
  moreover have "names_where P ss = names_where P (pa_sources a)" for P
    using assms(2) by (rule names_where_perm)
  ultimately show ?thesis by (simp add: recompute_def Let_def)
qed

text \<open>Mode \<open>normal\<close> needs two different sources that are fresh and agree.\<close>

lemma recompute_normal:
  assumes "distinct (map ss_Name (pa_sources a))"
    "mr_Mode (pa_risk (fst (recompute now a))) = ''normal''"
  shows "\<exists>s1 s2. s1 \<in> set (pa_sources a) \<and> s2 \<in> set (pa_sources a) \<and> ss_Name s1 \<noteq> ss_Name s2
    \<and> is_fresh (pa_cfg a) now s1 \<and> is_fresh (pa_cfg a) now s2
    \<and> \<not> f_lt (ac_DivergencePct (pa_cfg a)) (divergence (ss_LastPrice s1) (ss_LastPrice s2))
    \<and> ag_AggPrice (pa_agg (fst (recompute now a))) = mid_price (ss_LastPrice s1) (ss_LastPrice s2)
    \<and> \<not> agg_stale (pa_cfg a) now (ag_AggUpdatedAt (pa_agg (fst (recompute now a))))"
proof -
  let ?fs = "fresh_sources (pa_cfg a) now (pa_sources a)"
  obtain s1 s2 rest where fs: "?fs = s1 # s2 # rest"
    using assms(2) by (auto simp: recompute_def Let_def combine_def split: list.splits if_splits)
  from fresh_sources_distinct [OF assms(1)] have "ss_Name s1 \<noteq> ss_Name s2"
    by (metis fs distinct_length_2_or_more list.simps(9))
  moreover have "s1 \<in> set ?fs" "s2 \<in> set ?fs" by (simp_all add: fs)
  moreover have "\<not> f_lt (ac_DivergencePct (pa_cfg a))
      (divergence (ss_LastPrice s1) (ss_LastPrice s2))"
    and "ag_AggPrice (pa_agg (fst (recompute now a)))
      = mid_price (ss_LastPrice s1) (ss_LastPrice s2)"
    and "\<not> agg_stale (pa_cfg a) now (ag_AggUpdatedAt (pa_agg (fst (recompute now a))))"
    using assms(2) by (auto simp: recompute_def Let_def combine_def fs split: if_splits)
  ultimately show ?thesis unfolding fresh_sources_set by blast
qed

text \<open>Without any update for longer than the freeze window the mode is \<open>frozen\<close>, and the gate
  reports it.\<close>

lemma recompute_modes:
  "mr_Mode (pa_risk (fst (recompute now a))) \<in> {''normal'', ''degraded'', ''frozen''}"
  by (auto simp: recompute_def Let_def combine_def split: list.splits)

lemma recompute_not_normal_if_stale:
  "agg_stale (pa_cfg a) now (ag_AggUpdatedAt (pa_agg (fst (recompute now a)))) \<Longrightarrow>
   mr_Mode (pa_risk (fst (recompute now a))) \<noteq> ''normal''"
  by (auto simp: recompute_def Let_def)

lemma recompute_frozen_iff:
  "agg_frozen (pa_cfg a) now (ag_AggUpdatedAt (pa_agg (fst (recompute now a)))) \<longleftrightarrow>
   mr_Mode (pa_risk (fst (recompute now a))) = ''frozen''"
  by (auto simp: recompute_def Let_def combine_def split: list.splits)

lemma recompute_no_fresh:
  assumes "\<And>s. s \<in> set (pa_sources a) \<Longrightarrow> \<not> is_fresh (pa_cfg a) now s"
  shows "ag_AggUpdatedAt (pa_agg (fst (recompute now a))) = ag_AggUpdatedAt (pa_agg a)"
    and "mr_Mode (pa_risk (fst (recompute now a))) \<noteq> ''normal''"
proof -
  have "fresh_sources (pa_cfg a) now (pa_sources a) = []"
    using assms fresh_sources_set [of "pa_cfg a" now "pa_sources a"]
    by (metis (mono_tags, lifting) mem_Collect_eq set_empty2 equals0I)
  then show "ag_AggUpdatedAt (pa_agg (fst (recompute now a))) = ag_AggUpdatedAt (pa_agg a)"
    and "mr_Mode (pa_risk (fst (recompute now a))) \<noteq> ''normal''"
    by (simp_all add: recompute_def Let_def combine_def)
qed

text \<open>Prices within the limits that the feeds enforce give an aggregate within them.\<close>

definition price_between :: "rat \<Rightarrow> rat \<Rightarrow> float64 \<Rightarrow> bool" where
  "price_between lo hi p \<longleftrightarrow> (\<exists>x. p = Fin x \<and> lo \<le> x \<and> x \<le> hi \<and> repr x)"

lemma mid_price_between:
  assumes "repr lo" "repr hi" "repr (2 * lo)" "repr (2 * hi)"
    "price_between lo hi p" "price_between lo hi q"
  shows "price_between lo hi (mid_price p q)"
  using assms mean_between [of lo hi] unfolding price_between_def mid_price_def by blast

definition prices_between :: "rat \<Rightarrow> rat \<Rightarrow> aggregator \<Rightarrow> bool" where
  "prices_between lo hi a \<longleftrightarrow>
     (\<forall>s \<in> set (pa_sources a). never_updated s \<or> price_between lo hi (ss_LastPrice s))
     \<and> (t_is_zero (ag_AggUpdatedAt (pa_agg a)) \<or> price_between lo hi (ag_AggPrice (pa_agg a)))"

lemma prices_between_recompute:
  assumes "repr lo" "repr hi" "repr (2 * lo)" "repr (2 * hi)" "prices_between lo hi a"
  shows "prices_between lo hi (fst (recompute now a))"
proof -
  have fr: "price_between lo hi (ss_LastPrice s)"
    if "s \<in> set (fresh_sources (pa_cfg a) now (pa_sources a))" for s
    using that assms(5) by (auto simp: prices_between_def fresh_sources_set is_fresh_def)
  have "price_between lo hi (ar_price r) \<or> t_is_zero (ar_at r)"
    if "r = combine (pa_cfg a) (pa_agg a) (fresh_sources (pa_cfg a) now (pa_sources a)) xs ys"
    for r xs ys
    using assms fr unfolding that
    by (cases "fresh_sources (pa_cfg a) now (pa_sources a)" rule: remdups_adj.cases)
      (auto simp: combine_def Let_def mid_price_between prices_between_def)
  then show ?thesis
    using assms(5) unfolding prices_between_def recompute_frame
    by (simp add: recompute_def Let_def) blast
qed

end
