(* ===== verification/Risk_Types.thy ===== *)
theory Risk_Types
  imports Price_Aggregator
begin

text \<open>
  The vocabulary of internal/riskcontrol: types.go (decisions, contexts, price points) and
  degrade.go (degradations of an intent).  A pointer that may be nil is an \<open>option\<close>.
\<close>

type_synonym risk_verdict = string

abbreviation VerdictApprove :: risk_verdict where "VerdictApprove \<equiv> ''APPROVE''"
abbreviation VerdictModify :: risk_verdict where "VerdictModify \<equiv> ''MODIFY''"
abbreviation VerdictReject :: risk_verdict where "VerdictReject \<equiv> ''REJECT''"

record intent_degradation =
  dg_SetUrgencyLower :: "int64 option"
  dg_SetDeadlineEarlier :: "gotime option"
  dg_MetadataOverride :: "(string \<times> string) list"
  dg_MetadataDelete :: "string list"

record risk_decision =
  rd_Verdict :: risk_verdict
  rd_RuleID :: string
  rd_Reason :: string
  rd_Degrade :: "intent_degradation option"

definition decision :: "risk_verdict \<Rightarrow> string \<Rightarrow> string \<Rightarrow> risk_decision" where
  "decision v rid reason =
     \<lparr>rd_Verdict = v, rd_RuleID = rid, rd_Reason = reason, rd_Degrade = None\<rparr>"

lemma decision_sel [simp]:
  "rd_Verdict (decision v r s) = v" "rd_RuleID (decision v r s) = r"
  "rd_Reason (decision v r s) = s" "rd_Degrade (decision v r s) = None"
  by (simp_all add: decision_def)

record price_point =
  pp_SourceName :: string
  pp_RawPrice :: float64
  pp_Price :: float64
  pp_NormalizedPrice :: float64
  pp_NormalizationOK :: bool
  pp_NormalizationDetail :: string
  pp_TsMS :: int64

record system_health =
  sh_HealthzOK :: bool
  sh_BacklogLen :: int64
  sh_TickIntervalMsP95 :: int64
  sh_RPCOK :: bool

record risk_context =
  rc_Now :: gotime
  rc_Control :: control_state
  rc_Market :: market_snapshot
  rc_PriceSources :: "string \<rightharpoonup> price_point"
  rc_LastDecisionAt :: gotime
  rc_System :: system_health
  rc_CandidateIsDryRun :: bool

subsection \<open>Degradations\<close>

definition urgencyOrMax :: "int64 option \<Rightarrow> int64" where
  "urgencyOrMax v = (case v of None \<Rightarrow> max_i64 | Some u \<Rightarrow> u)"

text \<open>\<open>time.Unix (1 << 62, 0)\<close>.\<close>

definition far_future :: gotime where
  "far_future = unix_epoch + 4611686018427387904 * second"

definition deadlineOrMax :: "gotime option \<Rightarrow> gotime" where
  "deadlineOrMax t =
     (case t of None \<Rightarrow> far_future | Some x \<Rightarrow> if t_is_zero x then far_future else x)"

text \<open>
  \<open>ApplyDegradation\<close> copies the intent but not its metadata map: the deletions and the
  overrides are made in the map of the caller's intent, unless that map is nil.  The second
  component is the caller's intent after the call.
\<close>

definition degrade_urgency :: "intent_degradation \<Rightarrow> int64 \<Rightarrow> int64" where
  "degrade_urgency d u =
     (case dg_SetUrgencyLower d of None \<Rightarrow> u
      | Some v \<Rightarrow> if u = 0 \<or> v < u then v else u)"

definition degrade_deadline :: "intent_degradation \<Rightarrow> gotime \<Rightarrow> gotime" where
  "degrade_deadline d t =
     (case dg_SetDeadlineEarlier d of None \<Rightarrow> t
      | Some v \<Rightarrow> if t_is_zero v then t else if t_is_zero t \<or> v < t then v else t)"

definition degrade_map ::
    "intent_degradation \<Rightarrow> (string \<rightharpoonup> string) \<Rightarrow> (string \<rightharpoonup> string)" where
  "degrade_map d m =
     fold (\<lambda>(k, v) f. f(k \<mapsto> v)) (dg_MetadataOverride d)
       (fold (\<lambda>k f. f(k := None)) (dg_MetadataDelete d) m)"

definition ApplyDegradation :: "intent \<Rightarrow> intent_degradation \<Rightarrow> intent \<times> intent" where
  "ApplyDegradation i d =
     (let md = (case int_Metadata i of
                  None \<Rightarrow> if dg_MetadataOverride d = [] then None
                          else Some (degrade_map d Map.empty)
                | Some m \<Rightarrow> Some (degrade_map d m))
      in (i\<lparr>int_Urgency := degrade_urgency d (int_Urgency i),
            int_Deadline := degrade_deadline d (int_Deadline i), int_Metadata := md\<rparr>,
          if int_Metadata i = None then i else i\<lparr>int_Metadata := md\<rparr>))"

text \<open>A degradation never makes an intent with an urgency more urgent, and never makes it live
  longer.\<close>

lemma degrade_urgency_le: "u \<noteq> 0 \<Longrightarrow> degrade_urgency d u \<le> u"
  by (simp add: degrade_urgency_def split: option.splits)

lemma degrade_deadline_le: "\<not> t_is_zero t \<Longrightarrow> degrade_deadline d t \<le> t"
  by (simp add: degrade_deadline_def split: option.splits)

lemma degrade_deadline_set:
  "t_is_zero (degrade_deadline d t) \<Longrightarrow> t_is_zero t"
  by (auto simp: degrade_deadline_def split: option.splits if_splits)

lemma override_lookup:
  "distinct (map fst kvs) \<Longrightarrow>
   fold (\<lambda>(k, v) f. f(k \<mapsto> v)) kvs m k =
     (case map_of kvs k of Some v \<Rightarrow> Some v | None \<Rightarrow> m k)"
proof (induction kvs arbitrary: m)
  case (Cons kv kvs)
  obtain a b where kv: "kv = (a, b)" by (cases kv)
  have "map_of kvs a = None" if "a = k"
    using Cons.prems kv that by (simp add: map_of_eq_None_iff)
  then show ?case using Cons kv by (auto split: option.splits)
qed simp

lemma delete_lookup:
  "fold (\<lambda>k f. f(k := None)) ks m k = (if k \<in> set ks then None else m k)"
  by (induction ks arbitrary: m) auto

lemma degrade_map_lookup:
  "distinct (map fst (dg_MetadataOverride d)) \<Longrightarrow>
   degrade_map d m k =
     (case map_of (dg_MetadataOverride d) k of Some v \<Rightarrow> Some v
      | None \<Rightarrow> if k \<in> set (dg_MetadataDelete d) then None else m k)"
  by (simp add: degrade_map_def override_lookup delete_lookup split: option.splits)

end
