(* ===== verification/Risk_Evaluator.thy ===== *)
theory Risk_Evaluator
  imports Risk_Types
begin

text \<open>
  internal/riskcontrol/evaluator.go.  A rule is a value of the interface \<open>RiskRule\<close>: its name
  and its method \<open>Evaluate\<close>, which may change the state \<open>'w\<close> that the rules share (the store of
  the cooldown rule).  \<open>evaluate\<close> runs the rules in order until one rejects.
\<close>

record 'w rule =
  rl_RuleID :: string
  rl_Evaluate :: "'w \<Rightarrow> intent \<Rightarrow> risk_context \<Rightarrow> 'w \<times> risk_decision"

record evaluation =
  ev_FinalVerdict :: risk_verdict
  ev_FinalReason :: string
  ev_FinalRuleID :: string
  ev_FinalIntent :: intent
  ev_Decisions :: "risk_decision list"

definition NewEvaluator :: "'w rule option list \<Rightarrow> 'w rule list" where
  "NewEvaluator rules = List.map_filter (\<lambda>r. r) rules"

text \<open>The defaults for a missing name, reason or verdict.\<close>

definition settle :: "'w rule \<Rightarrow> risk_decision \<Rightarrow> risk_decision" where
  "settle r d =
     (let rid = trim_space (rd_RuleID d);
          rid = (if rid = [] then trim_space (rl_RuleID r) else rid)
      in d\<lparr>rd_RuleID := rid,
           rd_Reason := (if rd_Reason d = [] then ''unspecified'' else rd_Reason d),
           rd_Verdict := (if rd_Verdict d = [] then VerdictApprove else rd_Verdict d)\<rparr>)"

definition mostConservativeModify :: "risk_decision \<Rightarrow> risk_decision \<Rightarrow> risk_decision" where
  "mostConservativeModify a b =
     (case (rd_Degrade a, rd_Degrade b) of
        (None, Some _) \<Rightarrow> b
      | (Some _, None) \<Rightarrow> a
      | (None, None) \<Rightarrow> if rd_RuleID a \<le> rd_RuleID b then a else b
      | (Some da, Some db) \<Rightarrow>
          let ua = urgencyOrMax (dg_SetUrgencyLower da);
              ub = urgencyOrMax (dg_SetUrgencyLower db);
              ta = deadlineOrMax (dg_SetDeadlineEarlier da);
              tb = deadlineOrMax (dg_SetDeadlineEarlier db)
          in if ua \<noteq> ub then (if ua < ub then a else b)
             else if ta \<noteq> tb then (if ta < tb then a else b)
             else if rd_RuleID a \<le> rd_RuleID b then a else b)"

definition is_veto :: "risk_decision \<Rightarrow> bool" where
  "is_veto d \<longleftrightarrow> rd_Verdict d \<notin> {VerdictApprove, VerdictModify}"

definition finish :: "intent \<Rightarrow> risk_decision list \<Rightarrow> risk_decision option \<Rightarrow> evaluation" where
  "finish i ds best =
     (case best of
        Some m \<Rightarrow> \<lparr>ev_FinalVerdict = VerdictModify, ev_FinalReason = rd_Reason m,
                   ev_FinalRuleID = rd_RuleID m, ev_FinalIntent = i, ev_Decisions = ds\<rparr>
      | None \<Rightarrow> \<lparr>ev_FinalVerdict = VerdictApprove, ev_FinalReason = ''all_rules_approved'',
                 ev_FinalRuleID = ''risk_control'', ev_FinalIntent = i, ev_Decisions = ds\<rparr>)"

definition veto :: "intent \<Rightarrow> risk_decision list \<Rightarrow> risk_decision \<Rightarrow> evaluation" where
  "veto i ds d =
     \<lparr>ev_FinalVerdict = VerdictReject,
      ev_FinalReason = (if rd_Verdict d = VerdictReject then rd_Reason d
                        else ''invalid_verdict='' @ rd_Verdict d),
      ev_FinalRuleID = rd_RuleID d, ev_FinalIntent = i, ev_Decisions = ds\<rparr>"

definition better :: "risk_decision option \<Rightarrow> risk_decision \<Rightarrow> risk_decision option" where
  "better best d =
     (if rd_Verdict d = VerdictModify
      then Some (case best of None \<Rightarrow> d | Some b \<Rightarrow> mostConservativeModify b d) else best)"

fun eval_rules ::
    "'w rule list \<Rightarrow> intent \<Rightarrow> risk_context \<Rightarrow> 'w \<Rightarrow> risk_decision list \<Rightarrow> risk_decision option
      \<Rightarrow> 'w \<times> evaluation" where
  "eval_rules [] i ctx w ds best = (w, finish i ds best)"
| "eval_rules (r # rs) i ctx w ds best =
     (let (w, d) = rl_Evaluate r w i ctx;
          d = settle r d;
          ds = ds @ [d]
      in if is_veto d then (w, veto i ds d)
         else eval_rules rs i ctx w ds (better best d))"

definition evaluate ::
    "'w rule list \<Rightarrow> 'w \<Rightarrow> intent \<Rightarrow> risk_context \<Rightarrow> 'w \<times> evaluation" where
  "evaluate rules w i ctx = eval_rules rules i ctx w [] None"

subsection \<open>What the evaluator promises\<close>

text \<open>The decisions that the rules would give one after another, without the early return.\<close>

fun all_decisions :: "'w rule list \<Rightarrow> intent \<Rightarrow> risk_context \<Rightarrow> 'w \<Rightarrow> risk_decision list" where
  "all_decisions [] i ctx w = []"
| "all_decisions (r # rs) i ctx w =
     (let (w, d) = rl_Evaluate r w i ctx in settle r d # all_decisions rs i ctx w)"

text \<open>The specification: up to and including the first veto.\<close>

fun until_veto :: "risk_decision list \<Rightarrow> risk_decision list" where
  "until_veto [] = []"
| "until_veto (d # ds) = (if is_veto d then [d] else d # until_veto ds)"

lemma until_veto_prefix: "\<exists>k. until_veto ds = take k ds"
proof (induction ds)
  case (Cons d ds)
  then obtain k where "until_veto ds = take k ds" by blast
  then have "until_veto (d # ds) = take (if is_veto d then 1 else Suc k) (d # ds)" by simp
  then show ?case by blast
qed simp

lemma until_veto_nonvetoes: "d \<in> set (butlast (until_veto ds)) \<Longrightarrow> \<not> is_veto d"
  by (induction ds rule: until_veto.induct) (auto split: if_splits)

lemma eval_rules_decisions:
  "ev_Decisions (snd (eval_rules rs i ctx w ds best)) = ds @ until_veto (all_decisions rs i ctx w)"
  by (induction rs arbitrary: w ds best)
    (simp_all add: finish_def veto_def Let_def split: option.splits prod.splits)

lemma eval_rules_intent: "ev_FinalIntent (snd (eval_rules rs i ctx w ds best)) = i"
  by (induction rs arbitrary: w ds best)
    (simp_all add: finish_def veto_def Let_def split: option.splits prod.splits)

lemma eval_rules_reject:
  "ev_FinalVerdict (snd (eval_rules rs i ctx w ds best)) = VerdictReject \<longleftrightarrow>
   (\<exists>d \<in> set (all_decisions rs i ctx w). is_veto d)"
  by (induction rs arbitrary: w ds best)
    (auto simp: finish_def veto_def Let_def split: option.splits prod.splits)

text \<open>The accumulated best modification is the fold of \<open>better\<close>.\<close>

lemma eval_rules_final:
  "\<forall>d \<in> set (all_decisions rs i ctx w). \<not> is_veto d \<Longrightarrow>
   snd (eval_rules rs i ctx w ds best) =
     finish i (ds @ all_decisions rs i ctx w) (fold (\<lambda>d b. better b d) (all_decisions rs i ctx w) best)"
  by (induction rs arbitrary: w ds best) (auto simp: Let_def split: prod.splits)

lemma eval_rules_verdicts:
  "ev_FinalVerdict (snd (eval_rules rs i ctx w ds best))
     \<in> {VerdictApprove, VerdictModify, VerdictReject}"
  by (induction rs arbitrary: w ds best)
    (auto simp: finish_def veto_def Let_def split: option.splits prod.splits)

lemma settle_nonempty: "rd_Reason (settle r d) \<noteq> []" "rd_Verdict (settle r d) \<noteq> []"
  by (simp_all add: settle_def Let_def)

subsection \<open>The choice among modifications\<close>

text \<open>The preference as a key: no degradation last, then urgency, deadline and name.\<close>

definition modify_key :: "risk_decision \<Rightarrow> bool \<times> int \<times> int \<times> string" where
  "modify_key d =
     (case rd_Degrade d of
        None \<Rightarrow> (True, 0, 0, rd_RuleID d)
      | Some g \<Rightarrow> (False, urgencyOrMax (dg_SetUrgencyLower g),
                   deadlineOrMax (dg_SetDeadlineEarlier g), rd_RuleID d))"

definition key_le :: "bool \<times> int \<times> int \<times> string \<Rightarrow> bool \<times> int \<times> int \<times> string \<Rightarrow> bool" where
  "key_le a b \<longleftrightarrow>
     (let (x, u, t, n) = a; (x', u', t', n') = b
      in x < x' \<or> x = x' \<and> (u < u' \<or> u = u' \<and> (t < t' \<or> t = t' \<and> n \<le> n')))"

lemma key_le_refl: "key_le a a"
  by (simp add: key_le_def split: prod.splits)

lemma key_le_trans: "key_le a b \<Longrightarrow> key_le b c \<Longrightarrow> key_le a c"
  by (cases a; cases b; cases c) (auto simp: key_le_def)

lemma key_le_linear: "key_le a b \<or> key_le b a"
  by (cases a; cases b) (auto simp: key_le_def)

lemma mostConservative_key:
  "mostConservativeModify a b = (if key_le (modify_key a) (modify_key b) then a else b)"
  by (auto simp: mostConservativeModify_def modify_key_def key_le_def Let_def split: option.splits)

lemma mostConservative_le:
  "key_le (modify_key (mostConservativeModify a b)) (modify_key a)"
  "key_le (modify_key (mostConservativeModify a b)) (modify_key b)"
  using key_le_linear [of "modify_key a" "modify_key b"]
  by (auto simp: mostConservative_key key_le_refl)

text \<open>The modification kept after any number of decisions is the least of all of them.\<close>

lemma fold_better_least:
  assumes "fold (\<lambda>d b. better b d) ds best = Some m"
  shows "(m \<in> set ds \<and> rd_Verdict m = VerdictModify \<or> best = Some m)
    \<and> (\<forall>d \<in> set ds. rd_Verdict d = VerdictModify \<longrightarrow> key_le (modify_key m) (modify_key d))
    \<and> (\<forall>b. best = Some b \<longrightarrow> key_le (modify_key m) (modify_key b))"
  using assms
proof (induction ds arbitrary: best)
  case Nil
  then show ?case by (simp add: key_le_refl)
next
  case (Cons d ds)
  from Cons.prems have "fold (\<lambda>d b. better b d) ds (better best d) = Some m" by simp
  note ih = Cons.IH [OF this]
  show ?case
  proof (cases "rd_Verdict d = VerdictModify")
    case False
    then show ?thesis using ih by (auto simp: better_def)
  next
    case True
    show ?thesis
    proof (cases best)
      case None
      then show ?thesis using ih True by (auto simp: better_def)
    next
      case (Some b)
      then have le: "key_le (modify_key m) (modify_key (mostConservativeModify b d))"
        and mem: "m \<in> set ds \<and> rd_Verdict m = VerdictModify \<or> m = mostConservativeModify b d"
        using ih True by (auto simp: better_def)
      have "key_le (modify_key m) (modify_key b)" "key_le (modify_key m) (modify_key d)"
        using le mostConservative_le key_le_trans by blast+
      moreover have "mostConservativeModify b d \<in> {b, d}" by (simp add: mostConservative_key)
      ultimately show ?thesis using ih mem True Some by auto
    qed
  qed
qed

lemma fold_better_None:
  "fold (\<lambda>d b. better b d) ds best = None \<longleftrightarrow>
   best = None \<and> (\<forall>d \<in> set ds. rd_Verdict d \<noteq> VerdictModify)"
  by (induction ds arbitrary: best) (auto simp: better_def)

subsection \<open>The contract of a rule\<close>

text \<open>
  What the evaluator and the executor rely on: a rule names itself in its decisions, gives a
  reason, and answers with one of two verdicts, which the condition \<open>blocks\<close> decides.
\<close>

locale risk_rule =
  fixes rid :: string
    and eval :: "'w \<Rightarrow> intent \<Rightarrow> risk_context \<Rightarrow> 'w \<times> risk_decision"
  assumes rid_trimmed: "trim_space rid = rid" "rid \<noteq> []"
    and eval_rid: "rd_RuleID (snd (eval w i ctx)) = rid"
    and eval_reason: "rd_Reason (snd (eval w i ctx)) \<noteq> []"
begin

lemma settle_id:
  "rd_Verdict (snd (eval w i ctx)) \<noteq> [] \<Longrightarrow>
   settle \<lparr>rl_RuleID = n, rl_Evaluate = eval\<rparr> (snd (eval w i ctx)) = snd (eval w i ctx)"
  by (simp add: settle_def eval_rid eval_reason rid_trimmed)

end

locale veto_rule = risk_rule +
  fixes blocks :: "'a \<Rightarrow> intent \<Rightarrow> risk_context \<Rightarrow> bool"
  assumes eval_verdict:
    "rd_Verdict (snd (eval w i ctx)) = (if blocks w i ctx then VerdictReject else VerdictApprove)"
begin

abbreviation as_rule :: "'a rule" where
  "as_rule \<equiv> \<lparr>rl_RuleID = rid, rl_Evaluate = eval\<rparr>"

lemma settle_eval: "settle as_rule (snd (eval w i ctx)) = snd (eval w i ctx)"
  by (rule settle_id) (simp add: eval_verdict)

lemma is_veto_eval: "is_veto (snd (eval w i ctx)) \<longleftrightarrow> blocks w i ctx"
  by (simp add: is_veto_def eval_verdict)

lemma eval_first:
  "eval_rules (as_rule # rs) i ctx w ds best =
   (if blocks w i ctx
    then (fst (eval w i ctx), veto i (ds @ [snd (eval w i ctx)]) (snd (eval w i ctx)))
    else eval_rules rs i ctx (fst (eval w i ctx)) (ds @ [snd (eval w i ctx)]) best)"
  using settle_eval [of w i ctx]
  by (simp add: split_beta Let_def is_veto_eval better_def eval_verdict)

lemma veto_eval:
  "blocks w i ctx \<Longrightarrow>
   veto i ds (snd (eval w i ctx)) =
     \<lparr>ev_FinalVerdict = VerdictReject, ev_FinalReason = rd_Reason (snd (eval w i ctx)),
      ev_FinalRuleID = rid, ev_FinalIntent = i, ev_Decisions = ds\<rparr>"
  by (simp add: veto_def eval_verdict eval_rid)

end

end
