(* ===== verification/Risk_Rules.thy ===== *)
theory Risk_Rules
  imports Risk_Evaluator
begin

text \<open>
  The rules of internal/riskcontrol that keep no state: rule_risk_mode_halt.go,
  rule_force_dry_run.go and rule_price_source_divergence.go.  Each is an interpretation of the
  contract \<open>veto_rule\<close>.
\<close>

subsection \<open>HALT\<close>

definition RiskModeHALTRuleID :: string where "RiskModeHALTRuleID = ''risk_mode_halt''"

definition halted :: "risk_context \<Rightarrow> bool" where
  "halted ctx \<longleftrightarrow> trim_space (cs_RiskMode (rc_Control ctx)) = ''HALT''"

definition halt_eval :: "intent \<Rightarrow> risk_context \<Rightarrow> risk_decision" where
  "halt_eval i ctx =
     (if trim_space (cs_RiskMode (rc_Control ctx)) = ''HALT''
      then decision VerdictReject RiskModeHALTRuleID
        (let why = trim_space (cs_Reason (rc_Control ctx))
         in if why \<noteq> [] then ''control.json risk_mode=HALT'' @ '' reason='' @ why
            else ''control.json risk_mode=HALT'')
      else decision VerdictApprove RiskModeHALTRuleID ''risk_mode is not HALT'')"

subsection \<open>Dry run\<close>

definition ForceDryRunRuleID :: string where "ForceDryRunRuleID = ''force_dry_run''"

definition dryrun_eval :: "intent \<Rightarrow> risk_context \<Rightarrow> risk_decision" where
  "dryrun_eval i ctx =
     (if cs_ForceDryRun (rc_Control ctx) \<and> \<not> rc_CandidateIsDryRun ctx
      then decision VerdictReject ForceDryRunRuleID
        ''control.json force_dry_run=true but candidate would broadcast''
      else if \<not> rc_CandidateIsDryRun ctx
      then decision VerdictReject ForceDryRunRuleID
        ''phase5 design-only: live broadcast is not allowed (force_dry_run required)''
      else decision VerdictApprove ForceDryRunRuleID ''dry-run enforced'')"

subsection \<open>Divergence of the price sources\<close>

definition PriceSourceDivergenceRuleID :: string where
  "PriceSourceDivergenceRuleID = ''price_source_divergence''"

record divergence_config =
  dc_Enabled :: bool
  dc_MaxDeviationBps :: int64
  dc_MaxStaleness :: duration
  dc_AlignMaxGap :: duration
  dc_SourceA :: string
  dc_SourceB :: string

record divergence_rule =
  dr_cfg :: divergence_config
  dr_thresholdBpsEffective :: int64
  dr_overrideUsed :: bool

text \<open>\<open>override_env\<close> is the environment variable \<open>RISK_PRICE_DIVERGENCE_MAX_BPS_OVERRIDE\<close>.\<close>

definition NewPriceSourceDivergenceRule ::
    "string \<Rightarrow> divergence_config \<Rightarrow> divergence_rule" where
  "NewPriceSourceDivergenceRule override_env cfg =
     (let cfg = cfg\<lparr>dc_MaxDeviationBps :=
            (if dc_MaxDeviationBps cfg \<le> 0 then 100 else dc_MaxDeviationBps cfg)\<rparr>;
          cfg = cfg\<lparr>dc_MaxStaleness :=
            (if dc_MaxStaleness cfg \<le> 0 then 30 * second else dc_MaxStaleness cfg)\<rparr>;
          cfg = cfg\<lparr>dc_AlignMaxGap :=
            (if dc_AlignMaxGap cfg \<le> 0 then 5 * second else dc_AlignMaxGap cfg)\<rparr>;
          cfg = cfg\<lparr>dc_SourceA :=
            (if trim_space (dc_SourceA cfg) = [] then ''onchain'' else dc_SourceA cfg)\<rparr>;
          cfg = cfg\<lparr>dc_SourceB :=
            (if trim_space (dc_SourceB cfg) = [] then ''exchange'' else dc_SourceB cfg)\<rparr>
      in case (if trim_space override_env = [] then None
               else parse_int (trim_space override_env)) of
           Some v \<Rightarrow>
             if 0 < v
             then \<lparr>dr_cfg = cfg, dr_thresholdBpsEffective = v, dr_overrideUsed = True\<rparr>
             else \<lparr>dr_cfg = cfg, dr_thresholdBpsEffective = dc_MaxDeviationBps cfg,
                   dr_overrideUsed = False\<rparr>
         | None \<Rightarrow> \<lparr>dr_cfg = cfg, dr_thresholdBpsEffective = dc_MaxDeviationBps cfg,
                    dr_overrideUsed = False\<rparr>)"

definition deviation_eps :: float64 where "deviation_eps = f_lit (1 / 1000000000)"

definition deviationBps :: "float64 \<Rightarrow> float64 \<Rightarrow> int64" where
  "deviationBps p1 p2 =
     (if f_le p1 (Fin 0) \<or> f_le p2 (Fin 0) then max_i64
      else
        let num = f_abs (f_sub p1 p2);
            den = f_max (f_min p1 p2) deviation_eps;
            dev = f_div num den
        in f_to_i64 (f_round (f_mul dev (Fin 10000))))"

text \<open>A source is missing when the map does not have it or its time stamp is not set; the price
  compared is the normalized one, or the legacy field.\<close>

definition source_missing :: "price_point option \<Rightarrow> bool" where
  "source_missing p \<longleftrightarrow> (case p of None \<Rightarrow> True | Some q \<Rightarrow> pp_TsMS q \<le> 0)"

definition norm_price :: "price_point \<Rightarrow> float64" where
  "norm_price p =
     (if f_le (pp_NormalizedPrice p) (Fin 0) then pp_Price p else pp_NormalizedPrice p)"

definition not_comparable :: "price_point \<Rightarrow> bool" where
  "not_comparable p \<longleftrightarrow> \<not> pp_NormalizationOK p \<or> f_le (norm_price p) (Fin 0)"

definition age_ms :: "risk_context \<Rightarrow> price_point \<Rightarrow> int64" where
  "age_ms ctx p = sub64 (unix_ms (rc_Now ctx)) (pp_TsMS p)"

definition ts_gap_ms :: "price_point \<Rightarrow> price_point \<Rightarrow> int64" where
  "ts_gap_ms a b =
     (if pp_TsMS b \<le> pp_TsMS a then sub64 (pp_TsMS a) (pp_TsMS b)
      else sub64 (pp_TsMS b) (pp_TsMS a))"

definition max_stale_ms :: "divergence_config \<Rightarrow> int64" where
  "max_stale_ms cfg = tquot (dc_MaxStaleness cfg) millisecond"

definition align_gap_ms :: "divergence_config \<Rightarrow> int64" where
  "align_gap_ms cfg = tquot (dc_AlignMaxGap cfg) millisecond"

text \<open>The texts of the decisions.\<close>

definition reason_norm :: "string \<Rightarrow> price_point \<Rightarrow> string \<Rightarrow> price_point \<Rightarrow> string" where
  "reason_norm ka a kb b =
     ''skip missing_decimals_for_normalization source_a='' @ ka
     @ '' ok_a='' @ bool_str (pp_NormalizationOK a)
     @ '' detail_a='' @ quote (trim_space (pp_NormalizationDetail a))
     @ '' source_b='' @ kb @ '' ok_b='' @ bool_str (pp_NormalizationOK b)
     @ '' detail_b='' @ quote (trim_space (pp_NormalizationDetail b))"

definition reason_stale ::
    "divergence_config \<Rightarrow> risk_context \<Rightarrow> string \<Rightarrow> price_point \<Rightarrow> string \<Rightarrow> price_point \<Rightarrow> string" where
  "reason_stale cfg ctx ka a kb b =
     ''skip stale_source source_a='' @ ka @ '' age_ms='' @ itoa (age_ms ctx a)
     @ '' source_b='' @ kb @ '' age_ms='' @ itoa (age_ms ctx b)
     @ '' max_staleness_sec='' @ itoa (tquot (dc_MaxStaleness cfg) second)"

definition reason_gap ::
    "divergence_config \<Rightarrow> risk_context \<Rightarrow> string \<Rightarrow> price_point \<Rightarrow> string \<Rightarrow> price_point \<Rightarrow> string" where
  "reason_gap cfg ctx ka a kb b =
     ''skip time_mismatch source_a='' @ ka @ '' ts_a='' @ itoa (pp_TsMS a)
     @ '' age_ms='' @ itoa (age_ms ctx a) @ '' source_b='' @ kb
     @ '' ts_b='' @ itoa (pp_TsMS b) @ '' age_ms='' @ itoa (age_ms ctx b)
     @ '' ts_gap_ms='' @ itoa (ts_gap_ms a b)
     @ '' align_max_gap_ms='' @ itoa (align_gap_ms cfg)"

definition reason_reject ::
    "divergence_rule \<Rightarrow> string \<Rightarrow> price_point \<Rightarrow> string \<Rightarrow> price_point \<Rightarrow> string" where
  "reason_reject r ka a kb b =
     ''price divergence too high normalized_ok=true source_a='' @ ka
     @ '' raw_price_a='' @ fmt_fixed 10 (pp_RawPrice a)
     @ '' normalized_price_a='' @ fmt_fixed 10 (norm_price a)
     @ '' ts_a='' @ itoa (pp_TsMS a)
     @ '' normalized_a_detail='' @ quote (trim_space (pp_NormalizationDetail a))
     @ '' source_b='' @ kb
     @ '' raw_price_b='' @ fmt_fixed 10 (pp_RawPrice b)
     @ '' normalized_price_b='' @ fmt_fixed 10 (norm_price b)
     @ '' ts_b='' @ itoa (pp_TsMS b)
     @ '' normalized_b_detail='' @ quote (trim_space (pp_NormalizationDetail b))
     @ '' deviation_bps='' @ itoa (deviationBps (norm_price a) (norm_price b))
     @ '' threshold_bps='' @ itoa (dr_thresholdBpsEffective r)
     @ '' override_used='' @ bool_str (dr_overrideUsed r)"

definition reason_ok :: "divergence_rule \<Rightarrow> string \<Rightarrow> string \<Rightarrow> int64 \<Rightarrow> string" where
  "reason_ok r ka kb dev =
     ''ok normalized_ok=true source_a='' @ ka @ '' source_b='' @ kb
     @ '' deviation_bps='' @ itoa dev
     @ '' threshold_bps='' @ itoa (dr_thresholdBpsEffective r)
     @ '' override_used='' @ bool_str (dr_overrideUsed r)"

text \<open>\<open>Evaluate\<close> once both sources are there.\<close>

definition divergence_compare ::
    "divergence_rule \<Rightarrow> risk_context \<Rightarrow> string \<Rightarrow> price_point \<Rightarrow> string \<Rightarrow> price_point
      \<Rightarrow> risk_decision" where
  "divergence_compare r ctx ka a kb b =
     (let cfg = dr_cfg r;
          dev = deviationBps (norm_price a) (norm_price b)
      in if not_comparable a \<or> not_comparable b
         then decision VerdictApprove PriceSourceDivergenceRuleID (reason_norm ka a kb b)
         else if 0 < max_stale_ms cfg
                 \<and> (max_stale_ms cfg < age_ms ctx a \<or> max_stale_ms cfg < age_ms ctx b)
         then decision VerdictApprove PriceSourceDivergenceRuleID
                (reason_stale cfg ctx ka a kb b)
         else if 0 < align_gap_ms cfg \<and> align_gap_ms cfg < ts_gap_ms a b
         then decision VerdictApprove PriceSourceDivergenceRuleID (reason_gap cfg ctx ka a kb b)
         else if dr_thresholdBpsEffective r < dev
         then decision VerdictReject PriceSourceDivergenceRuleID (reason_reject r ka a kb b)
         else decision VerdictApprove PriceSourceDivergenceRuleID (reason_ok r ka kb dev))"

definition divergence_eval ::
    "divergence_rule \<Rightarrow> intent \<Rightarrow> risk_context \<Rightarrow> risk_decision" where
  "divergence_eval r i ctx =
     (let cfg = dr_cfg r;
          ka = trim_space (dc_SourceA cfg);
          kb = trim_space (dc_SourceB cfg);
          pa = rc_PriceSources ctx ka;
          pb = rc_PriceSources ctx kb;
          missing = decision VerdictApprove PriceSourceDivergenceRuleID
            (''skip missing_source=''
             @ join '','' ((if source_missing pa then [ka] else [])
                         @ (if source_missing pb then [kb] else [])))
      in if \<not> dc_Enabled cfg
         then decision VerdictApprove PriceSourceDivergenceRuleID ''rule disabled''
         else case (pa, pb) of
           (Some a, Some b) \<Rightarrow>
             if pp_TsMS a \<le> 0 \<or> pp_TsMS b \<le> 0 then missing
             else divergence_compare r ctx ka a kb b
         | _ \<Rightarrow> missing)"

text \<open>Two price points that the rule is willing to compare.\<close>

definition comparable :: "divergence_config \<Rightarrow> risk_context \<Rightarrow> price_point \<Rightarrow> price_point \<Rightarrow> bool" where
  "comparable cfg ctx a b \<longleftrightarrow>
     0 < pp_TsMS a \<and> 0 < pp_TsMS b \<and> \<not> not_comparable a \<and> \<not> not_comparable b
     \<and> (0 < max_stale_ms cfg \<longrightarrow>
          age_ms ctx a \<le> max_stale_ms cfg \<and> age_ms ctx b \<le> max_stale_ms cfg)
     \<and> (0 < align_gap_ms cfg \<longrightarrow> ts_gap_ms a b \<le> align_gap_ms cfg)"

definition diverges :: "divergence_rule \<Rightarrow> risk_context \<Rightarrow> bool" where
  "diverges r ctx \<longleftrightarrow>
     (let cfg = dr_cfg r in
      dc_Enabled cfg
      \<and> (case (rc_PriceSources ctx (trim_space (dc_SourceA cfg)),
               rc_PriceSources ctx (trim_space (dc_SourceB cfg))) of
           (Some a, Some b) \<Rightarrow>
             comparable cfg ctx a b
             \<and> dr_thresholdBpsEffective r < deviationBps (norm_price a) (norm_price b)
         | _ \<Rightarrow> False))"

lemmas divergence_reasons =
  reason_norm_def reason_stale_def reason_gap_def reason_reject_def reason_ok_def

lemma divergence_eval_verdict:
  "rd_Verdict (divergence_eval r i ctx) = (if diverges r ctx then VerdictReject else VerdictApprove)"
  by (auto simp: divergence_eval_def divergence_compare_def diverges_def comparable_def Let_def
      source_missing_def split: option.splits)

lemma divergence_eval_rid: "rd_RuleID (divergence_eval r i ctx) = PriceSourceDivergenceRuleID"
  by (simp add: divergence_eval_def divergence_compare_def Let_def split: option.splits)

lemma divergence_eval_reason: "rd_Reason (divergence_eval r i ctx) \<noteq> []"
  by (simp add: divergence_eval_def divergence_compare_def divergence_reasons Let_def
      split: option.splits)

subsection \<open>The rules keep their contract\<close>

definition stateless ::
    "(intent \<Rightarrow> risk_context \<Rightarrow> risk_decision) \<Rightarrow> 'w \<Rightarrow> intent \<Rightarrow> risk_context
      \<Rightarrow> 'w \<times> risk_decision" where
  "stateless f w i ctx = (w, f i ctx)"

lemma stateless_sel [simp]: "fst (stateless f w i ctx) = w" "snd (stateless f w i ctx) = f i ctx"
  by (simp_all add: stateless_def)

lemma rule_ids_trimmed:
  "trim_space RiskModeHALTRuleID = RiskModeHALTRuleID"
  "trim_space ForceDryRunRuleID = ForceDryRunRuleID"
  "trim_space PriceSourceDivergenceRuleID = PriceSourceDivergenceRuleID"
  unfolding RiskModeHALTRuleID_def ForceDryRunRuleID_def PriceSourceDivergenceRuleID_def
  by (rule trim_space_id; simp add: graphic_def)+

lemma rule_ids_nonempty:
  "RiskModeHALTRuleID \<noteq> []" "ForceDryRunRuleID \<noteq> []" "PriceSourceDivergenceRuleID \<noteq> []"
  by (simp_all add: RiskModeHALTRuleID_def ForceDryRunRuleID_def PriceSourceDivergenceRuleID_def)

lemma rule_ids_distinct [simp]:
  "RiskModeHALTRuleID \<noteq> ForceDryRunRuleID"
  "RiskModeHALTRuleID \<noteq> PriceSourceDivergenceRuleID"
  "ForceDryRunRuleID \<noteq> PriceSourceDivergenceRuleID"
  by (simp_all add: RiskModeHALTRuleID_def ForceDryRunRuleID_def PriceSourceDivergenceRuleID_def)

interpretation halt: veto_rule RiskModeHALTRuleID "stateless halt_eval" "\<lambda>_ _ ctx. halted ctx"
  by unfold_locales
    (auto simp: rule_ids_trimmed rule_ids_nonempty halt_eval_def halted_def Let_def)

interpretation dryrun: veto_rule ForceDryRunRuleID "stateless dryrun_eval"
    "\<lambda>_ _ ctx. \<not> rc_CandidateIsDryRun ctx"
  by unfold_locales (auto simp: rule_ids_trimmed rule_ids_nonempty dryrun_eval_def)

interpretation diverg: veto_rule PriceSourceDivergenceRuleID "stateless (divergence_eval r)"
    "\<lambda>_ _ ctx. diverges r ctx" for r
  by unfold_locales
    (auto simp: rule_ids_trimmed rule_ids_nonempty divergence_eval_verdict divergence_eval_rid
      divergence_eval_reason)

subsection \<open>How accurate the comparison is\<close>

text \<open>The exact relative deviation, in basis points.\<close>

definition exact_bps :: "rat \<Rightarrow> rat \<Rightarrow> rat" where
  "exact_bps x y = \<bar>x - y\<bar> / min x y * 10000"

text \<open>One rounding of a value of moderate size; \<open>ulp\<close> is half a unit in the last place of 1.\<close>

definition ulp :: rat where "ulp = 1 / 2 ^ 53"

lemma rdl_rel_error:
  assumes "\<bar>x\<bar> \<le> M"
  shows "\<bar>rdl x - x\<bar> \<le> M * ulp + ulp"
proof -
  have u: "pow2 (- 53) = ulp" by (simp add: pow2_def power_int_minus field_simps ulp_def)
  have "pow2 (- 1075) \<le> pow2 (- 53)" by (rule pow2_mono) simp
  moreover have "\<bar>x\<bar> * pow2 (- 53) \<le> M * pow2 (- 53)"
    using assms by (intro mult_right_mono) (simp_all add: less_imp_le)
  ultimately show ?thesis using rdl_error [of x] unfolding u by linarith
qed

lemma eps_small: "\<exists>e. deviation_eps = Fin e \<and> e \<le> 1 / 1000"
proof -
  have "\<bar>rdl (1 / 1000000000) - 1 / 1000000000\<bar> \<le> 1 * ulp + ulp" by (rule rdl_rel_error) simp
  then have "rdl (1 / 1000000000) \<le> 1 / 1000" unfolding ulp_def abs_le_iff by simp
  moreover have "deviation_eps = Fin (rdl (1 / 1000000000))"
    unfolding deviation_eps_def f_lit_def by (rule rnd_small) simp
  ultimately show ?thesis by blast
qed

lemma f_round_error: "\<exists>k. f_round (Fin t) = Fin (of_int k) \<and> \<bar>of_int k - t\<bar> \<le> 1 / 2"
proof (cases "t < 0")
  case True
  have "of_int \<lfloor>- t + 1 / 2\<rfloor> \<le> - t + 1 / 2" "- t + 1 / 2 < of_int \<lfloor>- t + 1 / 2\<rfloor> + 1"
    using floor_correct [of "- t + 1 / 2"] by simp_all
  then have "\<bar>of_int (- \<lfloor>- t + 1 / 2\<rfloor>) - t\<bar> \<le> 1 / 2"
    unfolding abs_le_iff of_int_minus by linarith
  moreover have "f_round (Fin t) = Fin (of_int (- \<lfloor>- t + 1 / 2\<rfloor>))" using True by simp
  ultimately show ?thesis by blast
next
  case False
  have "of_int \<lfloor>t + 1 / 2\<rfloor> \<le> t + 1 / 2" "t + 1 / 2 < of_int \<lfloor>t + 1 / 2\<rfloor> + 1"
    using floor_correct [of "t + 1 / 2"] by simp_all
  then have "\<bar>of_int \<lfloor>t + 1 / 2\<rfloor> - t\<bar> \<le> 1 / 2" unfolding abs_le_iff by linarith
  moreover have "f_round (Fin t) = Fin (of_int \<lfloor>t + 1 / 2\<rfloor>)" using False by simp
  ultimately show ?thesis by blast
qed

lemma f_to_i64_int: "is_i64 k \<Longrightarrow> f_to_i64 (Fin (of_int k)) = k"
  by (simp add: rat_trunc_def flip: of_int_minus)

lemma three_errors:
  fixes t :: rat
  assumes "\<bar>t - q' * 10000\<bar> \<le> 10020001 * u" "\<bar>q' - q\<bar> \<le> 1002 * u" "\<bar>q - r\<bar> \<le> 2000 * u" "0 < u"
  shows "\<bar>t - r * 10000\<bar> \<le> 50000000 * u"
  using assms unfolding abs_le_iff by linarith

text \<open>The three roundings of the computation, for the exact ratio \<open>r\<close>.\<close>

lemma deviation_roundings:
  assumes d: "\<bar>d\<bar> \<le> 1000 * m" and m: "1 / 1000 \<le> m"
  shows "\<bar>rdl (rdl (\<bar>rdl d\<bar> / m) * 10000) - \<bar>d\<bar> / m * 10000\<bar> \<le> 1 / 100"
    and "\<bar>\<bar>rdl d\<bar> / m\<bar> \<le> 1001" and "\<bar>rdl (\<bar>rdl d\<bar> / m)\<bar> \<le> 1002"
proof -
  have m0: "0 < m" using m by linarith
  have u: "0 < ulp" "ulp * 100000000 \<le> 1" by (simp_all add: ulp_def)
  have r: "0 \<le> \<bar>d\<bar> / m" "\<bar>d\<bar> / m \<le> 1000" using d m0 by (simp_all add: pos_divide_le_eq)
  have "\<bar>\<bar>rdl d\<bar> - \<bar>d\<bar>\<bar> \<le> 1000 * m * ulp + ulp" using rdl_rel_error [OF d] by linarith
  then have "\<bar>\<bar>rdl d\<bar> - \<bar>d\<bar>\<bar> / m \<le> (1000 * m * ulp + ulp) / m"
    using m0 by (intro divide_right_mono) simp_all
  also have "\<dots> = 1000 * ulp + ulp / m" using m0 by (simp add: add_divide_distrib)
  also have "ulp / m \<le> ulp / (1 / 1000)" using m u by (intro divide_left_mono) simp_all
  finally have e1: "\<bar>\<bar>rdl d\<bar> / m - \<bar>d\<bar> / m\<bar> \<le> 2000 * ulp"
    using m0 by (simp add: diff_divide_distrib [symmetric])
  then show q: "\<bar>\<bar>rdl d\<bar> / m\<bar> \<le> 1001" using r u by linarith
  from rdl_rel_error [OF q] have e2: "\<bar>rdl (\<bar>rdl d\<bar> / m) - \<bar>rdl d\<bar> / m\<bar> \<le> 1002 * ulp"
    by linarith
  then show q': "\<bar>rdl (\<bar>rdl d\<bar> / m)\<bar> \<le> 1002" using q u by linarith
  then have "\<bar>rdl (\<bar>rdl d\<bar> / m) * 10000\<bar> \<le> 10020000" by (simp add: abs_mult)
  from rdl_rel_error [OF this]
  have "\<bar>rdl (rdl (\<bar>rdl d\<bar> / m) * 10000) - rdl (\<bar>rdl d\<bar> / m) * 10000\<bar> \<le> 10020001 * ulp"
    by linarith
  then have "\<bar>rdl (rdl (\<bar>rdl d\<bar> / m) * 10000) - \<bar>d\<bar> / m * 10000\<bar> \<le> 50000000 * ulp"
    using three_errors [OF _ e2 e1 u(1)] by blast
  moreover have "50000000 * ulp \<le> 1 / 100" by (simp add: ulp_def)
  ultimately show "\<bar>rdl (rdl (\<bar>rdl d\<bar> / m) * 10000) - \<bar>d\<bar> / m * 10000\<bar> \<le> 1 / 100"
    by linarith
qed

text \<open>For prices between 1/1000 and 10^9 that differ by a factor of at most 1000, the computed
  number of basis points is the exact one up to 51/100.\<close>

lemma deviationBps_accuracy:
  assumes x: "1 / 1000 \<le> x" "x \<le> 1000000000" and y: "1 / 1000 \<le> y" "y \<le> 1000000000"
    and ratio: "\<bar>x - y\<bar> \<le> 1000 * min x y"
  shows "\<bar>of_int (deviationBps (Fin x) (Fin y)) - exact_bps x y\<bar> \<le> 51 / 100"
proof -
  let ?m = "min x y" let ?q = "\<bar>rdl (x - y)\<bar> / min x y"
  have m: "1 / 1000 \<le> ?m" using x y by simp
  note r = deviation_roundings [OF ratio m]
  have "\<bar>x - y\<bar> \<le> 2 ^ 53" using x y by (auto simp: abs_le_iff)
  then have sub: "f_abs (f_sub (Fin x) (Fin y)) = Fin \<bar>rdl (x - y)\<bar>"
    using rnd_small [of "x - y"] by (simp add: f_sub_def)
  obtain e where e: "deviation_eps = Fin e" "e \<le> 1 / 1000" using eps_small by blast
  have den: "f_max (f_min (Fin x) (Fin y)) deviation_eps = Fin ?m"
    unfolding e(1) using m e(2) by (simp del: min.bounded_iff add: max_def)
  have divq: "f_div (Fin \<bar>rdl (x - y)\<bar>) (Fin ?m) = Fin (rdl ?q)"
    using m r(2) rnd_small [of ?q] by auto
  have mulq: "f_mul (Fin (rdl ?q)) (Fin 10000) = Fin (rdl (rdl ?q * 10000))"
    using r(3) rnd_small [of "rdl ?q * 10000"] by (simp add: abs_mult)
  obtain k where k: "f_round (Fin (rdl (rdl ?q * 10000))) = Fin (of_int k)"
    "\<bar>of_int k - rdl (rdl ?q * 10000)\<bar> \<le> 1 / 2" using f_round_error by blast
  have ex: "exact_bps x y = \<bar>x - y\<bar> / ?m * 10000" by (simp add: exact_bps_def)
  from k(2) r(1) have close: "\<bar>of_int k - exact_bps x y\<bar> \<le> 51 / 100" unfolding ex by linarith
  have "0 \<le> exact_bps x y" "exact_bps x y \<le> 10000000"
    using ratio m unfolding ex by (simp_all add: pos_divide_le_eq)
  with close have "(of_int k :: rat) \<le> of_int 10000001" "(of_int (- 1) :: rat) \<le> of_int k"
    by linarith+
  then have "is_i64 k" unfolding of_int_le_iff i64_bounds by linarith
  then have "f_to_i64 (f_round (f_mul (f_div (f_abs (f_sub (Fin x) (Fin y)))
      (f_max (f_min (Fin x) (Fin y)) deviation_eps)) (Fin 10000))) = k"
    unfolding sub den divq mulq k(1) by (rule f_to_i64_int)
  then have "deviationBps (Fin x) (Fin y) = k" using x y by (simp add: deviationBps_def Let_def)
  with close show ?thesis by simp
qed

end
