(* ===== verification/Risk_State.thy ===== *)
theory Risk_State
  imports Risk_Rules
begin

text \<open>
  internal/riskcontrol/state_store.go: per key (strategy, intent type, chain, pool) the time of
  the last intent, the number of consecutive failures and the end of the cooldown, kept in
  memory and in a JSON file that other processes may edit.

  The four maps may be nil in a decoded document; \<open>normalizePersistedRiskState\<close> replaces nil by
  an empty map, so a store never writes to a nil map (\<open>store_ok\<close>).  An operation takes the
  file and the system calls that fail in it; its result is the store and the file.
\<close>

record risk_state =
  rs_UpdatedAtMS :: int64
  rs_LastIntentTsMS :: "(string \<rightharpoonup> int64) option"
  rs_ConsecutiveFailCount :: "(string \<rightharpoonup> int64) option"
  rs_CooldownUntilTsMS :: "(string \<rightharpoonup> int64) option"
  rs_LastRejectReason :: "(string \<rightharpoonup> string) option"

record state_store =
  st_lastModTime :: gotime
  st_lastSize :: int
  st_lastExists :: bool
  st_state :: risk_state

definition defaultPersistedRiskState :: risk_state where
  "defaultPersistedRiskState =
     \<lparr>rs_UpdatedAtMS = 0, rs_LastIntentTsMS = Some Map.empty,
      rs_ConsecutiveFailCount = Some Map.empty, rs_CooldownUntilTsMS = Some Map.empty,
      rs_LastRejectReason = Some Map.empty\<rparr>"

definition NewRiskStateStore :: state_store where
  "NewRiskStateStore =
     \<lparr>st_lastModTime = 0, st_lastSize = 0, st_lastExists = False,
      st_state = defaultPersistedRiskState\<rparr>"

definition non_nil :: "('k \<rightharpoonup> 'v) option \<Rightarrow> ('k \<rightharpoonup> 'v) option" where
  "non_nil m = (case m of None \<Rightarrow> Some Map.empty | Some f \<Rightarrow> Some f)"

definition normalizePersistedRiskState :: "risk_state \<Rightarrow> risk_state" where
  "normalizePersistedRiskState s =
     s\<lparr>rs_LastIntentTsMS := non_nil (rs_LastIntentTsMS s),
       rs_ConsecutiveFailCount := non_nil (rs_ConsecutiveFailCount s),
       rs_CooldownUntilTsMS := non_nil (rs_CooldownUntilTsMS s),
       rs_LastRejectReason := non_nil (rs_LastRejectReason s)\<rparr>"

definition persistedRiskStateEqual :: "risk_state \<Rightarrow> risk_state \<Rightarrow> bool" where
  "persistedRiskStateEqual a b \<longleftrightarrow> a = b"

definition loadIfChangedLocked ::
    "gotime \<Rightarrow> faults \<Rightarrow> risk_state disk \<Rightarrow> state_store
      \<Rightarrow> state_store \<times> risk_state \<times> bool \<times> load_error" where
  "loadIfChangedLocked now ft d s =
     (if ft_stat ft then (s, st_state s, False, StatErr)
      else case d of
        None \<Rightarrow>
          if st_lastExists s
          then (s\<lparr>st_lastExists := False, st_lastModTime := 0, st_lastSize := 0,
                  st_state := defaultPersistedRiskState\<rparr>,
                defaultPersistedRiskState, True, LoadOk)
          else (s, st_state s, False, LoadOk)
      | Some f \<Rightarrow>
          if st_lastExists s \<and> fl_mod f = st_lastModTime s \<and> fl_size f = st_lastSize s
          then (s, st_state s, False, LoadOk)
          else if ft_read ft then (s, st_state s, False, ReadErr)
          else case fl_doc f of
            None \<Rightarrow> (s, st_state s, False, DecodeErr)
          | Some doc \<Rightarrow>
              let next = normalizePersistedRiskState doc;
                  changed = (\<not> st_lastExists s \<or> \<not> persistedRiskStateEqual (st_state s) next)
              in (s\<lparr>st_lastExists := True, st_lastModTime := fl_mod f,
                    st_lastSize := fl_size f, st_state := next\<rparr>, next, changed, LoadOk))"

definition store_load :: "gotime \<Rightarrow> faults \<Rightarrow> risk_state disk \<Rightarrow> state_store \<Rightarrow> state_store" where
  "store_load now ft d s = fst (loadIfChangedLocked now ft d s)"

text \<open>\<open>saveLocked\<close>: a temporary file that is renamed, so that the file is replaced or kept.
  The flag of the result says that an error is returned.\<close>

definition saveLocked ::
    "gotime \<Rightarrow> faults \<Rightarrow> risk_state disk \<Rightarrow> state_store
      \<Rightarrow> state_store \<times> risk_state disk \<times> bool" where
  "saveLocked now ft d s =
     (let s = s\<lparr>st_state := (normalizePersistedRiskState (st_state s))
                             \<lparr>rs_UpdatedAtMS := unix_ms now\<rparr>\<rparr>
      in if ft_write ft then (s, d, True)
         else
           let d = Some \<lparr>fl_mod = ft_mod ft, fl_size = ft_size ft, fl_doc = Some (st_state s)\<rparr>
           in if ft_restat ft then (s, d, False)
              else (s\<lparr>st_lastExists := True, st_lastModTime := ft_mod ft,
                      st_lastSize := ft_size ft\<rparr>, d, False))"

subsection \<open>Keys\<close>

definition CooldownKey :: "string \<Rightarrow> intent \<Rightarrow> string" where
  "CooldownKey target i =
     (let t = trim_space target;
          t = (if t = [] then ''phoenix'' else t);
          pool = trim_space (int_PoolID i)
      in join ''|'' ([t, int_Type i, ''chain='' @ itoa (int_ChainID i)]
                   @ (if pool \<noteq> [] then [''pool='' @ pool] else [])))"

subsection \<open>Operations\<close>

definition opt_get :: "('k \<rightharpoonup> 'v) option \<Rightarrow> 'v \<Rightarrow> 'k \<Rightarrow> 'v" where
  "opt_get m dv k = (case m of None \<Rightarrow> dv | Some f \<Rightarrow> map_get f dv k)"

definition opt_put :: "('k \<rightharpoonup> 'v) option \<Rightarrow> 'k \<Rightarrow> 'v \<Rightarrow> ('k \<rightharpoonup> 'v) option" where
  "opt_put m k v = map_option (\<lambda>f. f(k \<mapsto> v)) m"

type_synonym 'a store_op =
  "gotime \<Rightarrow> faults \<Rightarrow> risk_state disk \<Rightarrow> state_store \<Rightarrow> state_store \<times> risk_state disk \<times> 'a"

definition GetCooldownUntilMS :: "string \<Rightarrow> int64 store_op" where
  "GetCooldownUntilMS key now ft d s =
     (let s = store_load now ft d s
      in (s, d, opt_get (rs_CooldownUntilTsMS (st_state s)) 0 key))"

definition GetConsecutiveFails :: "string \<Rightarrow> int64 store_op" where
  "GetConsecutiveFails key now ft d s =
     (let s = store_load now ft d s
      in (s, d, opt_get (rs_ConsecutiveFailCount (st_state s)) 0 key))"

definition GetLastIntentMS :: "string \<Rightarrow> int64 store_op" where
  "GetLastIntentMS key now ft d s =
     (let s = store_load now ft d s
      in (s, d, opt_get (rs_LastIntentTsMS (st_state s)) 0 key))"

text \<open>The pure updates of the state, and the operations that load, update and save.\<close>

definition put_last_intent :: "string \<Rightarrow> int64 \<Rightarrow> risk_state \<Rightarrow> risk_state" where
  "put_last_intent key ts r =
     r\<lparr>rs_LastIntentTsMS := opt_put (rs_LastIntentTsMS r) key ts\<rparr>"

definition put_reject_reason :: "string \<Rightarrow> string \<Rightarrow> risk_state \<Rightarrow> risk_state" where
  "put_reject_reason key reason r =
     r\<lparr>rs_LastRejectReason := opt_put (rs_LastRejectReason r) key reason\<rparr>"

definition put_success :: "string \<Rightarrow> risk_state \<Rightarrow> risk_state" where
  "put_success key r =
     r\<lparr>rs_ConsecutiveFailCount := opt_put (rs_ConsecutiveFailCount r) key 0\<rparr>"

definition next_fail_count :: "string \<Rightarrow> risk_state \<Rightarrow> int64" where
  "next_fail_count key r = add64 (opt_get (rs_ConsecutiveFailCount r) 0 key) 1"

definition cools_down :: "int64 \<Rightarrow> duration \<Rightarrow> int64 \<Rightarrow> bool" where
  "cools_down threshold cooldown n \<longleftrightarrow> 0 < threshold \<and> threshold \<le> n \<and> 0 < cooldown"

definition put_failure ::
    "string \<Rightarrow> int64 \<Rightarrow> duration \<Rightarrow> gotime \<Rightarrow> risk_state \<Rightarrow> risk_state" where
  "put_failure key threshold cooldown now r =
     (let n = next_fail_count key r;
          r = r\<lparr>rs_ConsecutiveFailCount := opt_put (rs_ConsecutiveFailCount r) key n\<rparr>
      in if cools_down threshold cooldown n
         then r\<lparr>rs_CooldownUntilTsMS :=
                  opt_put (rs_CooldownUntilTsMS r) key (unix_ms (t_add now cooldown))\<rparr>
         else r)"

definition update_and_save :: "(risk_state \<Rightarrow> risk_state) \<Rightarrow> bool store_op" where
  "update_and_save f now ft d s =
     (let s = store_load now ft d s
      in saveLocked now ft d (s\<lparr>st_state := f (st_state s)\<rparr>))"

definition SetLastIntentMS :: "string \<Rightarrow> int64 \<Rightarrow> bool store_op" where
  "SetLastIntentMS key ts = update_and_save (put_last_intent key ts)"

definition SetLastRejectReason :: "string \<Rightarrow> string \<Rightarrow> bool store_op" where
  "SetLastRejectReason key reason = update_and_save (put_reject_reason key reason)"

definition RecordSuccess :: "string \<Rightarrow> bool store_op" where
  "RecordSuccess key = update_and_save (put_success key)"

text \<open>The result: the end of the cooldown (0 if none was started), the count, the error.\<close>

definition RecordFailure ::
    "string \<Rightarrow> int64 \<Rightarrow> duration \<Rightarrow> (int64 \<times> int64 \<times> bool) store_op" where
  "RecordFailure key threshold cooldown now ft d s =
     (let n = next_fail_count key (st_state (store_load now ft d s));
          until = (if cools_down threshold cooldown n
                   then unix_ms (t_add now cooldown) else 0);
          (s, d, e) = update_and_save (put_failure key threshold cooldown now) now ft d s
      in (s, d, until, n, e))"

text \<open>\<open>ks\<close> is the order in which Go iterates over the map; \<open>sort.Slice\<close> keeps any order among
  equal times, which the choice of \<open>ks\<close> covers.\<close>

record cooldown_entry =
  ce_Key :: string
  ce_CooldownUntilMS :: int64

definition SnapshotTopCooldowns ::
    "string list \<Rightarrow> int64 \<Rightarrow> gotime \<Rightarrow> faults \<Rightarrow> risk_state disk \<Rightarrow> state_store
      \<Rightarrow> state_store \<times> cooldown_entry list" where
  "SnapshotTopCooldowns ks n now ft d s =
     (let s = store_load now ft d s;
          until = opt_get (rs_CooldownUntilTsMS (st_state s)) 0;
          items = sort_key (\<lambda>e. - ce_CooldownUntilMS e)
            (map (\<lambda>k. \<lparr>ce_Key = k, ce_CooldownUntilMS = until k\<rparr>)
              (filter (\<lambda>k. 0 < until k) ks));
          m = (if n \<le> 0 \<or> int (length items) < n then int (length items) else n)
      in (s, take (nat m) items))"

subsection \<open>What the store promises\<close>

definition state_ok :: "risk_state \<Rightarrow> bool" where
  "state_ok r \<longleftrightarrow> normalizePersistedRiskState r = r"

definition store_ok :: "state_store \<Rightarrow> bool" where
  "store_ok s \<longleftrightarrow> state_ok (st_state s)"

lemma non_nil_idem [simp]: "non_nil (non_nil m) = non_nil m"
  by (simp add: non_nil_def split: option.splits)

lemma non_nil_eq [simp]: "non_nil m = m \<longleftrightarrow> m \<noteq> None"
  by (cases m) (simp_all add: non_nil_def)

lemma state_ok_iff:
  "state_ok r \<longleftrightarrow> rs_LastIntentTsMS r \<noteq> None \<and> rs_ConsecutiveFailCount r \<noteq> None
    \<and> rs_CooldownUntilTsMS r \<noteq> None \<and> rs_LastRejectReason r \<noteq> None"
proof (cases r)
  case (fields a b c d e)
  then show ?thesis
    by (cases b; cases c; cases d; cases e)
      (simp_all add: state_ok_def normalizePersistedRiskState_def non_nil_def)
qed

lemma state_ok_normalize [simp]: "state_ok (normalizePersistedRiskState r)"
  by (simp add: state_ok_def normalizePersistedRiskState_def)

lemma state_ok_default [simp]: "state_ok defaultPersistedRiskState"
  by (simp add: state_ok_iff defaultPersistedRiskState_def)

interpretation rstate: polled_file store_load st_state normalizePersistedRiskState
    defaultPersistedRiskState
  by unfold_locales
    (auto simp: store_load_def loadIfChangedLocked_def readable_def Let_def split: option.splits)

lemma store_ok_load: "store_ok s \<Longrightarrow> store_ok (store_load now ft d s)"
  using rstate.load_current [of now ft d s] by (auto simp: store_ok_def)

lemma opt_put_None [simp]: "opt_put m k v = None \<longleftrightarrow> m = None"
  by (simp add: opt_put_def)

lemma opt_get_put [simp]:
  "m \<noteq> None \<Longrightarrow> opt_get (opt_put m k v) dv k' = (if k' = k then v else opt_get m dv k')"
  by (auto simp: opt_get_def opt_put_def)

lemma put_ok:
  "state_ok r \<Longrightarrow> state_ok (put_last_intent k ts r)"
  "state_ok r \<Longrightarrow> state_ok (put_reject_reason k why r)"
  "state_ok r \<Longrightarrow> state_ok (put_success k r)"
  "state_ok r \<Longrightarrow> state_ok (put_failure k th cd now r)"
  by (simp_all add: state_ok_iff put_last_intent_def put_reject_reason_def put_success_def
      put_failure_def Let_def del: not_None_eq)

text \<open>Memory and file agree: the file that is there is the one that was read or written last.
  Then a load changes nothing, whatever fails in it.\<close>

definition synced :: "risk_state disk \<Rightarrow> state_store \<Rightarrow> bool" where
  "synced d s \<longleftrightarrow>
     (case d of None \<Rightarrow> \<not> st_lastExists s
      | Some f \<Rightarrow> st_lastExists s \<and> fl_mod f = st_lastModTime s \<and> fl_size f = st_lastSize s)"

lemma synced_load: "synced d s \<Longrightarrow> store_load now ft d s = s"
  by (auto simp: synced_def store_load_def loadIfChangedLocked_def split: option.splits)

lemma saveLocked_synced:
  "saveLocked now ft d s = (s', d', e) \<Longrightarrow> synced d s \<Longrightarrow> \<not> ft_restat ft \<Longrightarrow> synced d' s'"
  by (cases d) (auto simp: saveLocked_def synced_def Let_def split: if_splits)

lemma saveLocked_state:
  "saveLocked now ft d s = (s', d', e) \<Longrightarrow>
   st_state s' = (normalizePersistedRiskState (st_state s))\<lparr>rs_UpdatedAtMS := unix_ms now\<rparr>"
  by (auto simp: saveLocked_def Let_def split: if_splits)

text \<open>An update reaches the file, or is kept in memory when the write fails: the store is the
  pure function on the state, up to the time stamp.\<close>

lemma update_and_save_refines:
  assumes "update_and_save f now ft d s = (s', d', e)" "synced d s" "\<not> ft_restat ft"
    "state_ok (f (st_state s))"
  shows "st_state s' = (f (st_state s))\<lparr>rs_UpdatedAtMS := unix_ms now\<rparr>"
    and "synced d' s'" and "e \<longleftrightarrow> ft_write ft"
    and "\<not> ft_write ft \<Longrightarrow> (\<exists>g. d' = Some g \<and> fl_doc g = Some (st_state s'))"
    and "ft_write ft \<Longrightarrow> d' = d"
proof -
  have s: "saveLocked now ft d (s\<lparr>st_state := f (st_state s)\<rparr>) = (s', d', e)"
    using assms(1,2) by (simp add: update_and_save_def synced_load)
  from saveLocked_state [OF s] assms(4)
  show "st_state s' = (f (st_state s))\<lparr>rs_UpdatedAtMS := unix_ms now\<rparr>"
    by (simp add: state_ok_def)
  have "synced d (s\<lparr>st_state := f (st_state s)\<rparr>)"
    using assms(2) by (simp add: synced_def split: option.splits)
  with s assms(3) show "synced d' s'" using saveLocked_synced by blast
  from s show "e \<longleftrightarrow> ft_write ft"
    and "\<not> ft_write ft \<Longrightarrow> (\<exists>g. d' = Some g \<and> fl_doc g = Some (st_state s'))"
    and "ft_write ft \<Longrightarrow> d' = d"
    by (auto simp: saveLocked_def Let_def split: if_splits)
qed

lemma store_ok_update_and_save:
  assumes "update_and_save f now ft d s = (s', d', e)" "\<And>r. state_ok r \<Longrightarrow> state_ok (f r)"
    "store_ok s"
  shows "store_ok s'"
proof -
  have "saveLocked now ft d ((store_load now ft d s)
      \<lparr>st_state := f (st_state (store_load now ft d s))\<rparr>) = (s', d', e)"
    using assms(1) by (simp add: update_and_save_def Let_def)
  from saveLocked_state [OF this] show ?thesis
    by (simp add: store_ok_def state_ok_iff normalizePersistedRiskState_def non_nil_def
        split: option.splits)
qed

subsection \<open>Runs of failures\<close>

text \<open>Consecutive calls of \<open>RecordFailure\<close> for one key, at times \<open>ts\<close>, each with its own
  faults.\<close>

fun record_failures ::
    "string \<Rightarrow> int64 \<Rightarrow> duration \<Rightarrow> (gotime \<times> faults) list \<Rightarrow> risk_state disk \<Rightarrow> state_store
      \<Rightarrow> state_store \<times> risk_state disk" where
  "record_failures key th cd [] d s = (s, d)"
| "record_failures key th cd ((now, ft) # ts) d s =
     (let (s, d, _) = RecordFailure key th cd now ft d s
      in record_failures key th cd ts d s)"

definition fail_count :: "string \<Rightarrow> state_store \<Rightarrow> int64" where
  "fail_count key s = opt_get (rs_ConsecutiveFailCount (st_state s)) 0 key"

definition cooldown_until :: "string \<Rightarrow> state_store \<Rightarrow> int64" where
  "cooldown_until key s = opt_get (rs_CooldownUntilTsMS (st_state s)) 0 key"

lemma RecordFailure_step:
  assumes "RecordFailure key th cd now ft d s = (s', d', u, n, e)" "synced d s" "store_ok s"
    "\<not> ft_restat ft"
  shows "synced d' s'" "store_ok s'" "fail_count key s' = add64 (fail_count key s) 1"
    "n = fail_count key s'"
    "cools_down th cd n \<Longrightarrow> cooldown_until key s' = unix_ms (t_add now cd) \<and> u = cooldown_until key s'"
    "\<not> cools_down th cd n \<Longrightarrow> cooldown_until key s' = cooldown_until key s \<and> u = 0"
    "key' \<noteq> key \<Longrightarrow> fail_count key' s' = fail_count key' s
       \<and> cooldown_until key' s' = cooldown_until key' s"
proof -
  have ok: "state_ok (put_failure key th cd now (st_state s))"
    using assms(3) put_ok by (simp add: store_ok_def)
  have n: "n = next_fail_count key (st_state s)"
    and u: "u = (if cools_down th cd n then unix_ms (t_add now cd) else 0)"
    and s: "update_and_save (put_failure key th cd now) now ft d s = (s', d', e)"
    using assms(1,2) by (auto simp: RecordFailure_def Let_def synced_load split: prod.splits)
  note r = update_and_save_refines [OF s assms(2,4) ok]
  show "synced d' s'" by (rule r(2))
  show "store_ok s'" using store_ok_update_and_save [OF s _ assms(3)] put_ok by blast
  have nn: "rs_ConsecutiveFailCount (st_state s) \<noteq> None" "rs_CooldownUntilTsMS (st_state s) \<noteq> None"
    using assms(3) by (simp_all add: store_ok_def state_ok_iff)
  show "fail_count key s' = add64 (fail_count key s) 1" and "n = fail_count key s'"
    using nn by (simp_all add: fail_count_def r(1) put_failure_def Let_def n next_fail_count_def)
  show "cools_down th cd n \<Longrightarrow>
      cooldown_until key s' = unix_ms (t_add now cd) \<and> u = cooldown_until key s'"
    and "\<not> cools_down th cd n \<Longrightarrow> cooldown_until key s' = cooldown_until key s \<and> u = 0"
    using nn n u by (simp_all add: cooldown_until_def r(1) put_failure_def Let_def)
  show "key' \<noteq> key \<Longrightarrow> fail_count key' s' = fail_count key' s
       \<and> cooldown_until key' s' = cooldown_until key' s"
    using nn by (simp add: fail_count_def cooldown_until_def r(1) put_failure_def Let_def)
qed

lemma record_failures_end:
  assumes "record_failures key th cd (ts @ [(now, ft)]) d s = (s', d')"
    "synced d s" "store_ok s" "\<forall>(_, ft) \<in> set (ts @ [(now, ft)]). \<not> ft_restat ft"
    "0 < th" "0 < cd" "th \<le> fail_count key s + int (length ts) + 1"
    "0 \<le> fail_count key s" "is_i64 (fail_count key s + int (length ts) + 1)"
  shows "cooldown_until key s' = unix_ms (t_add now cd) \<and> synced d' s' \<and> store_ok s'
    \<and> fail_count key s' = fail_count key s + int (length ts) + 1"
  using assms
proof (induction ts arbitrary: d s)
  case Nil
  obtain s1 d1 u n e where r: "RecordFailure key th cd now ft d s = (s1, d1, u, n, e)"
    by (metis prod_cases5)
  with Nil have eq: "s1 = s'" "d1 = d'" and nr: "\<not> ft_restat ft" by simp_all
  note st = RecordFailure_step [OF r Nil(2,3) nr]
  have n: "n = fail_count key s + 1" using st(3,4) Nil(9) by (simp add: add64_id)
  then have "cools_down th cd n" using Nil by (simp add: cools_down_def)
  with st n eq show ?case by simp
next
  case (Cons a ts)
  obtain now0 ft0 where a: "a = (now0, ft0)" by (cases a)
  obtain s1 d1 u n e where r: "RecordFailure key th cd now0 ft0 d s = (s1, d1, u, n, e)"
    by (metis prod_cases5)
  have nr: "\<not> ft_restat ft0" using Cons.prems(4) a by simp
  note st = RecordFailure_step [OF r Cons.prems(2,3) nr]
  have "is_i64 (fail_count key s + 1)" using Cons.prems(8,9) by (simp add: i64_bounds)
  then have f: "fail_count key s1 = fail_count key s + 1" using st(3) by (simp add: add64_id)
  have "record_failures key th cd (ts @ [(now, ft)]) d1 s1 = (s', d')"
    using Cons.prems(1) by (simp add: a r)
  from Cons.IH [OF this st(1,2)] Cons.prems f show ?case
    by (simp add: algebra_simps)
qed

end
