(* ===== verification/Cooldown_Rule.thy ===== *)
theory Cooldown_Rule
  imports Risk_State
begin

text \<open>
  internal/riskcontrol/rule_cooldown_frequency.go: the rule that rejects a key for a while after
  repeated failures, and that enforces a minimal interval between intents of a key.  It is the
  one rule with a state; its contract is the same \<open>veto_rule\<close>.  The evaluator that cmd/bot
  builds from the four rules is at the end.
\<close>

definition CooldownAndFrequencyRuleID :: string where
  "CooldownAndFrequencyRuleID = ''cooldown_frequency''"

record cooldown_config =
  cc_Enabled :: bool
  cc_Target :: string
  cc_MinInterval :: duration
  cc_FailureThreshold :: int64
  cc_CooldownFor :: duration

definition NewCooldownAndFrequencyRule :: "cooldown_config \<Rightarrow> cooldown_config" where
  "NewCooldownAndFrequencyRule cfg =
     (let cfg = cfg\<lparr>cc_MinInterval :=
            (if cc_MinInterval cfg \<le> 0 then 60 * second else cc_MinInterval cfg)\<rparr>;
          cfg = cfg\<lparr>cc_FailureThreshold :=
            (if cc_FailureThreshold cfg \<le> 0 then 3 else cc_FailureThreshold cfg)\<rparr>;
          cfg = cfg\<lparr>cc_CooldownFor :=
            (if cc_CooldownFor cfg \<le> 0 then 300 * second else cc_CooldownFor cfg)\<rparr>
      in cfg\<lparr>cc_Target :=
            (if trim_space (cc_Target cfg) = [] then ''phoenix'' else cc_Target cfg)\<rparr>)"

definition FailurePolicy :: "cooldown_config option \<Rightarrow> int64 \<times> duration" where
  "FailurePolicy r =
     (case r of None \<Rightarrow> (0, 0) | Some cfg \<Rightarrow> (cc_FailureThreshold cfg, cc_CooldownFor cfg))"

text \<open>What the rule reads and writes: its store (nil or not), the file, the system calls that
  fail in its first, second, third and fourth operation on the store, and the last match.\<close>

record cooldown_world =
  cw_store :: "state_store option"
  cw_disk :: "risk_state disk"
  cw_faults :: "nat \<Rightarrow> faults"
  cw_lastMatchKey :: string
  cw_lastUntilMS :: int64

definition setLastMatch :: "string \<Rightarrow> int64 \<Rightarrow> cooldown_world \<Rightarrow> cooldown_world" where
  "setLastMatch key until w = w\<lparr>cw_lastMatchKey := key, cw_lastUntilMS := until\<rparr>"

definition LastMatch :: "cooldown_world \<Rightarrow> string \<times> int64" where
  "LastMatch w = (cw_lastMatchKey w, cw_lastUntilMS w)"

definition put_store ::
    "state_store \<Rightarrow> risk_state disk \<Rightarrow> cooldown_world \<Rightarrow> cooldown_world" where
  "put_store s d w = w\<lparr>cw_store := Some s, cw_disk := d\<rparr>"

definition cooldown_reason :: "string \<Rightarrow> int64 \<Rightarrow> int64 \<Rightarrow> int64 \<Rightarrow> int64 \<Rightarrow> string" where
  "cooldown_reason key remaining until fails threshold =
     ''cooldown active cooldown_key='' @ key @ '' remaining_ms='' @ itoa remaining
     @ '' cooldown_until_ts_ms='' @ itoa until @ '' failure_count='' @ itoa fails
     @ '' threshold='' @ itoa threshold"

definition interval_reason :: "string \<Rightarrow> int64 \<Rightarrow> int64 \<Rightarrow> int64 \<Rightarrow> string" where
  "interval_reason key remaining secs nextms =
     ''min interval violation cooldown_key='' @ key @ '' remaining_ms='' @ itoa remaining
     @ '' min_interval_sec='' @ itoa secs @ '' next_allowed_ts_ms='' @ itoa nextms"

definition too_soon :: "cooldown_config \<Rightarrow> int64 \<Rightarrow> int64 \<Rightarrow> bool" where
  "too_soon cfg nowms lastms \<longleftrightarrow>
     0 < lastms \<and> 0 < tquot (cc_MinInterval cfg) millisecond
     \<and> 0 \<le> sub64 nowms lastms \<and> sub64 nowms lastms < tquot (cc_MinInterval cfg) millisecond"

definition cooldown_eval ::
    "cooldown_config \<Rightarrow> cooldown_world \<Rightarrow> intent \<Rightarrow> risk_context
      \<Rightarrow> cooldown_world \<times> risk_decision" where
  "cooldown_eval cfg w i ctx =
     (if \<not> cc_Enabled cfg
      then (w, decision VerdictApprove CooldownAndFrequencyRuleID ''rule disabled'')
      else case cw_store w of
        None \<Rightarrow> (w, decision VerdictReject CooldownAndFrequencyRuleID
                     ''risk state store not configured'')
      | Some s \<Rightarrow>
          let now = rc_Now ctx;
              nowms = unix_ms now;
              key = CooldownKey (cc_Target cfg) i;
              (s, d, until) = GetCooldownUntilMS key now (cw_faults w 0) (cw_disk w) s;
              (s, d, fails) = GetConsecutiveFails key now (cw_faults w 1) d s
          in if 0 < until \<and> nowms < until
             then
               let reason = cooldown_reason key (sub64 until nowms) until fails
                              (cc_FailureThreshold cfg);
                   (s, d, _) = SetLastRejectReason key reason now (cw_faults w 2) d s
               in (setLastMatch key until (put_store s d w),
                   decision VerdictReject CooldownAndFrequencyRuleID reason)
             else
               let (s, d, lastms) = GetLastIntentMS key now (cw_faults w 2) d s;
                   minms = tquot (cc_MinInterval cfg) millisecond;
                   elapsed = sub64 nowms lastms
               in if too_soon cfg nowms lastms
                  then
                    let nextms = add64 lastms minms;
                        reason = interval_reason key (sub64 minms elapsed)
                                   (tquot (cc_MinInterval cfg) second) nextms;
                        (s, d, _) = SetLastRejectReason key reason now (cw_faults w 3) d s
                    in (setLastMatch key nextms (put_store s d w),
                        decision VerdictReject CooldownAndFrequencyRuleID reason)
                  else
                    let (s, d, _) = SetLastIntentMS key nowms now (cw_faults w 3) d s
                    in (setLastMatch [] 0 (put_store s d w),
                        decision VerdictApprove CooldownAndFrequencyRuleID
                          (''ok cooldown_key='' @ key)))"

subsection \<open>The contract\<close>

definition cooldown_blocks :: "cooldown_config \<Rightarrow> cooldown_world \<Rightarrow> intent \<Rightarrow> risk_context \<Rightarrow> bool" where
  "cooldown_blocks cfg w i ctx \<longleftrightarrow>
     cc_Enabled cfg
     \<and> (case cw_store w of None \<Rightarrow> True
        | Some s \<Rightarrow>
            let key = CooldownKey (cc_Target cfg) i;
                s1 = store_load (rc_Now ctx) (cw_faults w 0) (cw_disk w) s;
                s2 = store_load (rc_Now ctx) (cw_faults w 1) (cw_disk w) s1;
                s3 = store_load (rc_Now ctx) (cw_faults w 2) (cw_disk w) s2
            in (0 < cooldown_until key s1 \<and> unix_ms (rc_Now ctx) < cooldown_until key s1)
               \<or> too_soon cfg (unix_ms (rc_Now ctx))
                    (opt_get (rs_LastIntentTsMS (st_state s3)) 0 key))"

lemmas store_getters = GetCooldownUntilMS_def GetConsecutiveFails_def GetLastIntentMS_def

lemma cooldown_id_trimmed: "trim_space CooldownAndFrequencyRuleID = CooldownAndFrequencyRuleID"
  unfolding CooldownAndFrequencyRuleID_def by (rule trim_space_id; simp add: graphic_def)

lemma cooldown_id_nonempty: "CooldownAndFrequencyRuleID \<noteq> []"
  by (simp add: CooldownAndFrequencyRuleID_def)

interpretation cooldown: veto_rule CooldownAndFrequencyRuleID "cooldown_eval cfg"
    "cooldown_blocks cfg" for cfg
proof unfold_locales
  fix w i ctx
  show "rd_RuleID (snd (cooldown_eval cfg w i ctx)) = CooldownAndFrequencyRuleID"
    by (simp add: cooldown_eval_def store_getters Let_def split_beta split: option.splits)
  show "rd_Reason (snd (cooldown_eval cfg w i ctx)) \<noteq> []"
    by (simp add: cooldown_eval_def store_getters Let_def split_beta cooldown_reason_def
        interval_reason_def split: option.splits)
  show "rd_Verdict (snd (cooldown_eval cfg w i ctx))
      = (if cooldown_blocks cfg w i ctx then VerdictReject else VerdictApprove)"
    by (simp add: cooldown_eval_def cooldown_blocks_def store_getters Let_def split_beta
        cooldown_until_def split: option.splits)
qed (simp_all add: cooldown_id_trimmed cooldown_id_nonempty)

text \<open>With a file that nobody else changes, the rule blocks exactly while its key cools down or
  its lastms intent is too recent, whatever system calls fail.\<close>

lemma cooldown_blocks_synced:
  assumes "cw_store w = Some s" "synced (cw_disk w) s"
  shows "cooldown_blocks cfg w i ctx \<longleftrightarrow>
    cc_Enabled cfg
    \<and> (let key = CooldownKey (cc_Target cfg) i; nowms = unix_ms (rc_Now ctx) in
       (0 < cooldown_until key s \<and> nowms < cooldown_until key s)
       \<or> too_soon cfg nowms (opt_get (rs_LastIntentTsMS (st_state s)) 0 key))"
  using assms by (simp add: cooldown_blocks_def synced_load Let_def)

text \<open>An approved evaluation stamps the key, so a second one within the interval is rejected.\<close>

lemma cooldown_approve_stamps:
  assumes "cw_store w = Some s" "synced (cw_disk w) s" "store_ok s" "cc_Enabled cfg"
    "\<not> cooldown_blocks cfg w i ctx" "\<not> ft_restat (cw_faults w 3)"
  shows "\<exists>s'. cw_store (fst (cooldown_eval cfg w i ctx)) = Some s'
    \<and> synced (cw_disk (fst (cooldown_eval cfg w i ctx))) s' \<and> store_ok s'
    \<and> opt_get (rs_LastIntentTsMS (st_state s')) 0 (CooldownKey (cc_Target cfg) i)
        = unix_ms (rc_Now ctx)"
proof -
  let ?key = "CooldownKey (cc_Target cfg) i" let ?now = "rc_Now ctx"
  obtain s' d' e where st: "SetLastIntentMS ?key (unix_ms ?now) ?now (cw_faults w 3) (cw_disk w) s
      = (s', d', e)" by (metis prod_cases3)
  from assms have nb: "\<not> (0 < cooldown_until ?key s \<and> unix_ms ?now < cooldown_until ?key s)"
    "\<not> too_soon cfg (unix_ms ?now) (opt_get (rs_LastIntentTsMS (st_state s)) 0 ?key)"
    by (simp_all add: cooldown_blocks_synced [OF assms(1,2)] Let_def)
  have eq: "fst (cooldown_eval cfg w i ctx) = setLastMatch [] 0 (put_store s' d' w)"
    using assms(1,2,4) nb [unfolded cooldown_until_def] st
    by (auto simp: cooldown_eval_def store_getters Let_def synced_load)
  note u = st [unfolded SetLastIntentMS_def]
  have ok: "state_ok (put_last_intent ?key (unix_ms ?now) (st_state s))"
    using assms(3) put_ok(1) by (simp add: store_ok_def)
  note r = update_and_save_refines [OF u assms(2,6) ok]
  have "rs_LastIntentTsMS (st_state s) \<noteq> None" using assms(3) by (simp add: store_ok_def state_ok_iff)
  then have "opt_get (rs_LastIntentTsMS (st_state s')) 0 ?key = unix_ms ?now"
    by (simp add: r(1) put_last_intent_def)
  moreover have "store_ok s'" using store_ok_update_and_save [OF u _ assms(3)] put_ok(1) by blast
  ultimately show ?thesis using r(2) by (simp add: eq setLastMatch_def put_store_def)
qed

subsection \<open>The evaluator of the bot\<close>

definition on_world ::
    "string \<Rightarrow> (cooldown_world \<Rightarrow> intent \<Rightarrow> risk_context \<Rightarrow> cooldown_world \<times> risk_decision)
      \<Rightarrow> cooldown_world rule" where
  "on_world rid f = \<lparr>rl_RuleID = rid, rl_Evaluate = f\<rparr>"

definition bot_rules :: "cooldown_config \<Rightarrow> divergence_rule \<Rightarrow> cooldown_world rule list" where
  "bot_rules cfg r =
     NewEvaluator
       [Some (on_world RiskModeHALTRuleID (stateless halt_eval)),
        Some (on_world ForceDryRunRuleID (stateless dryrun_eval)),
        Some (on_world CooldownAndFrequencyRuleID (cooldown_eval cfg)),
        Some (on_world PriceSourceDivergenceRuleID (stateless (divergence_eval r)))]"

definition bot_evaluate ::
    "cooldown_config \<Rightarrow> divergence_rule \<Rightarrow> cooldown_world \<Rightarrow> intent \<Rightarrow> risk_context
      \<Rightarrow> cooldown_world \<times> evaluation" where
  "bot_evaluate cfg r w i ctx = evaluate (bot_rules cfg r) w i ctx"

lemma bot_rules_list:
  "bot_rules cfg r =
     [on_world RiskModeHALTRuleID (stateless halt_eval),
      on_world ForceDryRunRuleID (stateless dryrun_eval),
      on_world CooldownAndFrequencyRuleID (cooldown_eval cfg),
      on_world PriceSourceDivergenceRuleID (stateless (divergence_eval r))]"
  by (simp add: bot_rules_def NewEvaluator_def List.map_filter_def)

text \<open>The whole evaluation as one case distinction: the first rule that objects decides, and
  otherwise the verdict is APPROVE.  The contract of the rules gives each case.\<close>

lemma bot_evaluate_cases:
  "bot_evaluate cfg r w i ctx =
     (let h = halt_eval i ctx; d = dryrun_eval i ctx;
          c = snd (cooldown_eval cfg w i ctx); w' = fst (cooldown_eval cfg w i ctx);
          p = divergence_eval r i ctx
      in if halted ctx then (w, veto i [h] h)
         else if \<not> rc_CandidateIsDryRun ctx then (w, veto i [h, d] d)
         else if cooldown_blocks cfg w i ctx then (w', veto i [h, d, c] c)
         else if diverges r ctx then (w', veto i [h, d, c, p] p)
         else (w', finish i [h, d, c, p] None))"
  unfolding bot_evaluate_def evaluate_def bot_rules_list on_world_def
  by (simp add: halt.eval_first dryrun.eval_first cooldown.eval_first diverg.eval_first Let_def
      del: eval_rules.simps(2))

definition bot_blocks ::
    "cooldown_config \<Rightarrow> divergence_rule \<Rightarrow> cooldown_world \<Rightarrow> intent \<Rightarrow> risk_context \<Rightarrow> bool" where
  "bot_blocks cfg r w i ctx \<longleftrightarrow>
     halted ctx \<or> \<not> rc_CandidateIsDryRun ctx \<or> cooldown_blocks cfg w i ctx \<or> diverges r ctx"

lemma bot_evaluate_verdict:
  "ev_FinalVerdict (snd (bot_evaluate cfg r w i ctx))
    = (if bot_blocks cfg r w i ctx then VerdictReject else VerdictApprove)"
  by (simp add: bot_evaluate_cases bot_blocks_def Let_def veto_def finish_def)

end
