(* ===== verification/Risk_Stats.thy ===== *)
theory Risk_Stats
  imports Cooldown_Rule
begin

text \<open>
  internal/riskcontrol/stats.go: counters over all evaluations.  The counters read the texts of
  the decisions: a skip is an approval whose reason starts with \<open>skip\<close>, and the deviation is
  parsed back out of the reason of the divergence rule.
\<close>

subsection \<open>Reading reasons\<close>

definition isSkipDecision :: "risk_decision \<Rightarrow> bool" where
  "isSkipDecision d \<longleftrightarrow>
     trim_space (rd_Reason d) \<noteq> [] \<and> has_prefix (trim_space (rd_Reason d)) ''skip''"

definition hasSkipDecision :: "evaluation \<Rightarrow> bool" where
  "hasSkipDecision ev \<longleftrightarrow> list_ex isSkipDecision (ev_Decisions ev)"

definition skipReasonKind :: "string \<Rightarrow> string" where
  "skipReasonKind reason =
     (let r = trim_space reason
      in if contains r ''missing_source'' then ''missing_source''
         else if contains r ''missing_decimals_for_normalization''
         then ''missing_decimals_for_normalization''
         else if contains r ''time_mismatch'' then ''time_mismatch''
         else if contains r ''stale_source'' then ''stale_source''
         else ''other'')"

definition token_end :: "char \<Rightarrow> bool" where
  "token_end c \<longleftrightarrow> c \<in> {CHR '' '', CHR 0x09, CHR 0x0A, CHR 0x0D}"

definition parseStringAfter :: "string \<Rightarrow> string \<Rightarrow> string option" where
  "parseStringAfter s marker =
     (case str_index s marker of
        None \<Rightarrow> None
      | Some i \<Rightarrow>
          let rest = trim_space (drop (i + length marker) s)
          in if rest = [] then None else Some (takeWhile (\<lambda>c. \<not> token_end c) rest))"

definition parseInt64After :: "string \<Rightarrow> string \<Rightarrow> int64 option" where
  "parseInt64After s marker =
     (case parseStringAfter s marker of
        None \<Rightarrow> None | Some raw \<Rightarrow> parse_int (trim_space raw))"

definition parseCooldownKey :: "string \<Rightarrow> string" where
  "parseCooldownKey reason =
     (case parseStringAfter reason ''cooldown_key='' of None \<Rightarrow> [] | Some k \<Rightarrow> k)"

subsection \<open>State\<close>

type_synonym counters = "string \<rightharpoonup> int64"

record risk_stats =
  rt_path :: string
  rt_lastSaveAt :: gotime
  rt_totalEvaluations :: int64
  rt_verdictCounts :: counters
  rt_ruleCounts :: counters
  rt_rejectCountsByRuleID :: counters
  rt_skipCountsByRuleID :: counters
  rt_skipReasons :: counters
  rt_cooldownRejectCountByKey :: counters
  rt_divSamples :: "int64 list"
  rt_divMax :: int64
  rt_divSum :: int64
  rt_divReject :: int64

definition NewRiskStats :: "string \<Rightarrow> risk_stats" where
  "NewRiskStats path =
     \<lparr>rt_path = path, rt_lastSaveAt = 0, rt_totalEvaluations = 0,
      rt_verdictCounts = Map.empty, rt_ruleCounts = Map.empty,
      rt_rejectCountsByRuleID = Map.empty, rt_skipCountsByRuleID = Map.empty,
      rt_skipReasons = Map.empty, rt_cooldownRejectCountByKey = Map.empty,
      rt_divSamples = [], rt_divMax = 0, rt_divSum = 0, rt_divReject = 0\<rparr>"

subsection \<open>Operations\<close>

definition ring_size :: nat where "ring_size = 8192"

definition observeDeviationBps :: "int64 \<Rightarrow> risk_stats \<Rightarrow> risk_stats" where
  "observeDeviationBps v s =
     (let v = (if v < 0 then 0 else v);
          s = (if rt_divMax s < v then s\<lparr>rt_divMax := v\<rparr> else s);
          s = s\<lparr>rt_divSum := add64 (rt_divSum s) v\<rparr>
      in if length (rt_divSamples s) < ring_size
         then s\<lparr>rt_divSamples := rt_divSamples s @ [v]\<rparr>
         else
           let idx = nat (trem (rt_totalEvaluations s) (int (length (rt_divSamples s))));
               s = s\<lparr>rt_divSum := sub64 (rt_divSum s) (rt_divSamples s ! idx)\<rparr>;
               s = s\<lparr>rt_divSamples := (rt_divSamples s)[idx := v]\<rparr>
           in s\<lparr>rt_divSum := add64 (rt_divSum s) v\<rparr>)"

definition decision_rule :: "risk_decision \<Rightarrow> string" where
  "decision_rule d =
     (let r = trim_space (rd_RuleID d) in if r = [] then ''unknown_rule'' else r)"

definition observe_reject :: "string \<Rightarrow> risk_decision \<Rightarrow> risk_stats \<Rightarrow> risk_stats" where
  "observe_reject rid d s =
     (if rd_Verdict d = VerdictReject
      then
        let s = s\<lparr>rt_rejectCountsByRuleID := map_incr (rt_rejectCountsByRuleID s) rid\<rparr>;
            key = parseCooldownKey (rd_Reason d)
        in if rid = CooldownAndFrequencyRuleID \<and> key \<noteq> []
           then s\<lparr>rt_cooldownRejectCountByKey := map_incr (rt_cooldownRejectCountByKey s) key\<rparr>
           else s
      else s)"

definition observe_skip :: "string \<Rightarrow> risk_decision \<Rightarrow> risk_stats \<Rightarrow> risk_stats" where
  "observe_skip rid d s =
     (if isSkipDecision d
      then s\<lparr>rt_skipCountsByRuleID := map_incr (rt_skipCountsByRuleID s) rid,
             rt_skipReasons := map_incr (rt_skipReasons s) (skipReasonKind (rd_Reason d))\<rparr>
      else s)"

definition observe_divergence :: "string \<Rightarrow> risk_decision \<Rightarrow> risk_stats \<Rightarrow> risk_stats" where
  "observe_divergence rid d s =
     (if rid = PriceSourceDivergenceRuleID
      then
        let s = (case parseInt64After (rd_Reason d) ''deviation_bps='' of
                   Some dev \<Rightarrow> observeDeviationBps dev s | None \<Rightarrow> s)
        in if rd_Verdict d = VerdictReject
           then s\<lparr>rt_divReject := add64 (rt_divReject s) 1\<rparr> else s
      else s)"

definition observe_decision :: "risk_decision \<Rightarrow> risk_stats \<Rightarrow> risk_stats" where
  "observe_decision d s =
     (let rid = decision_rule d;
          s = s\<lparr>rt_ruleCounts := map_incr (rt_ruleCounts s) rid\<rparr>
      in observe_divergence rid d (observe_skip rid d (observe_reject rid d s)))"

definition eval_class :: "evaluation \<Rightarrow> string" where
  "eval_class ev =
     (if ev_FinalVerdict ev \<noteq> VerdictReject \<and> hasSkipDecision ev then ''SKIP''
      else if ev_FinalVerdict ev = [] then VerdictApprove else ev_FinalVerdict ev)"

definition ObserveEvaluation :: "evaluation \<Rightarrow> risk_stats \<Rightarrow> risk_stats" where
  "ObserveEvaluation ev s =
     fold observe_decision (ev_Decisions ev)
       (s\<lparr>rt_totalEvaluations := add64 (rt_totalEvaluations s) 1,
          rt_verdictCounts := map_incr (rt_verdictCounts s) (eval_class ev)\<rparr>)"

definition quantileSortedI64 :: "int64 list \<Rightarrow> float64 \<Rightarrow> int64" where
  "quantileSortedI64 xs q =
     (if xs = [] then 0
      else if f_le q (Fin 0) then xs ! 0
      else if f_le (Fin 1) q then xs ! (length xs - 1)
      else xs ! nat (f_to_i64 (f_floor (f_mul q (f_of_int (int (length xs) - 1))))))"

record divergence_stats =
  ps_SampleCount :: int64
  ps_RejectCount :: int64
  ps_MaxDeviationBps :: int64
  ps_AvgDeviationBps :: float64
  ps_P50DeviationBps :: int64
  ps_P95DeviationBps :: int64

record stats_snapshot =
  sp_UpdatedAtMS :: int64
  sp_TotalEvaluations :: int64
  sp_VerdictCounts :: counters
  sp_RuleCounts :: counters
  sp_RejectCountsByRuleID :: counters
  sp_SkipCountsByRuleID :: counters
  sp_SkipReasons :: counters
  sp_CooldownRejectCountByKey :: counters
  sp_TimeMismatchSkipCount :: int64
  sp_TimeMismatchSkipRate :: float64
  sp_PriceDivergence :: divergence_stats

definition stats_divergence :: "risk_stats \<Rightarrow> divergence_stats" where
  "stats_divergence s =
     (let xs = rt_divSamples s; ys = sort xs
      in \<lparr>ps_SampleCount = int (length xs), ps_RejectCount = rt_divReject s,
          ps_MaxDeviationBps = rt_divMax s,
          ps_AvgDeviationBps =
            (if xs = [] then Fin 0
             else f_div (f_of_int (rt_divSum s)) (f_of_int (int (length xs)))),
          ps_P50DeviationBps = (if xs = [] then 0 else quantileSortedI64 ys (f_lit (1 / 2))),
          ps_P95DeviationBps = (if xs = [] then 0 else quantileSortedI64 ys (f_lit (95 / 100)))\<rparr>)"

definition stats_snapshot :: "gotime \<Rightarrow> risk_stats \<Rightarrow> stats_snapshot" where
  "stats_snapshot now s =
     (let tm = map_get (rt_skipReasons s) 0 ''time_mismatch''
      in \<lparr>sp_UpdatedAtMS = unix_ms now, sp_TotalEvaluations = rt_totalEvaluations s,
          sp_VerdictCounts = rt_verdictCounts s, sp_RuleCounts = rt_ruleCounts s,
          sp_RejectCountsByRuleID = rt_rejectCountsByRuleID s,
          sp_SkipCountsByRuleID = rt_skipCountsByRuleID s,
          sp_SkipReasons = rt_skipReasons s,
          sp_CooldownRejectCountByKey = rt_cooldownRejectCountByKey s,
          sp_TimeMismatchSkipCount = tm,
          sp_TimeMismatchSkipRate =
            (if 0 < rt_totalEvaluations s
             then f_div (f_of_int tm) (f_of_int (rt_totalEvaluations s)) else Fin 0),
          sp_PriceDivergence = stats_divergence s\<rparr>)"

text \<open>\<open>Save\<close> and \<open>SaveIfDue\<close>: the statistics, the file, and whether an error is returned.  The
  flag \<open>ft_write\<close> says that creating, writing or renaming the file fails.\<close>

definition stats_save ::
    "gotime \<Rightarrow> faults \<Rightarrow> risk_stats \<Rightarrow> stats_snapshot option
      \<Rightarrow> risk_stats \<times> stats_snapshot option \<times> bool" where
  "stats_save now ft s d =
     (if trim_space (rt_path s) = [] then (s, d, False)
      else if ft_write ft then (s, d, True)
      else (s\<lparr>rt_lastSaveAt := now\<rparr>, Some (stats_snapshot now s), False))"

definition SaveIfDue ::
    "gotime \<Rightarrow> duration \<Rightarrow> faults \<Rightarrow> risk_stats \<Rightarrow> stats_snapshot option
      \<Rightarrow> risk_stats \<times> stats_snapshot option \<times> bool" where
  "SaveIfDue now minInterval ft s d =
     (let minInterval = (if minInterval \<le> 0 then 2 * second else minInterval)
      in if trim_space (rt_path s) = [] then (s, d, False)
         else if t_is_zero (rt_lastSaveAt s) \<or> minInterval \<le> t_sub now (rt_lastSaveAt s)
         then stats_save now ft s d
         else (s, d, False))"

subsection \<open>The deviation survives the text\<close>

text \<open>
  The reason that the divergence rule writes is read back by \<open>parseInt64After\<close>: the number that
  the statistics record is the number that was compared.  The names of the sources and the
  details must not contain the marker themselves.
\<close>

definition dev_marker :: string where "dev_marker = ''deviation_bps=''"

definition quiet :: "string \<Rightarrow> bool" where
  "quiet s \<longleftrightarrow> \<not> contains s dev_marker"

lemma quiet_space: "quiet (a @ CHR '' '' # b) \<longleftrightarrow> quiet a \<and> quiet b"
proof -
  have "CHR '' '' \<notin> set dev_marker" by (simp add: dev_marker_def)
  from contains_append_Cons [OF this, of a b] show ?thesis unfolding quiet_def by blast
qed

lemma quiet_quote: "quiet (a @ CHR 0x22 # b) \<longleftrightarrow> quiet a \<and> quiet b"
proof -
  have "CHR 0x22 \<notin> set dev_marker" by (simp add: dev_marker_def)
  from contains_append_Cons [OF this, of a b] show ?thesis unfolding quiet_def by blast
qed

lemma quiet_eq: "quiet (a @ CHR ''='' # b) \<longleftrightarrow> quiet (a @ ''='') \<and> quiet b"
proof -
  have m: "dev_marker = ''deviation_bps'' @ [CHR ''='']" by (simp add: dev_marker_def)
  have "CHR ''='' \<notin> set ''deviation_bps''" by simp
  from contains_append_last [OF this, of a b] show ?thesis unfolding quiet_def m by blast
qed

text \<open>A text without an equals sign is quiet.\<close>

lemma quiet_no_eq: "CHR ''='' \<notin> set s \<Longrightarrow> quiet s"
  unfolding quiet_def by (rule not_contains_if_missing [of "CHR ''=''"]) (simp add: dev_marker_def)

lemma quiet_itoa [simp]: "quiet (itoa n)"
  by (rule quiet_no_eq, rule itoa_missing) (simp_all add: is_digit_def)

lemma parse_after_marker:
  assumes a: "quiet (a @ butlast dev_marker)" and n: "is_i64 n" and g: "graphic (last rest)"
    "rest \<noteq> []"
  shows "parseInt64After (a @ dev_marker @ itoa n @ CHR '' '' # rest) dev_marker = Some n"
proof -
  let ?r = "itoa n @ CHR '' '' # rest"
  have "str_index (a @ dev_marker @ ?r) dev_marker = Some (length a)"
    using a by (intro str_index_after) (simp_all add: quiet_def dev_marker_def)
  moreover have "trim_space ?r = ?r"
  proof (rule trim_space_id)
    show "graphic (hd ?r)" using itoa_graphic [of "hd (itoa n)" n] by simp
    show "graphic (last ?r)" using g by simp
  qed simp
  moreover have "takeWhile (\<lambda>c. \<not> token_end c) ?r = itoa n"
  proof -
    have "\<not> token_end c" if "c \<in> set (itoa n)" for c
      using itoa_chars [OF that] by (auto simp: token_end_def is_digit_def)
    moreover have "token_end (CHR '' '')" by (simp add: token_end_def)
    ultimately show ?thesis by (simp add: takeWhile_append)
  qed
  ultimately show ?thesis
    using n by (simp add: parseInt64After_def parseStringAfter_def Let_def del: trim_space_nil)
qed

lemma quiet_Nil [simp]: "quiet []"
  by (rule quiet_no_eq) simp

lemma quiet_Cons: "quiet (c # s) \<longleftrightarrow> \<not> has_prefix (c # s) ''deviation_bps='' \<and> quiet s"
  by (simp add: quiet_def dev_marker_def contains_def)

lemma quiet_fmt [simp]: "quiet (fmt_fixed n x)"
  by (rule quiet_no_eq, rule fmt_fixed_missing) (simp_all add: is_digit_def)

lemmas quiet_simps = quiet_Cons quiet_space quiet_quote

definition clean_detail :: "price_point \<Rightarrow> bool" where
  "clean_detail p \<longleftrightarrow>
     plain (trim_space (pp_NormalizationDetail p)) \<and> quiet (trim_space (pp_NormalizationDetail p))"

lemma reason_reject_dev:
  assumes "quiet ka" "quiet kb" "clean_detail a" "clean_detail b"
    "is_i64 (deviationBps (norm_price a) (norm_price b))"
  shows "parseInt64After (reason_reject r ka a kb b) dev_marker
    = Some (deviationBps (norm_price a) (norm_price b))"
proof -
  let ?dev = "deviationBps (norm_price a) (norm_price b)"
  let ?pre = "''price divergence too high normalized_ok=true source_a='' @ ka
     @ '' raw_price_a='' @ fmt_fixed 10 (pp_RawPrice a)
     @ '' normalized_price_a='' @ fmt_fixed 10 (norm_price a)
     @ '' ts_a='' @ itoa (pp_TsMS a)
     @ '' normalized_a_detail='' @ quote (trim_space (pp_NormalizationDetail a))
     @ '' source_b='' @ kb
     @ '' raw_price_b='' @ fmt_fixed 10 (pp_RawPrice b)
     @ '' normalized_price_b='' @ fmt_fixed 10 (norm_price b)
     @ '' ts_b='' @ itoa (pp_TsMS b)
     @ '' normalized_b_detail='' @ quote (trim_space (pp_NormalizationDetail b)) @ '' ''"
  let ?rest = "''threshold_bps='' @ itoa (dr_thresholdBpsEffective r)
     @ '' override_used='' @ bool_str (dr_overrideUsed r)"
  have r: "reason_reject r ka a kb b = ?pre @ dev_marker @ itoa ?dev @ CHR '' '' # ?rest"
    by (simp add: reason_reject_def dev_marker_def)
  have "quiet (?pre @ butlast dev_marker)"
    using assms(1-4) by (simp add: dev_marker_def quiet_simps clean_detail_def quote_plain)
  moreover have "graphic (last ?rest)" by (simp add: bool_str_def graphic_def)
  ultimately show ?thesis unfolding r using assms(5) by (intro parse_after_marker) simp_all
qed

lemma reason_ok_dev:
  assumes "quiet ka" "quiet kb" "is_i64 dev"
  shows "parseInt64After (reason_ok r ka kb dev) dev_marker = Some dev"
proof -
  let ?pre = "''ok normalized_ok=true source_a='' @ ka @ '' source_b='' @ kb @ '' ''"
  let ?rest = "''threshold_bps='' @ itoa (dr_thresholdBpsEffective r)
     @ '' override_used='' @ bool_str (dr_overrideUsed r)"
  have r: "reason_ok r ka kb dev = ?pre @ dev_marker @ itoa dev @ CHR '' '' # ?rest"
    by (simp add: reason_ok_def dev_marker_def)
  have "quiet (?pre @ butlast dev_marker)"
    using assms by (simp add: dev_marker_def quiet_simps)
  moreover have "graphic (last ?rest)" by (simp add: bool_str_def graphic_def)
  ultimately show ?thesis unfolding r using assms(3) by (intro parse_after_marker) simp_all
qed

lemma rat_trunc_range: "is_i64 (f_to_i64 x)"
  by (cases x) (auto simp: i64_bounds)

lemma deviationBps_range [simp]: "is_i64 (deviationBps p q)"
  by (simp add: deviationBps_def Let_def rat_trunc_range) (simp add: i64_bounds)

subsection \<open>Invariants of the statistics\<close>

text \<open>The samples are within the bounds that the snapshot reports, and their number is bounded.\<close>

definition stats_inv :: "risk_stats \<Rightarrow> bool" where
  "stats_inv s \<longleftrightarrow>
     length (rt_divSamples s) \<le> ring_size
     \<and> (\<forall>x \<in> set (rt_divSamples s). 0 \<le> x \<and> x \<le> rt_divMax s)"

lemma stats_inv_new: "stats_inv (NewRiskStats path)"
  by (simp add: stats_inv_def NewRiskStats_def)

lemma stats_inv_deviation: "stats_inv s \<Longrightarrow> stats_inv (observeDeviationBps v s)"
  by (auto simp: stats_inv_def observeDeviationBps_def Let_def
      dest!: set_update_subset_insert [THEN subsetD] split: if_splits)

lemma observe_decision_frame [simp]:
  "rt_totalEvaluations (observe_decision d s) = rt_totalEvaluations s"
  "rt_verdictCounts (observe_decision d s) = rt_verdictCounts s"
  by (simp_all add: observe_decision_def observe_divergence_def observe_skip_def
      observe_reject_def observeDeviationBps_def Let_def split: option.splits)

lemma observe_decisions_frame:
  "rt_totalEvaluations (fold observe_decision ds s) = rt_totalEvaluations s"
  "rt_verdictCounts (fold observe_decision ds s) = rt_verdictCounts s"
  by (induction ds arbitrary: s) simp_all

lemma stats_inv_decision: "stats_inv s \<Longrightarrow> stats_inv (observe_decision d s)"
proof -
  assume s: "stats_inv s"
  have upd: "stats_inv (s'\<lparr>rt_ruleCounts := m\<rparr>) = stats_inv s'"
    "stats_inv (s'\<lparr>rt_rejectCountsByRuleID := m\<rparr>) = stats_inv s'"
    "stats_inv (s'\<lparr>rt_cooldownRejectCountByKey := m\<rparr>) = stats_inv s'"
    "stats_inv (s'\<lparr>rt_skipCountsByRuleID := m, rt_skipReasons := m'\<rparr>) = stats_inv s'"
    "stats_inv (s'\<lparr>rt_divReject := n\<rparr>) = stats_inv s'" for s' m m' n
    by (simp_all add: stats_inv_def)
  show ?thesis
    using s by (auto simp: observe_decision_def observe_divergence_def observe_skip_def
        observe_reject_def Let_def upd stats_inv_deviation split: option.splits)
qed

lemma stats_inv_observe: "stats_inv s \<Longrightarrow> stats_inv (ObserveEvaluation ev s)"
proof -
  assume "stats_inv s"
  then have "stats_inv (s\<lparr>rt_totalEvaluations := n, rt_verdictCounts := m\<rparr>)" for n m
    by (simp add: stats_inv_def)
  moreover have "stats_inv s' \<Longrightarrow> stats_inv (fold observe_decision ds s')" for s' ds
    by (induction ds arbitrary: s') (simp_all add: stats_inv_decision)
  ultimately show ?thesis by (simp add: ObserveEvaluation_def)
qed

text \<open>Every evaluation is counted once, under one verdict.\<close>

definition observe_run :: "evaluation list \<Rightarrow> risk_stats \<Rightarrow> risk_stats" where
  "observe_run evs s = fold ObserveEvaluation evs s"

lemma observe_run_verdicts:
  "map_get (rt_verdictCounts (observe_run evs s)) 0 v =
     (if filter (\<lambda>e. eval_class e = v) evs = [] then map_get (rt_verdictCounts s) 0 v
      else wrap64 (map_get (rt_verdictCounts s) 0 v
                   + int (length (filter (\<lambda>e. eval_class e = v) evs))))"
proof (induction evs arbitrary: s)
  case (Cons e evs)
  have "map_get (rt_verdictCounts (ObserveEvaluation e s)) 0 v =
      (if v = eval_class e then wrap64 (map_get (rt_verdictCounts s) 0 v + 1)
       else map_get (rt_verdictCounts s) 0 v)"
    by (simp add: ObserveEvaluation_def observe_decisions_frame map_get_incr add64_def)
  then show ?case
    using Cons.IH [of "ObserveEvaluation e s"] by (auto simp: observe_run_def algebra_simps)
qed (simp add: observe_run_def)

text \<open>The sum of the samples.  While the buffer grows the accumulator is exact; once it is
  full, the overwriting branch adds the new sample twice, so the accumulator leaves the sum of
  the buffer by the new sample each time.\<close>

definition sum_gap :: "risk_stats \<Rightarrow> int" where
  "sum_gap s = wrap64 (rt_divSum s - sum_list (rt_divSamples s))"

lemma sum_list_update_int:
  fixes xs :: "int list"
  shows "i < length xs \<Longrightarrow> sum_list (xs[i := v]) = sum_list xs - xs ! i + v"
  by (induction xs arbitrary: i) (auto split: nat.splits)

lemma ring_index:
  "0 \<le> t \<Longrightarrow> 0 < n \<Longrightarrow> nat (trem t (int n)) < n"
  by (simp add: trem_nonneg nat_less_iff)

lemma observeDeviation_gap:
  assumes "0 \<le> rt_totalEvaluations s"
  shows "sum_gap (observeDeviationBps v s) =
    (if length (rt_divSamples s) < ring_size then sum_gap s
     else wrap64 (sum_gap s + max 0 v))"
proof (cases "length (rt_divSamples s) < ring_size")
  case True
  then show ?thesis
    by (simp add: sum_gap_def observeDeviationBps_def Let_def add64_def algebra_simps)
next
  case False
  then have n: "0 < length (rt_divSamples s)"
    by (cases "rt_divSamples s") (simp_all add: ring_size_def)
  let ?i = "nat (trem (rt_totalEvaluations s) (int (length (rt_divSamples s))))"
  have i: "?i < length (rt_divSamples s)" using assms n by (rule ring_index)
  have gap: "wrap64 (wrap64 (wrap64 (wrap64 (a + w) - x) + w) - (b - x + w)) = wrap64 (wrap64 (a - b) + w)"
    for a b x w
  proof -
    have "wrap64 (wrap64 (wrap64 (wrap64 (a + w) - x) + w) - (b - x + w))
        = wrap64 (a + w - x + w - (b - x + w))" by (simp only: wrap64_add wrap64_diff)
    also have "\<dots> = wrap64 (a - b + w)" by (simp add: algebra_simps)
    also have "\<dots> = wrap64 (wrap64 (a - b) + w)" by (simp only: wrap64_add)
    finally show ?thesis .
  qed
  have m: "(if v < 0 then 0 else v) = max 0 v" by simp
  show ?thesis
    using False i
    by (simp add: sum_gap_def observeDeviationBps_def Let_def add64_def sub64_def
        sum_list_update_int m gap del: wrap64_add wrap64_diff)
qed


subsection \<open>Quantiles\<close>

definition quantile_index :: "nat \<Rightarrow> rat \<Rightarrow> nat" where
  "quantile_index n x = nat (f_to_i64 (f_floor (f_mul (Fin x) (f_of_int (int n)))))"

lemma quantile_product:
  assumes "0 \<le> x" "x \<le> 1" "int n \<le> 2 ^ 53"
  shows "f_mul (Fin x) (f_of_int (int n)) = Fin (rdl (x * of_nat n))"
    "0 \<le> rdl (x * of_nat n)" "rdl (x * of_nat n) \<le> of_nat n"
proof -
  have n: "(of_nat n :: rat) \<le> 2 ^ 53" using assms(3) by (metis of_int_le_iff of_int_numeral of_int_of_nat_eq of_int_power)
  have x: "0 \<le> x * of_nat n" "x * of_nat n \<le> of_nat n"
    using assms(1,2) by (simp_all add: mult_left_le_one_le)
  have "f_of_int (int n) = Fin (of_int (int n))" using assms(3) by (intro f_of_int_exact) simp
  then show "f_mul (Fin x) (f_of_int (int n)) = Fin (rdl (x * of_nat n))"
    using rnd_small [of "x * of_nat n"] x n by simp
  have r: "rdl (of_nat n) = of_nat n" using rdl_int [of "int n"] assms(3) by simp
  show "0 \<le> rdl (x * of_nat n)" using rdl_mono [OF x(1)] by simp
  show "rdl (x * of_nat n) \<le> of_nat n" using rdl_mono [OF x(2)] r by simp
qed

lemma quantile_index_le:
  assumes "0 \<le> x" "x \<le> 1" "int n \<le> 2 ^ 53"
  shows "quantile_index n x \<le> n"
    and "quantile_index n x = nat \<lfloor>rdl (x * of_nat n)\<rfloor>"
proof -
  note p = quantile_product [OF assms]
  have f: "0 \<le> \<lfloor>rdl (x * of_nat n)\<rfloor>" "\<lfloor>rdl (x * of_nat n)\<rfloor> \<le> int n"
    using p(2) floor_mono [OF p(3)] by simp_all
  have big: "int n \<le> 9007199254740992" using assms(3) by simp
  from f have "is_i64 \<lfloor>rdl (x * of_nat n)\<rfloor>" using big unfolding i64_bounds by linarith
  then show q: "quantile_index n x = nat \<lfloor>rdl (x * of_nat n)\<rfloor>"
    by (simp add: quantile_index_def p(1) f_to_i64_int del: f_to_i64.simps)
  show "quantile_index n x \<le> n" using f by (simp add: q)
qed

lemma quantile_index_mono:
  assumes "0 \<le> x" "x \<le> y" "y \<le> 1" "int n \<le> 2 ^ 53"
  shows "quantile_index n x \<le> quantile_index n y"
proof -
  have "rdl (x * of_nat n) \<le> rdl (y * of_nat n)"
    using assms by (intro rdl_mono mult_right_mono) simp_all
  then have "\<lfloor>rdl (x * of_nat n)\<rfloor> \<le> \<lfloor>rdl (y * of_nat n)\<rfloor>" by (rule floor_mono)
  then show ?thesis
    using quantile_index_le(2) [of x n] quantile_index_le(2) [of y n] assms by (simp add: nat_mono)
qed

lemma quantile_eq:
  assumes "xs \<noteq> []" "0 < x" "x < 1"
  shows "quantileSortedI64 xs (Fin x) = xs ! quantile_index (length xs - 1) x"
  using assms by (cases xs) (simp_all add: quantileSortedI64_def quantile_index_def)

lemma median_lit: "f_lit (1 / 2) = Fin (1 / 2)"
proof -
  have "rdl (1 / 2) = 1 / 2"
  proof (rule rdl_multiple)
    show "1 / 2 = of_int 1 * pow2 (- 1)" by (simp add: pow2_def power_int_minus)
    have "pow2 (- 1) = 1 / 2" "pow2 0 = 1" by (simp_all add: pow2_def power_int_minus)
    then have "ilog2 (1 / 2) = - 1" by (intro ilog2_unique) simp_all
    then show "qexp \<bar>1 / 2\<bar> \<le> - 1" by (simp add: qexp_def)
  qed
  then show ?thesis using rnd_small [of "1 / 2"] by (simp add: f_lit_def)
qed

lemma p95_lit: "\<exists>y. f_lit (95 / 100) = Fin y \<and> 1 / 2 \<le> y \<and> y < 1"
proof -
  have "f_lit (95 / 100) = Fin (rdl (95 / 100))"
    using rnd_small [of "95 / 100"] by (simp add: f_lit_def)
  moreover have "\<bar>rdl (95 / 100) - 95 / 100\<bar> \<le> 1 * ulp + ulp" by (rule rdl_rel_error) simp
  then have e: "\<bar>rdl (95 / 100) - 95 / 100\<bar> \<le> 1 / 100" by (rule order_trans) (simp add: ulp_def)
  have "1 / 2 \<le> rdl (95 / 100)" "rdl (95 / 100) < 1" using e by linarith+
  ultimately show ?thesis by blast
qed

text \<open>The reported quantiles are samples, in order, and the greatest is within the maximum.\<close>

lemma stats_quantiles:
  assumes "stats_inv s" "rt_divSamples s \<noteq> []"
  shows "ps_P50DeviationBps (stats_divergence s) \<in> set (rt_divSamples s)"
    and "ps_P95DeviationBps (stats_divergence s) \<in> set (rt_divSamples s)"
    and "ps_P50DeviationBps (stats_divergence s) \<le> ps_P95DeviationBps (stats_divergence s)"
proof -
  let ?ys = "sort (rt_divSamples s)" and ?n = "length (rt_divSamples s) - 1"
  obtain y where y: "f_lit (95 / 100) = Fin y" "1 / 2 \<le> y" "y < 1" using p95_lit by blast
  have ne: "?ys \<noteq> []" using assms(2) by (metis length_0_conv length_sort)
  have "length (rt_divSamples s) \<le> 8192" using assms(1) by (simp add: stats_inv_def ring_size_def)
  then have n: "int ?n \<le> 2 ^ 53" by simp
  have len: "?n < length ?ys" using assms(2) by simp
  have p50: "ps_P50DeviationBps (stats_divergence s) = ?ys ! quantile_index ?n (1 / 2)"
    using assms(2) quantile_eq [OF ne, of "1 / 2"] by (simp add: stats_divergence_def Let_def median_lit)
  have p95: "ps_P95DeviationBps (stats_divergence s) = ?ys ! quantile_index ?n y"
    using assms(2) quantile_eq [OF ne, of y] y by (simp add: stats_divergence_def Let_def)
  have i: "quantile_index ?n (1 / 2) \<le> ?n" "quantile_index ?n y \<le> ?n"
    "quantile_index ?n (1 / 2) \<le> quantile_index ?n y"
    using quantile_index_le(1) [OF _ _ n] quantile_index_mono [OF _ y(2) _ n] y by simp_all
  show "ps_P50DeviationBps (stats_divergence s) \<in> set (rt_divSamples s)"
    unfolding p50 using i(1) len by (metis le_less_trans nth_mem set_sort)
  show "ps_P95DeviationBps (stats_divergence s) \<in> set (rt_divSamples s)"
    unfolding p95 using i(2) len by (metis le_less_trans nth_mem set_sort)
  show "ps_P50DeviationBps (stats_divergence s) \<le> ps_P95DeviationBps (stats_divergence s)"
    unfolding p50 p95 using i(2,3) len by (intro sorted_nth_mono) auto
qed

end
