(* ===== verification/Price_Normalization.thy ===== *)
theory Price_Normalization
  imports Risk_Types
begin

text \<open>
  internal/riskcontrol/price_normalization.go: the two price sources of the divergence rule are
  brought to one unit, token 1 per token 0.  \<open>math.Pow\<close>, \<open>math.Log\<close> and the verb \<open>%g\<close> are
  parameters (\<open>pow\<close>, \<open>logf\<close>, \<open>fmt_g\<close>); \<open>math.Pow10\<close> is the table of the Go library.
\<close>

record normalization_result =
  nr_RawPrice :: float64
  nr_NormalizedPrice :: float64
  nr_NormalizationOK :: bool
  nr_NormalizationDetail :: string

definition isFinitePositive :: "float64 \<Rightarrow> bool" where
  "isFinitePositive v \<longleftrightarrow> f_lt (Fin 0) v \<and> \<not> f_is_nan v \<and> \<not> f_is_inf v"

definition not_normalized :: "float64 \<Rightarrow> string \<Rightarrow> normalization_result" where
  "not_normalized raw why =
     \<lparr>nr_RawPrice = raw, nr_NormalizedPrice = Fin 0, nr_NormalizationOK = False,
      nr_NormalizationDetail = why\<rparr>"

definition normalized :: "float64 \<Rightarrow> float64 \<Rightarrow> string \<Rightarrow> normalization_result" where
  "normalized raw p detail =
     \<lparr>nr_RawPrice = raw, nr_NormalizedPrice = p, nr_NormalizationOK = True,
      nr_NormalizationDetail = detail\<rparr>"

definition NormalizeExchangePriceToken1PerToken0 :: "float64 \<Rightarrow> normalization_result" where
  "NormalizeExchangePriceToken1PerToken0 p =
     (if f_le p (Fin 0) \<or> \<not> isFinitePositive p
      then not_normalized p ''missing_price_for_normalization''
      else normalized p (f_div (Fin 1) p)
             ''semantics=token1_per_token0 direction_inverted=true'')"

definition f_pow10 :: "int \<Rightarrow> float64" where
  "f_pow10 n =
     (if 0 \<le> n \<and> n \<le> 308
      then f_mul (f_lit (10 ^ (32 * nat (n div 32)))) (f_lit (10 ^ nat (n mod 32)))
      else if - 323 \<le> n \<and> n \<le> 0
      then f_div (f_lit (1 / 10 ^ (32 * nat (- n div 32)))) (f_lit (10 ^ nat (- n mod 32)))
      else if 0 < n then PInf else Fin 0)"

record tick_candidate =
  tc_name :: string
  tc_price :: float64
  tc_detail :: string

definition zero_candidate :: tick_candidate where
  "zero_candidate = \<lparr>tc_name = [], tc_price = Fin 0, tc_detail = []\<rparr>"

definition scale_text :: "(float64 \<Rightarrow> string) \<Rightarrow> int64 \<Rightarrow> int64 \<Rightarrow> float64 \<Rightarrow> string" where
  "scale_text fmt_g d0 d1 scale =
     '' dec0='' @ itoa d0 @ '' dec1='' @ itoa d1 @ '' scale=10^('' @ itoa d0 @ ''-''
     @ itoa d1 @ '')='' @ fmt_g scale"

definition ignored_text :: "int64 \<Rightarrow> int64 \<Rightarrow> string" where
  "ignored_text d0 d1 = '' dec0='' @ itoa d0 @ '' dec1='' @ itoa d1 @ '' decimals_ignored=true''"

definition tick_candidates ::
    "(float64 \<Rightarrow> string) \<Rightarrow> int64 \<Rightarrow> int64 \<Rightarrow> float64 \<Rightarrow> tick_candidate list" where
  "tick_candidates fmt_g d0 d1 base =
     (let scale = f_pow10 (sub64 d0 d1);
          raw = ''semantics=token1_per_token0 source=tick variant=uniswap_raw''
                @ scale_text fmt_g d0 d1 scale;
          human = ''semantics=token1_per_token0 source=tick variant=tick_human direction_inverted=''
      in [\<lparr>tc_name = ''uniswap_raw_token1_per_token0'', tc_price = f_mul base scale,
           tc_detail = raw @ '' direction_inverted=false''\<rparr>,
          \<lparr>tc_name = ''uniswap_raw_token0_per_token1_inverted'',
           tc_price = f_mul (f_div (Fin 1) base) scale,
           tc_detail = raw @ '' direction_inverted=true''\<rparr>,
          \<lparr>tc_name = ''tick_human_token1_per_token0'', tc_price = base,
           tc_detail = human @ ''false'' @ ignored_text d0 d1\<rparr>,
          \<lparr>tc_name = ''tick_human_token0_per_token1_inverted'', tc_price = f_div (Fin 1) base,
           tc_detail = human @ ''true'' @ ignored_text d0 d1\<rparr>])"

text \<open>The loop that keeps the candidate of the least score, the first one among equals.\<close>

definition cand_score :: "(float64 \<Rightarrow> float64) \<Rightarrow> float64 \<Rightarrow> tick_candidate \<Rightarrow> float64" where
  "cand_score logf ref c = f_abs (logf (f_div (tc_price c) ref))"

fun best_candidate ::
    "(tick_candidate \<Rightarrow> float64) \<Rightarrow> tick_candidate list \<Rightarrow> tick_candidate \<Rightarrow> float64
      \<Rightarrow> tick_candidate \<times> float64" where
  "best_candidate score [] best bs = (best, bs)"
| "best_candidate score (c # cs) best bs =
     (if f_lt (score c) bs then best_candidate score cs c (score c)
      else best_candidate score cs best bs)"

definition NormalizeOnchainTickToken1PerToken0 ::
    "(float64 \<Rightarrow> float64 \<Rightarrow> float64) \<Rightarrow> (float64 \<Rightarrow> float64) \<Rightarrow> (float64 \<Rightarrow> string)
      \<Rightarrow> int64 \<Rightarrow> int64 \<Rightarrow> int64 \<Rightarrow> float64 \<Rightarrow> float64 \<Rightarrow> normalization_result" where
  "NormalizeOnchainTickToken1PerToken0 pow logf fmt_g tick d0 d1 raw ref =
     (if d0 \<le> 0 \<or> d1 \<le> 0 then not_normalized raw ''missing_decimals_for_normalization''
      else
        let base = pow (f_lit (10001 / 10000)) (f_of_int tick) in
        if \<not> isFinitePositive base then not_normalized raw ''invalid_tick_for_normalization''
        else
          case filter (\<lambda>c. isFinitePositive (tc_price c)) (tick_candidates fmt_g d0 d1 base) of
            [] \<Rightarrow> not_normalized raw ''no_valid_candidate_for_normalization''
          | c0 # cs \<Rightarrow>
              if \<not> isFinitePositive ref then normalized raw (tc_price c0) (tc_detail c0)
              else
                let (best, bs) = best_candidate (cand_score logf ref) (c0 # cs)
                                   zero_candidate PInf
                in if f_lt (logf (Fin 1000000)) bs
                   then not_normalized raw
                     (''missing_decimals_for_normalization best_candidate='' @ tc_name best
                      @ '' best_score='' @ fmt_g bs)
                   else normalized raw (tc_price best) (tc_detail best))"

subsection \<open>What normalization promises\<close>

lemma isFinitePositive_iff: "isFinitePositive v \<longleftrightarrow> (\<exists>x > 0. v = Fin x)"
  by (cases v) (auto simp: isFinitePositive_def f_is_nan_def f_is_inf_def)

lemma best_candidate_least:
  assumes "best_candidate score cs best bs = (b, s)" "bs \<noteq> NaN"
  shows "((b, s) = (best, bs) \<or> (b \<in> set cs \<and> s = score b))
    \<and> s \<noteq> NaN \<and> \<not> f_lt bs s \<and> (\<forall>c \<in> set cs. \<not> f_lt (score c) s)"
  using assms
proof (induction score cs best bs rule: best_candidate.induct)
  case (1 score best bs)
  then show ?case by simp
next
  case (2 score c cs best bs)
  show ?case
  proof (cases "f_lt (score c) bs")
    case True
    then have nn: "score c \<noteq> NaN" by (cases "score c") simp_all
    from True 2 nn have ih: "((b, s) = (c, score c) \<or> (b \<in> set cs \<and> s = score b))
      \<and> s \<noteq> NaN \<and> \<not> f_lt (score c) s \<and> (\<forall>c \<in> set cs. \<not> f_lt (score c) s)" by simp
    then have "\<not> f_lt bs s" using True f_lt_trans by blast
    with ih show ?thesis by auto
  next
    case False
    with 2 have ih: "((b, s) = (best, bs) \<or> (b \<in> set cs \<and> s = score b))
      \<and> s \<noteq> NaN \<and> \<not> f_lt bs s \<and> (\<forall>c \<in> set cs. \<not> f_lt (score c) s)" by simp
    have "\<not> f_lt (score c) s"
    proof
      assume a: "f_lt (score c) s"
      with ih "2.prems"(2) False show False
        by (cases "score c"; cases s; cases bs) auto
    qed
    with ih show ?thesis by auto
  qed
qed

text \<open>A price that counts as normalized is finite and positive; with a reference price it is the
  candidate nearest to the reference, at most a factor of 10^6 away.\<close>

lemma normalize_onchain_ok:
  assumes "nr_NormalizationOK (NormalizeOnchainTickToken1PerToken0 pow logf fmt_g tick d0 d1 raw ref)"
    "f_lt (logf (Fin 1000000)) PInf"
  shows "isFinitePositive (nr_NormalizedPrice
      (NormalizeOnchainTickToken1PerToken0 pow logf fmt_g tick d0 d1 raw ref))"
proof -
  let ?base = "pow (f_lit (10001 / 10000)) (f_of_int tick)"
  let ?v = "filter (\<lambda>c. isFinitePositive (tc_price c)) (tick_candidates fmt_g d0 d1 ?base)"
  have fp: "c \<in> set ?v \<Longrightarrow> isFinitePositive (tc_price c)" for c by simp
  obtain c0 cs where v: "?v = c0 # cs"
    using assms(1) by (cases ?v)
      (simp_all add: NormalizeOnchainTickToken1PerToken0_def not_normalized_def Let_def split: if_splits)
  obtain b s where b: "best_candidate (cand_score logf ref) (c0 # cs) zero_candidate PInf = (b, s)"
    by (metis surj_pair)
  from best_candidate_least [OF b] have "(b, s) = (zero_candidate, PInf) \<or> b \<in> set (c0 # cs)"
    by auto
  then have bf: "isFinitePositive (tc_price b) \<or> s = PInf" using fp v by auto
  have c0: "isFinitePositive (tc_price c0)" using fp v by simp
  show ?thesis
    using assms bf c0
    by (auto simp: NormalizeOnchainTickToken1PerToken0_def normalized_def not_normalized_def
        Let_def v b simp del: best_candidate.simps split: if_splits)
qed

end
