(* ===== verification/Divergence_Samples.thy ===== *)
theory Divergence_Samples
  imports Risk_Stats Price_Normalization
begin

text \<open>
  internal/riskcontrol/divergence_samples.go: the collector that keeps the worst and the most
  recent rejections of the divergence rule for a report.  \<open>sort.Slice\<close> is a stable sort here;
  Go leaves the order of samples with equal deviation open.  The text of a report uses the verb
  \<open>%.12g\<close> and the RFC 3339 form of a time, which are parameters.
\<close>

record reject_sample =
  sm_TsMS :: int64
  sm_Key :: string
  sm_IntentType :: string
  sm_ChainID :: int64
  sm_PoolID :: string
  sm_SourceAName :: string
  sm_SourceAPriceNorm :: float64
  sm_SourceATsMS :: int64
  sm_SourceBName :: string
  sm_SourceBPriceNorm :: float64
  sm_SourceBTsMS :: int64
  sm_DeviationBps :: int64
  sm_ThresholdBps :: int64
  sm_AgeAMS :: int64
  sm_AgeBMS :: int64
  sm_NormalizationDetail :: string
  sm_Note :: string

record samples_report =
  sq_RunID :: string
  sq_StartedAt :: string
  sq_EndedAt :: string
  sq_ThresholdBps :: int64
  sq_TopByDeviation :: "reject_sample list"
  sq_Recent :: "reject_sample list"

record collector =
  co_runID :: string
  co_startedAt :: gotime
  co_topN :: int64
  co_recentN :: int64
  co_top :: "reject_sample list"
  co_recent :: "reject_sample list"

definition NewDivergenceRejectCollector ::
    "int64 \<Rightarrow> int64 \<Rightarrow> string \<Rightarrow> gotime \<Rightarrow> collector" where
  "NewDivergenceRejectCollector topN recentN runID startedAt =
     \<lparr>co_runID = trim_space runID, co_startedAt = startedAt,
      co_topN = (if topN \<le> 0 then 10 else topN),
      co_recentN = (if recentN < 0 then 0 else recentN), co_top = [], co_recent = []\<rparr>"

definition absI64 :: "int64 \<Rightarrow> int64" where
  "absI64 v = (if v < 0 then neg64 v else v)"

definition extreme_price :: "float64 \<Rightarrow> bool" where
  "extreme_price p \<longleftrightarrow>
     isFinitePositive p
     \<and> (f_lt p (f_lit (1 / 1000000000)) \<or> f_lt (Fin 1000000000) p)"

definition add_note :: "bool \<Rightarrow> string \<Rightarrow> string \<Rightarrow> string" where
  "add_note b s note = (if b then (if note = [] then s else note @ '';'' @ s) else note)"

definition zero_point :: price_point where
  "zero_point =
     \<lparr>pp_SourceName = [], pp_RawPrice = Fin 0, pp_Price = Fin 0, pp_NormalizedPrice = Fin 0,
      pp_NormalizationOK = False, pp_NormalizationDetail = [], pp_TsMS = 0\<rparr>"

definition sample_note :: "int64 \<Rightarrow> price_point \<Rightarrow> price_point \<Rightarrow> string" where
  "sample_note nowms a b =
     add_note (extreme_price (norm_price b)) ''suspicious_exchange_norm_magnitude''
       (add_note (extreme_price (norm_price a)) ''suspicious_onchain_norm_magnitude''
         (add_note (10000 < absI64 (sub64 (sub64 nowms (pp_TsMS a)) (sub64 nowms (pp_TsMS b))))
            ''possible_timestamp_mismatch'' []))"

definition sample_detail :: "price_point \<Rightarrow> price_point \<Rightarrow> string" where
  "sample_detail a b =
     (let da = trim_space (pp_NormalizationDetail a);
          da = (if da \<noteq> [] then ''a:'' @ da else da);
          db = trim_space (pp_NormalizationDetail b)
      in if db \<noteq> [] then (if da \<noteq> [] then da @ '' | '' else da) @ ''b:'' @ db else da)"

definition reject_sample_of ::
    "intent \<Rightarrow> risk_context \<Rightarrow> risk_decision \<Rightarrow> int64 \<Rightarrow> reject_sample" where
  "reject_sample_of i ctx d threshold =
     (let nowms = unix_ms (rc_Now ctx);
          a = (case rc_PriceSources ctx ''onchain'' of None \<Rightarrow> zero_point | Some p \<Rightarrow> p);
          b = (case rc_PriceSources ctx ''exchange'' of None \<Rightarrow> zero_point | Some p \<Rightarrow> p);
          dev = (case parseInt64After (rd_Reason d) ''deviation_bps='' of
                   Some v \<Rightarrow> v | None \<Rightarrow> deviationBps (norm_price a) (norm_price b));
          th = (case parseInt64After (rd_Reason d) ''threshold_bps='' of
                   Some v \<Rightarrow> v | None \<Rightarrow> threshold);
          pool = trim_space (int_PoolID i)
      in \<lparr>sm_TsMS = nowms,
          sm_Key = ''phoenix|'' @ int_Type i @ ''|chain='' @ itoa (int_ChainID i)
                   @ ''|pool='' @ pool,
          sm_IntentType = int_Type i, sm_ChainID = int_ChainID i, sm_PoolID = pool,
          sm_SourceAName = trim_space (pp_SourceName a), sm_SourceAPriceNorm = norm_price a,
          sm_SourceATsMS = pp_TsMS a,
          sm_SourceBName = trim_space (pp_SourceName b), sm_SourceBPriceNorm = norm_price b,
          sm_SourceBTsMS = pp_TsMS b,
          sm_DeviationBps = dev, sm_ThresholdBps = th,
          sm_AgeAMS = sub64 nowms (pp_TsMS a), sm_AgeBMS = sub64 nowms (pp_TsMS b),
          sm_NormalizationDetail = sample_detail a b, sm_Note = sample_note nowms a b\<rparr>)"

definition last_n :: "nat \<Rightarrow> 'a list \<Rightarrow> 'a list" where
  "last_n n xs = drop (length xs - n) xs"

definition push_sample :: "reject_sample \<Rightarrow> collector \<Rightarrow> collector" where
  "push_sample s c =
     (let c = (if 0 < co_recentN c
               then c\<lparr>co_recent := last_n (nat (co_recentN c)) (co_recent c @ [s])\<rparr> else c)
      in c\<lparr>co_top :=
            take (nat (co_topN c))
              (sort_key (\<lambda>x. - sm_DeviationBps x) (co_top c @ [s]))\<rparr>)"

definition ObserveReject ::
    "intent \<Rightarrow> risk_context \<Rightarrow> risk_decision \<Rightarrow> int64 \<Rightarrow> collector \<Rightarrow> collector" where
  "ObserveReject i ctx d threshold c =
     (if trim_space (rd_RuleID d) \<noteq> PriceSourceDivergenceRuleID \<or> rd_Verdict d \<noteq> VerdictReject
      then c else push_sample (reject_sample_of i ctx d threshold) c)"

definition samples_snapshot ::
    "(gotime \<Rightarrow> string) \<Rightarrow> int64 \<Rightarrow> gotime \<Rightarrow> collector option \<Rightarrow> samples_report" where
  "samples_snapshot rfc3339 threshold ended c =
     (case c of
        None \<Rightarrow> \<lparr>sq_RunID = [], sq_StartedAt = [], sq_EndedAt = [], sq_ThresholdBps = threshold,
                 sq_TopByDeviation = [], sq_Recent = []\<rparr>
      | Some c \<Rightarrow> \<lparr>sq_RunID = co_runID c, sq_StartedAt = rfc3339 (co_startedAt c),
                 sq_EndedAt = rfc3339 ended, sq_ThresholdBps = threshold,
                 sq_TopByDeviation = co_top c, sq_Recent = co_recent c\<rparr>)"

definition age_gap :: "reject_sample \<Rightarrow> int64" where
  "age_gap s = absI64 (sub64 (sm_AgeAMS s) (sm_AgeBMS s))"

definition price_ratio :: "reject_sample \<Rightarrow> float64" where
  "price_ratio s =
     (let r = f_div (sm_SourceAPriceNorm s) (sm_SourceBPriceNorm s)
      in if f_lt r (Fin 0) then f_neg r else r)"

definition diagnosticHint :: "reject_sample \<Rightarrow> string" where
  "diagnosticHint s =
     (let hints =
        (if 10000 < age_gap s then [''possible_timestamp_mismatch(age_diff_ms>10000)''] else [])
        @ (if isFinitePositive (sm_SourceAPriceNorm s) \<and> isFinitePositive (sm_SourceBPriceNorm s)
              \<and> age_gap s \<le> 10000
              \<and> (f_lt (Fin 2) (price_ratio s) \<or> f_lt (price_ratio s) (f_lit (1 / 2)))
           then [''prices_far_but_ages_close(possible_semantics_or_market_mismatch)''] else [])
        @ (if extreme_price (sm_SourceAPriceNorm s)
           then [''onchain_norm_extreme(check_direction_or_decimals)''] else [])
        @ (if extreme_price (sm_SourceBPriceNorm s)
           then [''exchange_norm_extreme(check_direction_or_decimals)''] else [])
      in if hints = [] then ''no_obvious_signal'' else join '';'' hints)"

definition sample_lines :: "(float64 \<Rightarrow> string) \<Rightarrow> reject_sample \<Rightarrow> string list" where
  "sample_lines fmt_g12 s =
     [''deviation_bps='' @ itoa (sm_DeviationBps s) @ '' threshold_bps='' @ itoa (sm_ThresholdBps s)
        @ '' key='' @ sm_Key s,
      ''pool='' @ sm_PoolID s @ '' chain_id='' @ itoa (sm_ChainID s) @ '' intent_type=''
        @ sm_IntentType s,
      ''onchain_norm='' @ fmt_g12 (sm_SourceAPriceNorm s) @ '' ts_ms='' @ itoa (sm_SourceATsMS s)
        @ '' age_ms='' @ itoa (sm_AgeAMS s) @ '' name='' @ sm_SourceAName s,
      ''exchange_norm='' @ fmt_g12 (sm_SourceBPriceNorm s) @ '' ts_ms='' @ itoa (sm_SourceBTsMS s)
        @ '' age_ms='' @ itoa (sm_AgeBMS s) @ '' name='' @ sm_SourceBName s,
      ''normalization_detail='' @ sm_NormalizationDetail s,
      ''diagnostic_hint='' @ diagnosticHint s]
     @ (if trim_space (sm_Note s) \<noteq> [] then [''note='' @ trim_space (sm_Note s)] else []) @ [[]]"

definition report_lines :: "(float64 \<Rightarrow> string) \<Rightarrow> samples_report \<Rightarrow> string list" where
  "report_lines fmt_g12 rep =
     [''Phase 5.6 PriceSourceDivergence REJECT samples (TopN)'',
      ''run_id='' @ sq_RunID rep @ '' started_at='' @ sq_StartedAt rep @ '' ended_at=''
        @ sq_EndedAt rep @ '' threshold_bps='' @ itoa (sq_ThresholdBps rep), []]
     @ (if sq_TopByDeviation rep = []
        then [''no price_source_divergence REJECT samples recorded'', []]
        else concat (map (sample_lines fmt_g12) (sq_TopByDeviation rep)))"

subsection \<open>What the collector keeps\<close>

definition observe_samples :: "reject_sample list \<Rightarrow> collector \<Rightarrow> collector" where
  "observe_samples ss c = fold push_sample ss c"

lemma push_sample_frame [simp]:
  "co_topN (push_sample s c) = co_topN c" "co_recentN (push_sample s c) = co_recentN c"
  by (simp_all add: push_sample_def Let_def)

lemma last_n_append: "last_n n (last_n n xs @ ys) = last_n n (xs @ ys)"
proof (cases "length xs \<le> n")
  case False
  have "drop (n + length ys - n) (drop (length xs - n) xs @ ys)
      = drop (length xs + length ys - n) (xs @ ys)"
    using False by (simp add: drop_append add.commute)
  then show ?thesis using False by (simp add: last_n_def)
qed (simp add: last_n_def)

lemma push_recent: "0 \<le> co_recentN c \<Longrightarrow>
   co_recent (push_sample s c) =
     (if 0 < co_recentN c then last_n (nat (co_recentN c)) (co_recent c @ [s]) else co_recent c)"
  by (simp add: push_sample_def Let_def)

lemma observe_recent:
  assumes "0 < co_recentN c"
  shows "co_recent (observe_samples ss c) =
    (if ss = [] then co_recent c else last_n (nat (co_recentN c)) (co_recent c @ ss))"
  using assms
proof (induction ss arbitrary: c)
  case (Cons s ss)
  have "co_recent (push_sample s c) = last_n (nat (co_recentN c)) (co_recent c @ [s])"
    using Cons.prems by (simp add: push_recent)
  then show ?case
    using Cons.IH [of "push_sample s c"] Cons.prems
    by (cases "ss = []") (simp_all add: observe_samples_def last_n_append)
qed (simp add: observe_samples_def)

text \<open>The list of the worst samples is the beginning of the sorted list of all samples: an
  element that falls out would never come back.  \<open>ins_after\<close> is one step of a stable sort.\<close>

fun ins_after :: "('a \<Rightarrow> int) \<Rightarrow> 'a \<Rightarrow> 'a list \<Rightarrow> 'a list" where
  "ins_after f s [] = [s]"
| "ins_after f s (y # ys) = (if f y \<le> f s then y # ins_after f s ys else s # y # ys)"

lemma insort_ins_after: "insort_key f x (ins_after f s ys) = ins_after f s (insort_key f x ys)"
  by (induction ys) auto

lemma sort_key_snoc: "sort_key f (xs @ [s]) = ins_after f s (sort_key f xs)"
  by (induction xs) (simp_all add: insort_ins_after)

lemma take_ins_after: "take n (ins_after f s (take n ys)) = take n (ins_after f s ys)"
proof (induction ys arbitrary: n)
  case (Cons y ys)
  then show ?case by (cases n) (auto simp: take_Cons' min_def)
qed simp

lemma take_sort_snoc:
  fixes f :: "'a \<Rightarrow> int"
  shows "take n (sort_key f (take n (sort_key f xs) @ [s])) = take n (sort_key f (xs @ [s]))"
proof -
  have "sorted (map f (take n (sort_key f xs)))" by (metis sorted_sort_key sorted_wrt_take take_map)
  then have "sort_key f (take n (sort_key f xs)) = take n (sort_key f xs)"
    by (simp add: sorted_sort_id sort_key_id_if_sorted)
  then show ?thesis by (simp add: sort_key_snoc take_ins_after)
qed

lemma observe_top:
  "co_top c = take (nat (co_topN c)) (sort_key (\<lambda>x. - sm_DeviationBps x) all) \<Longrightarrow>
   co_top (observe_samples ss c)
     = take (nat (co_topN c)) (sort_key (\<lambda>x. - sm_DeviationBps x) (all @ ss))"
proof (induction ss arbitrary: c all)
  case (Cons s ss)
  have "co_top (push_sample s c)
      = take (nat (co_topN (push_sample s c))) (sort_key (\<lambda>x. - sm_DeviationBps x) (all @ [s]))"
    using Cons.prems take_sort_snoc by (simp add: push_sample_def Let_def)
  from Cons.IH [OF this] show ?case by (simp add: observe_samples_def)
qed (simp add: observe_samples_def)

end
