(* ===== verification/Props_Risk.thy ===== *)
theory Props_Risk
  imports Risk_Stats Divergence_Samples
begin

text \<open>
  The properties of the risk control: the evaluator, its four rules, the state store, the
  statistics and the collector of rejected samples.  The first section holds the concrete inputs
  of the witnesses.
\<close>

subsection \<open>Concrete inputs\<close>

definition t0 :: gotime where "t0 = unix_epoch + 1700000000 * second"

definition ex_intent :: intent where
  "ex_intent = zero_intent\<lparr>int_Type := IntentRebalanceV3, int_PoolID := ''v3'', int_ChainID := 1\<rparr>"

definition ex_health :: system_health where
  "ex_health = \<lparr>sh_HealthzOK = True, sh_BacklogLen = 0, sh_TickIntervalMsP95 = 0, sh_RPCOK = True\<rparr>"

definition ex_point :: "float64 \<Rightarrow> price_point" where
  "ex_point p =
     \<lparr>pp_SourceName = ''x'', pp_RawPrice = p, pp_Price = p, pp_NormalizedPrice = p,
      pp_NormalizationOK = True, pp_NormalizationDetail = ''ok'', pp_TsMS = unix_ms t0\<rparr>"

definition ex_ctx_at :: "gotime \<Rightarrow> float64 \<Rightarrow> float64 \<Rightarrow> risk_context" where
  "ex_ctx_at now p q =
     \<lparr>rc_Now = now, rc_Control = control_default, rc_Market = zero_snapshot,
      rc_PriceSources = [''onchain'' \<mapsto> ex_point p, ''exchange'' \<mapsto> ex_point q],
      rc_LastDecisionAt = 0, rc_System = ex_health, rc_CandidateIsDryRun = True\<rparr>"

definition ex_cooldown :: cooldown_config where
  "ex_cooldown =
     \<lparr>cc_Enabled = True, cc_Target = ''phoenix'', cc_MinInterval = 60 * second,
      cc_FailureThreshold = 3, cc_CooldownFor = 300 * second\<rparr>"

definition ex_divergence :: divergence_rule where
  "ex_divergence =
     \<lparr>dr_cfg = \<lparr>dc_Enabled = True, dc_MaxDeviationBps = 100, dc_MaxStaleness = 30 * second,
                dc_AlignMaxGap = 5 * second, dc_SourceA = ''onchain'', dc_SourceB = ''exchange''\<rparr>,
      dr_thresholdBpsEffective = 100, dr_overrideUsed = False\<rparr>"

definition ex_world :: "state_store \<Rightarrow> risk_state disk \<Rightarrow> cooldown_world" where
  "ex_world s d =
     \<lparr>cw_store = Some s, cw_disk = d, cw_faults = (\<lambda>_. no_faults t0 1), cw_lastMatchKey = [],
      cw_lastUntilMS = 0\<rparr>"

definition ex_store :: state_store where "ex_store = NewRiskStateStore"

lemmas ex_defs = t0_def ex_intent_def ex_health_def ex_point_def ex_ctx_at_def ex_cooldown_def
  ex_divergence_def ex_world_def ex_store_def

lemma ex_store_synced: "synced None ex_store" "store_ok ex_store" "fail_count k ex_store = 0"
  by (simp_all add: ex_defs synced_def store_ok_def NewRiskStateStore_def fail_count_def
      opt_get_def defaultPersistedRiskState_def state_ok_iff)

subsection \<open>The evaluator\<close>

text \<open>C3. One vote is enough: the evaluation of a candidate by the rules of the bot rejects it
  if the control file says HALT, if it would broadcast, if it is in a cooldown or too early, or if
  the two price sources diverge, in that order; the final rule is the first that objects, the
  intent is never changed, and a candidate that is halted or live does not touch the state store.\<close>

theorem bot_one_vote_veto:
  "(let (w', e) = bot_evaluate cfg r w i ctx in
     ev_FinalVerdict e = (if bot_blocks cfg r w i ctx then VerdictReject else VerdictApprove)
     \<and> ev_FinalRuleID e =
         (if halted ctx then RiskModeHALTRuleID
          else if rc_CandidateIsDryRun ctx
          then (if cooldown_blocks cfg w i ctx then CooldownAndFrequencyRuleID
                else if diverges r ctx then PriceSourceDivergenceRuleID else ''risk_control'')
          else ForceDryRunRuleID)
     \<and> length (ev_Decisions e) =
         (if halted ctx then 1
          else if rc_CandidateIsDryRun ctx then (if cooldown_blocks cfg w i ctx then 3 else 4)
          else 2)
     \<and> ev_FinalIntent e = i
     \<and> w' = (if halted ctx then w
             else if rc_CandidateIsDryRun ctx then fst (cooldown_eval cfg w i ctx) else w))"
proof -
  have "rd_RuleID (halt_eval i ctx) = RiskModeHALTRuleID"
    "rd_RuleID (dryrun_eval i ctx) = ForceDryRunRuleID"
    using halt.eval_rid[of undefined i ctx] dryrun.eval_rid[of undefined i ctx] by simp_all
  then show ?thesis
    using bot_evaluate_verdict[of cfg r w i ctx]
    by (auto simp: bot_evaluate_cases Let_def veto_def finish_def bot_blocks_def
        cooldown.eval_rid divergence_eval_rid split: prod.splits if_splits)
qed

lemma until_veto_none: "\<forall>d \<in> set ds. \<not> is_veto d \<Longrightarrow> until_veto ds = ds"
  by (induction ds) auto

text \<open>The evaluator for any list of rules: the decisions are those of the rules up to and
  including the first veto (a REJECT or an unknown verdict), the verdict is REJECT exactly if
  there is a veto, MODIFY if there is none but some rule asks for a modification, APPROVE
  otherwise, and the intent is returned as it came.\<close>

theorem evaluator_verdict:
  "(let ds = all_decisions rules i ctx w; e = snd (evaluate rules w i ctx) in
     ev_Decisions e = until_veto ds
     \<and> ev_FinalVerdict e =
         (if list_ex is_veto ds then VerdictReject
          else if list_ex (\<lambda>d. rd_Verdict d = VerdictModify) ds then VerdictModify
          else VerdictApprove)
     \<and> ev_FinalIntent e = i)"
proof (cases "list_ex is_veto (all_decisions rules i ctx w)")
  case True
  then show ?thesis
    by (auto simp: evaluate_def eval_rules_decisions eval_rules_intent Let_def list_ex_iff
        eval_rules_reject)
next
  case False
  have no: "\<forall>d \<in> set (all_decisions rules i ctx w). \<not> is_veto d"
    using False by (simp add: list_ex_iff)
  note until_veto_none[OF no]
  with eval_rules_final[OF no, of "[]" None] False show ?thesis
    using fold_better_None[of "all_decisions rules i ctx w" None]
    by (auto simp: evaluate_def eval_rules_decisions eval_rules_intent Let_def list_ex_iff
        finish_def split: option.splits)
qed

text \<open>Without a veto the modification that is chosen is one of those that the rules
  asked for, and it is the most conservative: a degradation before none, then the lowest urgency, the
  earliest deadline, the least rule id.\<close>

theorem modify_most_conservative:
  assumes "ev_FinalVerdict (snd (evaluate rules w i ctx)) = VerdictModify"
  shows "\<exists>m \<in> set (all_decisions rules i ctx w).
    rd_Verdict m = VerdictModify \<and> rd_RuleID m = ev_FinalRuleID (snd (evaluate rules w i ctx))
    \<and> rd_Reason m = ev_FinalReason (snd (evaluate rules w i ctx))
    \<and> (\<forall>d \<in> set (all_decisions rules i ctx w).
          rd_Verdict d = VerdictModify \<longrightarrow> key_le (modify_key m) (modify_key d))"
proof -
  let ?ds = "all_decisions rules i ctx w"
  have "\<forall>d \<in> set ?ds. \<not> is_veto d"
    using assms eval_rules_reject[of rules i ctx w "[]" None] by (auto simp: evaluate_def)
  note e = eval_rules_final[OF this, of "[]" None]
  obtain m where m: "fold (\<lambda>d b. better b d) ?ds None = Some m"
    using assms by (auto simp: evaluate_def e finish_def split: option.splits)
  show ?thesis
    using fold_better_least[OF m] by (intro bexI[of _ m]) (auto simp: evaluate_def e finish_def m)
qed

definition ex_modify :: "string \<Rightarrow> int64 \<Rightarrow> cooldown_world rule" where
  "ex_modify rid u =
     on_world rid (stateless (\<lambda>_ _. \<lparr>rd_Verdict = VerdictModify, rd_RuleID = rid, rd_Reason = ''slow'',
       rd_Degrade = Some \<lparr>dg_SetUrgencyLower = Some u, dg_SetDeadlineEarlier = None,
                          dg_MetadataOverride = [], dg_MetadataDelete = []\<rparr>\<rparr>))"

theorem modify_most_conservative_witness:
  "\<exists>m :: risk_decision. rd_Verdict m = VerdictModify
    \<and> rd_RuleID m = ev_FinalRuleID (snd (evaluate [ex_modify ''a'' 2, ex_modify ''b'' 1]
                      (ex_world ex_store None) ex_intent (ex_ctx_at t0 (Fin 1) (Fin 1))))"
proof -
  have "ev_FinalVerdict (snd (evaluate [ex_modify ''a'' 2, ex_modify ''b'' 1]
      (ex_world ex_store None) ex_intent (ex_ctx_at t0 (Fin 1) (Fin 1)))) = VerdictModify"
    by (simp add: evaluate_def ex_modify_def on_world_def stateless_def settle_def is_veto_def
        better_def finish_def mostConservativeModify_def Let_def)
  from modify_most_conservative[OF this] show ?thesis
    by blast
qed

subsection \<open>Cooldown and frequency\<close>

text \<open>C7. Enough consecutive failures stop the bot: if the failures recorded for a key reach the
  threshold, every candidate with that key that is evaluated before the cooldown ends is
  rejected, whatever else the context says; the state may have been reloaded and saved, with
  failing writes, any number of times in between.\<close>

theorem failures_cool_down:
  assumes "record_failures key th cd (ts @ [(now, ft)]) d s = (s', d')"
    "synced d s" "store_ok s" "\<forall>(_, ft) \<in> set (ts @ [(now, ft)]). \<not> ft_restat ft"
    "0 < th" "0 < cd" "th \<le> fail_count key s + int (length ts) + 1"
    "0 \<le> fail_count key s" "is_i64 (fail_count key s + int (length ts) + 1)"
    "cc_Enabled cfg" "key = CooldownKey (cc_Target cfg) i"
    "cw_store w = Some s'" "cw_disk w = d'"
    "unix_ms (rc_Now ctx) < unix_ms (t_add now cd)" "0 < unix_ms (t_add now cd)"
  shows "ev_FinalVerdict (snd (bot_evaluate cfg r w i ctx)) = VerdictReject"
proof -
  note cooled = record_failures_end[OF assms(1-9)]
  have "cooldown_blocks cfg w i ctx"
    using cooled assms(10-15) by (simp add: cooldown_blocks_synced[of w s'] Let_def)
  then show ?thesis by (simp add: bot_evaluate_verdict bot_blocks_def)
qed

definition ex_key :: string where "ex_key = CooldownKey ''phoenix'' ex_intent"

definition ex_failed :: "state_store \<times> risk_state disk" where
  "ex_failed = record_failures ex_key 3 (300 * second)
     ([(t0, no_faults t0 1), (t0, no_faults t0 1)] @ [(t0, no_faults t0 1)]) None ex_store"

theorem failures_cool_down_witness:
  "ev_FinalVerdict (snd (bot_evaluate ex_cooldown ex_divergence
     (ex_world (fst ex_failed) (snd ex_failed)) ex_intent (ex_ctx_at t0 (Fin 1) (Fin 1))))
   = VerdictReject"
proof (rule failures_cool_down[where key = ex_key and th = 3 and cd = "300 * second" and now = t0
      and ft = "no_faults t0 1" and ts = "[(t0, no_faults t0 1), (t0, no_faults t0 1)]"
      and d = None and s = ex_store and s' = "fst ex_failed" and d' = "snd ex_failed"])
  show "record_failures ex_key 3 (300 * second)
     ([(t0, no_faults t0 1), (t0, no_faults t0 1)] @ [(t0, no_faults t0 1)]) None ex_store
     = (fst ex_failed, snd ex_failed)" by (simp only: ex_failed_def prod.collapse)
qed (simp_all add: ex_store_synced ex_key_def ex_cooldown_def ex_world_def ex_ctx_at_def t0_def
      no_faults_def second_def i64_bounds unix_ms_def unix_epoch_def t_add_def wrap64_def)

text \<open>The frequency gate: when a candidate has passed the first three rules, even if the
  divergence rule then rejects it, its key is stamped, and any candidate with the same key that
  is evaluated less than the minimal interval later is rejected.\<close>

theorem min_interval_holds:
  assumes "cw_store w = Some s" "synced (cw_disk w) s" "store_ok s" "cc_Enabled cfg"
    "\<not> ft_restat (cw_faults w 3)"
    "\<not> halted ctx" "rc_CandidateIsDryRun ctx" "\<not> cooldown_blocks cfg w i ctx"
    "w' = (fst (bot_evaluate cfg r w i ctx))\<lparr>cw_faults := fts\<rparr>"
    "CooldownKey (cc_Target cfg) i' = CooldownKey (cc_Target cfg) i"
    "0 < unix_ms (rc_Now ctx)" "unix_ms (rc_Now ctx) \<le> unix_ms (rc_Now ctx')"
    "unix_ms (rc_Now ctx') < unix_ms (rc_Now ctx) + tquot (cc_MinInterval cfg) millisecond"
    "is_i64 (unix_ms (rc_Now ctx'))"
  shows "ev_FinalVerdict (snd (bot_evaluate cfg r' w' i' ctx')) = VerdictReject"
proof -
  have fst_eq: "fst (bot_evaluate cfg r w i ctx) = fst (cooldown_eval cfg w i ctx)"
    using assms(6-8) by (simp add: bot_evaluate_cases Let_def)
  from cooldown_approve_stamps[OF assms(1-4,8,5)] obtain s' where
    s': "cw_store (fst (cooldown_eval cfg w i ctx)) = Some s'"
      "synced (cw_disk (fst (cooldown_eval cfg w i ctx))) s'"
      "opt_get (rs_LastIntentTsMS (st_state s')) 0 (CooldownKey (cc_Target cfg) i)
        = unix_ms (rc_Now ctx)" by blast
  have "cw_store w' = Some s'" "synced (cw_disk w') s'"
    using s' by (simp_all add: assms(9) fst_eq)
  moreover have "sub64 (unix_ms (rc_Now ctx')) (unix_ms (rc_Now ctx))
      = unix_ms (rc_Now ctx') - unix_ms (rc_Now ctx)"
    using assms(11,12,14) by (intro sub64_id) (simp add: i64_bounds)
  ultimately have "cooldown_blocks cfg w' i' ctx'"
    using assms(4,10-14) s'(3)
    by (simp add: cooldown_blocks_synced[of w' s'] Let_def too_soon_def)
  then show ?thesis by (simp add: bot_evaluate_verdict bot_blocks_def)
qed

theorem min_interval_holds_witness:
  "ev_FinalVerdict (snd (bot_evaluate ex_cooldown ex_divergence
     ((fst (bot_evaluate ex_cooldown ex_divergence (ex_world ex_store None) ex_intent
        (ex_ctx_at t0 (Fin 1) (Fin 1))))\<lparr>cw_faults := (\<lambda>_. no_faults t0 1)\<rparr>)
     ex_intent (ex_ctx_at (t0 + 59 * second) (Fin 1) (Fin 1)))) = VerdictReject"
proof (rule min_interval_holds[where w = "ex_world ex_store None" and s = ex_store
      and ctx = "ex_ctx_at t0 (Fin 1) (Fin 1)" and i = ex_intent])
  show "\<not> cooldown_blocks ex_cooldown (ex_world ex_store None) ex_intent
      (ex_ctx_at t0 (Fin 1) (Fin 1))"
    by (subst cooldown_blocks_synced[of _ ex_store])
      (simp_all add: ex_store_synced ex_world_def cooldown_until_def ex_store_def
        NewRiskStateStore_def defaultPersistedRiskState_def opt_get_def too_soon_def synced_def)
qed (simp_all add: ex_store_synced ex_cooldown_def ex_world_def ex_ctx_at_def t0_def
      no_faults_def second_def millisecond_def i64_bounds unix_ms_def unix_epoch_def halted_def
      control_default_def wrap64_def tquot_def)

subsection \<open>Price divergence\<close>

text \<open>C8. The divergence rule decides by the exact deviation of the two prices: for prices in a
  sane range that differ by a factor of at most a thousand, a deviation of 1.51 basis points or
  more above the threshold is rejected, and one that is less than 0.49 basis points above it is
  approved, in spite of the roundings of the floating-point computation.\<close>

theorem divergence_decides:
  assumes "rc_PriceSources ctx (trim_space (dc_SourceA (dr_cfg r))) = Some a"
    "rc_PriceSources ctx (trim_space (dc_SourceB (dr_cfg r))) = Some b"
    "dc_Enabled (dr_cfg r)" "comparable (dr_cfg r) ctx a b"
    "norm_price a = Fin x" "norm_price b = Fin y"
    "1 / 1000 \<le> x" "x \<le> 1000000000" "1 / 1000 \<le> y" "y \<le> 1000000000"
    "\<bar>x - y\<bar> \<le> 1000 * min x y"
  shows "(of_int (dr_thresholdBpsEffective r) + 151 / 100 \<le> exact_bps x y
            \<longrightarrow> rd_Verdict (divergence_eval r i ctx) = VerdictReject)
    \<and> (exact_bps x y < of_int (dr_thresholdBpsEffective r) + 49 / 100
            \<longrightarrow> rd_Verdict (divergence_eval r i ctx) = VerdictApprove)"
proof -
  let ?dev = "deviationBps (Fin x) (Fin y)" and ?t = "dr_thresholdBpsEffective r"
  note acc = deviationBps_accuracy[OF assms(7-11)]
  have d: "diverges r ctx \<longleftrightarrow> ?t < ?dev"
    using assms(1-6) by (simp add: diverges_def Let_def)
  have up: "?t < ?dev" if "of_int ?t + 151 / 100 \<le> exact_bps x y"
  proof -
    have "(of_int ?t :: rat) < of_int ?dev" using acc that unfolding abs_le_iff by linarith
    then show ?thesis by simp
  qed
  have down: "\<not> ?t < ?dev" if "exact_bps x y < of_int ?t + 49 / 100"
  proof -
    have "(of_int ?dev :: rat) < of_int (?t + 1)"
      using acc that unfolding abs_le_iff of_int_add of_int_1 by linarith
    then show ?thesis by linarith
  qed
  show ?thesis using up down by (simp add: divergence_eval_verdict d)
qed

lemma ex_comparable:
  "0 < x \<Longrightarrow> 0 < y \<Longrightarrow>
     comparable (dr_cfg ex_divergence) (ex_ctx_at t0 (Fin x) (Fin y)) (ex_point (Fin x)) (ex_point (Fin y))"
  by (simp add: comparable_def not_comparable_def norm_price_def ex_divergence_def ex_ctx_at_def
      ex_point_def age_ms_def ts_gap_ms_def max_stale_ms_def align_gap_ms_def f_le_def t0_def
      unix_ms_def second_def millisecond_def tquot_def sub64_def wrap64_def unix_epoch_def)

theorem divergence_decides_witness:
  "rd_Verdict (divergence_eval ex_divergence ex_intent (ex_ctx_at t0 (Fin 1) (Fin 2))) = VerdictReject
   \<and> rd_Verdict (divergence_eval ex_divergence ex_intent (ex_ctx_at t0 (Fin 1) (Fin 1))) = VerdictApprove"
proof
  have k: "trim_space ''onchain'' = ''onchain''" "trim_space ''exchange'' = ''exchange''"
    by code_simp+
  note d = divergence_decides[where r = ex_divergence and x = 1 and a = "ex_point (Fin 1)"
      and ctx = "ex_ctx_at t0 (Fin 1) (Fin y)" and b = "ex_point (Fin y)" and y = y
      and i = ex_intent for y, OF _ _ _ ex_comparable]
  show "rd_Verdict (divergence_eval ex_divergence ex_intent (ex_ctx_at t0 (Fin 1) (Fin 2))) = VerdictReject"
    using d[of 2] by (simp add: ex_ctx_at_def ex_divergence_def k ex_point_def norm_price_def
        f_le_def exact_bps_def)
  show "rd_Verdict (divergence_eval ex_divergence ex_intent (ex_ctx_at t0 (Fin 1) (Fin 1))) = VerdictApprove"
    using d[of 1] by (simp add: ex_ctx_at_def ex_divergence_def k ex_point_def norm_price_def
        f_le_def exact_bps_def)
qed

lemma rnd_big_bps: "rnd (2 ^ 50 * 10000) = Fin (2 ^ 50 * 10000)"
proof -
  have "ilog2 (2 ^ 50 * 10000) = 63"
    by (rule ilog2_unique) (simp_all add: pow2_def power_int_def)
  then have "rdl (2 ^ 50 * 10000) = 2 ^ 50 * 10000"
    by (intro rdl_multiple[where m = "2 ^ 39 * 10000" and q = 11])
      (simp_all add: qexp_def pow2_def power_int_def)
  moreover have "(2 ^ 50 * 10000 :: rat) < pow2 1024"
    using pow2_strict_mono[of 64 1024] by (simp add: pow2_def power_int_def)
  moreover have "- pow2 1024 < 0" by simp
  ultimately show ?thesis by (simp add: rnd_def Let_def)
qed

lemma deviationBps_wraps: "deviationBps (Fin (2 ^ 50 + 1)) (Fin 1) = min_i64"
proof -
  obtain e where e: "deviation_eps = Fin e" "e \<le> 1 / 1000" using eps_small by blast
  have "rnd (2 ^ 50) = Fin (2 ^ 50)"
    using rnd_repr[OF repr_int[of "2 ^ 50"]] by simp
  moreover have "f_max (Fin 1) deviation_eps = Fin 1" unfolding e(1) using e(2) by (simp add: max_def)
  ultimately show ?thesis
    using rnd_big_bps by (simp add: deviationBps_def f_le_def f_sub_def rat_trunc_def i64_bounds)
qed

text \<open>The rule has a blind spot: the basis points are converted to an int64, and for prices
  that are far enough apart the conversion overflows to the least int64 on amd64, which is below
  every threshold, so that a deviation of more than 1e19 basis points is approved.\<close>

theorem divergence_overflow_approved:
  "deviationBps (Fin (2 ^ 50 + 1)) (Fin 1) = min_i64
   \<and> 10 ^ 19 < exact_bps (2 ^ 50 + 1) 1
   \<and> rd_Verdict (divergence_eval ex_divergence ex_intent
        (ex_ctx_at t0 (Fin (2 ^ 50 + 1)) (Fin 1))) = VerdictApprove"
proof -
  have k: "trim_space ''onchain'' = ''onchain''" "trim_space ''exchange'' = ''exchange''"
    by code_simp+
  have "\<not> diverges ex_divergence (ex_ctx_at t0 (Fin (2 ^ 50 + 1)) (Fin 1))"
    using deviationBps_wraps by (simp add: diverges_def Let_def ex_divergence_def ex_ctx_at_def k
        norm_price_def ex_point_def f_le_def min_i64_def)
  then show ?thesis
    using deviationBps_wraps by (simp add: divergence_eval_verdict exact_bps_def)
qed

text \<open>The statistics can read back what the rule writes: the deviation that the rule puts
  into its reason, whether it approves or rejects, is the number that is parsed from it, when the
  source names and the details of the normalization are ordinary text.\<close>

theorem divergence_reason_readable:
  assumes "rc_PriceSources ctx (trim_space (dc_SourceA (dr_cfg r))) = Some a"
    "rc_PriceSources ctx (trim_space (dc_SourceB (dr_cfg r))) = Some b"
    "dc_Enabled (dr_cfg r)" "comparable (dr_cfg r) ctx a b"
    "quiet (trim_space (dc_SourceA (dr_cfg r)))" "quiet (trim_space (dc_SourceB (dr_cfg r)))"
    "clean_detail a" "clean_detail b"
  shows "parseInt64After (rd_Reason (divergence_eval r i ctx)) ''deviation_bps=''
    = Some (deviationBps (norm_price a) (norm_price b))"
proof -
  let ?ka = "trim_space (dc_SourceA (dr_cfg r))" and ?kb = "trim_space (dc_SourceB (dr_cfg r))"
    and ?dev = "deviationBps (norm_price a) (norm_price b)"
  have "rd_Reason (divergence_eval r i ctx) =
     (if dr_thresholdBpsEffective r < ?dev then reason_reject r ?ka a ?kb b
      else reason_ok r ?ka ?kb ?dev)"
    using assms(1-4)
    by (simp add: divergence_eval_def divergence_compare_def comparable_def Let_def not_less)
      (auto simp: not_less)
  then show ?thesis
    using reason_reject_dev[OF assms(5-8), of r] reason_ok_dev[OF assms(5,6), of ?dev r]
    by (simp add: dev_marker_def)
qed

theorem divergence_reason_readable_witness:
  "parseInt64After (rd_Reason (divergence_eval ex_divergence ex_intent
      (ex_ctx_at t0 (Fin 1) (Fin 2)))) ''deviation_bps='' = Some (deviationBps (Fin 1) (Fin 2))"
proof -
  have k: "trim_space ''onchain'' = ''onchain''" "trim_space ''exchange'' = ''exchange''"
    "trim_space ''ok'' = ''ok''" by code_simp+
  have q: "quiet ''onchain''" "quiet ''exchange''" "quiet ''ok''"
    by (simp_all add: quiet_no_eq)
  have p: "plain ''ok''" by code_simp
  show ?thesis
    using divergence_reason_readable[where r = ex_divergence and a = "ex_point (Fin 1)"
        and b = "ex_point (Fin 2)" and ctx = "ex_ctx_at t0 (Fin 1) (Fin 2)" and i = ex_intent,
        OF _ _ _ ex_comparable]
    by (simp add: ex_ctx_at_def ex_divergence_def k q p clean_detail_def ex_point_def
        norm_price_def f_le_def)
qed

subsection \<open>The state store\<close>

text \<open>C19. What the store promises: while it is in step with the file, an update is applied to
  the state in memory and stamped, the file is replaced by exactly that state unless the write
  fails, in which case it is left alone, the store stays in step with the file either way, and an
  error is returned exactly if the write failed.\<close>

theorem store_update_refines:
  assumes "update_and_save f now ft d s = (s', d', e)" "synced d s" "\<not> ft_restat ft"
    "state_ok (f (st_state s))"
  shows "st_state s' = (f (st_state s))\<lparr>rs_UpdatedAtMS := unix_ms now\<rparr> \<and> synced d' s'
    \<and> (e \<longleftrightarrow> ft_write ft)
    \<and> (if ft_write ft then d' = d else map_option fl_doc d' = Some (Some (st_state s')))"
  using update_and_save_refines[OF assms] by (auto split: if_splits)

theorem store_update_refines_witness:
  "synced (snd (snd (SetLastIntentMS ex_key 7 t0 (no_faults t0 1) None ex_store), fst (snd
       (SetLastIntentMS ex_key 7 t0 (no_faults t0 1) None ex_store))))
     (fst (SetLastIntentMS ex_key 7 t0 (no_faults t0 1) None ex_store))"
proof -
  obtain s' d' e where r: "SetLastIntentMS ex_key 7 t0 (no_faults t0 1) None ex_store = (s', d', e)"
    by (metis prod.exhaust)
  have ok: "state_ok (put_last_intent ex_key 7 (st_state ex_store))"
    using ex_store_synced(2) by (intro put_ok) (simp add: store_ok_def)
  show ?thesis
    using store_update_refines[OF r[unfolded SetLastIntentMS_def] ex_store_synced(1) _ ok] r
    by (simp add: no_faults_def)
qed

text \<open>The fail count: recording failures one after the other counts them, and the cooldown
  that is stored runs from the last of them, for a threshold that has been reached; other keys are
  not affected by a failure.\<close>

theorem failure_recorded:
  assumes "RecordFailure key th cd now ft d s = (s', d', until, n, e)" "synced d s" "store_ok s"
    "\<not> ft_restat ft"
  shows "n = add64 (fail_count key s) 1 \<and> fail_count key s' = n
    \<and> (if cools_down th cd n
       then until = unix_ms (t_add now cd) \<and> cooldown_until key s' = until
       else until = 0 \<and> cooldown_until key s' = cooldown_until key s)
    \<and> (key' \<noteq> key \<longrightarrow> fail_count key' s' = fail_count key' s
                  \<and> cooldown_until key' s' = cooldown_until key' s)
    \<and> synced d' s' \<and> store_ok s'"
  using RecordFailure_step[OF assms] by auto

theorem failure_recorded_witness:
  "fst (snd (snd (snd (RecordFailure ex_key 3 (300 * second) t0 (no_faults t0 1) None ex_store)))) = 1"
proof -
  obtain s' d' u n e where
    r: "RecordFailure ex_key 3 (300 * second) t0 (no_faults t0 1) None ex_store = (s', d', u, n, e)"
    by (metis prod.exhaust)
  show ?thesis
    using failure_recorded[OF r ex_store_synced(1,2)] r
    by (simp add: no_faults_def ex_store_synced add64_id i64_bounds)
qed

subsection \<open>The control file\<close>

text \<open>The control loader is fail-safe: after any number of loads with any system calls
  failing, the state it reports is in normal form (so that risk modes compare by equality) and it
  is the initial default, the default of a missing file, or the normal form of a document that
  was on disk.\<close>

theorem control_loads_safe:
  "control_ok (ld_lastState (ctl.loads os new_loader))
   \<and> (ld_lastState (ctl.loads os new_loader) = control_default
      \<or> list_ex (\<lambda>(now, ft, d). map_option normalize_control (readable ft d)
                   = Some (ld_lastState (ctl.loads os new_loader))) os)"
proof
  have n: "ld_lastState new_loader = control_default" by (simp add: new_loader_def)
  show "control_ok (ld_lastState (ctl.loads os new_loader))"
    by (rule ctl.current_loads) (simp_all add: n)
  show "ld_lastState (ctl.loads os new_loader) = control_default
      \<or> list_ex (\<lambda>(now, ft, d). map_option normalize_control (readable ft d)
                   = Some (ld_lastState (ctl.loads os new_loader))) os"
    using ctl.current_loads_origin[of os new_loader] by (force simp: n list_ex_iff)
qed

subsection \<open>Statistics\<close>

text \<open>The verdict counters are exact: after any sequence of evaluations the counter of a
  class (REJECT, MODIFY, SKIP, APPROVE) is the number of evaluations of that class.\<close>

theorem verdict_counts_exact:
  assumes "int (length evs) \<le> max_i64"
  shows "map_get (rt_verdictCounts (observe_run evs (NewRiskStats path))) 0 v
    = int (length (filter (\<lambda>e. eval_class e = v) evs))"
proof -
  have "int (length (filter (\<lambda>e. eval_class e = v) evs)) \<le> int (length evs)"
    by (simp only: of_nat_le_iff length_filter_le)
  then have "is_i64 (int (length (filter (\<lambda>e. eval_class e = v) evs)))"
    using assms unfolding is_i64_def min_i64_def by linarith
  moreover have "map_get (rt_verdictCounts (NewRiskStats path)) 0 v = 0"
    by (simp add: NewRiskStats_def map_get_def)
  ultimately show ?thesis by (simp add: observe_run_verdicts wrap64_id)
qed

theorem verdict_counts_exact_witness:
  "map_get (rt_verdictCounts (observe_run
     [snd (bot_evaluate ex_cooldown ex_divergence (ex_world ex_store None) ex_intent
        ((ex_ctx_at t0 (Fin 1) (Fin 1))\<lparr>rc_CandidateIsDryRun := False\<rparr>))]
     (NewRiskStats ''var/risk_stats.json''))) 0 VerdictReject = 1"
proof -
  have "eval_class (snd (bot_evaluate ex_cooldown ex_divergence (ex_world ex_store None) ex_intent
      ((ex_ctx_at t0 (Fin 1) (Fin 1))\<lparr>rc_CandidateIsDryRun := False\<rparr>))) = VerdictReject"
    by (simp add: eval_class_def bot_evaluate_verdict bot_blocks_def)
  then show ?thesis
    by (subst verdict_counts_exact) (simp_all add: max_i64_def)
qed

lemma stats_inv_run: "stats_inv s \<Longrightarrow> stats_inv (observe_run evs s)"
  unfolding observe_run_def by (induction evs arbitrary: s) (simp_all add: stats_inv_observe)

text \<open>The quantiles of the deviations: after any sequence of evaluations that left a sample,
  the median and the 95th percentile are samples, in that order, and at most the maximum.\<close>

theorem quantiles_ordered:
  assumes "s = observe_run evs (NewRiskStats path)" "rt_divSamples s \<noteq> []"
  shows "ps_P50DeviationBps (stats_divergence s) \<in> set (rt_divSamples s)
    \<and> ps_P95DeviationBps (stats_divergence s) \<in> set (rt_divSamples s)
    \<and> 0 \<le> ps_P50DeviationBps (stats_divergence s)
    \<and> ps_P50DeviationBps (stats_divergence s) \<le> ps_P95DeviationBps (stats_divergence s)
    \<and> ps_P95DeviationBps (stats_divergence s) \<le> ps_MaxDeviationBps (stats_divergence s)"
proof -
  have inv: "stats_inv s" by (simp add: assms(1) stats_inv_run stats_inv_new)
  show ?thesis
    using stats_quantiles[OF inv assms(2)] inv
    by (auto simp: stats_inv_def stats_divergence_def Let_def)
qed

definition ex_reject_ev :: evaluation where
  "ex_reject_ev = veto ex_intent
     [decision VerdictReject PriceSourceDivergenceRuleID ''price divergence too high deviation_bps=700 x'']
     (decision VerdictReject PriceSourceDivergenceRuleID ''price divergence too high deviation_bps=700 x'')"

lemma ex_reject_samples:
  "rt_divSamples (observe_run [ex_reject_ev] (NewRiskStats [])) = [700]"
  by code_simp

theorem quantiles_ordered_witness:
  "ps_P95DeviationBps (stats_divergence (observe_run [ex_reject_ev] (NewRiskStats []))) = 700"
  using quantiles_ordered[OF refl, of "[ex_reject_ev]" "[]"] by (simp add: ex_reject_samples)

text \<open>The running sum of the deviations drifts: once the ring of samples is full, every
  further sample is added to the sum twice, so that the reported average grows without bound.\<close>

theorem ring_sum_drifts:
  assumes "0 \<le> rt_totalEvaluations s"
  shows "sum_gap (observeDeviationBps v s) =
    (if length (rt_divSamples s) < ring_size then sum_gap s else wrap64 (sum_gap s + max 0 v))"
  by (rule observeDeviation_gap[OF assms])

theorem ring_sum_drifts_witness:
  "sum_gap (observeDeviationBps 5 ((NewRiskStats [])\<lparr>rt_divSamples := replicate 8192 0\<rparr>)) = 5"
  using ring_sum_drifts[of "(NewRiskStats [])\<lparr>rt_divSamples := replicate 8192 0\<rparr>" 5]
  by (simp add: NewRiskStats_def ring_size_def sum_gap_def sum_list_replicate wrap64_def)

text \<open>The collector of rejected samples: after any number of samples it holds the \<open>topN\<close>
  with the largest deviation, in decreasing order, and the \<open>recentN\<close> latest.\<close>

theorem collector_top_and_recent:
  "(let c = observe_samples ss (NewDivergenceRejectCollector topN recentN run started);
        n = (if topN \<le> 0 then 10 else topN) in
     co_top c = take (nat n) (sort_key (\<lambda>x. - sm_DeviationBps x) ss)
     \<and> co_recent c = (if 0 < recentN then last_n (nat recentN) ss else []))"
proof -
  let ?c = "NewDivergenceRejectCollector topN recentN run started"
  have "co_top ?c = []" "co_recent ?c = []" "co_topN ?c = (if topN \<le> 0 then 10 else topN)"
    "co_recentN ?c = (if recentN < 0 then 0 else recentN)"
    by (simp_all add: NewDivergenceRejectCollector_def Let_def)
  moreover have "co_recent (observe_samples ss c) = co_recent c" if "co_recentN c = 0" for c
    using that unfolding observe_samples_def
    by (induction ss arbitrary: c) (simp_all add: push_recent)
  ultimately show ?thesis
    using observe_top[of ?c "[]" ss] observe_recent[of ?c ss]
    by (auto simp: Let_def last_n_def)
qed

end
