(* ===== verification/Props_Market.thy ===== *)
theory Props_Market
  imports Price_Aggregator
begin

text \<open>
  The properties of the price aggregator over all its runs: what the mode \<open>normal\<close> means, how the
  gate follows the mode, that the order of Go's map iteration does not matter, and that the
  aggregated price stays within the bounds of the prices that were received.
\<close>

lemma onTimeTick_sel [simp]:
  "pa_risk (onTimeTick now a) = pa_risk (fst (recompute now a))"
  "pa_agg (onTimeTick now a) = pa_agg (fst (recompute now a))"
  "pa_cfg (onTimeTick now a) = pa_cfg a"
  "pa_sources (onTimeTick now a) = pa_sources a"
  by (simp_all add: onTimeTick_def maybeLog_def)

lemma reachable_inv: "agg_inv (agg_run is (NewPriceAggregator cfg))"
  by (rule agg_inv_run [OF agg_inv_new])

text \<open>The time at which a step recomputes the aggregate, if it does, and the last such time of a
  run.\<close>

fun step_time :: "agg_input \<Rightarrow> gotime option" where
  "step_time (InPrice u) =
     (if pu_Source u = [] \<or> f_le (pu_Price u) (Fin 0) \<or> t_is_zero (pu_ReceivedAt u) then None
      else Some (pu_ReceivedAt u))"
| "step_time (InEvent now ev) =
     (if sev_Source ev = [] then None
      else Some (if t_is_zero (sev_At ev) then now else sev_At ev))"
| "step_time (InTick now) = Some now"
| "step_time InRecv = None"

definition later :: "agg_input \<Rightarrow> gotime option \<Rightarrow> gotime option" where
  "later i t = (case step_time i of None \<Rightarrow> t | Some u \<Rightarrow> Some u)"

definition last_recompute :: "agg_input list \<Rightarrow> gotime option" where
  "last_recompute is = fold later is None"

definition two_agree :: "gotime \<Rightarrow> aggregator \<Rightarrow> bool" where
  "two_agree t a \<longleftrightarrow>
     fst (GetGate t a) = False
     \<and> (\<exists>s1 \<in> set (pa_sources a). \<exists>s2 \<in> set (pa_sources a).
         ss_Name s1 \<noteq> ss_Name s2 \<and> is_fresh (pa_cfg a) t s1 \<and> is_fresh (pa_cfg a) t s2
         \<and> \<not> f_lt (ac_DivergencePct (pa_cfg a)) (divergence (ss_LastPrice s1) (ss_LastPrice s2))
         \<and> ag_AggPrice (pa_agg a) = mid_price (ss_LastPrice s1) (ss_LastPrice s2))"

definition normal_since :: "gotime option \<Rightarrow> aggregator \<Rightarrow> bool" where
  "normal_since t a \<longleftrightarrow>
     (mr_Mode (pa_risk a) = ''normal'' \<longrightarrow> (case t of None \<Rightarrow> False | Some t \<Rightarrow> two_agree t a))"

lemma normal_since_same:
  assumes "pa_risk b = pa_risk a" "pa_agg b = pa_agg a" "pa_cfg b = pa_cfg a" "pa_sources b = pa_sources a"
  shows "normal_since t b = normal_since t a"
  using assms by (simp add: normal_since_def two_agree_def GetGate_def Let_def split: option.split)

lemma normal_since_recompute:
  assumes "agg_inv a"
  shows "normal_since (Some t) (fst (recompute t a))"
proof -
  let ?b = "fst (recompute t a)"
  have "two_agree t ?b" if m: "mr_Mode (pa_risk ?b) = ''normal''"
  proof -
    have "distinct (map ss_Name (pa_sources a))" using assms by (simp add: agg_inv_def)
    from recompute_normal [OF this m] obtain s1 s2 where s: "s1 \<in> set (pa_sources a)"
      "s2 \<in> set (pa_sources a)" "ss_Name s1 \<noteq> ss_Name s2" "is_fresh (pa_cfg a) t s1"
      "is_fresh (pa_cfg a) t s2"
      "\<not> f_lt (ac_DivergencePct (pa_cfg a)) (divergence (ss_LastPrice s1) (ss_LastPrice s2))"
      "ag_AggPrice (pa_agg ?b) = mid_price (ss_LastPrice s1) (ss_LastPrice s2)"
      "\<not> agg_stale (pa_cfg a) t (ag_AggUpdatedAt (pa_agg ?b))" by blast
    have "\<not> agg_frozen (pa_cfg a) t (ag_AggUpdatedAt (pa_agg ?b))"
      using m by (simp add: recompute_frozen_iff)
    then have "fst (GetGate t ?b) = False"
      using s(8) by (auto simp: GetGate_def Let_def agg_stale_def agg_frozen_def agg_age_def)
    with s show ?thesis by (auto simp: two_agree_def)
  qed
  then show ?thesis by (simp add: normal_since_def)
qed

lemma normal_since_step:
  assumes "agg_inv a" "normal_since t a"
  shows "normal_since (later i t) (agg_step i a)"
proof (cases i)
  case (InPrice u)
  show ?thesis
  proof (cases "step_time i")
    case None
    then have "agg_step i a = a" using InPrice by (auto simp: onPriceUpdate_def split: if_splits)
    then show ?thesis using assms(2) None by (simp add: later_def)
  next
    case (Some t')
    then have g: "pu_Source u \<noteq> []" "\<not> f_le (pu_Price u) (Fin 0)" "\<not> t_is_zero (pu_ReceivedAt u)"
      and t': "t' = pu_ReceivedAt u" using InPrice by (auto split: if_splits)
    let ?a = "a\<lparr>pa_sources := update_source (pu_Source u) (price_source u) (pa_sources a)\<rparr>"
    have "agg_inv ?a" using assms(1) g(1) by (intro agg_inv_update_source) (simp_all add: source_ok_price)
    then have n: "normal_since (Some t') (fst (recompute t' ?a))" by (rule normal_since_recompute)
    have "normal_since (Some t') (onPriceUpdate u a) = normal_since (Some t') (fst (recompute t' ?a))"
      using g by (intro normal_since_same) (simp_all add: onPriceUpdate_def t' case_prod_beta Let_def)
    with n show ?thesis using InPrice Some by (simp add: later_def)
  qed
next
  case (InEvent now ev)
  show ?thesis
  proof (cases "sev_Source ev = []")
    case True
    then show ?thesis using assms(2) InEvent by (simp add: later_def onSourceEvent_def)
  next
    case False
    let ?t = "if t_is_zero (sev_At ev) then now else sev_At ev"
    have "agg_inv (a\<lparr>pa_sources := update_source (sev_Source ev) (event_source ev ?t) (pa_sources a)\<rparr>)"
      using assms(1) False by (intro agg_inv_update_source) (simp_all add: source_ok_event)
    from normal_since_recompute [OF this, of ?t] show ?thesis
      using InEvent False by (simp add: later_def onSourceEvent_def Let_def)
  qed
next
  case (InTick now)
  have "normal_since (Some now) (onTimeTick now a) = normal_since (Some now) (fst (recompute now a))"
    by (rule normal_since_same) simp_all
  with normal_since_recompute [OF assms(1), of now] show ?thesis using InTick by (simp add: later_def)
next
  case InRecv
  have "normal_since t (a\<lparr>pa_out := tl (pa_out a)\<rparr>) = normal_since t a" by (rule normal_since_same) simp_all
  then show ?thesis using assms(2) InRecv by (simp add: later_def)
qed

lemma normal_since_fold:
  "agg_inv a \<Longrightarrow> normal_since t a \<Longrightarrow> normal_since (fold later is t) (fold agg_step is a)"
  by (induction "is" arbitrary: a t) (simp_all add: agg_inv_step normal_since_step)

text \<open>C20. Trading is only normal on two agreeing prices: in every reachable state of the
  aggregator that carries the mode \<open>normal\<close> - after price updates, source events and ticks in any
  order - the aggregate has been recomputed before, and two different sources had fresh prices at
  the last recomputation, their divergence does not exceed the configured limit, the aggregated
  price is their mean, and the gate was open then.  (The mode is that of the last recomputation:
  it is not taken back before the next price, event or tick, even if the prices age.)\<close>

theorem normal_needs_two_sources:
  assumes "a = agg_run is (NewPriceAggregator cfg)" "mr_Mode (pa_risk a) = ''normal''"
  shows "\<exists>t. last_recompute is = Some t \<and> fst (GetGate t a) = False
    \<and> (\<exists>s1 \<in> set (pa_sources a). \<exists>s2 \<in> set (pa_sources a).
         ss_Name s1 \<noteq> ss_Name s2 \<and> is_fresh (pa_cfg a) t s1 \<and> is_fresh (pa_cfg a) t s2
         \<and> \<not> f_lt (ac_DivergencePct (pa_cfg a)) (divergence (ss_LastPrice s1) (ss_LastPrice s2))
         \<and> ag_AggPrice (pa_agg a) = mid_price (ss_LastPrice s1) (ss_LastPrice s2))"
proof -
  have "normal_since None (NewPriceAggregator cfg)"
    by (simp add: normal_since_def NewPriceAggregator_def Let_def)
  from normal_since_fold [OF agg_inv_new this, of "is"]
  have "normal_since (last_recompute is) a" by (simp add: assms(1) last_recompute_def agg_run_def)
  then show ?thesis using assms(2) by (auto simp: normal_since_def two_agree_def split: option.splits)
qed

definition ex_cfg :: agg_config where
  "ex_cfg = \<lparr>ac_Symbol = [], ac_StaleWindow = 0, ac_FreezeWindow = 0, ac_DivergencePct = Fin 1,
             ac_LogInterval = 0\<rparr>"

definition ex_update :: "string \<Rightarrow> float64 \<Rightarrow> gotime \<Rightarrow> price_update" where
  "ex_update src p t =
     \<lparr>pu_Source = src, pu_Symbol = [], pu_Price = p, pu_EventTime = 0, pu_ReceivedAt = t\<rparr>"

definition ex_run :: "agg_input list" where
  "ex_run = [InPrice (ex_update ''binance'' (Fin 1) 5), InPrice (ex_update ''okx'' (Fin 1) 6)]"

lemma rnd_two: "rnd 2 = Fin 2" "rnd 1 = Fin 1" "rnd 0 = Fin 0"
  using rnd_repr[OF repr_numeral[of "Num.Bit0 Num.One"]] rnd_repr[OF repr_one] rnd_repr[OF repr_zero]
  by simp_all

lemma onPriceUpdate_sources:
  "pa_sources (onPriceUpdate u a) =
     (if pu_Source u = [] \<or> f_le (pu_Price u) (Fin 0) \<or> t_is_zero (pu_ReceivedAt u)
      then pa_sources a else update_source (pu_Source u) (price_source u) (pa_sources a))"
  "pa_cfg (onPriceUpdate u a) = pa_cfg a"
  by (simp_all add: onPriceUpdate_def Let_def case_prod_beta)

lemma ex_sources:
  "map (\<lambda>s. (ss_Name s, ss_LastPrice s, ss_LastUpdateAt s))
     (pa_sources (agg_run ex_run (NewPriceAggregator ex_cfg)))
   = [(''binance'', Fin 1, 5), (''okx'', Fin 1, 6)]
   \<and> ac_StaleWindow (pa_cfg (agg_run ex_run (NewPriceAggregator ex_cfg))) = 5 * second
   \<and> ac_FreezeWindow (pa_cfg (agg_run ex_run (NewPriceAggregator ex_cfg))) = 20 * second
   \<and> ac_DivergencePct (pa_cfg (agg_run ex_run (NewPriceAggregator ex_cfg))) = Fin 1"
  by (simp add: agg_run_def ex_run_def ex_update_def NewPriceAggregator_def ex_cfg_def Let_def
      onPriceUpdate_sources update_source_def price_source_def new_source_def t_is_zero_def f_le_def)

lemma ex_run_normal:
  "mr_Mode (pa_risk (onTimeTick 7 (agg_run ex_run (NewPriceAggregator ex_cfg)))) = ''normal''"
proof -
  define a where "a = agg_run ex_run (NewPriceAggregator ex_cfg)"
  note src = ex_sources[folded a_def]
  then obtain s1 s2 where "pa_sources a = [s1, s2]" "ss_Name s1 = ''binance''" "ss_LastPrice s1 = Fin 1"
    "ss_LastUpdateAt s1 = 5" "ss_Name s2 = ''okx''" "ss_LastPrice s2 = Fin 1" "ss_LastUpdateAt s2 = 6"
    by (auto simp: map_eq_Cons_conv)
  moreover from this have f: "fresh_sources (pa_cfg a) 7 (pa_sources a) = [s1, s2]"
    using src by (simp add: fresh_sources_def is_fresh_def never_updated_def t_is_zero_def t_sub_def
        f_le_def second_def i64_bounds)
  ultimately show ?thesis
    unfolding a_def[symmetric] using src
    by (simp add: recompute_def Let_def f i64_bounds
        t_is_zero_def t_sub_def f_le_def second_def combine_def divergence_def mid_price_def rnd_two
        f_sub_def agg_stale_def agg_frozen_def agg_age_def maxTime_def)
qed

theorem normal_needs_two_sources_witness:
  "last_recompute (ex_run @ [InTick 7]) = Some 7
   \<and> fst (GetGate 7 (agg_run (ex_run @ [InTick 7]) (NewPriceAggregator ex_cfg))) = False
   \<and> 2 \<le> length (pa_sources (agg_run (ex_run @ [InTick 7]) (NewPriceAggregator ex_cfg)))"
proof -
  define a where "a = agg_run (ex_run @ [InTick 7]) (NewPriceAggregator ex_cfg)"
  have l: "last_recompute (ex_run @ [InTick 7]) = Some 7" by (simp add: last_recompute_def later_def)
  have "mr_Mode (pa_risk a) = ''normal''" using ex_run_normal by (simp add: a_def agg_run_def)
  from normal_needs_two_sources [OF a_def this] l obtain s1 s2 where g: "fst (GetGate 7 a) = False"
    "s1 \<in> set (pa_sources a)" "s2 \<in> set (pa_sources a)" "ss_Name s1 \<noteq> ss_Name s2" by auto
  then have "card {s1, s2} \<le> length (pa_sources a)"
    using card_length [of "pa_sources a"] card_mono [of "set (pa_sources a)" "{s1, s2}"] by simp
  moreover have "s1 \<noteq> s2" using g(4) by blast
  ultimately show ?thesis using l g(1) by (simp add: a_def)
qed

text \<open>C39. Go iterates over the map of sources in an unspecified order; the result of a
  recomputation does not depend on it.\<close>

theorem recompute_order_irrelevant:
  assumes "a = agg_run is (NewPriceAggregator cfg)" "mset ss = mset (pa_sources a)"
  shows "pa_agg (fst (recompute now (a\<lparr>pa_sources := ss\<rparr>))) = pa_agg (fst (recompute now a))
    \<and> pa_risk (fst (recompute now (a\<lparr>pa_sources := ss\<rparr>))) = pa_risk (fst (recompute now a))
    \<and> snd (recompute now (a\<lparr>pa_sources := ss\<rparr>)) = snd (recompute now a)"
proof -
  have "distinct (map ss_Name (pa_sources a))"
    using reachable_inv[of "is" cfg] by (simp add: assms(1) agg_inv_def)
  from recompute_perm[OF this assms(2), of now] show ?thesis by (simp split: prod.splits)
qed

theorem recompute_order_irrelevant_witness:
  "snd (recompute 9 ((agg_run ex_run (NewPriceAggregator ex_cfg))
      \<lparr>pa_sources := rev (pa_sources (agg_run ex_run (NewPriceAggregator ex_cfg)))\<rparr>))
   = snd (recompute 9 (agg_run ex_run (NewPriceAggregator ex_cfg)))"
  using recompute_order_irrelevant[OF refl, where ss = "rev (pa_sources (agg_run ex_run
      (NewPriceAggregator ex_cfg)))" and now = 9] by simp

text \<open>The gate and the mode never contradict each other: right after a tick, a blocked gate
  comes with the mode \<open>degraded\<close> or \<open>frozen\<close> and a reason, an open one with an aggregate that is
  not older than the stale window, and the gate reports \<open>price_frozen\<close> only in the mode \<open>frozen\<close>.\<close>

theorem gate_follows_mode:
  "(let (blocked, why, age, mode) = GetGate now (onTimeTick now a) in
     mode = mr_Mode (pa_risk (onTimeTick now a))
     \<and> (if blocked then mode \<noteq> ''normal'' \<and> why \<in> {''price_stale'', ''price_frozen''}
        else age \<le> ac_StaleWindow (pa_cfg a) \<and> age \<le> ac_FreezeWindow (pa_cfg a)
             \<and> mode \<noteq> ''frozen'')
     \<and> (if why = ''price_frozen'' then mode = ''frozen'' else True))"
proof -
  have f: "agg_frozen (pa_cfg a) now (ag_AggUpdatedAt (pa_agg (fst (recompute now a))))
      = (mr_Mode (pa_risk (fst (recompute now a))) = ''frozen'')" by (rule recompute_frozen_iff)
  note st = recompute_not_normal_if_stale[of a now]
  show ?thesis
    using f st
    by (auto simp: GetGate_def Let_def agg_stale_def agg_frozen_def agg_age_def split: if_splits)
qed

definition input_between :: "rat \<Rightarrow> rat \<Rightarrow> agg_input \<Rightarrow> bool" where
  "input_between lo hi i \<longleftrightarrow>
     (case i of InPrice u \<Rightarrow> f_le (pu_Price u) (Fin 0) \<or> price_between lo hi (pu_Price u) | _ \<Rightarrow> True)"

lemma update_between:
  assumes "prices_between lo hi a" "price_between lo hi (pu_Price u)"
  shows "prices_between lo hi
    (a\<lparr>pa_sources := update_source n (price_source u) (pa_sources a)\<rparr>)"
  using assms by (auto simp: prices_between_def price_source_def dest!: update_source_set)

lemma event_between:
  assumes "prices_between lo hi a"
  shows "prices_between lo hi
    (a\<lparr>pa_sources := update_source n (event_source ev tm) (pa_sources a)\<rparr>)"
  using assms
  by (fastforce simp: prices_between_def event_source_def new_source_def never_updated_def Let_def
      dest!: update_source_set split: option.splits)

lemma prices_between_agg:
  "pa_sources b = pa_sources a \<Longrightarrow> pa_agg b = pa_agg a \<Longrightarrow>
     prices_between lo hi b \<longleftrightarrow> prices_between lo hi a"
  by (simp add: prices_between_def)

lemma prices_between_step:
  assumes r: "repr lo" "repr hi" "repr (2 * lo)" "repr (2 * hi)"
    and a: "prices_between lo hi a" and i: "input_between lo hi i"
  shows "prices_between lo hi (agg_step i a)"
proof (cases i)
  case (InPrice u)
  show ?thesis
  proof (rule onPriceUpdate_cases[of u a])
    assume "onPriceUpdate u a = a"
    then show ?thesis using a InPrice by simp
  next
    fix b
    assume p: "\<not> f_le (pu_Price u) (Fin 0)"
      and b: "b = fst (recompute (pu_ReceivedAt u)
         (a\<lparr>pa_sources := update_source (pu_Source u) (price_source u) (pa_sources a)\<rparr>))"
      and o: "onPriceUpdate u a = b
       \<or> (length (pa_out b) < out_capacity
           \<and> onPriceUpdate u a =
              b\<lparr>pa_out := pa_out b @ [\<lparr>tk_Symbol = legacy_symbol (pa_sym b),
                tk_Price = ag_AggPrice (pa_agg b),
                tk_Timestamp = ag_AggUpdatedAt (pa_agg b)\<rparr>]\<rparr>)"
    have "price_between lo hi (pu_Price u)" using p i InPrice by (simp add: input_between_def)
    then have "prices_between lo hi b"
      unfolding b by (intro prices_between_recompute[OF r] update_between a)
    moreover have "pa_sources (onPriceUpdate u a) = pa_sources b" "pa_agg (onPriceUpdate u a) = pa_agg b"
      using o by (elim disjE conjE; simp)+
    ultimately show ?thesis using InPrice by (simp add: prices_between_agg[of "onPriceUpdate u a" b])
  qed
next
  case (InEvent now ev)
  then show ?thesis
    using prices_between_recompute[OF r event_between[OF a]] a
    by (cases "sev_Source ev = []") (simp_all add: onSourceEvent_def Let_def)
next
  case (InTick now)
  have "prices_between lo hi (onTimeTick now a)"
    using prices_between_recompute[OF r a, of now]
    by (simp add: prices_between_agg[of "onTimeTick now a" "fst (recompute now a)"])
  then show ?thesis using InTick by simp
next
  case InRecv
  then show ?thesis using a prices_between_agg[of "a\<lparr>pa_out := tl (pa_out a)\<rparr>" a] by simp
qed

text \<open>The aggregated price is trustworthy: if every price that is received lies between two
  doubles, then in every reachable state the aggregated price, once there is one, is a double
  between them; the rounding of the mean never leaves the bounds.\<close>

theorem aggregate_within_bounds:
  assumes "repr lo" "repr hi" "repr (2 * lo)" "repr (2 * hi)" "list_all (input_between lo hi) is"
  shows "t_is_zero (ag_AggUpdatedAt (pa_agg (agg_run is (NewPriceAggregator cfg))))
    \<or> price_between lo hi (ag_AggPrice (pa_agg (agg_run is (NewPriceAggregator cfg))))"
proof -
  have "prices_between lo hi (agg_run is a)" if "prices_between lo hi a" for a
    using assms(5) that unfolding agg_run_def
    by (induction "is" arbitrary: a) (auto intro: prices_between_step[OF assms(1-4)])
  moreover have "prices_between lo hi (NewPriceAggregator cfg)"
    by (simp add: prices_between_def NewPriceAggregator_def Let_def zero_aggregate_def t_is_zero_def)
  ultimately show ?thesis by (auto simp: prices_between_def)
qed

theorem aggregate_within_bounds_witness:
  "t_is_zero (ag_AggUpdatedAt (pa_agg (agg_run ex_run (NewPriceAggregator ex_cfg))))
    \<or> price_between 1 2 (ag_AggPrice (pa_agg (agg_run ex_run (NewPriceAggregator ex_cfg))))"
proof -
  have r: "repr 2" "repr 4" using repr_numeral[of "Num.Bit0 Num.One"]
      repr_numeral[of "Num.Bit0 (Num.Bit0 Num.One)"] by simp_all
  show ?thesis
    by (rule aggregate_within_bounds)
      (simp_all add: r ex_run_def input_between_def ex_update_def price_between_def)
qed

end
