(* ===== verification/Intent_Queue.thy ===== *)
theory Intent_Queue
  imports Contracts "HOL-Library.Multiset"
begin

text \<open>
  internal/strategy/queue.go: the queue between the strategies and the executor.  It is an
  array heap driven by Go's \<open>container/heap\<close>, ordered by urgency, the highest first.  The array
  is a list; \<open>heap_up\<close> and \<open>heap_down\<close> are the loops of the library.  \<open>Dequeue\<close> on an empty
  queue waits, which is \<open>None\<close> here.
\<close>

type_synonym pqueue = "intent list"

definition pq_Less :: "pqueue \<Rightarrow> nat \<Rightarrow> nat \<Rightarrow> bool" where
  "pq_Less q i j \<longleftrightarrow> int_Urgency (q ! j) < int_Urgency (q ! i)"

definition pq_Swap :: "pqueue \<Rightarrow> nat \<Rightarrow> nat \<Rightarrow> pqueue" where
  "pq_Swap q i j = q[i := q ! j, j := q ! i]"

definition pq_Push :: "pqueue \<Rightarrow> intent \<Rightarrow> pqueue" where
  "pq_Push q x = q @ [x]"

definition pq_Pop :: "pqueue \<Rightarrow> intent \<times> pqueue" where
  "pq_Pop q = (q ! (length q - 1), take (length q - 1) q)"

definition parent :: "nat \<Rightarrow> nat" where "parent j = (j - 1) div 2"

lemma parent_less: "0 < j \<Longrightarrow> parent j < j"
  by (simp add: parent_def)

lemma parent_eq_iff: "0 < c \<Longrightarrow> parent c = i \<longleftrightarrow> c = 2 * i + 1 \<or> c = 2 * i + 2"
  by (auto simp: parent_def)

function heap_up :: "pqueue \<Rightarrow> nat \<Rightarrow> pqueue" where
  "heap_up q j =
     (let i = parent j
      in if i = j \<or> \<not> pq_Less q j i then q else heap_up (pq_Swap q i j) i)"
  by auto
termination
proof (relation "measure snd")
  fix q j i
  assume "i = parent j" "\<not> (i = j \<or> \<not> pq_Less q j i)"
  then have "parent j \<noteq> j" by simp
  then have "0 < j" by (cases j) (simp_all add: parent_def)
  with \<open>i = parent j\<close> show "((pq_Swap q i j, i), (q, j)) \<in> measure snd" by (simp add: parent_less)
qed simp

definition max_child :: "pqueue \<Rightarrow> nat \<Rightarrow> nat \<Rightarrow> nat" where
  "max_child q i n =
     (if 2 * i + 2 < n \<and> pq_Less q (2 * i + 2) (2 * i + 1) then 2 * i + 2 else 2 * i + 1)"

function heap_down :: "pqueue \<Rightarrow> nat \<Rightarrow> nat \<Rightarrow> pqueue" where
  "heap_down q i n =
     (if n \<le> 2 * i + 1 then q
      else let j = max_child q i n
           in if \<not> pq_Less q j i then q else heap_down (pq_Swap q i j) j n)"
  by auto
termination
  by (relation "measure (\<lambda>(q, i, n). n - i)") (auto simp: max_child_def)

declare heap_up.simps [simp del] heap_down.simps [simp del]

definition heap_push :: "intent \<Rightarrow> pqueue \<Rightarrow> pqueue" where
  "heap_push x q = heap_up (pq_Push q x) (length q)"

definition heap_pop :: "pqueue \<Rightarrow> intent \<times> pqueue" where
  "heap_pop q =
     (let n = length q - 1 in pq_Pop (heap_down (pq_Swap q 0 n) 0 n))"

definition NewIntentQueue :: pqueue where "NewIntentQueue = []"

definition Enqueue :: "intent \<Rightarrow> pqueue \<Rightarrow> pqueue" where
  "Enqueue x q = heap_push x q"

definition Dequeue :: "pqueue \<Rightarrow> (intent \<times> pqueue) option" where
  "Dequeue q = (if length q = 0 then None else Some (heap_pop q))"

subsection \<open>The heap invariant\<close>

abbreviation urg :: "pqueue \<Rightarrow> nat \<Rightarrow> int" where
  "urg q i \<equiv> int_Urgency (q ! i)"

definition heap_upto :: "nat \<Rightarrow> pqueue \<Rightarrow> bool" where
  "heap_upto n q \<longleftrightarrow> (\<forall>i. 0 < i \<and> i < n \<longrightarrow> urg q i \<le> urg q (parent i))"

definition is_heap :: "pqueue \<Rightarrow> bool" where
  "is_heap q \<longleftrightarrow> heap_upto (length q) q"

lemma swap_length [simp]: "length (pq_Swap q i j) = length q"
  by (simp add: pq_Swap_def)

lemma swap_nth:
  "i < length q \<Longrightarrow> j < length q \<Longrightarrow> k < length q \<Longrightarrow>
   pq_Swap q i j ! k = (if k = j then q ! i else if k = i then q ! j else q ! k)"
  by (simp add: pq_Swap_def nth_list_update_swap)

lemma swap_mset: "i < length q \<Longrightarrow> j < length q \<Longrightarrow> mset (pq_Swap q i j) = mset q"
  unfolding pq_Swap_def by (rule mset_swap)

text \<open>Only \<open>j\<close> may be more urgent than its parent; its children respect its parent.\<close>

definition up_inv :: "pqueue \<Rightarrow> nat \<Rightarrow> bool" where
  "up_inv q j \<longleftrightarrow>
     (\<forall>i. 0 < i \<and> i < length q \<and> i \<noteq> j \<longrightarrow> urg q i \<le> urg q (parent i))
     \<and> (\<forall>i. 0 < i \<and> i < length q \<and> parent i = j \<and> 0 < j \<longrightarrow> urg q i \<le> urg q (parent j))"

lemma up_inv_swap:
  assumes inv: "up_inv q j" and j: "j < length q" "0 < j" and less: "urg q (parent j) < urg q j"
  shows "up_inv (pq_Swap q (parent j) j) (parent j)"
proof -
  let ?p = "parent j" let ?q = "pq_Swap q ?p j"
  have p: "?p < j" "?p < length q" using j parent_less [of j] by simp_all
  have nth: "?q ! k = (if k = j then q ! ?p else if k = ?p then q ! j else q ! k)"
    if "k < length q" for k using swap_nth [OF p(2) j(1) that] .
  have ok: "urg q i \<le> urg q (parent i)" if "0 < i" "i < length q" "i \<noteq> j" for i
    using inv that unfolding up_inv_def by blast
  have ok2: "urg q i \<le> urg q ?p" if "0 < i" "i < length q" "parent i = j" for i
    using inv that j unfolding up_inv_def by blast
  have a: "urg ?q i \<le> urg ?q (parent i)" if i: "0 < i" "i < length q" "i \<noteq> ?p" for i
  proof -
    have pi: "parent i < length q" "parent i < i" using i parent_less [of i] by auto
    consider "i = j" | "i \<noteq> j" "parent i = j" | "i \<noteq> j" "parent i = ?p"
      | "i \<noteq> j" "parent i \<noteq> j" "parent i \<noteq> ?p" by blast
    then show ?thesis
    proof cases
      case 1 then show ?thesis using less p j by (simp add: nth)
    next
      case 2 then show ?thesis using ok2 [of i] i pi by (simp add: nth)
    next
      case 3 then show ?thesis using ok [of i] i pi less p by (simp add: nth)
    next
      case 4 then show ?thesis using ok [of i] i pi by (simp add: nth)
    qed
  qed
  have b: "urg ?q i \<le> urg ?q (parent ?p)" if i: "0 < i" "i < length q" "parent i = ?p" "0 < ?p" for i
  proof -
    have pp: "parent ?p < ?p" "parent ?p < length q" using parent_less [of ?p] i p by auto
    have le: "urg q ?p \<le> urg q (parent ?p)" using ok [of ?p] i p by simp
    have ip: "i \<noteq> ?p" using parent_less [of i] i by auto
    show ?thesis
    proof (cases "i = j")
      case True
      then show ?thesis using le pp p j by (simp add: nth)
    next
      case False
      then have "urg q i \<le> urg q ?p" using ok [of i] i by simp
      then show ?thesis using le pp p j i ip False by (simp add: nth)
    qed
  qed
  from a b show ?thesis by (simp add: up_inv_def)
qed

lemma heap_up_correct:
  "up_inv q j \<Longrightarrow> j < length q \<Longrightarrow> is_heap (heap_up q j) \<and> mset (heap_up q j) = mset q"
proof (induction q j rule: heap_up.induct)
  case (1 q j)
  show ?case
  proof (cases "parent j = j \<or> \<not> pq_Less q j (parent j)")
    case True
    have "urg q i \<le> urg q (parent i)" if "0 < i" "i < length q" for i
    proof (cases "i = j")
      case True
      then show ?thesis
        using \<open>parent j = j \<or> _\<close> that parent_less [of j] by (auto simp: pq_Less_def)
    next
      case False
      then show ?thesis using 1(2) that unfolding up_inv_def by blast
    qed
    then show ?thesis
      using True by (simp add: heap_up.simps [of q j] is_heap_def heap_upto_def)
  next
    case False
    then have j: "0 < j" by (cases j) (auto simp: parent_def)
    then have p: "parent j < length q" using parent_less [of j] 1(3) by simp
    have "up_inv (pq_Swap q (parent j) j) (parent j)"
      using up_inv_swap [OF 1(2,3) j] False by (simp add: pq_Less_def)
    then have "is_heap (heap_up (pq_Swap q (parent j) j) (parent j))
        \<and> mset (heap_up (pq_Swap q (parent j) j) (parent j)) = mset (pq_Swap q (parent j) j)"
      using 1(1) [OF refl False] p by simp
    then show ?thesis
      using False swap_mset [OF p 1(3)] by (simp add: heap_up.simps [of q j] Let_def)
  qed
qed

definition down_inv :: "pqueue \<Rightarrow> nat \<Rightarrow> nat \<Rightarrow> bool" where
  "down_inv q n i \<longleftrightarrow>
     (\<forall>c. 0 < c \<and> c < n \<and> parent c \<noteq> i \<longrightarrow> urg q c \<le> urg q (parent c))
     \<and> (\<forall>c. 0 < c \<and> c < n \<and> parent c = i \<and> 0 < i \<longrightarrow> urg q c \<le> urg q (parent i))"

lemma max_child_props:
  assumes "2 * i + 1 < n"
  shows "max_child q i n < n" "parent (max_child q i n) = i" "0 < max_child q i n" "i < max_child q i n"
    "0 < c \<Longrightarrow> c < n \<Longrightarrow> parent c = i \<Longrightarrow> urg q c \<le> urg q (max_child q i n)"
proof -
  show "max_child q i n < n" "0 < max_child q i n" "i < max_child q i n"
    using assms by (auto simp: max_child_def)
  then show "parent (max_child q i n) = i"
    unfolding parent_eq_iff [OF \<open>0 < max_child q i n\<close>] by (simp add: max_child_def)
  show "urg q c \<le> urg q (max_child q i n)" if "0 < c" "c < n" "parent c = i"
    using that parent_eq_iff [of c i] by (auto simp: max_child_def pq_Less_def)
qed

lemma down_inv_swap:
  assumes inv: "down_inv q n i" and n: "n \<le> length q" and i: "2 * i + 1 < n"
    and less: "urg q i < urg q (max_child q i n)"
  shows "down_inv (pq_Swap q i (max_child q i n)) n (max_child q i n)"
proof -
  let ?j = "max_child q i n" let ?q = "pq_Swap q i ?j"
  note mc = max_child_props [OF i, where q = q]
  have ij: "i < length q" "?j < length q" using mc n i by auto
  have nth: "?q ! k = (if k = ?j then q ! i else if k = i then q ! ?j else q ! k)"
    if "k < length q" for k using swap_nth [OF ij that] .
  have ok: "urg q c \<le> urg q (parent c)" if "0 < c" "c < n" "parent c \<noteq> i" for c
    using inv that unfolding down_inv_def by blast
  have ok2: "urg q c \<le> urg q (parent i)" if "0 < c" "c < n" "parent c = i" "0 < i" for c
    using inv that unfolding down_inv_def by blast
  have a: "urg ?q c \<le> urg ?q (parent c)" if c: "0 < c" "c < n" "parent c \<noteq> ?j" for c
  proof -
    have pc: "parent c < c" "parent c < length q" "c < length q" using c parent_less [of c] n by auto
    consider "c = i" | "c = ?j" | "c \<noteq> i" "c \<noteq> ?j" "parent c = i"
      | "c \<noteq> i" "c \<noteq> ?j" "parent c \<noteq> i" by blast
    then show ?thesis
    proof cases
      case 1
      then have "parent c \<noteq> i" "c \<noteq> ?j" using pc mc(4) by auto
      then show ?thesis using ok2 [of ?j] 1 c mc pc by (simp add: nth)
    next
      case 2 then show ?thesis using less mc pc ij by (simp add: nth)
    next
      case 3 then show ?thesis using mc(5) [of c] c pc mc(4) ij by (simp add: nth)
    next
      case 4 then show ?thesis using ok [of c] c pc by (simp add: nth)
    qed
  qed
  have b: "urg ?q c \<le> urg ?q (parent ?j)" if c: "0 < c" "c < n" "parent c = ?j" for c
  proof -
    have "c \<noteq> ?j" "c \<noteq> i" using c parent_less [of c] mc(4) by auto
    moreover have "urg q c \<le> urg q ?j" using ok [of c] c mc(4) by simp
    ultimately show ?thesis using c n mc(2,4) ij by (simp add: nth)
  qed
  from a b show ?thesis by (simp add: down_inv_def)
qed

lemma heap_down_correct:
  "down_inv q n i \<Longrightarrow> n \<le> length q \<Longrightarrow>
   heap_upto n (heap_down q i n) \<and> mset (heap_down q i n) = mset q
   \<and> length (heap_down q i n) = length q
   \<and> (\<forall>k. n \<le> k \<longrightarrow> k < length q \<longrightarrow> heap_down q i n ! k = q ! k)"
proof (induction q i n rule: heap_down.induct)
  case (1 q i n)
  let ?j = "max_child q i n"
  show ?case
  proof (cases "n \<le> 2 * i + 1 \<or> \<not> pq_Less q ?j i")
    case True
    have "urg q c \<le> urg q (parent c)" if c: "0 < c" "c < n" for c
    proof (cases "parent c = i")
      case pc: True
      then have "2 * i + 1 < n" using c parent_eq_iff [of c i] by auto
      then show ?thesis
        using True max_child_props(5) [of i n c q] c pc by (auto simp: pq_Less_def)
    next
      case False
      then show ?thesis using 1(2) c unfolding down_inv_def by blast
    qed
    then show ?thesis using True by (auto simp: heap_down.simps [of q i n] heap_upto_def Let_def)
  next
    case False
    then have i: "2 * i + 1 < n" and less: "urg q i < urg q ?j" by (auto simp: pq_Less_def)
    note mc = max_child_props [OF i, where q = q]
    have ij: "i < length q" "?j < length q" using mc 1(3) i by auto
    have "down_inv (pq_Swap q i ?j) n ?j" by (rule down_inv_swap [OF 1(2,3) i less])
    then have ih: "heap_upto n (heap_down (pq_Swap q i ?j) ?j n)
      \<and> mset (heap_down (pq_Swap q i ?j) ?j n) = mset (pq_Swap q i ?j)
      \<and> length (heap_down (pq_Swap q i ?j) ?j n) = length (pq_Swap q i ?j)
      \<and> (\<forall>k. n \<le> k \<longrightarrow> k < length (pq_Swap q i ?j) \<longrightarrow>
           heap_down (pq_Swap q i ?j) ?j n ! k = pq_Swap q i ?j ! k)"
      using 1(1) [OF _ refl] False 1(3) by simp
    have "pq_Swap q i ?j ! k = q ! k" if "n \<le> k" "k < length q" for k
      using swap_nth [OF ij that(2)] that mc i by auto
    then show ?thesis
      using ih False swap_mset [OF ij] by (auto simp: heap_down.simps [of q i n] Let_def)
  qed
qed

subsection \<open>The contract of a priority queue\<close>

text \<open>
  What the executor relies on, whatever the representation: the contents are a multiset, a pop
  gives an element of the greatest priority, and every push and pop keeps the invariant.
\<close>

locale priority_queue =
  fixes empty :: 'q
    and push :: "'a \<Rightarrow> 'q \<Rightarrow> 'q"
    and pop :: "'q \<Rightarrow> ('a \<times> 'q) option"
    and elems :: "'q \<Rightarrow> 'a multiset"
    and prio :: "'a \<Rightarrow> int"
    and inv :: "'q \<Rightarrow> bool"
  assumes empty_inv: "inv empty" and empty_elems: "elems empty = {#}"
    and push_inv: "inv q \<Longrightarrow> inv (push x q)"
    and push_elems: "inv q \<Longrightarrow> elems (push x q) = add_mset x (elems q)"
    and pop_none: "inv q \<Longrightarrow> pop q = None \<longleftrightarrow> elems q = {#}"
    and pop_inv: "inv q \<Longrightarrow> pop q = Some (x, q') \<Longrightarrow> inv q'"
    and pop_elems: "inv q \<Longrightarrow> pop q = Some (x, q') \<Longrightarrow> elems q = add_mset x (elems q')"
    and pop_max: "inv q \<Longrightarrow> pop q = Some (x, q') \<Longrightarrow> y \<in># elems q \<Longrightarrow> prio y \<le> prio x"
begin

text \<open>Pushing a list, and popping a number of times.\<close>

definition push_all :: "'a list \<Rightarrow> 'q \<Rightarrow> 'q" where
  "push_all xs q = fold push xs q"

fun pops :: "nat \<Rightarrow> 'q \<Rightarrow> 'a list \<times> 'q" where
  "pops 0 q = ([], q)"
| "pops (Suc n) q =
     (case pop q of None \<Rightarrow> ([], q)
      | Some (x, q') \<Rightarrow> let (xs, q'') = pops n q' in (x # xs, q''))"

lemma push_all_inv: "inv q \<Longrightarrow> inv (push_all xs q)"
  unfolding push_all_def by (induction xs arbitrary: q) (simp_all add: push_inv)

lemma push_all_elems: "inv q \<Longrightarrow> elems (push_all xs q) = mset xs + elems q"
  unfolding push_all_def by (induction xs arbitrary: q) (simp_all add: push_inv push_elems)

text \<open>Popping gives the contents in the order of their priority: what comes out is sorted, nothing
  that stays is more urgent, and nothing is lost.\<close>

lemma pops_correct:
  assumes "inv q" "pops n q = (xs, q')"
  shows "inv q' \<and> elems q = mset xs + elems q' \<and> length xs = min n (size (elems q))
    \<and> sorted (map (\<lambda>x. - prio x) xs) \<and> (\<forall>x \<in> set xs. \<forall>y \<in># elems q'. prio y \<le> prio x)"
  using assms
proof (induction n arbitrary: q xs)
  case (Suc n)
  show ?case
  proof (cases "pop q")
    case None
    with Suc.prems pop_none [of q] show ?thesis by simp
  next
    case (Some a)
    obtain x q1 where a: "a = (x, q1)" by (cases a)
    obtain ys where ys: "pops n q1 = (ys, q')" "xs = x # ys"
      using Suc.prems(2) Some a by (auto split: prod.splits)
    note q1 = pop_inv [OF Suc.prems(1) Some [unfolded a]]
      pop_elems [OF Suc.prems(1) Some [unfolded a]]
    from Suc.IH [OF q1(1) ys(1)] have ih: "inv q'" "elems q1 = mset ys + elems q'"
      "length ys = min n (size (elems q1))" "sorted (map (\<lambda>x. - prio x) ys)"
      "\<forall>x \<in> set ys. \<forall>y \<in># elems q'. prio y \<le> prio x" by blast+
    have top: "prio y \<le> prio x" if "y \<in> set ys \<or> y \<in># elems q'" for y
      using pop_max [OF Suc.prems(1) Some [unfolded a], of y] that ih(2) q1(2) by auto
    have "elems q = mset xs + elems q'" using q1(2) ih(2) ys(2) by simp
    moreover have "length xs = min (Suc n) (size (elems q))" using q1(2) ih(3) ys(2) by simp
    moreover have "sorted (map (\<lambda>x. - prio x) xs)" using ih(4) top ys(2) by simp
    moreover have "prio y \<le> prio z" if "z \<in> set xs" "y \<in># elems q'" for y z
      using ih(5) top ys(2) that by auto
    ultimately show ?thesis using ih(1) by simp
  qed
qed simp

end

lemma heap_root_max:
  "is_heap q \<Longrightarrow> i < length q \<Longrightarrow> urg q i \<le> urg q 0"
proof (induction i rule: less_induct)
  case (less i)
  show ?case
  proof (cases "i = 0")
    case False
    then have p: "parent i < i" by (simp add: parent_less)
    then have "urg q (parent i) \<le> urg q 0" using less by simp
    moreover have "urg q i \<le> urg q (parent i)"
      using less.prems False by (simp add: is_heap_def heap_upto_def)
    ultimately show ?thesis by simp
  qed simp
qed

lemma heap_push_correct:
  assumes "is_heap q"
  shows "is_heap (heap_push x q) \<and> mset (heap_push x q) = add_mset x (mset q)"
proof -
  have "up_inv (q @ [x]) (length q)"
    unfolding up_inv_def
  proof (intro conjI allI impI)
    fix i assume i: "0 < i \<and> i < length (q @ [x]) \<and> i \<noteq> length q"
    then have "parent i < length q" using parent_less [of i] by simp
    with i assms show "urg (q @ [x]) i \<le> urg (q @ [x]) (parent i)"
      by (simp add: nth_append is_heap_def heap_upto_def)
  next
    fix i assume "0 < i \<and> i < length (q @ [x]) \<and> parent i = length q \<and> 0 < length q"
    then show "urg (q @ [x]) i \<le> urg (q @ [x]) (parent (length q))"
      using parent_less [of i] by auto
  qed
  from heap_up_correct [OF this] show ?thesis by (simp add: heap_push_def pq_Push_def)
qed

lemma heap_pop_correct:
  assumes "is_heap q" "q \<noteq> []" "heap_pop q = (x, q')"
  shows "is_heap q' \<and> mset q = add_mset x (mset q') \<and> x = q ! 0"
proof -
  let ?n = "length q - 1" let ?s = "pq_Swap q 0 ?n" let ?d = "heap_down ?s 0 ?n"
  have n: "?n < length q" "0 < length q" using assms(2) by simp_all
  have nth: "?s ! k = (if k = ?n then q ! 0 else if k = 0 then q ! ?n else q ! k)"
    if "k < length q" for k using swap_nth [OF n(2,1) that] .
  have "down_inv ?s ?n 0"
    unfolding down_inv_def
  proof (intro conjI allI impI)
    fix c assume c: "0 < c \<and> c < ?n \<and> parent c \<noteq> 0"
    then have "parent c < c" using parent_less by blast
    moreover have cl: "c < length q" using c by linarith
    moreover have "urg q c \<le> urg q (parent c)"
      using c cl assms(1) by (simp add: is_heap_def heap_upto_def)
    ultimately show "urg ?s c \<le> urg ?s (parent c)" using c nth [of c] nth [of "parent c"] by simp
  qed simp
  from heap_down_correct [OF this] have d: "heap_upto ?n ?d" "mset ?d = mset ?s"
    "length ?d = length q" "?d ! ?n = ?s ! ?n" using n by auto
  have m: "mset ?d = mset q" using d(2) swap_mset [OF n(2,1)] by simp
  have x: "x = q ! 0" and q': "q' = take ?n ?d"
    using assms(3) d(3,4) nth [OF n(1)] by (auto simp: heap_pop_def pq_Pop_def Let_def)
  have "take (Suc ?n) ?d = take ?n ?d @ [?d ! ?n]"
    by (rule take_Suc_conv_app_nth) (simp only: d(3) n)
  moreover have "take (Suc ?n) ?d = ?d" using d(3) n by simp
  ultimately have "mset ?d = mset (take ?n ?d @ [?d ! ?n])" by simp
  also have "\<dots> = add_mset x (mset q')" by (simp only: q' x d(4) nth [OF n(1)]) simp
  finally have "mset ?d = add_mset x (mset q')" .
  moreover have "is_heap q'"
    using d(1) d(3) n unfolding is_heap_def heap_upto_def q'
    by (auto simp: parent_def)
  ultimately show ?thesis using m x by simp
qed

interpretation iq: priority_queue NewIntentQueue Enqueue Dequeue mset int_Urgency is_heap
proof unfold_locales
  fix q q' :: pqueue and x y :: intent
  show "is_heap NewIntentQueue" by (simp add: NewIntentQueue_def is_heap_def heap_upto_def)
  show "mset NewIntentQueue = {#}" by (simp add: NewIntentQueue_def)
  show "is_heap q \<Longrightarrow> is_heap (Enqueue x q)"
    and "is_heap q \<Longrightarrow> mset (Enqueue x q) = add_mset x (mset q)"
    using heap_push_correct [of q x] by (simp_all add: Enqueue_def)
  show "Dequeue q = None \<longleftrightarrow> mset q = {#}" by (simp add: Dequeue_def)
  assume q: "is_heap q" "Dequeue q = Some (x, q')"
  then have pop: "q \<noteq> []" "heap_pop q = (x, q')" by (simp_all add: Dequeue_def split: if_splits)
  note c = heap_pop_correct [OF q(1) pop]
  then show "is_heap q'" and "mset q = add_mset x (mset q')" by simp_all
  show "y \<in># mset q \<Longrightarrow> int_Urgency y \<le> int_Urgency x"
    using c heap_root_max [OF q(1)] by (metis in_set_conv_nth set_mset_mset)
qed

end
