(* ===== verification/Config.thy ===== *)
theory Config
  imports Contracts
begin

text \<open>
  internal/config/config.go and manager.go: the configuration, its validation and its reload,
  and what cmd/bot derives from it for the basic strategy.  Parsing YAML is a library call: a
  document is \<open>None\<close> when it does not decode.  A value of \<open>strategy.params\<close> is a \<open>pval\<close>.
\<close>

datatype pval = PInt int64 | PInt64 int64 | PFloat float64 | PStr string | POther

record event_config =
  ec_Driver :: string
  ec_RedisURL :: string
  ec_RedisPrefix :: string
  ec_RedisGroup :: string

record chain_config =
  ch_ID :: int64
  ch_Name :: string
  ch_RPC :: string
  ch_QuoterAddress :: string
  ch_SwapHelperAddress :: string

record pool_config =
  pc_ID :: string
  pc_ChainID :: int64
  pc_Token0 :: string
  pc_Token1 :: string
  pc_Fee :: int64
  pc_Address :: string
  pc_MaxInvestment :: string
  pc_PositionManager :: string
  pc_Amount0 :: string
  pc_Amount1 :: string
  pc_Token0Decimals :: int64
  pc_Token1Decimals :: int64

record strategy_config =
  sc_Name :: string
  sc_Params :: "(string \<rightharpoonup> pval) option"
  sc_DryRun :: bool

record risk_config =
  rk_MaxDailyGas :: float64
  rk_MaxDrawdown :: float64
  rk_ConsecutiveFails :: int64

record app_config =
  ap_SchemaVersion :: string
  ap_StrategyVersion :: string
  ap_Events :: event_config
  ap_Chains :: "chain_config list"
  ap_Pools :: "pool_config list"
  ap_Strategy :: strategy_config
  ap_Risk :: risk_config
  ap_MonitoringPort :: int64

definition CurrentSchemaVersion :: string where "CurrentSchemaVersion = ''2024-07-01''"

datatype config_error =
  ReadFailed | UnmarshalFailed | SchemaMismatch string | NoChains | ChainMissingRPC nat
| ChainMissingID nat | NoPools | PoolDecimals nat | BadMaxDailyGas | BadMaxDrawdown
| BadConsecutiveFails | RedisURLRequired | UnsupportedDriver string

subsection \<open>Validation\<close>

fun check_chains :: "nat \<Rightarrow> chain_config list \<Rightarrow> config_error option" where
  "check_chains i [] = None"
| "check_chains i (c # cs) =
     (if ch_RPC c = [] then Some (ChainMissingRPC i)
      else if ch_ID c = 0 then Some (ChainMissingID i) else check_chains (Suc i) cs)"

fun check_pools :: "nat \<Rightarrow> pool_config list \<Rightarrow> config_error option" where
  "check_pools i [] = None"
| "check_pools i (p # ps) =
     (if pc_Token0Decimals p \<le> 0 \<or> pc_Token1Decimals p \<le> 0 then Some (PoolDecimals i)
      else check_pools (Suc i) ps)"

definition check_risk :: "risk_config \<Rightarrow> config_error option" where
  "check_risk r =
     (if f_le (rk_MaxDailyGas r) (Fin 0) then Some BadMaxDailyGas
      else if f_le (rk_MaxDrawdown r) (Fin 0) \<or> f_le (Fin 1) (rk_MaxDrawdown r)
      then Some BadMaxDrawdown
      else if rk_ConsecutiveFails r \<le> 0 then Some BadConsecutiveFails else None)"

definition check_events :: "event_config \<Rightarrow> config_error + event_config" where
  "check_events e =
     (let e = e\<lparr>ec_Driver := (if ec_Driver e = [] then ''memory'' else ec_Driver e)\<rparr>
      in if ec_Driver e = ''memory'' then Inr e
         else if ec_Driver e = ''redis''
         then (if ec_RedisURL e = [] then Inl RedisURLRequired
               else Inr (e\<lparr>ec_RedisPrefix :=
                             (if ec_RedisPrefix e = [] then ''phoenix'' else ec_RedisPrefix e),
                           ec_RedisGroup :=
                             (if ec_RedisGroup e = [] then ''phoenix-consumer''
                              else ec_RedisGroup e)\<rparr>))
         else Inl (UnsupportedDriver (ec_Driver e)))"

definition ValidateConfig :: "app_config \<Rightarrow> config_error + app_config" where
  "ValidateConfig cfg =
     (if ap_SchemaVersion cfg \<noteq> [] \<and> ap_SchemaVersion cfg \<noteq> CurrentSchemaVersion
      then Inl (SchemaMismatch (ap_SchemaVersion cfg))
      else if ap_Chains cfg = [] then Inl NoChains
      else case check_chains 0 (ap_Chains cfg) of
        Some e \<Rightarrow> Inl e
      | None \<Rightarrow>
          if ap_Pools cfg = [] then Inl NoPools
          else case check_pools 0 (ap_Pools cfg) of
            Some e \<Rightarrow> Inl e
          | None \<Rightarrow>
              (case check_risk (ap_Risk cfg) of
                 Some e \<Rightarrow> Inl e
               | None \<Rightarrow>
                   (case check_events (ap_Events cfg) of
                      Inl e \<Rightarrow> Inl e
                    | Inr ev \<Rightarrow> Inr (cfg\<lparr>ap_Events := ev\<rparr>))))"

text \<open>\<open>LoadConfig\<close>: the file (\<open>None\<close> if it cannot be read) and its document.\<close>

definition LoadConfig :: "app_config option option \<Rightarrow> config_error + app_config" where
  "LoadConfig src =
     (case src of
        None \<Rightarrow> Inl ReadFailed
      | Some None \<Rightarrow> Inl UnmarshalFailed
      | Some (Some cfg) \<Rightarrow> ValidateConfig cfg)"

subsection \<open>Reload\<close>

text \<open>The manager keeps the last valid configuration; its channel of updates holds one.\<close>

record config_manager =
  cm_path :: string
  cm_current :: app_config
  cm_updates :: "app_config list"

datatype config_event =
  FileEvent string bool "app_config option option"  \<comment> \<open>name, written or created or renamed\<close>
| WatchError
| TakeUpdate

definition NewManager :: "string \<Rightarrow> app_config option option \<Rightarrow> config_error + config_manager" where
  "NewManager path src =
     (case LoadConfig src of
        Inl e \<Rightarrow> Inl e
      | Inr cfg \<Rightarrow> Inr \<lparr>cm_path = path, cm_current = cfg, cm_updates = []\<rparr>)"

fun config_step :: "config_event \<Rightarrow> config_manager \<Rightarrow> config_manager" where
  "config_step (FileEvent name op src) m =
     (if name = [] \<or> name \<noteq> cm_path m \<or> \<not> op then m
      else case LoadConfig src of
        Inl _ \<Rightarrow> m
      | Inr cfg \<Rightarrow>
          m\<lparr>cm_current := cfg,
            cm_updates := (if length (cm_updates m) < 1 then cm_updates m @ [cfg]
                           else cm_updates m)\<rparr>)"
| "config_step WatchError m = m"
| "config_step TakeUpdate m = m\<lparr>cm_updates := tl (cm_updates m)\<rparr>"

subsection \<open>Parameters and the configuration of the basic strategy\<close>

definition parse_go_int :: "string \<Rightarrow> int64 option" where
  "parse_go_int s = parse_int (trim_space s)"

fun pval_int :: "pval \<Rightarrow> int64 option" where
  "pval_int (PInt n) = Some n"
| "pval_int (PInt64 n) = Some n"
| "pval_int (PFloat x) = Some (f_to_i64 (f_round x))"
| "pval_int (PStr s) = parse_go_int s"
| "pval_int POther = None"

definition param_lookup :: "(string \<rightharpoonup> pval) option \<Rightarrow> string \<Rightarrow> pval option" where
  "param_lookup ps k = (case ps of None \<Rightarrow> None | Some m \<Rightarrow> m k)"

definition getParamInt :: "(string \<rightharpoonup> pval) option \<Rightarrow> string \<Rightarrow> int64 option" where
  "getParamInt ps k = (case param_lookup ps k of None \<Rightarrow> None | Some v \<Rightarrow> pval_int v)"

definition getParamInt64 :: "(string \<rightharpoonup> pval) option \<Rightarrow> string \<Rightarrow> int64 option" where
  "getParamInt64 ps k = (case param_lookup ps k of None \<Rightarrow> None | Some v \<Rightarrow> pval_int v)"

definition getParamString :: "(string \<rightharpoonup> pval) option \<Rightarrow> string \<Rightarrow> string option" where
  "getParamString ps k =
     (case param_lookup ps k of Some (PStr s) \<Rightarrow> Some (trim_space s) | _ \<Rightarrow> None)"

record basic_config =
  bc_PoolID :: string
  bc_ChainID :: int64
  bc_StrategyVersion :: string
  bc_RiskMode :: string
  bc_MinSpreadTicks :: int64
  bc_MaxGasUSD :: float64
  bc_Token0Address :: string
  bc_Token1Address :: string
  bc_Fee :: int64
  bc_PositionManager :: string
  bc_Amount0Desired :: string
  bc_Amount1Desired :: string

definition zero_basic_config :: basic_config where
  "zero_basic_config =
     \<lparr>bc_PoolID = [], bc_ChainID = 0, bc_StrategyVersion = [], bc_RiskMode = [],
      bc_MinSpreadTicks = 0, bc_MaxGasUSD = Fin 0, bc_Token0Address = [], bc_Token1Address = [],
      bc_Fee = 0, bc_PositionManager = [], bc_Amount0Desired = [], bc_Amount1Desired = []\<rparr>"

definition buildStrategyConfig :: "app_config option \<Rightarrow> basic_config" where
  "buildStrategyConfig mc =
     (case mc of
        None \<Rightarrow> zero_basic_config
      | Some cfg \<Rightarrow>
          let s = zero_basic_config\<lparr>bc_RiskMode := ''normal'',
                    bc_StrategyVersion := ap_StrategyVersion cfg, bc_MinSpreadTicks := 100\<rparr>;
              s = s\<lparr>bc_StrategyVersion :=
                      (if bc_StrategyVersion s = [] then sc_Name (ap_Strategy cfg)
                       else bc_StrategyVersion s)\<rparr>;
              s = (case ap_Pools cfg of
                     [] \<Rightarrow> s
                   | p # _ \<Rightarrow> s\<lparr>bc_PoolID := pc_ID p, bc_ChainID := pc_ChainID p,
                       bc_Token0Address := pc_Token0 p, bc_Token1Address := pc_Token1 p,
                       bc_Fee := pc_Fee p, bc_PositionManager := pc_PositionManager p,
                       bc_Amount0Desired := pc_Amount0 p, bc_Amount1Desired := pc_Amount1 p\<rparr>)
          in case ap_Chains cfg of
               c # _ \<Rightarrow> if bc_ChainID s = 0 then s\<lparr>bc_ChainID := ch_ID c\<rparr> else s
             | [] \<Rightarrow> s)"

subsection \<open>What a valid configuration has\<close>

definition config_ok :: "app_config \<Rightarrow> bool" where
  "config_ok cfg \<longleftrightarrow>
     ap_SchemaVersion cfg \<in> {[], CurrentSchemaVersion}
     \<and> ap_Chains cfg \<noteq> [] \<and> (\<forall>c \<in> set (ap_Chains cfg). ch_RPC c \<noteq> [] \<and> ch_ID c \<noteq> 0)
     \<and> ap_Pools cfg \<noteq> []
     \<and> (\<forall>p \<in> set (ap_Pools cfg). 0 < pc_Token0Decimals p \<and> 0 < pc_Token1Decimals p)
     \<and> check_risk (ap_Risk cfg) = None
     \<and> (ec_Driver (ap_Events cfg) = ''memory''
        \<or> ec_Driver (ap_Events cfg) = ''redis'' \<and> ec_RedisURL (ap_Events cfg) \<noteq> []
          \<and> ec_RedisPrefix (ap_Events cfg) \<noteq> [] \<and> ec_RedisGroup (ap_Events cfg) \<noteq> [])"

lemma check_chains_None:
  "check_chains i cs = None \<longleftrightarrow> (\<forall>c \<in> set cs. ch_RPC c \<noteq> [] \<and> ch_ID c \<noteq> 0)"
  by (induction i cs rule: check_chains.induct) auto

lemma check_pools_None:
  "check_pools i ps = None \<longleftrightarrow> (\<forall>p \<in> set ps. 0 < pc_Token0Decimals p \<and> 0 < pc_Token1Decimals p)"
  by (induction i ps rule: check_pools.induct) auto

lemma ValidateConfig_ok: "ValidateConfig cfg = Inr cfg' \<Longrightarrow> config_ok cfg'"
  by (auto simp: ValidateConfig_def config_ok_def check_chains_None check_pools_None
      check_events_def Let_def split: option.splits sum.splits if_splits)

lemma ValidateConfig_fixed: "config_ok cfg \<Longrightarrow> ValidateConfig cfg = Inr cfg"
proof -
  assume c: "config_ok cfg"
  then have "check_events (ap_Events cfg) = Inr (ap_Events cfg)"
    by (auto simp: config_ok_def check_events_def Let_def)
  with c check_chains_None [of 0 "ap_Chains cfg"] check_pools_None [of 0 "ap_Pools cfg"]
  show ?thesis by (auto simp: ValidateConfig_def config_ok_def)
qed

lemma LoadConfig_ok: "LoadConfig src = Inr cfg \<Longrightarrow> config_ok cfg"
  by (auto simp: LoadConfig_def ValidateConfig_ok split: option.splits)

text \<open>Whatever happens to the file, the bot runs on a valid configuration, and at most one update
  waits.\<close>

definition manager_ok :: "config_manager \<Rightarrow> bool" where
  "manager_ok m \<longleftrightarrow>
     config_ok (cm_current m) \<and> length (cm_updates m) \<le> 1
     \<and> (\<forall>c \<in> set (cm_updates m). config_ok c)"

lemma manager_ok_step: "manager_ok m \<Longrightarrow> manager_ok (config_step e m)"
  by (cases e; cases "cm_updates m") (auto simp: manager_ok_def LoadConfig_ok split: sum.splits)

lemma manager_ok_run: "manager_ok m \<Longrightarrow> manager_ok (fold config_step es m)"
  by (induction es arbitrary: m) (simp_all add: manager_ok_step)

lemma manager_ok_new: "NewManager path src = Inr m \<Longrightarrow> manager_ok m"
  by (auto simp: NewManager_def manager_ok_def LoadConfig_ok split: sum.splits)

end
