(* ===== verification/Risk_Manager.thy ===== *)
theory Risk_Manager
  imports Contracts "HOL-Library.Word"
begin

text \<open>
  internal/risk/manager.go (the limits on gas, consecutive failures and drawdown) and
  internal/poolguard/guard.go (the blacklist).  \<open>hexaddr\<close> stands for \<open>common.HexToAddress\<close>; an
  address is a word of 160 bits.
\<close>

subsection \<open>The risk manager\<close>

datatype manager_mode = ModeNormal | ModeCaution | ModeFrozen

datatype manager_error = SystemFrozen | GasExceeded | TooManyFailures | DrawdownExceeded

record manager =
  rm_CurrentMode :: manager_mode
  rm_DailyGasUsed :: float64
  rm_MaxDailyGas :: float64
  rm_ConsecutiveFails :: int64
  rm_MaxFails :: int64
  rm_Drawdown :: float64
  rm_MaxDrawdown :: float64
  rm_lastIntentAt :: gotime

definition new_risk_manager :: "float64 \<Rightarrow> int64 \<Rightarrow> float64 \<Rightarrow> manager" where
  "new_risk_manager maxGas maxFails maxDrawdown =
     \<lparr>rm_CurrentMode = ModeNormal, rm_DailyGasUsed = Fin 0, rm_MaxDailyGas = maxGas,
      rm_ConsecutiveFails = 0, rm_MaxFails = maxFails, rm_Drawdown = Fin 0,
      rm_MaxDrawdown = maxDrawdown, rm_lastIntentAt = 0\<rparr>"

definition CanProceed :: "manager \<Rightarrow> manager \<times> manager_error option" where
  "CanProceed m =
     (if rm_CurrentMode m = ModeFrozen then (m, Some SystemFrozen)
      else if f_le (rm_MaxDailyGas m) (rm_DailyGasUsed m)
      then (m\<lparr>rm_CurrentMode := ModeCaution\<rparr>, Some GasExceeded)
      else if rm_MaxFails m \<le> rm_ConsecutiveFails m
      then (m\<lparr>rm_CurrentMode := ModeFrozen\<rparr>, Some TooManyFailures)
      else if f_le (rm_MaxDrawdown m) (rm_Drawdown m)
      then (m\<lparr>rm_CurrentMode := ModeFrozen\<rparr>, Some DrawdownExceeded)
      else (m, None))"

definition RecordGas :: "float64 \<Rightarrow> manager \<Rightarrow> manager" where
  "RecordGas cost m = m\<lparr>rm_DailyGasUsed := f_add (rm_DailyGasUsed m) cost\<rparr>"

definition manager_failure :: "manager \<Rightarrow> manager" where
  "manager_failure m =
     (let m = m\<lparr>rm_ConsecutiveFails := add64 (rm_ConsecutiveFails m) 1\<rparr>
      in if rm_MaxFails m \<le> rm_ConsecutiveFails m then m\<lparr>rm_CurrentMode := ModeFrozen\<rparr> else m)"

definition manager_success :: "gotime \<Rightarrow> manager \<Rightarrow> manager" where
  "manager_success now m = m\<lparr>rm_ConsecutiveFails := 0, rm_lastIntentAt := now\<rparr>"

definition UpdateLimits :: "float64 \<Rightarrow> int64 \<Rightarrow> float64 \<Rightarrow> manager \<Rightarrow> manager" where
  "UpdateLimits maxGas maxFails maxDrawdown m =
     (let m = (if f_lt (Fin 0) maxGas then m\<lparr>rm_MaxDailyGas := maxGas\<rparr> else m);
          m = (if 0 < maxFails then m\<lparr>rm_MaxFails := maxFails\<rparr> else m)
      in if f_lt (Fin 0) maxDrawdown \<and> f_lt maxDrawdown (Fin 1)
         then m\<lparr>rm_MaxDrawdown := maxDrawdown\<rparr> else m)"

definition ShouldThrottle :: "gotime \<Rightarrow> duration \<Rightarrow> manager \<Rightarrow> bool" where
  "ShouldThrottle now minInterval m \<longleftrightarrow>
     0 < minInterval \<and> t_sub now (rm_lastIntentAt m) < minInterval"

datatype manager_op =
  OpCanProceed | OpGas float64 | OpFailure | OpSuccess gotime | OpLimits float64 int64 float64

fun manager_step :: "manager_op \<Rightarrow> manager \<Rightarrow> manager" where
  "manager_step OpCanProceed m = fst (CanProceed m)"
| "manager_step (OpGas c) m = RecordGas c m"
| "manager_step OpFailure m = manager_failure m"
| "manager_step (OpSuccess now) m = manager_success now m"
| "manager_step (OpLimits g f d) m = UpdateLimits g f d m"

text \<open>A frozen manager stays frozen, whatever is recorded: only a restart clears it.\<close>

lemma frozen_step: "rm_CurrentMode m = ModeFrozen \<Longrightarrow> rm_CurrentMode (manager_step op m) = ModeFrozen"
  by (cases op)
    (simp_all add: CanProceed_def RecordGas_def manager_failure_def manager_success_def
      UpdateLimits_def Let_def)

lemma frozen_run:
  "rm_CurrentMode m = ModeFrozen \<Longrightarrow> rm_CurrentMode (fold manager_step ops m) = ModeFrozen"
  by (induction ops arbitrary: m) (simp_all add: frozen_step)

lemma CanProceed_ok_iff:
  "snd (CanProceed m) = None \<longleftrightarrow>
     rm_CurrentMode m \<noteq> ModeFrozen \<and> \<not> f_le (rm_MaxDailyGas m) (rm_DailyGasUsed m)
     \<and> rm_ConsecutiveFails m < rm_MaxFails m \<and> \<not> f_le (rm_MaxDrawdown m) (rm_Drawdown m)"
  by (simp add: CanProceed_def not_le)

lemma CanProceed_ok_same: "snd (CanProceed m) = None \<Longrightarrow> fst (CanProceed m) = m"
  by (simp add: CanProceed_def split: if_splits)

lemma failures_freeze:
  assumes "0 < n" "rm_MaxFails m \<le> rm_ConsecutiveFails m + int n"
    "is_i64 (rm_ConsecutiveFails m + int n)" "is_i64 (rm_ConsecutiveFails m)"
  shows "rm_CurrentMode ((manager_failure ^^ n) m) = ModeFrozen
    \<and> rm_ConsecutiveFails ((manager_failure ^^ n) m) = rm_ConsecutiveFails m + int n"
proof -
  have cnt: "rm_ConsecutiveFails ((manager_failure ^^ k) m) = rm_ConsecutiveFails m + int k
      \<and> rm_MaxFails ((manager_failure ^^ k) m) = rm_MaxFails m" if "k \<le> n" for k
    using that
  proof (induction k)
    case (Suc k)
    have "is_i64 (rm_ConsecutiveFails m + int k + 1)"
      using Suc.prems assms(3,4) by (simp add: i64_bounds)
    with Suc show ?case by (simp add: manager_failure_def Let_def add64_id algebra_simps)
  qed simp
  obtain k where k: "n = Suc k" using assms(1) by (cases n) simp_all
  have "is_i64 (rm_ConsecutiveFails m + int k + 1)" using assms(3) k by (simp add: algebra_simps)
  then have "rm_CurrentMode ((manager_failure ^^ n) m) = ModeFrozen"
    using cnt [of k] assms(2) k by (simp add: manager_failure_def Let_def add64_id algebra_simps)
  with cnt [of n] show ?thesis by simp
qed

subsection \<open>The pool guard\<close>

type_synonym address = "160 word"

datatype pool_risk = RiskSafe | RiskWarning | RiskDanger

record pool_check =
  pk_PoolID :: string
  pk_Risk :: pool_risk
  pk_Reason :: string
  pk_LastChecked :: gotime

type_synonym guard = "address \<Rightarrow> bool"

definition new_guard :: guard where "new_guard = (\<lambda>_. False)"

definition AddBlacklistToken :: "(string \<Rightarrow> address) \<Rightarrow> string \<Rightarrow> guard \<Rightarrow> guard" where
  "AddBlacklistToken hexaddr a g = g(hexaddr a := True)"

definition CheckPool ::
    "(string \<Rightarrow> address) \<Rightarrow> gotime \<Rightarrow> guard \<Rightarrow> string \<Rightarrow> string \<Rightarrow> string \<Rightarrow> pool_check" where
  "CheckPool hexaddr now g pool token0 token1 =
     (if g (hexaddr token0) \<or> g (hexaddr token1)
      then \<lparr>pk_PoolID = pool, pk_Risk = RiskDanger, pk_Reason = ''Token found in blacklist'',
            pk_LastChecked = now\<rparr>
      else if contains (to_lower pool) ''scam''
      then \<lparr>pk_PoolID = pool, pk_Risk = RiskDanger, pk_Reason = ''Suspicious pool name'',
            pk_LastChecked = now\<rparr>
      else \<lparr>pk_PoolID = pool, pk_Risk = RiskSafe, pk_Reason = ''Passed basic checks'',
            pk_LastChecked = now\<rparr>)"

lemma CheckPool_blacklisted:
  "pk_Risk (CheckPool hexaddr now (fold (AddBlacklistToken hexaddr) ts g) pool t0 t1) = RiskSafe \<Longrightarrow>
   hexaddr t0 \<notin> hexaddr ` set ts \<and> hexaddr t1 \<notin> hexaddr ` set ts"
proof -
  have "fold (AddBlacklistToken hexaddr) ts g a \<longleftrightarrow> g a \<or> a \<in> hexaddr ` set ts" for a
    by (induction ts arbitrary: g) (auto simp: AddBlacklistToken_def)
  then show "pk_Risk (CheckPool hexaddr now (fold (AddBlacklistToken hexaddr) ts g) pool t0 t1)
      = RiskSafe \<Longrightarrow> ?thesis"
    by (auto simp: CheckPool_def split: if_splits)
qed

end
