(* ===== verification/Tick_Range.thy ===== *)
theory Tick_Range
  imports Prelude
begin

text \<open>
  Ticks and their spacing.  The program aligns ticks in two places with different code:
  \<open>alignDownToSpacing\<close> in internal/strategy/v3_rebalance.go, and \<open>snapTickDown\<close> and
  \<open>snapTickUp\<close> in internal/chain/univ3/adapter.go.  The locale \<open>tick_floor\<close> states the contract
  of a downward alignment; both implementations are interpretations, so they agree.
\<close>

definition alignToSpacing :: "int64 \<Rightarrow> int64 \<Rightarrow> int64" where
  "alignToSpacing v spacing =
     (if spacing \<le> 0 then v
      else let v = (if v < 0 then neg64 v else v) in mul64 (div64 v spacing) spacing)"

definition alignDownToSpacing :: "int64 \<Rightarrow> int64 \<Rightarrow> int64" where
  "alignDownToSpacing tick spacing =
     (if spacing \<le> 0 then tick
      else
        let q = div64 tick spacing; r = rem64 tick spacing;
            q = (if r \<noteq> 0 \<and> tick < 0 then sub64 q 1 else q)
        in mul64 q spacing)"

definition snapTickDown :: "int64 \<Rightarrow> int64 \<Rightarrow> int64" where
  "snapTickDown val spacing =
     (if spacing \<le> 0 then val
      else
        let remainder = rem64 val spacing
        in if remainder = 0 then val
           else if 0 \<le> val then sub64 val remainder
           else sub64 (sub64 val remainder) spacing)"

definition snapTickUp :: "int64 \<Rightarrow> int64 \<Rightarrow> int64" where
  "snapTickUp val spacing =
     (if spacing \<le> 0 then val
      else
        let remainder = rem64 val spacing
        in if remainder = 0 then val
           else if 0 \<le> val then add64 val (sub64 spacing remainder)
           else sub64 val remainder)"

definition abs64 :: "int64 \<Rightarrow> int64" where
  "abs64 v = (if v < 0 then neg64 v else v)"

definition computeCenteredRange :: "int64 \<Rightarrow> int64 \<Rightarrow> int64 \<Rightarrow> int64 \<times> int64 \<times> int64" where
  "computeCenteredRange currentTick widthTicks spacing =
     (let w = alignToSpacing widthTicks spacing;
          w = (if w \<le> 0 then mul64 spacing 10 else w);
          half = div64 w 2;
          lower = alignDownToSpacing (sub64 currentTick half) spacing;
          upper = add64 lower w;
          center = div64 (add64 lower upper) 2
      in (lower, upper, center))"

subsection \<open>Alignment\<close>

text \<open>A range in which no operation on ticks wraps around.  The ticks of a pool are within
  887272, far inside.\<close>

definition tick_small :: "int \<Rightarrow> bool" where
  "tick_small t \<longleftrightarrow> - 1000000000000 \<le> t \<and> t \<le> 1000000000000"

lemma tick_small_i64: "tick_small t \<Longrightarrow> is_i64 t"
  by (simp add: tick_small_def i64_bounds)

lemma tick_small_bounds: "tick_small a \<Longrightarrow> tick_small b \<Longrightarrow> is_i64 (a - b) \<and> is_i64 (a + b)"
  by (simp add: tick_small_def i64_bounds)

text \<open>The multiple of the spacing at or below a tick.\<close>

definition floor_tick :: "int \<Rightarrow> int \<Rightarrow> int" where
  "floor_tick t s = t div s * s"

lemma floor_tick_bounds:
  assumes "0 < s"
  shows "floor_tick t s \<le> t" "t < floor_tick t s + s" "s dvd floor_tick t s"
proof -
  have "t = t div s * s + t mod s" by simp
  moreover have "0 \<le> t mod s" "t mod s < s" using assms by simp_all
  ultimately show "floor_tick t s \<le> t" "t < floor_tick t s + s"
    unfolding floor_tick_def by linarith+
qed (simp add: floor_tick_def)

lemma floor_tick_unique:
  assumes "0 < s" "s dvd x" "x \<le> t" "t < x + s"
  shows "x = floor_tick t s"
proof -
  from assms(2) obtain k where k: "x = k * s" by (metis dvd_def mult.commute)
  have "t = s * k + (t - x)" "0 \<le> t - x" "t - x < s"
    using assms by (simp_all add: k algebra_simps)
  then have "t div s = k" by (rule int_div_pos_eq)
  then show ?thesis by (simp add: floor_tick_def k)
qed

lemma trem_mod: "0 < s \<Longrightarrow> trem t s = (if 0 \<le> t then t mod s else - ((- t) mod s))"
  by (simp add: trem_nonneg trem_neg)

lemma neg_tquot_floor:
  assumes "t < 0" "0 < s" "trem t s \<noteq> 0"
  shows "(tquot t s - 1) * s = floor_tick t s"
proof (rule floor_tick_unique [OF assms(2)])
  have "0 \<le> (- t) mod s" "(- t) mod s \<noteq> 0" and m2: "(- t) mod s < s"
    using assms trem_neg [OF assms(1,2)] by simp_all
  then have m: "0 < (- t) mod s" by linarith
  have "(- t) div s * s + (- t) mod s = - t" by (rule div_mult_mod_eq)
  moreover have "(tquot t s - 1) * s = - ((- t) div s * s) - s"
    using assms(1,2) by (simp add: tquot_neg left_diff_distrib)
  ultimately have q: "(tquot t s - 1) * s = t + (- t) mod s - s" by linarith
  show "(tquot t s - 1) * s \<le> t" "t < (tquot t s - 1) * s + s" using q m m2 by linarith+
qed simp

lemma tquot_floor:
  assumes "0 < s" "0 \<le> t \<or> trem t s = 0"
  shows "tquot t s * s = floor_tick t s"
proof (cases "0 \<le> t")
  case True
  then show ?thesis using assms by (simp add: tquot_nonneg floor_tick_def)
next
  case False
  then have "trem t s = 0" using assms by simp
  then have t: "tquot t s * s = t" by (simp add: trem_def mult.commute)
  show ?thesis
  proof (rule floor_tick_unique [OF assms(1)])
    show "tquot t s * s \<le> t" "t < tquot t s * s + s" using t assms(1) by linarith+
  qed simp
qed

lemma floor_tick_small:
  "tick_small t \<Longrightarrow> tick_small s \<Longrightarrow> 0 < s \<Longrightarrow> is_i64 (floor_tick t s)"
  using floor_tick_bounds [of s t] unfolding tick_small_def i64_bounds by linarith

text \<open>The contract of an alignment towards minus infinity.\<close>

locale tick_floor =
  fixes align :: "int64 \<Rightarrow> int64 \<Rightarrow> int64"
  assumes align_mult: "tick_small t \<Longrightarrow> tick_small s \<Longrightarrow> 0 < s \<Longrightarrow> s dvd align t s"
    and align_le: "tick_small t \<Longrightarrow> tick_small s \<Longrightarrow> 0 < s \<Longrightarrow> align t s \<le> t"
    and align_gt: "tick_small t \<Longrightarrow> tick_small s \<Longrightarrow> 0 < s \<Longrightarrow> t < align t s + s"
begin

lemma align_eq: "tick_small t \<Longrightarrow> tick_small s \<Longrightarrow> 0 < s \<Longrightarrow> align t s = floor_tick t s"
  by (rule floor_tick_unique) (simp_all add: align_mult align_le align_gt)

lemma align_fix:
  "tick_small t \<Longrightarrow> tick_small s \<Longrightarrow> 0 < s \<Longrightarrow> align t s = t \<longleftrightarrow> s dvd t"
  by (metis align_eq align_mult floor_tick_unique less_add_same_cancel1 order_refl)

lemma align_mono:
  "tick_small t \<Longrightarrow> tick_small t' \<Longrightarrow> tick_small s \<Longrightarrow> 0 < s \<Longrightarrow> t \<le> t' \<Longrightarrow> align t s \<le> align t' s"
  by (simp add: align_eq floor_tick_def zdiv_mono1 mult_right_mono)

end

lemma alignDown_floor:
  assumes "tick_small t" "tick_small s" "0 < s"
  shows "alignDownToSpacing t s = floor_tick t s"
proof -
  have q: "div64 t s = tquot t s" "rem64 t s = trem t s"
    using assms by (simp_all add: div64_id rem64_id tick_small_i64)
  have f: "is_i64 (floor_tick t s)" using assms by (rule floor_tick_small)
  show ?thesis
  proof (cases "trem t s \<noteq> 0 \<and> t < 0")
    case True
    have "is_i64 (tquot t s - 1)"
      using tquot_abs_le [OF assms(3), of t] assms(1) unfolding tick_small_def i64_bounds by linarith
    then show ?thesis
      using True assms(3) f by (simp add: alignDownToSpacing_def q sub64_id neg_tquot_floor mul64_id)
  next
    case False
    then have "tquot t s * s = floor_tick t s" using assms(3) by (intro tquot_floor) auto
    then show ?thesis
      using False assms(3) f by (auto simp: alignDownToSpacing_def q mul64_id)
  qed
qed

lemma snapDown_floor:
  assumes "tick_small t" "tick_small s" "0 < s"
  shows "snapTickDown t s = floor_tick t s"
proof -
  have q: "rem64 t s = trem t s" using assms by (simp add: rem64_id tick_small_i64)
  have m: "\<bar>trem t s\<bar> < s" using assms(3) by (rule trem_abs_less)
  have t: "t - trem t s = tquot t s * s" by (simp add: trem_def mult.commute)
  have i: "is_i64 (t - trem t s)" "is_i64 (t - trem t s - s)"
    using m assms unfolding tick_small_def i64_bounds by linarith+
  show ?thesis
  proof (cases "trem t s = 0 \<or> 0 \<le> t")
    case True
    then have "t - trem t s = floor_tick t s" using tquot_floor [of s t] assms(3) t by auto
    then show ?thesis using True assms(3) i by (auto simp: snapTickDown_def q Let_def sub64_id)
  next
    case False
    then have "t - trem t s - s = floor_tick t s"
      using neg_tquot_floor [of t s] assms(3) t by (simp add: algebra_simps)
    then show ?thesis using False assms(3) i by (simp add: snapTickDown_def q Let_def sub64_id)
  qed
qed

interpretation strat_tick: tick_floor alignDownToSpacing
  by unfold_locales (simp_all add: alignDown_floor floor_tick_bounds)

interpretation univ_tick: tick_floor snapTickDown
  by unfold_locales (simp_all add: snapDown_floor floor_tick_bounds)

lemma snapUp_ceil:
  assumes "tick_small t" "tick_small s" "0 < s"
  shows "snapTickUp t s = - floor_tick (- t) s"
proof -
  have q: "rem64 t s = trem t s" using assms by (simp add: rem64_id tick_small_i64)
  have m: "\<bar>trem t s\<bar> < s" using assms(3) by (rule trem_abs_less)
  have d: "s dvd t - trem t s" by (simp add: trem_def)
  show ?thesis
  proof (cases "trem t s = 0")
    case True
    then have "s dvd - t" using d by simp
    then have "- t = floor_tick (- t) s" using assms(3) by (intro floor_tick_unique) simp_all
    then show ?thesis using True assms(3) by (simp add: snapTickUp_def q)
  next
    case nz: False
    show ?thesis
    proof (cases "0 \<le> t")
      case True
      then have p: "0 < trem t s" using nz assms(3) trem_nonneg [of t s] by (simp add: order_less_le)
      have i: "is_i64 (s - trem t s)" "is_i64 (t + (s - trem t s))"
        using m p assms unfolding tick_small_def i64_bounds by linarith+
      have "- (t + (s - trem t s)) = floor_tick (- t) s"
      proof (rule floor_tick_unique [OF assms(3)])
        have "s dvd (t - trem t s) + s" using d by simp
        then show "s dvd - (t + (s - trem t s))" by (metis dvd_minus_iff add_diff_eq diff_add_eq)
      qed (use p m in linarith)+
      then show ?thesis using True nz assms(3) i by (simp add: snapTickUp_def q Let_def sub64_id add64_id)
    next
      case False
      then have p: "trem t s < 0" using nz assms(3) trem_neg [of t s] by (simp add: order_less_le)
      have i: "is_i64 (t - trem t s)" using m p assms unfolding tick_small_def i64_bounds by linarith
      have "- (t - trem t s) = floor_tick (- t) s"
      proof (rule floor_tick_unique [OF assms(3)])
        show "s dvd - (t - trem t s)" using d by (metis dvd_minus_iff)
      qed (use p m in linarith)+
      then show ?thesis using False nz assms(3) i by (simp add: snapTickUp_def q Let_def sub64_id)
    qed
  qed
qed

lemma snapUp_bounds:
  assumes "tick_small t" "tick_small s" "0 < s"
  shows "t \<le> snapTickUp t s" "snapTickUp t s < t + s" "s dvd snapTickUp t s"
  using floor_tick_bounds [OF assms(3), of "- t"] snapUp_ceil [OF assms] by simp_all

subsection \<open>The centered range\<close>

lemma alignTo_abs:
  assumes "tick_small v" "tick_small s" "0 < s"
  shows "alignToSpacing v s = floor_tick \<bar>v\<bar> s"
proof -
  have a: "tick_small \<bar>v\<bar>" using assms(1) by (auto simp: tick_small_def)
  have n: "(if v < 0 then neg64 v else v) = \<bar>v\<bar>"
    using assms(1) by (simp add: neg64_def wrap64_id tick_small_def i64_bounds)
  have "is_i64 (floor_tick \<bar>v\<bar> s)" using a assms(2,3) by (rule floor_tick_small)
  then show ?thesis
    using assms a by (simp add: alignToSpacing_def n div64_id tick_small_i64 tquot_nonneg
        floor_tick_def mul64_id)
qed

definition aligned_width :: "int \<Rightarrow> int \<Rightarrow> int" where
  "aligned_width w s = (if floor_tick \<bar>w\<bar> s = 0 then s * 10 else floor_tick \<bar>w\<bar> s)"

lemma aligned_width_props:
  assumes "tick_small w" "tick_small s" "0 < s"
  shows "0 < aligned_width w s" "s dvd aligned_width w s" "s \<le> aligned_width w s"
    "aligned_width w s \<le> 10000000000000"
proof -
  have f: "floor_tick \<bar>w\<bar> s \<le> \<bar>w\<bar>" "s dvd floor_tick \<bar>w\<bar> s" using floor_tick_bounds assms(3) by auto
  have nn: "0 \<le> floor_tick \<bar>w\<bar> s"
    using assms(3) by (simp add: floor_tick_def pos_imp_zdiv_nonneg_iff)
  show p: "0 < aligned_width w s" using nn assms(3) by (simp add: aligned_width_def)
  show d: "s dvd aligned_width w s" using f by (simp add: aligned_width_def)
  show "s \<le> aligned_width w s" using p d by (simp add: zdvd_imp_le)
  show "aligned_width w s \<le> 10000000000000"
    using f(1) assms by (auto simp: aligned_width_def tick_small_def)
qed

text \<open>The range in closed form, and what it guarantees: it is aligned, it has the aligned width,
  it starts at or below the tick and reaches beyond it as soon as the width is two spacings.\<close>

lemma computeCenteredRange_closed:
  assumes "tick_small t" "tick_small w" "tick_small s" "0 < s"
  shows "computeCenteredRange t w s =
    (let l = floor_tick (t - aligned_width w s div 2) s; u = l + aligned_width w s
     in (l, u, tquot (l + u) 2))"
proof -
  let ?w = "aligned_width w s"
  note wp = aligned_width_props [OF assms(2-4)]
  have al: "alignToSpacing w s = floor_tick \<bar>w\<bar> s" using assms(2-4) by (rule alignTo_abs)
  have nn: "0 \<le> floor_tick \<bar>w\<bar> s"
    using assms(4) by (simp add: floor_tick_def pos_imp_zdiv_nonneg_iff)
  have m: "mul64 s 10 = s * 10" using assms(3,4) by (simp add: mul64_id tick_small_def i64_bounds)
  have w: "(if alignToSpacing w s \<le> 0 then mul64 s 10 else alignToSpacing w s) = ?w"
    using nn by (simp add: al m aligned_width_def)
  have h: "div64 ?w 2 = ?w div 2"
    using wp by (simp add: div64_id i64_bounds tquot_nonneg)
  have hb: "0 \<le> ?w div 2" "?w div 2 \<le> 5000000000000" using wp by simp_all
  have sb: "sub64 t (?w div 2) = t - ?w div 2"
    using hb assms(1) unfolding tick_small_def by (intro sub64_id) (unfold i64_bounds, linarith)
  let ?x = "t - ?w div 2"
  have xb: "is_i64 ?x" "- 6000000000000 \<le> ?x" "?x \<le> 1000000000000"
    using hb assms(1) unfolding tick_small_def i64_bounds by linarith+
  note fb = floor_tick_bounds [OF assms(4), of ?x]
  have sm: "s \<le> 1000000000000" using assms(3) by (simp add: tick_small_def)
  have fi: "is_i64 (floor_tick ?x s)" using fb xb sm unfolding i64_bounds by linarith
  have ad: "alignDownToSpacing ?x s = floor_tick ?x s"
  proof -
    have q: "div64 ?x s = tquot ?x s" "rem64 ?x s = trem ?x s"
      using xb assms by (simp_all add: div64_id rem64_id tick_small_i64)
    show ?thesis
    proof (cases "trem ?x s \<noteq> 0 \<and> ?x < 0")
      case True
      have "is_i64 (tquot ?x s - 1)"
        using tquot_abs_le [OF assms(4), of ?x] xb unfolding i64_bounds by linarith
      then show ?thesis
        using True assms(4) fi by (simp add: alignDownToSpacing_def q sub64_id neg_tquot_floor mul64_id)
    next
      case False
      then have "tquot ?x s * s = floor_tick ?x s" using assms(4) by (intro tquot_floor) auto
      then show ?thesis using False assms(4) fi by (auto simp: alignDownToSpacing_def q mul64_id)
    qed
  qed
  let ?l = "floor_tick ?x s"
  have lb: "is_i64 (?l + ?w)" "is_i64 (?l + (?l + ?w))"
    using fb xb sm wp unfolding i64_bounds by linarith+
  show ?thesis
    using lb
    by (simp add: computeCenteredRange_def w h sb ad Let_def add64_id div64_id)
qed

lemma centered_range_props:
  assumes "tick_small t" "tick_small w" "tick_small s" "0 < s"
    "computeCenteredRange t w s = (l, u, c)"
  shows "s dvd l" "s dvd u" "u = l + aligned_width w s" "l \<le> t" "l \<le> c" "c \<le> u"
    "2 * s \<le> aligned_width w s \<Longrightarrow> t < u"
    "t - aligned_width w s div 2 < l + s"
proof -
  let ?w = "aligned_width w s" let ?x = "t - ?w div 2"
  note wp = aligned_width_props [OF assms(2-4)]
  have l: "l = floor_tick ?x s" and u: "u = l + ?w" and c: "c = tquot (l + u) 2"
    using computeCenteredRange_closed [OF assms(1-4)] assms(5) by (simp_all add: Let_def)
  note fb = floor_tick_bounds [OF assms(4), of ?x, folded l]
  show "u = l + ?w" by (rule u)
  show "s dvd l" by (rule fb(3))
  then show "s dvd u" using wp(2) u by simp
  have h: "0 \<le> ?w div 2" "?w \<le> 2 * (?w div 2) + 1" using wp by linarith+
  then show "l \<le> t" using fb by linarith
  show "t - ?w div 2 < l + s" using fb by linarith
  show "t < u" if "2 * s \<le> ?w" using that fb h u by linarith
  have "l \<le> tquot (l + u) 2 \<and> tquot (l + u) 2 \<le> u"
  proof (cases "0 \<le> l + u")
    case True
    then show ?thesis using u wp(1) by (simp add: tquot_nonneg)
  next
    case False
    then show ?thesis using u wp(1) by (simp add: tquot_neg) linarith
  qed
  then show "l \<le> c" "c \<le> u" by (simp_all add: c)
qed

end
