(* ===== verification/V3_Rebalance.thy ===== *)
theory V3_Rebalance
  imports Config Tick_Range
begin

text \<open>
  internal/strategy/v3_rebalance.go and v3_position.go: the strategy that recenters a Uniswap V3
  position on the tick of the pool.  Parameters: \<open>env\<close> is \<open>os.Getenv\<close>, \<open>rfc3339nano\<close> the text of
  a time, \<open>hash8\<close> the first eight bytes of SHA-256 in hexadecimal, \<open>json_of\<close> the JSON text of an
  intent (\<open>None\<close> on error), and the fetcher of \<open>Resolve\<close> is the chain.
\<close>

subsection \<open>Configuration\<close>

record v3_config =
  vr_Enabled :: bool
  vr_WidthTicks :: int64
  vr_EdgeBufferTicks :: int64
  vr_Cooldown :: duration
  vr_MinTickMove :: int64
  vr_TickSpacing :: int64
  vr_AssumedLowerTick :: int64
  vr_AssumedUpperTick :: int64
  vr_HasAssumedRange :: bool
  vr_NPMAddress :: string
  vr_PositionTokenID :: int
  vr_ChainRPCURL :: string

definition defaultV3RebalanceConfig :: v3_config where
  "defaultV3RebalanceConfig =
     \<lparr>vr_Enabled = False, vr_WidthTicks = 600, vr_EdgeBufferTicks = 60,
      vr_Cooldown = 300 * second, vr_MinTickMove = 30, vr_TickSpacing = 60,
      vr_AssumedLowerTick = 0, vr_AssumedUpperTick = 0, vr_HasAssumedRange = False,
      vr_NPMAddress = ''0xC36442b4a4522E871399CD717aBDD847Ab11FE88'', vr_PositionTokenID = 0,
      vr_ChainRPCURL = []\<rparr>"

definition parseEnvInt :: "string \<Rightarrow> int64 \<Rightarrow> int64" where
  "parseEnvInt v dv =
     (let s = trim_space v
      in if s = [] then dv else case parse_int s of None \<Rightarrow> dv | Some n \<Rightarrow> n)"

text \<open>\<open>if v, ok := ...; ok && P v { f v }\<close>.\<close>

definition when_some :: "'a option \<Rightarrow> ('a \<Rightarrow> bool) \<Rightarrow> ('a \<Rightarrow> 'c \<Rightarrow> 'c) \<Rightarrow> 'c \<Rightarrow> 'c" where
  "when_some v P f c = (case v of None \<Rightarrow> c | Some x \<Rightarrow> if P x then f x c else c)"

definition v3_params :: "(string \<rightharpoonup> pval) option \<Rightarrow> v3_config \<Rightarrow> v3_config" where
  "v3_params ps c =
     (let int_param = getParamInt ps;
          c = when_some (int_param ''STRAT_V3_ENABLED'') (\<lambda>_. True)
                (\<lambda>v c. c\<lparr>vr_Enabled := (v = 1)\<rparr>) c;
          c = when_some (int_param ''STRAT_V3_WIDTH_TICKS'') (\<lambda>v. 0 < v)
                (\<lambda>v c. c\<lparr>vr_WidthTicks := v\<rparr>) c;
          c = when_some (int_param ''STRAT_V3_EDGE_BUFFER_TICKS'') (\<lambda>v. 0 \<le> v)
                (\<lambda>v c. c\<lparr>vr_EdgeBufferTicks := v\<rparr>) c;
          c = when_some (int_param ''STRAT_V3_COOLDOWN_SEC'') (\<lambda>v. 0 \<le> v)
                (\<lambda>v c. c\<lparr>vr_Cooldown := mul64 v second\<rparr>) c;
          c = when_some (int_param ''STRAT_V3_MIN_TICK_MOVE'') (\<lambda>v. 0 \<le> v)
                (\<lambda>v c. c\<lparr>vr_MinTickMove := v\<rparr>) c;
          c = when_some (int_param ''STRAT_V3_TICK_SPACING'') (\<lambda>v. 0 < v)
                (\<lambda>v c. c\<lparr>vr_TickSpacing := v\<rparr>) c;
          c = when_some (getParamInt64 ps ''STRAT_V3_ASSUMED_LOWER_TICK'') (\<lambda>_. True)
                (\<lambda>v c. c\<lparr>vr_AssumedLowerTick := v, vr_HasAssumedRange := True\<rparr>) c;
          c = when_some (getParamInt64 ps ''STRAT_V3_ASSUMED_UPPER_TICK'') (\<lambda>_. True)
                (\<lambda>v c. c\<lparr>vr_AssumedUpperTick := v, vr_HasAssumedRange := True\<rparr>) c;
          c = when_some (int_param ''STRAT_V3_POSITION_TOKEN_ID'') (\<lambda>v. 0 < v)
                (\<lambda>v c. c\<lparr>vr_PositionTokenID := v\<rparr>) c;
          c = when_some (getParamInt64 ps ''STRAT_V3_POSITION_TOKEN_ID'') (\<lambda>v. 0 < v)
                (\<lambda>v c. c\<lparr>vr_PositionTokenID := v\<rparr>) c;
          c = when_some (getParamString ps ''STRAT_V3_NPM_ADDRESS'') (\<lambda>v. v \<noteq> [])
                (\<lambda>v c. c\<lparr>vr_NPMAddress := v\<rparr>) c
      in when_some (getParamString ps ''STRAT_V3_CHAIN_RPC_URL'') (\<lambda>v. v \<noteq> [])
           (\<lambda>v c. c\<lparr>vr_ChainRPCURL := v\<rparr>) c)"

definition keep_if :: "(int64 \<Rightarrow> bool) \<Rightarrow> int64 \<Rightarrow> int64 \<Rightarrow> int64" where
  "keep_if P v old = (if P v then v else old)"

definition v3_env :: "(string \<Rightarrow> string) \<Rightarrow> v3_config \<Rightarrow> v3_config" where
  "v3_env env c =
     (let c = (if trim_space (env ''STRAT_V3_ENABLED'') = ''1'' then c\<lparr>vr_Enabled := True\<rparr> else c);
          c = (if trim_space (env ''STRAT_V3_ENABLED'') = ''0'' then c\<lparr>vr_Enabled := False\<rparr> else c);
          c = c\<lparr>vr_WidthTicks := keep_if (\<lambda>v. 0 < v)
                  (parseEnvInt (env ''STRAT_V3_WIDTH_TICKS'') (vr_WidthTicks c)) (vr_WidthTicks c)\<rparr>;
          c = c\<lparr>vr_EdgeBufferTicks := keep_if (\<lambda>v. 0 \<le> v)
                  (parseEnvInt (env ''STRAT_V3_EDGE_BUFFER_TICKS'') (vr_EdgeBufferTicks c))
                  (vr_EdgeBufferTicks c)\<rparr>;
          secs = parseEnvInt (env ''STRAT_V3_COOLDOWN_SEC'') (tquot (vr_Cooldown c) second);
          c = (if 0 \<le> secs then c\<lparr>vr_Cooldown := mul64 secs second\<rparr> else c);
          c = c\<lparr>vr_MinTickMove := keep_if (\<lambda>v. 0 \<le> v)
                  (parseEnvInt (env ''STRAT_V3_MIN_TICK_MOVE'') (vr_MinTickMove c))
                  (vr_MinTickMove c)\<rparr>;
          c = c\<lparr>vr_TickSpacing := keep_if (\<lambda>v. 0 < v)
                  (parseEnvInt (env ''STRAT_V3_TICK_SPACING'') (vr_TickSpacing c))
                  (vr_TickSpacing c)\<rparr>;
          c = when_some (parse_int (trim_space (env ''STRAT_V3_ASSUMED_LOWER_TICK''))) (\<lambda>_. True)
                (\<lambda>v c. c\<lparr>vr_AssumedLowerTick := v, vr_HasAssumedRange := True\<rparr>) c;
          c = when_some (parse_int (trim_space (env ''STRAT_V3_ASSUMED_UPPER_TICK''))) (\<lambda>_. True)
                (\<lambda>v c. c\<lparr>vr_AssumedUpperTick := v, vr_HasAssumedRange := True\<rparr>) c;
          npm = trim_space (env ''STRAT_V3_NPM_ADDRESS'');
          c = (if npm \<noteq> [] then c\<lparr>vr_NPMAddress := npm\<rparr> else c);
          c = when_some (parse_uint 64 (trim_space (env ''STRAT_V3_POSITION_TOKEN_ID''))) (\<lambda>_. True)
                (\<lambda>v c. c\<lparr>vr_PositionTokenID := int v\<rparr>) c;
          rpc = trim_space (env ''STRAT_V3_CHAIN_RPC_URL'')
      in if rpc \<noteq> [] then c\<lparr>vr_ChainRPCURL := rpc\<rparr> else c)"

definition v3_finish :: "v3_config \<Rightarrow> v3_config" where
  "v3_finish c =
     (let c = (if vr_TickSpacing c \<le> 0 then c\<lparr>vr_TickSpacing := 60\<rparr> else c);
          c = c\<lparr>vr_WidthTicks := alignToSpacing (vr_WidthTicks c) (vr_TickSpacing c)\<rparr>;
          c = (if vr_WidthTicks c \<le> 0 then c\<lparr>vr_WidthTicks := mul64 (vr_TickSpacing c) 10\<rparr> else c);
          c = (if vr_EdgeBufferTicks c < 0 then c\<lparr>vr_EdgeBufferTicks := 0\<rparr> else c);
          c = (if vr_MinTickMove c < 0 then c\<lparr>vr_MinTickMove := 0\<rparr> else c)
      in if vr_Cooldown c < 0 then c\<lparr>vr_Cooldown := 0\<rparr> else c)"

definition LoadV3RebalanceConfig :: "(string \<Rightarrow> string) \<Rightarrow> app_config option \<Rightarrow> v3_config" where
  "LoadV3RebalanceConfig env cfg =
     (let c = defaultV3RebalanceConfig;
          c = (case cfg of None \<Rightarrow> c | Some a \<Rightarrow> v3_params (sc_Params (ap_Strategy a)) c);
          c = v3_env env c;
          c = (case cfg of
                 Some a \<Rightarrow> (case ap_Chains a of
                   ch # _ \<Rightarrow> if vr_ChainRPCURL c = [] then c\<lparr>vr_ChainRPCURL := ch_RPC ch\<rparr> else c
                 | [] \<Rightarrow> c)
               | None \<Rightarrow> c)
      in v3_finish c)"

text \<open>However the parameters and the environment are set, the result is usable.\<close>

lemma v3_finish_ok:
  assumes "vr_TickSpacing c \<le> 1000000000000" "tick_small (vr_WidthTicks c)"
  shows "0 < vr_TickSpacing (v3_finish c)" "0 < vr_WidthTicks (v3_finish c)"
    "vr_TickSpacing (v3_finish c) dvd vr_WidthTicks (v3_finish c)"
    "0 \<le> vr_EdgeBufferTicks (v3_finish c)" "0 \<le> vr_MinTickMove (v3_finish c)"
    "0 \<le> vr_Cooldown (v3_finish c)"
proof -
  define s where "s = (if vr_TickSpacing c \<le> 0 then 60 else vr_TickSpacing c)"
  have s: "0 < s" "tick_small s" using assms by (simp_all add: s_def tick_small_def)
  have al: "alignToSpacing (vr_WidthTicks c) s = floor_tick \<bar>vr_WidthTicks c\<bar> s"
    using assms(2) s by (simp add: alignTo_abs)
  have nn: "0 \<le> floor_tick \<bar>vr_WidthTicks c\<bar> s"
    using s(1) by (simp add: floor_tick_def pos_imp_zdiv_nonneg_iff)
  have m: "mul64 s 10 = s * 10" using s by (simp add: mul64_id tick_small_def i64_bounds)
  have sp: "vr_TickSpacing (v3_finish c) = s" by (simp add: v3_finish_def Let_def s_def)
  have w: "vr_WidthTicks (v3_finish c) = aligned_width (vr_WidthTicks c) s"
  proof -
    have "vr_WidthTicks (v3_finish c) =
        (if alignToSpacing (vr_WidthTicks c) s \<le> 0 then mul64 s 10
         else alignToSpacing (vr_WidthTicks c) s)"
      by (simp add: v3_finish_def Let_def s_def)
    then show ?thesis using nn by (simp add: al m aligned_width_def)
  qed
  show "0 < vr_TickSpacing (v3_finish c)" "0 < vr_WidthTicks (v3_finish c)"
    "vr_TickSpacing (v3_finish c) dvd vr_WidthTicks (v3_finish c)"
    using aligned_width_props [OF assms(2) s(2,1)] s(1) by (simp_all add: sp w)
  show "0 \<le> vr_EdgeBufferTicks (v3_finish c)" "0 \<le> vr_MinTickMove (v3_finish c)"
    "0 \<le> vr_Cooldown (v3_finish c)"
    by (simp_all add: v3_finish_def Let_def)
qed

subsection \<open>The position\<close>

datatype position_source = SourceOnchain | SourceConfigAssumed | SourceNone

record position_state =
  ps_LowerTick :: int64
  ps_UpperTick :: int64
  ps_TokenID :: int
  ps_Source :: position_source
  ps_UpdatedAt :: gotime

text \<open>\<open>fetch rpc npm token\<close> is the call on the chain; \<open>None\<close> is an error.\<close>

definition Resolve ::
    "(string \<Rightarrow> string \<Rightarrow> int \<Rightarrow> (int64 \<times> int64 \<times> gotime) option) \<Rightarrow> gotime \<Rightarrow> v3_config
      \<Rightarrow> position_state" where
  "Resolve fetch now cfg =
     (let assumed =
        (if vr_HasAssumedRange cfg
         then \<lparr>ps_LowerTick = vr_AssumedLowerTick cfg, ps_UpperTick = vr_AssumedUpperTick cfg,
               ps_TokenID = 0, ps_Source = SourceConfigAssumed, ps_UpdatedAt = now\<rparr>
         else \<lparr>ps_LowerTick = 0, ps_UpperTick = 0, ps_TokenID = 0, ps_Source = SourceNone,
               ps_UpdatedAt = 0\<rparr>)
      in if 0 < vr_PositionTokenID cfg \<and> trim_space (vr_NPMAddress cfg) \<noteq> []
            \<and> trim_space (vr_ChainRPCURL cfg) \<noteq> []
         then case fetch (vr_ChainRPCURL cfg) (vr_NPMAddress cfg) (vr_PositionTokenID cfg) of
           Some (lower, upper, at') \<Rightarrow>
             if lower < upper
             then \<lparr>ps_LowerTick = lower, ps_UpperTick = upper, ps_TokenID = vr_PositionTokenID cfg,
                   ps_Source = SourceOnchain, ps_UpdatedAt = at'\<rparr>
             else assumed
         | None \<Rightarrow> assumed
         else assumed)"

lemma Resolve_onchain:
  "ps_Source (Resolve fetch now cfg) = SourceOnchain \<Longrightarrow>
   ps_LowerTick (Resolve fetch now cfg) < ps_UpperTick (Resolve fetch now cfg)"
  by (auto simp: Resolve_def Let_def split: option.splits if_splits)

text \<open>The dynamic types that ABI decoding may return for a tick.\<close>

datatype abi_val = I8 int | I16 int | I32 int | I64 int | BigInt int | OtherVal

fun toInt64 :: "abi_val \<Rightarrow> int64 option" where
  "toInt64 (I8 n) = Some n"
| "toInt64 (I16 n) = Some n"
| "toInt64 (I32 n) = Some n"
| "toInt64 (I64 n) = Some n"
| "toInt64 (BigInt n) = Some (wrap64 n)"
| "toInt64 OtherVal = None"

subsection \<open>Evaluation\<close>

record v3_input =
  vi_ObservedAt :: gotime
  vi_PoolTick :: int64
  vi_CurrentLowerTick :: int64
  vi_CurrentUpperTick :: int64
  vi_AggPrice :: float64
  vi_DivergencePct :: float64
  vi_RiskMode :: string
  vi_RiskReason :: string
  vi_StaleAgeMs :: int64

record v3_result =
  vo_Action :: string
  vo_Reason :: string
  vo_CurrentTick :: int64
  vo_CurLower :: int64
  vo_CurUpper :: int64
  vo_NewLower :: int64
  vo_NewUpper :: int64
  vo_NewCenter :: int64
  vo_WidthTicks :: int64
  vo_BufferTicks :: int64
  vo_CooldownLeft :: int64

record v3_strategy =
  v3_lastIntentAt :: gotime
  v3_lastCenterTick :: int64
  v3_lastIntentType :: string
  v3_lastIntentBrief :: string

definition NewV3RebalanceStrategy :: v3_strategy where
  "NewV3RebalanceStrategy =
     \<lparr>v3_lastIntentAt = 0, v3_lastCenterTick = 0, v3_lastIntentType = [],
      v3_lastIntentBrief = []\<rparr>"

definition unix_nano :: "gotime \<Rightarrow> int64" where
  "unix_nano t = wrap64 (t - unix_epoch)"

text \<open>\<open>Duration.Seconds\<close>, a float.\<close>

definition dur_seconds :: "duration \<Rightarrow> float64" where
  "dur_seconds d =
     f_add (f_of_int (tquot d second)) (f_div (f_of_int (trem d second)) (Fin 1000000000))"

definition range_text :: "int64 \<Rightarrow> int64 \<Rightarrow> string" where
  "range_text l u = ''['' @ itoa l @ '','' @ itoa u @ '']''"

definition brief_text :: "string \<Rightarrow> int64 \<Rightarrow> int64 \<Rightarrow> int64 \<Rightarrow> int64 \<Rightarrow> int64 \<Rightarrow> string" where
  "brief_text reason cl cu tick nl nu =
     reason @ '' cur='' @ range_text cl cu @ '' tick='' @ itoa tick @ '' new='' @ range_text nl nu"

definition v3_noop ::
    "v3_config \<Rightarrow> string \<Rightarrow> int64 \<Rightarrow> int64 \<Rightarrow> int64 \<Rightarrow> int64 \<times> int64 \<times> int64 \<Rightarrow> int64 \<Rightarrow> v3_result" where
  "v3_noop cfg reason tick cl cu target left =
     (case target of (nl, nu, nc) \<Rightarrow>
        \<lparr>vo_Action = ''noop'', vo_Reason = reason, vo_CurrentTick = tick, vo_CurLower = cl,
         vo_CurUpper = cu, vo_NewLower = nl, vo_NewUpper = nu, vo_NewCenter = nc,
         vo_WidthTicks = vr_WidthTicks cfg, vo_BufferTicks = vr_EdgeBufferTicks cfg,
         vo_CooldownLeft = left\<rparr>)"

definition v3_reason :: "v3_config \<Rightarrow> int64 \<Rightarrow> int64 \<Rightarrow> int64 \<Rightarrow> string" where
  "v3_reason cfg tick cl cu =
     (if tick < cl \<or> cu < tick then ''out_of_range''
      else if tick \<le> add64 cl (vr_EdgeBufferTicks cfg) \<or> sub64 cu (vr_EdgeBufferTicks cfg) \<le> tick
      then ''near_edge''
      else if vr_MinTickMove cfg \<le> abs64 (sub64 tick (div64 (add64 cl cu) 2)) then ''center_shift''
      else [])"

definition v3_metadata ::
    "(gotime \<Rightarrow> string) \<Rightarrow> v3_config \<Rightarrow> v3_input \<Rightarrow> gotime \<Rightarrow> string \<Rightarrow> int64 \<Rightarrow> int64
      \<Rightarrow> int64 \<times> int64 \<times> int64 \<Rightarrow> string \<rightharpoonup> string" where
  "v3_metadata rfc3339nano cfg i observed reason cl cu target =
     (case target of (nl, nu, nc) \<Rightarrow>
        map_of
          [(''reason'', reason),
           (''observed_at'', rfc3339nano observed),
           (''agg_price'', fmt_fixed 8 (vi_AggPrice i)),
           (''divergence_pct'', fmt_fixed 8 (vi_DivergencePct i)),
           (''stale_age_ms'', itoa (vi_StaleAgeMs i)),
           (''risk_mode'', trim_space (vi_RiskMode i)),
           (''risk_reason'', trim_space (vi_RiskReason i)),
           (''current_tick'', itoa (vi_PoolTick i)),
           (''current_lower'', itoa cl),
           (''current_upper'', itoa cu),
           (''current_center_tick'', itoa (div64 (add64 cl cu) 2)),
           (''new_lower'', itoa nl),
           (''new_upper'', itoa nu),
           (''new_center_tick'', itoa nc),
           (''width_ticks'', itoa (vr_WidthTicks cfg)),
           (''edge_buffer_ticks'', itoa (vr_EdgeBufferTicks cfg)),
           (''tick_spacing'', itoa (vr_TickSpacing cfg)),
           (''cooldown_remaining_sec'', ''0'')])"

definition v3_intent :: "gotime \<Rightarrow> v3_input \<Rightarrow> (string \<rightharpoonup> string) \<Rightarrow> intent" where
  "v3_intent now i md =
     \<lparr>int_ID = ''intent-'' @ itoa (unix_nano now), int_Type = IntentRebalanceV3,
      int_PoolID = ''v3'', int_ChainID = 0, int_Urgency = 3,
      int_Deadline = t_add now (600 * second), int_ExpectedPnL = Fin 0,
      int_StrategyVersion = ''v3-rebalance-v1'', int_RiskMode = trim_space (vi_RiskMode i),
      int_Metadata = Some md\<rparr>"

definition EvaluateAt ::
    "(gotime \<Rightarrow> string) \<Rightarrow> v3_config \<Rightarrow> gotime \<Rightarrow> v3_input \<Rightarrow> v3_strategy
      \<Rightarrow> v3_strategy \<times> v3_result \<times> intent option" where
  "EvaluateAt rfc3339nano cfg now i s =
     (let observed = (if t_is_zero (vi_ObservedAt i) then now else vi_ObservedAt i);
          tick = vi_PoolTick i;
          target = computeCenteredRange tick (vr_WidthTicks cfg) (vr_TickSpacing cfg);
          (nl, nu, nc) = target;
          unknown = (vi_CurrentLowerTick i = 0 \<and> vi_CurrentUpperTick i = 0);
          cl = (if unknown \<and> vr_HasAssumedRange cfg then vr_AssumedLowerTick cfg
                else vi_CurrentLowerTick i);
          cu = (if unknown \<and> vr_HasAssumedRange cfg then vr_AssumedUpperTick cfg
                else vi_CurrentUpperTick i)
      in if unknown \<and> \<not> vr_HasAssumedRange cfg
         then (s, v3_noop cfg ''no_position'' tick 0 0 target 0, None)
         else if cu \<le> cl
         then (s, \<lparr>vo_Action = ''noop'', vo_Reason = ''invalid_range'', vo_CurrentTick = tick,
                   vo_CurLower = cl, vo_CurUpper = cu, vo_NewLower = 0, vo_NewUpper = 0,
                   vo_NewCenter = 0, vo_WidthTicks = 0, vo_BufferTicks = 0,
                   vo_CooldownLeft = 0\<rparr>, None)
         else
           let center = div64 (add64 cl cu) 2;
               reason = v3_reason cfg tick cl cu;
               since = t_sub now (v3_lastIntentAt s)
           in if reason = [] then (s, v3_noop cfg ''in_range'' tick cl cu target 0, None)
              else if 0 < vr_Cooldown cfg \<and> \<not> t_is_zero (v3_lastIntentAt s)
                      \<and> since < vr_Cooldown cfg
              then (s, v3_noop cfg ''cooldown'' tick cl cu target
                         (f_to_i64 (dur_seconds (sub64 (vr_Cooldown cfg) since))), None)
              else if abs64 (sub64 nc center) < vr_MinTickMove cfg
                      \<and> reason \<noteq> ''out_of_range'' \<and> reason \<noteq> ''near_edge''
              then (s, v3_noop cfg ''below_min_move'' tick cl cu target 0, None)
              else
                let it = v3_intent now i
                           (v3_metadata rfc3339nano cfg i observed reason cl cu target)
                in (s\<lparr>v3_lastIntentAt := now, v3_lastCenterTick := nc,
                      v3_lastIntentType := int_Type it,
                      v3_lastIntentBrief := brief_text reason cl cu tick nl nu\<rparr>,
                    (v3_noop cfg reason tick cl cu target 0)\<lparr>vo_Action := ''rebalance''\<rparr>,
                    Some it))"

definition LastIntentSummary :: "v3_strategy \<Rightarrow> string \<times> string" where
  "LastIntentSummary s = (v3_lastIntentType s, v3_lastIntentBrief s)"

subsection \<open>The published form\<close>

text \<open>\<open>strconv.ParseInt\<close> with its error ignored: 0 for a bad syntax, the nearest bound for a value
  out of range.\<close>

definition parse_int_lossy :: "string \<Rightarrow> int64" where
  "parse_int_lossy s =
     (case parse_signed s of None \<Rightarrow> 0 | Some n \<Rightarrow> max min_i64 (min max_i64 n))"

definition meta_int :: "intent \<Rightarrow> string \<Rightarrow> int64" where
  "meta_int it k = parse_int_lossy (trim_space (meta_get (int_Metadata it) k))"

definition computeRebalanceIntentV1ID ::
    "(string \<Rightarrow> string) \<Rightarrow> string \<Rightarrow> string \<Rightarrow> string \<Rightarrow> int64 \<Rightarrow> int64 \<Rightarrow> int64 \<Rightarrow> int64 \<Rightarrow> int64
      \<Rightarrow> int64 \<Rightarrow> string" where
  "computeRebalanceIntentV1ID hash8 runID observedAt reason tick cl cu nl nu nc =
     (let ty = intent_type_v1_str RebalanceV3_v1;
          base = ''run_id='' @ trim_space runID @ ''|intent_type='' @ ty
            @ ''|observed_at='' @ trim_space observedAt @ ''|reason='' @ trim_space reason
            @ ''|current_tick='' @ itoa tick @ ''|cur_lower='' @ itoa cl
            @ ''|cur_upper='' @ itoa cu @ ''|new_lower='' @ itoa nl
            @ ''|new_upper='' @ itoa nu @ ''|new_center='' @ itoa nc
      in trim_space runID @ ''_'' @ ty @ ''_'' @ hash8 base)"

definition put_float :: "string \<Rightarrow> intent \<Rightarrow> jmap \<Rightarrow> jmap" where
  "put_float k it p =
     (case (if trim_space (meta_get (int_Metadata it) k) = [] then None
            else parse_float (trim_space (meta_get (int_Metadata it) k))) of
        None \<Rightarrow> p | Some f \<Rightarrow> p(k \<mapsto> JStr (fmt_fixed 8 f)))"

definition put_int :: "string \<Rightarrow> intent \<Rightarrow> jmap \<Rightarrow> jmap" where
  "put_int k it p =
     (case (if trim_space (meta_get (int_Metadata it) k) = [] then None
            else parse_int (trim_space (meta_get (int_Metadata it) k))) of
        None \<Rightarrow> p | Some n \<Rightarrow> p(k \<mapsto> JInt n))"

definition ToIntentV1FromRebalance ::
    "(string \<Rightarrow> string) \<Rightarrow> (intent \<Rightarrow> string option) \<Rightarrow> intent \<Rightarrow> string \<Rightarrow> gotime \<Rightarrow> bool \<Rightarrow> int64
      \<Rightarrow> intent_v1" where
  "ToIntentV1FromRebalance hash8 json_of it runID now dryRun ttl =
     (let md = int_Metadata it;
          reason = trim_space (meta_get md ''reason'');
          tick = meta_int it ''current_tick'';
          cl = meta_int it ''current_lower''; cu = meta_int it ''current_upper'';
          nl = meta_int it ''new_lower''; nu = meta_int it ''new_upper'';
          nc = meta_int it ''new_center_tick'';
          observed = trim_space (meta_get md ''observed_at'');
          params = map_of
            [(''pool'', JStr (int_PoolID it)), (''reason'', JStr reason),
             (''observed_at'', JStr observed), (''current_tick'', JInt tick),
             (''tick_lower'', JInt cl), (''tick_upper'', JInt cu),
             (''target_lower_tick'', JInt nl), (''target_upper_tick'', JInt nu),
             (''target_center_tick'', JInt nc), (''width_ticks'', JInt (meta_int it ''width_ticks'')),
             (''edge_buffer_ticks'', JInt (meta_int it ''edge_buffer_ticks'')),
             (''tick_spacing'', JInt (meta_int it ''tick_spacing''))];
          params = put_int ''stale_age_ms'' it
                     (put_float ''divergence_pct'' it (put_float ''agg_price'' it params));
          fields = map_of
            [(''pool'', JStr (int_PoolID it)), (''reason'', JStr reason),
             (''current_tick'', JInt tick), (''current_lower'', JInt cl),
             (''current_upper'', JInt cu), (''new_lower'', JInt nl), (''new_upper'', JInt nu)];
          fields = (case json_of it of None \<Rightarrow> fields
                    | Some b \<Rightarrow> fields(''legacy_intent_json'' \<mapsto> JStr b))
      in \<lparr>iv_SchemaVersion = SchemaVersion,
          iv_IntentID = computeRebalanceIntentV1ID hash8 runID observed reason tick cl cu nl nu nc,
          iv_IntentType = RebalanceV3_v1, iv_TsLocalMS = unix_ms now, iv_DryRun = dryRun,
          iv_TTLms = ttl, iv_Params = params, iv_Fields = fields,
          iv_Summary = brief_text reason cl cu tick nl nu\<rparr>)"

subsection \<open>What the strategy promises\<close>

lemma EvaluateAt_none:
  "EvaluateAt fmt cfg now i s = (s', r, None) \<Longrightarrow> s' = s \<and> vo_Action r = ''noop''"
  by (auto simp: EvaluateAt_def v3_noop_def Let_def split: if_splits prod.splits)

definition eff_lower :: "v3_config \<Rightarrow> v3_input \<Rightarrow> int64" where
  "eff_lower cfg i =
     (if vi_CurrentLowerTick i = 0 \<and> vi_CurrentUpperTick i = 0 \<and> vr_HasAssumedRange cfg
      then vr_AssumedLowerTick cfg else vi_CurrentLowerTick i)"

definition eff_upper :: "v3_config \<Rightarrow> v3_input \<Rightarrow> int64" where
  "eff_upper cfg i =
     (if vi_CurrentLowerTick i = 0 \<and> vi_CurrentUpperTick i = 0 \<and> vr_HasAssumedRange cfg
      then vr_AssumedUpperTick cfg else vi_CurrentUpperTick i)"

lemma EvaluateAt_some:
  assumes "EvaluateAt fmt cfg now i s = (s', r, Some it)"
    "computeCenteredRange (vi_PoolTick i) (vr_WidthTicks cfg) (vr_TickSpacing cfg) = (nl, nu, nc)"
  shows "v3_lastIntentAt s' = now"
    and "0 < vr_Cooldown cfg \<Longrightarrow> \<not> t_is_zero (v3_lastIntentAt s) \<Longrightarrow>
           vr_Cooldown cfg \<le> t_sub now (v3_lastIntentAt s)"
    and "eff_lower cfg i < eff_upper cfg i"
    and "v3_reason cfg (vi_PoolTick i) (eff_lower cfg i) (eff_upper cfg i) \<noteq> []"
    and "r = (v3_noop cfg (v3_reason cfg (vi_PoolTick i) (eff_lower cfg i) (eff_upper cfg i))
               (vi_PoolTick i) (eff_lower cfg i) (eff_upper cfg i) (nl, nu, nc) 0)
             \<lparr>vo_Action := ''rebalance''\<rparr>"
    and "it = v3_intent now i (v3_metadata fmt cfg i
               (if t_is_zero (vi_ObservedAt i) then now else vi_ObservedAt i)
               (v3_reason cfg (vi_PoolTick i) (eff_lower cfg i) (eff_upper cfg i))
               (eff_lower cfg i) (eff_upper cfg i) (nl, nu, nc))"
    and "abs64 (sub64 nc (div64 (add64 (eff_lower cfg i) (eff_upper cfg i)) 2)) < vr_MinTickMove cfg
           \<Longrightarrow> v3_reason cfg (vi_PoolTick i) (eff_lower cfg i) (eff_upper cfg i)
                 \<in> {''out_of_range'', ''near_edge''}"
  using assms
  by (auto simp: EvaluateAt_def eff_lower_def eff_upper_def v3_intent_def Let_def
      split: if_splits)

text \<open>A run of evaluations.  The times at which intents were emitted are at least a cooldown
  apart.\<close>

fun v3_run ::
    "(gotime \<Rightarrow> string) \<Rightarrow> v3_config \<Rightarrow> (gotime \<times> v3_input) list \<Rightarrow> v3_strategy \<Rightarrow> gotime list" where
  "v3_run fmt cfg [] s = []"
| "v3_run fmt cfg ((now, i) # ticks) s =
     (case EvaluateAt fmt cfg now i s of
        (s, r, None) \<Rightarrow> v3_run fmt cfg ticks s
      | (s, r, Some it) \<Rightarrow> now # v3_run fmt cfg ticks s)"

lemma v3_run_first:
  assumes "0 < vr_Cooldown cfg" "v3_run fmt cfg ticks s = t # ts" "\<not> t_is_zero (v3_lastIntentAt s)"
  shows "vr_Cooldown cfg \<le> t_sub t (v3_lastIntentAt s)"
  using assms(2,3)
proof (induction ticks arbitrary: s)
  case (Cons a ticks)
  obtain now i where a: "a = (now, i)" by (cases a)
  obtain s' r oi where e: "EvaluateAt fmt cfg now i s = (s', r, oi)" by (metis prod_cases3)
  obtain nl nu nc where c: "computeCenteredRange (vi_PoolTick i) (vr_WidthTicks cfg)
      (vr_TickSpacing cfg) = (nl, nu, nc)" by (metis prod_cases3)
  show ?case
  proof (cases oi)
    case None
    with e EvaluateAt_none have "s' = s" by blast
    with Cons a e None show ?thesis by simp
  next
    case (Some it)
    with Cons.prems a e have "t = now" by simp
    moreover have "vr_Cooldown cfg \<le> t_sub now (v3_lastIntentAt s)"
      by (rule EvaluateAt_some(2) [OF e [unfolded Some] c assms(1) Cons.prems(2)])
    ultimately show ?thesis by simp
  qed
qed simp

lemma v3_run_spacing:
  assumes "0 < vr_Cooldown cfg" "\<forall>(now, i) \<in> set ticks. \<not> t_is_zero now"
  shows "successively (\<lambda>a b. vr_Cooldown cfg \<le> t_sub b a) (v3_run fmt cfg ticks s)"
  using assms(2)
proof (induction ticks arbitrary: s)
  case (Cons a ticks)
  obtain now i where a: "a = (now, i)" by (cases a)
  obtain s' r oi where e: "EvaluateAt fmt cfg now i s = (s', r, oi)" by (metis prod_cases3)
  obtain nl nu nc where c: "computeCenteredRange (vi_PoolTick i) (vr_WidthTicks cfg)
      (vr_TickSpacing cfg) = (nl, nu, nc)" by (metis prod_cases3)
  show ?case
  proof (cases oi)
    case None
    with Cons a e show ?thesis by simp
  next
    case (Some it)
    have s': "v3_lastIntentAt s' = now" using EvaluateAt_some(1) [OF e [unfolded Some] c] .
    have ih: "successively (\<lambda>a b. vr_Cooldown cfg \<le> t_sub b a) (v3_run fmt cfg ticks s')"
      using Cons by simp
    have "vr_Cooldown cfg \<le> t_sub b now" if "v3_run fmt cfg ticks s' = b # bs" for b bs
      using v3_run_first [OF assms(1) that] s' Cons.prems a by simp
    then show ?thesis
      using ih a e Some by (cases "v3_run fmt cfg ticks s'") simp_all
  qed
qed simp

text \<open>Rebalancing is stable: evaluated on the range that it chose itself, at the same tick, the
  strategy does nothing.\<close>

lemma EvaluateAt_stable:
  assumes small: "tick_small (vi_PoolTick i)" "tick_small (vr_WidthTicks cfg)"
      "tick_small (vr_TickSpacing cfg)" "0 < vr_TickSpacing cfg"
    and range: "computeCenteredRange (vi_PoolTick i) (vr_WidthTicks cfg) (vr_TickSpacing cfg)
      = (vi_CurrentLowerTick i, vi_CurrentUpperTick i, nc)"
    and buffer: "0 \<le> vr_EdgeBufferTicks cfg"
      "2 * vr_EdgeBufferTicks cfg + 2 * vr_TickSpacing cfg
        < aligned_width (vr_WidthTicks cfg) (vr_TickSpacing cfg)"
    and move: "0 < vr_MinTickMove cfg"
  shows "snd (snd (EvaluateAt fmt cfg now i s)) = None"
proof -
  let ?t = "vi_PoolTick i" let ?l = "vi_CurrentLowerTick i" let ?u = "vi_CurrentUpperTick i"
  let ?w = "aligned_width (vr_WidthTicks cfg) (vr_TickSpacing cfg)" let ?b = "vr_EdgeBufferTicks cfg"
  note p = centered_range_props [OF small range]
  note wp = aligned_width_props [OF small(2-4)]
  have l: "?l \<le> ?t - ?w div 2"
    using computeCenteredRange_closed [OF small] range floor_tick_bounds(1) [OF small(4)]
    by (simp add: Let_def)
  define h where "h = ?w div 2"
  have h: "2 * h \<le> ?w" "?w \<le> 2 * h + 1" unfolding h_def by linarith+
  have bs: "?b + vr_TickSpacing cfg \<le> h" using h(2) buffer(2) by linarith
  have bt: "?l + ?b < ?t" using l bs small(4) unfolding h_def [symmetric] by linarith
  have bu: "?t < ?u - ?b" using p(3,8) bs h(1) unfolding h_def [symmetric] by linarith
  have bb: "?b < 10000000000000" using wp(4) buffer(2) small(4) by linarith
  have lb: "- 20000000000000 \<le> ?l" "?l \<le> 1000000000000" "?u \<le> 20000000000000"
    using p(3,4,8) wp small(1,3) unfolding tick_small_def by linarith+
  have i: "is_i64 (?l + ?b)" "is_i64 (?u - ?b)" "is_i64 (?l + ?u)"
    using lb bb buffer(1) p(3) wp(1) unfolding i64_bounds by linarith+
  have c: "div64 (add64 ?l ?u) 2 = nc"
    using computeCenteredRange_closed [OF small] range i(3)
    by (simp add: Let_def add64_id div64_id)
  have r: "v3_reason cfg ?t ?l ?u \<noteq> ''out_of_range''" "v3_reason cfg ?t ?l ?u \<noteq> ''near_edge''"
    using bt bu buffer(1) i by (simp_all add: v3_reason_def add64_id sub64_id)
  have nz: "?l < ?u" using p(3) wp(1) by simp
  have eff: "eff_lower cfg i = ?l" "eff_upper cfg i = ?u"
    using nz by (simp_all add: eff_lower_def eff_upper_def)
  have z: "abs64 (sub64 nc nc) = 0" by (simp add: sub64_def wrap64_def abs64_def)
  show ?thesis
  proof (cases "snd (snd (EvaluateAt fmt cfg now i s))")
    case (Some it)
    then obtain s' r' where e: "EvaluateAt fmt cfg now i s = (s', r', Some it)"
      by (metis prod.collapse)
    from EvaluateAt_some(7) [OF e range] r move show ?thesis by (simp add: eff c z)
  qed simp
qed

text \<open>The published form of an intent carries the numbers of the evaluation.\<close>

lemma parse_int_lossy_itoa: "is_i64 n \<Longrightarrow> parse_int_lossy (itoa n) = n"
  by (simp add: parse_int_lossy_def i64_bounds)

definition v3_i64 :: "v3_config \<Rightarrow> v3_input \<Rightarrow> bool" where
  "v3_i64 cfg i \<longleftrightarrow>
     is_i64 (vi_PoolTick i) \<and> is_i64 (vi_CurrentLowerTick i) \<and> is_i64 (vi_CurrentUpperTick i)
     \<and> is_i64 (vr_AssumedLowerTick cfg) \<and> is_i64 (vr_AssumedUpperTick cfg)"

lemma computeCenteredRange_i64:
  "computeCenteredRange t w s = (l, u, c) \<Longrightarrow> is_i64 t \<Longrightarrow> is_i64 l \<and> is_i64 u \<and> is_i64 c"
  by (auto simp: computeCenteredRange_def alignDownToSpacing_def Let_def split: if_splits)

lemma put_other:
  "k' \<noteq> k \<Longrightarrow> put_float k it p k' = p k'" "k' \<noteq> k \<Longrightarrow> put_int k it p k' = p k'"
  by (simp_all add: put_float_def put_int_def split: option.splits)

lemma ToIntentV1_numbers:
  assumes e: "EvaluateAt fmt cfg now i s = (s', r, Some it)" and n: "v3_i64 cfg i"
    and v: "v = ToIntentV1FromRebalance hash8 json_of it runID now' dry ttl"
  shows "iv_Params v ''current_tick'' = Some (JInt (vo_CurrentTick r))"
    and "iv_Params v ''tick_lower'' = Some (JInt (vo_CurLower r))"
    and "iv_Params v ''tick_upper'' = Some (JInt (vo_CurUpper r))"
    and "iv_Params v ''target_lower_tick'' = Some (JInt (vo_NewLower r))"
    and "iv_Params v ''target_upper_tick'' = Some (JInt (vo_NewUpper r))"
    and "iv_Params v ''target_center_tick'' = Some (JInt (vo_NewCenter r))"
proof -
  obtain nl nu nc where t: "computeCenteredRange (vi_PoolTick i) (vr_WidthTicks cfg)
      (vr_TickSpacing cfg) = (nl, nu, nc)" by (metis prod_cases3)
  note some = EvaluateAt_some [OF e t]
  let ?l = "eff_lower cfg i" let ?u = "eff_upper cfg i"
  have l: "is_i64 ?l" "is_i64 ?u" using n by (simp_all add: v3_i64_def eff_lower_def eff_upper_def)
  have nn: "is_i64 nl" "is_i64 nu" "is_i64 nc"
    using computeCenteredRange_i64 [OF t] n by (simp_all add: v3_i64_def)
  have tk: "is_i64 (vi_PoolTick i)" using n by (simp add: v3_i64_def)
  have mi: "meta_int it ''current_tick'' = vi_PoolTick i" "meta_int it ''current_lower'' = ?l"
    "meta_int it ''current_upper'' = ?u" "meta_int it ''new_lower'' = nl"
    "meta_int it ''new_upper'' = nu" "meta_int it ''new_center_tick'' = nc"
    using l nn tk
    by (simp_all add: some(6) v3_intent_def v3_metadata_def meta_int_def meta_get_Some map_get_def
        parse_int_lossy_itoa)
  have pf: "iv_Params v k = params k" if "k \<notin> {''stale_age_ms'', ''divergence_pct'', ''agg_price''}"
    "params = map_of
            [(''pool'', JStr (int_PoolID it)),
             (''reason'', JStr (trim_space (meta_get (int_Metadata it) ''reason''))),
             (''observed_at'', JStr (trim_space (meta_get (int_Metadata it) ''observed_at''))),
             (''current_tick'', JInt (vi_PoolTick i)),
             (''tick_lower'', JInt ?l), (''tick_upper'', JInt ?u),
             (''target_lower_tick'', JInt nl), (''target_upper_tick'', JInt nu),
             (''target_center_tick'', JInt nc), (''width_ticks'', JInt (meta_int it ''width_ticks'')),
             (''edge_buffer_ticks'', JInt (meta_int it ''edge_buffer_ticks'')),
             (''tick_spacing'', JInt (meta_int it ''tick_spacing''))]" for k params
    using that by (simp add: v ToIntentV1FromRebalance_def Let_def mi put_other del: map_of.simps)
  have ro: "vo_CurrentTick r = vi_PoolTick i" "vo_CurLower r = ?l" "vo_CurUpper r = ?u"
    "vo_NewLower r = nl" "vo_NewUpper r = nu" "vo_NewCenter r = nc"
    by (simp_all add: some(5) v3_noop_def)
  show "iv_Params v ''current_tick'' = Some (JInt (vo_CurrentTick r))"
    unfolding ro by (subst pf [OF _ refl]) simp_all
  show "iv_Params v ''tick_lower'' = Some (JInt (vo_CurLower r))"
    unfolding ro by (subst pf [OF _ refl]) simp_all
  show "iv_Params v ''tick_upper'' = Some (JInt (vo_CurUpper r))"
    unfolding ro by (subst pf [OF _ refl]) simp_all
  show "iv_Params v ''target_lower_tick'' = Some (JInt (vo_NewLower r))"
    unfolding ro by (subst pf [OF _ refl]) simp_all
  show "iv_Params v ''target_upper_tick'' = Some (JInt (vo_NewUpper r))"
    unfolding ro by (subst pf [OF _ refl]) simp_all
  show "iv_Params v ''target_center_tick'' = Some (JInt (vo_NewCenter r))"
    unfolding ro by (subst pf [OF _ refl]) simp_all
qed

end
