(* ===== verification/Strategies.thy ===== *)
theory Strategies
  imports V3_Rebalance
begin

text \<open>
  internal/engine/asmm.go, internal/strategy/basic.go and mock_rebalance.go.  The natural
  logarithm is the parameter \<open>logf\<close>.
\<close>

subsection \<open>The engine\<close>

definition PriceToTick :: "(float64 \<Rightarrow> float64) \<Rightarrow> float64 \<Rightarrow> int64" where
  "PriceToTick logf p =
     (if f_le p (Fin 0) then 0
      else f_to_i64 (f_div (logf p) (logf (f_lit (10001 / 10000)))))"

definition clamp_spread :: "float64 \<Rightarrow> float64" where
  "clamp_spread s =
     (let s = (if f_lt s (f_lit (5 / 1000)) then f_lit (5 / 1000) else s)
      in if f_lt (f_lit (2 / 10)) s then f_lit (2 / 10) else s)"

datatype engine_error = InvalidPrices

definition Calculate ::
    "(float64 \<Rightarrow> float64) \<Rightarrow> engine_input \<Rightarrow> engine_error + engine_output" where
  "Calculate logf i =
     (if f_le (ei_CexPrice i) (Fin 0) \<or> f_le (ei_DexPrice i) (Fin 0) then Inl InvalidPrices
      else
        let fair = f_add (f_mul (ei_CexPrice i) (f_lit (8 / 10)))
                     (f_mul (ei_DexPrice i) (f_lit (2 / 10)));
            spread = clamp_spread (f_mul (ei_Volatility i) (ei_RiskFactor i));
            lower = f_mul fair (f_sub (Fin 1) spread);
            upper = f_mul fair (f_add (Fin 1) spread)
        in Inr \<lparr>eo_TargetLowerTick = PriceToTick logf lower,
                eo_TargetUpperTick = PriceToTick logf upper, eo_TargetDelta = Fin 0\<rparr>)"

subsection \<open>The basic strategy\<close>

definition NewBasicStrategy :: "basic_config \<Rightarrow> basic_config" where
  "NewBasicStrategy cfg =
     cfg\<lparr>bc_RiskMode := (if bc_RiskMode cfg = [] then ''normal'' else bc_RiskMode cfg)\<rparr>"

definition UpdateConfig :: "basic_config \<Rightarrow> basic_config \<Rightarrow> basic_config" where
  "UpdateConfig cfg old =
     cfg\<lparr>bc_RiskMode := (if bc_RiskMode cfg = [] then ''normal'' else bc_RiskMode cfg)\<rparr>"

definition unix_sec :: "gotime \<Rightarrow> int64" where
  "unix_sec t = wrap64 ((t - unix_epoch) div 1000000000)"

definition basic_metadata ::
    "basic_config \<Rightarrow> gotime \<Rightarrow> engine_output \<Rightarrow> string \<rightharpoonup> string" where
  "basic_metadata cfg now target =
     map_of
       [(''engine'', ''basic_asmm''), (''token0'', bc_Token0Address cfg),
        (''token1'', bc_Token1Address cfg), (''fee'', itoa (bc_Fee cfg)),
        (''tick_lower'', itoa (sub64 (eo_TargetLowerTick target) 50)),
        (''tick_upper'', itoa (add64 (eo_TargetUpperTick target) 50)),
        (''amount0'', if bc_Amount0Desired cfg = [] then ''1000000000000000''
                      else bc_Amount0Desired cfg),
        (''amount1'', if bc_Amount1Desired cfg = [] then ''0'' else bc_Amount1Desired cfg),
        (''deadline'', itoa (unix_sec (t_add now (600 * second)))),
        (''position_manager'', bc_PositionManager cfg)]"

definition basic_intent :: "basic_config \<Rightarrow> gotime \<Rightarrow> engine_output \<Rightarrow> intent" where
  "basic_intent cfg now target =
     \<lparr>int_ID = ''intent-'' @ itoa (unix_nano now), int_Type = IntentRebalance,
      int_PoolID = bc_PoolID cfg, int_ChainID = bc_ChainID cfg, int_Urgency = 5,
      int_Deadline = t_add now (300 * second), int_ExpectedPnL = Fin 0,
      int_StrategyVersion = bc_StrategyVersion cfg, int_RiskMode = bc_RiskMode cfg,
      int_Metadata = Some (basic_metadata cfg now target)\<rparr>"

definition basic_min_spread :: "basic_config \<Rightarrow> float64" where
  "basic_min_spread cfg =
     (let m = f_of_int (bc_MinSpreadTicks cfg) in if f_le m (Fin 0) then Fin 100 else m)"

definition tick_diff :: "int64 \<Rightarrow> int64 \<Rightarrow> float64" where
  "tick_diff a b = f_abs (f_of_int (sub64 a b))"

definition basic_evaluate ::
    "(float64 \<Rightarrow> float64) \<Rightarrow> basic_config \<Rightarrow> gotime \<Rightarrow> engine_input
      \<Rightarrow> engine_error + intent list" where
  "basic_evaluate logf cfg now i =
     (if f_le (ei_CexPrice i) (f_lit (1 / 1000)) then Inr []
      else case Calculate logf i of
        Inl e \<Rightarrow> Inl e
      | Inr target \<Rightarrow>
          let dl = tick_diff (eo_TargetLowerTick target) (cp_LowerTick (ei_Position i));
              du = tick_diff (eo_TargetUpperTick target) (cp_UpperTick (ei_Position i));
              m = basic_min_spread cfg
          in if f_lt m dl \<or> f_lt m du then Inr [basic_intent cfg now target] else Inr [])"

subsection \<open>The mock strategy\<close>

record mock_input =
  mi_AggPrice :: float64
  mi_DivergencePct :: float64
  mi_RiskMode :: string
  mi_RiskReason :: string
  mi_StaleAgeMs :: int64

record mock_strategy =
  mk_movePct :: float64
  mk_lastPx :: float64

definition NewMockRebalanceStrategyFromEnv :: "string \<Rightarrow> mock_strategy" where
  "NewMockRebalanceStrategyFromEnv v =
     \<lparr>mk_movePct =
        (case (if trim_space v = [] then None else parse_float (trim_space v)) of
           Some f \<Rightarrow> if f_lt (Fin 0) f then f else f_lit (2 / 1000)
         | None \<Rightarrow> f_lit (2 / 1000)),
      mk_lastPx = Fin 0\<rparr>"

definition mock_intent :: "gotime \<Rightarrow> mock_input \<Rightarrow> intent" where
  "mock_intent now i =
     \<lparr>int_ID = ''intent-'' @ itoa (unix_nano now), int_Type = IntentMockRebalance,
      int_PoolID = ''mock'', int_ChainID = 0, int_Urgency = 1,
      int_Deadline = t_add now (300 * second), int_ExpectedPnL = Fin 0,
      int_StrategyVersion = ''mock-rebalance-v1'', int_RiskMode = trim_space (mi_RiskMode i),
      int_Metadata = Some (map_of
        [(''reason'', ''price_move''), (''agg_price'', fmt_fixed 8 (mi_AggPrice i)),
         (''divergence_pct'', fmt_fixed 8 (mi_DivergencePct i)),
         (''stale_age_ms'', itoa (mi_StaleAgeMs i)),
         (''risk_reason'', trim_space (mi_RiskReason i))])\<rparr>"

definition EvaluateMock ::
    "gotime \<Rightarrow> mock_input \<Rightarrow> mock_strategy \<Rightarrow> mock_strategy \<times> string \<times> string \<times> intent list" where
  "EvaluateMock now i s =
     (if f_le (mi_AggPrice i) (Fin 0) then (s, ''noop'', ''invalid_price'', [])
      else if f_le (mk_lastPx s) (Fin 0)
      then (s\<lparr>mk_lastPx := mi_AggPrice i\<rparr>, ''noop'', ''init'', [])
      else
        let pct = f_div (f_abs (f_sub (mi_AggPrice i) (mk_lastPx s))) (mk_lastPx s)
        in if f_lt pct (mk_movePct s) then (s, ''noop'', ''below_threshold'', [])
           else (s\<lparr>mk_lastPx := mi_AggPrice i\<rparr>, ''mock_rebalance'', ''price_move'',
                 [mock_intent now i]))"

subsection \<open>What they promise\<close>

text \<open>The spread is clamped between half a percent and twenty percent, so the bounds of the range
  enclose a share of the fair price.\<close>

lemma f_lit_mono: "x \<le> y \<Longrightarrow> f_le (f_lit x) (f_lit y)"
  unfolding f_lit_def by (rule rnd_mono)

lemma f_le_refl_lit [simp]: "f_le (f_lit x) (f_lit x)"
  by (rule f_lit_mono) simp

lemma clamp_spread_bounds:
  "s \<noteq> NaN \<Longrightarrow> f_le (f_lit (5 / 1000)) (clamp_spread s) \<and> f_le (clamp_spread s) (f_lit (2 / 10))"
proof -
  assume s: "s \<noteq> NaN"
  have nn: "f_lit x \<noteq> NaN" for x by (simp add: f_lit_def rnd_def Let_def)
  have le: "f_le (f_lit (5 / 1000)) (f_lit (2 / 10))" by (rule f_lit_mono) simp
  have cmp: "\<not> f_lt a b \<Longrightarrow> f_le b a" if "a \<noteq> NaN" "b \<noteq> NaN" for a b
    using f_not_le [of b a] that by blast
  show ?thesis
    using le s cmp nn
    by (auto simp: clamp_spread_def Let_def) 
qed

lemma basic_evaluate_cases:
  "basic_evaluate logf cfg now i = Inr its \<Longrightarrow>
   its = [] \<or> (\<exists>t. Calculate logf i = Inr t \<and> its = [basic_intent cfg now t])"
  by (auto simp: basic_evaluate_def Let_def split: sum.splits if_splits)

text \<open>A mock intent needs a move of the price; the reference price follows each intent.\<close>

lemma EvaluateMock_intent:
  assumes "EvaluateMock now i s = (s', act, why, its)" "its \<noteq> []"
  shows "its = [mock_intent now i]" "act = ''mock_rebalance''" "mk_lastPx s' = mi_AggPrice i"
    "\<not> f_lt (f_div (f_abs (f_sub (mi_AggPrice i) (mk_lastPx s))) (mk_lastPx s)) (mk_movePct s)"
  using assms by (auto simp: EvaluateMock_def Let_def split: if_splits)

lemma EvaluateMock_noop:
  assumes "EvaluateMock now i s = (s', act, why, [])"
  shows "act = ''noop'' \<and> (s' = s \<or> s' = s\<lparr>mk_lastPx := mi_AggPrice i\<rparr> \<and> why = ''init'')"
  using assms by (auto simp: EvaluateMock_def Let_def split: if_splits)

end
