(* ===== verification/Univ3.thy ===== *)
theory Univ3
  imports Tick_Range Risk_Manager
begin

text \<open>
  internal/chain/univ3: the calldata of a mint (adapter.go), the quoter with its fallback and the
  minimal output of a swap (quoter.go), and the guards of the swap helper (swap_helper.go).

  The ABI encoder, the RPC call and \<open>HexToAddress\<close> are third-party code and therefore
  parameters; bytes are numbers.  A big integer is an \<open>int\<close>, \<open>None\<close> when the pointer is nil.
\<close>

type_synonym bytes = "nat list"

subsection \<open>Minting\<close>

definition meta_parse_int :: "string \<Rightarrow> int64 \<Rightarrow> int64" where
  "meta_parse_int v dv = (if v = [] then dv else case parse_int v of None \<Rightarrow> dv | Some n \<Rightarrow> n)"

definition meta_parse_uint :: "string \<Rightarrow> nat \<Rightarrow> nat" where
  "meta_parse_uint v dv = (if v = [] then dv else case parse_uint 64 v of None \<Rightarrow> dv | Some n \<Rightarrow> n)"

definition spacingForFee :: "nat \<Rightarrow> int64" where
  "spacingForFee fee =
     (if fee = 100 then 1 else if fee = 500 then 10 else if fee = 3000 then 60
      else if fee = 10000 then 200 else 1)"

record mint_params =
  mp_Token0 :: address
  mp_Token1 :: address
  mp_Fee :: nat
  mp_TickLower :: int
  mp_TickUpper :: int
  mp_Amount0Desired :: int
  mp_Amount1Desired :: int
  mp_Amount0Min :: int
  mp_Amount1Min :: int
  mp_Recipient :: address
  mp_Deadline :: int

definition mint_params_of :: "(string \<Rightarrow> address) \<Rightarrow> intent \<Rightarrow> mint_params" where
  "mint_params_of hexaddr it =
     (let m = meta_get (int_Metadata it);
          fee = meta_parse_uint (m ''fee'') 500;
          spacing = spacingForFee fee;
          lower = snapTickDown (meta_parse_int (m ''tick_lower'') (- 100)) spacing;
          upper = snapTickUp (meta_parse_int (m ''tick_upper'') 100) spacing;
          upper = (if upper \<le> lower then add64 lower spacing else upper)
      in \<lparr>mp_Token0 = hexaddr (m ''token0''), mp_Token1 = hexaddr (m ''token1''), mp_Fee = fee,
          mp_TickLower = lower, mp_TickUpper = upper,
          mp_Amount0Desired = meta_parse_int (m ''amount0'') 0,
          mp_Amount1Desired = meta_parse_int (m ''amount1'') 0,
          mp_Amount0Min = 0, mp_Amount1Min = 0, mp_Recipient = hexaddr (m ''recipient''),
          mp_Deadline = meta_parse_int (m ''deadline'') 0\<rparr>)"

definition BuildMintData ::
    "(string \<Rightarrow> address) \<Rightarrow> bytes \<Rightarrow> (mint_params \<Rightarrow> bytes option) \<Rightarrow> intent \<Rightarrow> bytes option" where
  "BuildMintData hexaddr mintSig pack it =
     map_option (\<lambda>payload. mintSig @ payload) (pack (mint_params_of hexaddr it))"

subsection \<open>Quoting\<close>

record quoter_api =
  qa_caller :: "(bytes \<Rightarrow> bytes option) option"
  qa_pack_single :: "address \<Rightarrow> address \<Rightarrow> int \<Rightarrow> int \<Rightarrow> int \<Rightarrow> bytes option"
  qa_unpack_single :: "bytes \<Rightarrow> int option"
  qa_pack_path :: "bytes \<Rightarrow> int \<Rightarrow> bytes option"
  qa_unpack_path :: "bytes \<Rightarrow> int option"

datatype quote_error = CallerNil | PackFailed | CallFailed | UnpackFailed

fun be_bytes :: "nat \<Rightarrow> nat \<Rightarrow> bytes" where
  "be_bytes 0 x = []"
| "be_bytes (Suc n) x = (x div 256 ^ n) mod 256 # be_bytes n x"

definition addr_bytes :: "address \<Rightarrow> bytes" where
  "addr_bytes a = be_bytes 20 (unat a)"

fun zero_for_one :: "bytes \<Rightarrow> bytes \<Rightarrow> bool" where
  "zero_for_one (x # xs) (y # ys) = (if x < y then True else if y < x then False else zero_for_one xs ys)"
| "zero_for_one _ _ = True"

definition min_sqrt_limit :: int where "min_sqrt_limit = 4295128740"
definition max_sqrt_limit :: int where
  "max_sqrt_limit = 1461446703485210103287273052203988822378723970341"

definition price_limit :: "address \<Rightarrow> address \<Rightarrow> int option \<Rightarrow> int" where
  "price_limit tin tout plim =
     (let dflt = (if zero_for_one (addr_bytes tin) (addr_bytes tout) then min_sqrt_limit
                  else max_sqrt_limit)
      in case plim of None \<Rightarrow> dflt | Some l \<Rightarrow> if l = 0 then dflt else l)"

definition call_quoter ::
    "(bytes \<Rightarrow> bytes option) \<Rightarrow> bytes option \<Rightarrow> (bytes \<Rightarrow> int option) \<Rightarrow> quote_error + int" where
  "call_quoter call data unpack =
     (case data of None \<Rightarrow> Inl PackFailed
      | Some d \<Rightarrow>
          (case call d of None \<Rightarrow> Inl CallFailed
           | Some res \<Rightarrow> (case unpack res of None \<Rightarrow> Inl UnpackFailed | Some n \<Rightarrow> Inr n)))"

definition QuoteExactInputSingle ::
    "quoter_api \<Rightarrow> address \<Rightarrow> address \<Rightarrow> 32 word \<Rightarrow> int option \<Rightarrow> int option
      \<Rightarrow> quote_error + int" where
  "QuoteExactInputSingle q tin tout fee amountIn plim =
     (case qa_caller q of None \<Rightarrow> Inl CallerNil
      | Some call \<Rightarrow>
          (case amountIn of None \<Rightarrow> Inr 0
           | Some a \<Rightarrow>
               if a \<le> 0 then Inr 0
               else call_quoter call
                      (qa_pack_single q tin tout (uint fee) a (price_limit tin tout plim))
                      (qa_unpack_single q)))"

definition encodeV3Path :: "address \<Rightarrow> 32 word \<Rightarrow> address \<Rightarrow> bytes" where
  "encodeV3Path tin fee tout =
     addr_bytes tin
     @ [unat (drop_bit 16 fee) mod 256, unat (drop_bit 8 fee) mod 256, unat fee mod 256]
     @ addr_bytes tout"

definition QuoteExactInput ::
    "quoter_api \<Rightarrow> address \<Rightarrow> address \<Rightarrow> 32 word \<Rightarrow> int option \<Rightarrow> quote_error + int" where
  "QuoteExactInput q tin tout fee amountIn =
     (case qa_caller q of None \<Rightarrow> Inl CallerNil
      | Some call \<Rightarrow>
          (case amountIn of None \<Rightarrow> Inr 0
           | Some a \<Rightarrow>
               if a \<le> 0 then Inr 0
               else call_quoter call (qa_pack_path q (encodeV3Path tin fee tout) a)
                      (qa_unpack_path q)))"

definition QuoteExactInputWithFallback ::
    "quoter_api \<Rightarrow> address \<Rightarrow> address \<Rightarrow> 32 word \<Rightarrow> int option
      \<Rightarrow> quote_error + (int \<times> string)" where
  "QuoteExactInputWithFallback q tin tout fee amountIn =
     (let fallback =
        (case QuoteExactInput q tin tout fee amountIn of
           Inl e \<Rightarrow> Inl e | Inr n \<Rightarrow> Inr (n, ''quoteExactInput''))
      in case QuoteExactInputSingle q tin tout fee amountIn (Some 0) of
           Inr n \<Rightarrow> if 0 < n then Inr (n, ''quoteExactInputSingle'') else fallback
         | Inl _ \<Rightarrow> fallback)"

datatype min_out_error = InvalidQuote | SlippageTooHigh

definition ComputeMinOutBps :: "int option \<Rightarrow> 32 word \<Rightarrow> min_out_error + int" where
  "ComputeMinOutBps quoteOut slippageBps =
     (case quoteOut of None \<Rightarrow> Inl InvalidQuote
      | Some n \<Rightarrow>
          if n < 0 then Inl InvalidQuote
          else if 10000 \<le> slippageBps then Inl SlippageTooHigh
          else Inr (n * uint (10000 - slippageBps) div 10000))"

subsection \<open>The swap helper\<close>

datatype swap_data_error = AmountInNotPositive | AmountOutNegative | SwapPackFailed

definition BuildSwapExactInputSingleMinOutData ::
    "(address \<Rightarrow> address \<Rightarrow> address \<Rightarrow> int \<Rightarrow> int \<Rightarrow> int \<Rightarrow> bytes option)
      \<Rightarrow> address \<Rightarrow> address \<Rightarrow> address \<Rightarrow> int option \<Rightarrow> int option \<Rightarrow> int option
      \<Rightarrow> swap_data_error + bytes" where
  "BuildSwapExactInputSingleMinOutData pack pool tin tout amountIn minOut plim =
     (case amountIn of None \<Rightarrow> Inl AmountInNotPositive
      | Some a \<Rightarrow>
          if a \<le> 0 then Inl AmountInNotPositive
          else case minOut of None \<Rightarrow> Inl AmountOutNegative
          | Some m \<Rightarrow>
              if m < 0 then Inl AmountOutNegative
              else case pack pool tin tout a m (case plim of None \<Rightarrow> 0 | Some l \<Rightarrow> l) of
                None \<Rightarrow> Inl SwapPackFailed
              | Some d \<Rightarrow> Inr d)"

subsection \<open>What they promise\<close>

lemma spacing_pos: "0 < spacingForFee fee" "tick_small (spacingForFee fee)"
  by (simp_all add: spacingForFee_def tick_small_def)

text \<open>The ticks of a mint are multiples of the spacing, in order, and enclose the ticks that the
  intent asks for.\<close>

lemma mint_ticks:
  assumes "tick_small (meta_parse_int (meta_get (int_Metadata it) ''tick_lower'') (- 100))"
    "tick_small (meta_parse_int (meta_get (int_Metadata it) ''tick_upper'') 100)"
    "p = mint_params_of hexaddr it"
  shows "spacingForFee (mp_Fee p) dvd mp_TickLower p" "spacingForFee (mp_Fee p) dvd mp_TickUpper p"
    "mp_TickLower p < mp_TickUpper p"
    "mp_TickLower p \<le> meta_parse_int (meta_get (int_Metadata it) ''tick_lower'') (- 100)"
    "meta_parse_int (meta_get (int_Metadata it) ''tick_upper'') 100 \<le> mp_TickUpper p"
proof -
  let ?l = "meta_parse_int (meta_get (int_Metadata it) ''tick_lower'') (- 100)"
  let ?u = "meta_parse_int (meta_get (int_Metadata it) ''tick_upper'') 100"
  define s where "s = spacingForFee (meta_parse_uint (meta_get (int_Metadata it) ''fee'') 500)"
  have s: "0 < s" "tick_small s" by (simp_all add: s_def spacing_pos)
  have fee: "spacingForFee (mp_Fee p) = s" by (simp add: assms(3) mint_params_of_def Let_def s_def)
  have lo: "mp_TickLower p = snapTickDown ?l s"
    by (simp add: assms(3) mint_params_of_def Let_def s_def)
  have hi: "mp_TickUpper p = (if snapTickUp ?u s \<le> snapTickDown ?l s
      then add64 (snapTickDown ?l s) s else snapTickUp ?u s)"
    by (simp add: assms(3) mint_params_of_def Let_def s_def)
  note d = univ_tick.align_mult [OF assms(1) s(2,1)] univ_tick.align_le [OF assms(1) s(2,1)]
    univ_tick.align_gt [OF assms(1) s(2,1)]
  note u = snapUp_bounds [OF assms(2) s(2,1)]
  have "is_i64 (snapTickDown ?l s + s)"
    using d(2,3) assms(1) s unfolding tick_small_def i64_bounds by linarith
  then have a: "add64 (snapTickDown ?l s) s = snapTickDown ?l s + s" by (rule add64_id)
  show "spacingForFee (mp_Fee p) dvd mp_TickLower p" "spacingForFee (mp_Fee p) dvd mp_TickUpper p"
    "mp_TickLower p < mp_TickUpper p" "mp_TickLower p \<le> ?l" "?u \<le> mp_TickUpper p"
    using d u s by (auto simp: fee lo hi a)
qed

text \<open>Comparing the bytes of two addresses from the left compares them as numbers.\<close>

lemma be_bytes_length [simp]: "length (be_bytes n x) = n"
  by (induction n) simp_all

lemma zero_for_one_le:
  "zero_for_one (be_bytes n x) (be_bytes n y) \<longleftrightarrow> x mod 256 ^ n \<le> y mod 256 ^ n"
proof (induction n)
  case (Suc n)
  have split: "z mod 256 ^ Suc n = 256 ^ n * (z div 256 ^ n mod 256) + z mod 256 ^ n" for z :: nat
    using mod_mult2_eq [of z "256 ^ n" 256] by (simp only: power_Suc2)
  have lt: "z mod 256 ^ n < 256 ^ n" for z :: nat by simp
  let ?a = "x div 256 ^ n mod 256" let ?b = "y div 256 ^ n mod 256"
  consider "?a < ?b" | "?b < ?a" | "?a = ?b" by linarith
  then show ?case
  proof cases
    case 1
    then have "256 ^ n * (?a + 1) \<le> 256 ^ n * ?b" by (intro mult_le_mono2) simp
    then have "256 ^ n * ?a + 256 ^ n \<le> 256 ^ n * ?b" by simp
    moreover have "zero_for_one (be_bytes (Suc n) x) (be_bytes (Suc n) y)" using 1 by simp
    ultimately show ?thesis using lt [of x] unfolding split by linarith
  next
    case 2
    then have "256 ^ n * (?b + 1) \<le> 256 ^ n * ?a" by (intro mult_le_mono2) simp
    then have "256 ^ n * ?b + 256 ^ n \<le> 256 ^ n * ?a" by simp
    moreover have "\<not> zero_for_one (be_bytes (Suc n) x) (be_bytes (Suc n) y)" using 2 by simp
    ultimately show ?thesis using lt [of y] unfolding split by linarith
  next
    case 3
    then show ?thesis using Suc unfolding split by simp
  qed
qed simp

lemma zero_for_one_address: "zero_for_one (addr_bytes a) (addr_bytes b) \<longleftrightarrow> a \<le> b"
proof -
  have "unat a < 256 ^ 20" "unat b < 256 ^ 20"
    using unsigned_less [of a] unsigned_less [of b] by simp_all
  then show ?thesis
    by (simp add: addr_bytes_def zero_for_one_le word_le_nat_alt del: be_bytes.simps)
qed

text \<open>A path of one hop has 43 bytes, and the fee can be read back if it fits in 24 bits.\<close>

definition path_fee :: "bytes \<Rightarrow> nat" where
  "path_fee p = p ! 20 * 65536 + p ! 21 * 256 + p ! 22"

lemma addr_bytes_length [simp]: "length (addr_bytes a) = 20"
  by (simp add: addr_bytes_def)

lemma path_fee_encode:
  "path_fee (encodeV3Path tin fee tout) = unat fee mod 2 ^ 24" "length (encodeV3Path tin fee tout) = 43"
proof -
  have "x mod 16777216 = (x div 65536 mod 256) * 65536 + (x div 256 mod 256) * 256 + x mod 256"
    for x :: nat
  proof -
    have "x mod 16777216 = x mod (256 * 65536)" by simp
    also have "\<dots> = 256 * (x div 256 mod 65536) + x mod 256" by (rule mod_mult2_eq)
    also have "x div 256 mod 65536 = x div 256 mod (256 * 256)" by simp
    also have "\<dots> = 256 * (x div 256 div 256 mod 256) + x div 256 mod 256" by (rule mod_mult2_eq)
    finally show ?thesis by (simp add: div_mult2_eq [symmetric])
  qed
  moreover have "unat (drop_bit 16 fee) = unat fee div 65536" "unat (drop_bit 8 fee) = unat fee div 256"
    by (simp_all add: drop_bit_eq_div unat_div)
  ultimately show "path_fee (encodeV3Path tin fee tout) = unat fee mod 2 ^ 24"
    by (simp add: path_fee_def encodeV3Path_def nth_append)
qed (simp add: encodeV3Path_def)

lemma ComputeMinOut_bounds:
  assumes "ComputeMinOutBps (Some n) b = Inr m"
  shows "0 \<le> m" "m \<le> n" "n * (10000 - uint b) - 10000 < m * 10000" "m * 10000 \<le> n * (10000 - uint b)"
proof -
  have n: "0 \<le> n" and b: "b < 10000" and m: "m = n * uint (10000 - b) div 10000"
    using assms by (auto simp: ComputeMinOutBps_def not_le split: if_splits)
  have ub: "uint b < 10000" using b by (simp add: word_less_def)
  have k: "uint (10000 - b) = 10000 - uint b"
    using b by (simp add: uint_sub_if' word_less_def)
  define k where "k = 10000 - uint b"
  have kb: "0 \<le> k" "k \<le> 10000" using ub by (simp_all add: k_def)
  have m': "m = n * k div 10000" using m k by (simp add: k_def)
  have nk: "0 \<le> n * k" "n * k \<le> n * 10000" using n kb by (simp_all add: mult_left_mono)
  show "0 \<le> m" using nk by (simp add: m' pos_imp_zdiv_nonneg_iff)
  show "m \<le> n" using zdiv_mono1 [OF nk(2), of 10000] by (simp add: m')
  show "n * (10000 - uint b) - 10000 < m * 10000" "m * 10000 \<le> n * (10000 - uint b)"
    unfolding k_def [symmetric] m' by linarith+
qed

text \<open>The fallback returns a quote of one of the two calls; a quote that is zero or negative can only
  come from the second one.\<close>

lemma fallback_result:
  assumes "QuoteExactInputWithFallback q tin tout fee a = Inr (n, m)"
  shows "(m = ''quoteExactInputSingle'' \<and> 0 < n
          \<and> QuoteExactInputSingle q tin tout fee a (Some 0) = Inr n)
    \<or> (m = ''quoteExactInput'' \<and> QuoteExactInput q tin tout fee a = Inr n)"
  using assms
  by (auto simp: QuoteExactInputWithFallback_def Let_def split: sum.splits if_splits)

end
