(* ===== verification/Advisory.thy ===== *)
theory Advisory
  imports Risk_Stats
begin

text \<open>
  internal/advisory (advisory.go, state.go, severity.go, config.go, generator.go) and
  cmd/riskadvisory: recommendations that are computed from the statistics of the risk control,
  with hysteresis.  Nothing here writes the control file.
\<close>

abbreviation SuggestionNoChange :: string where "SuggestionNoChange \<equiv> ''NO_CHANGE''"
abbreviation SuggestionSafe :: string where "SuggestionSafe \<equiv> ''SAFE''"
abbreviation SuggestionHalt :: string where "SuggestionHalt \<equiv> ''HALT''"

subsection \<open>Configuration\<close>

record advisory_config =
  av_Enabled :: bool
  av_WindowSec :: int64
  av_HaltUpN :: int64
  av_HaltDownM :: int64
  av_SafeUpN :: int64
  av_SafeDownM :: int64
  av_HaltDivergenceRejectRate :: float64
  av_HaltMinEvaluations :: int64
  av_HaltMinDeviationBps :: int64
  av_HaltCooldownRejectRate :: float64
  av_SafeTimeMismatchSkipRate :: float64
  av_SafeMissingNormSkipRate :: float64
  av_SafeMinEvaluations :: int64

definition advisory_defaults :: advisory_config where
  "advisory_defaults =
     \<lparr>av_Enabled = True, av_WindowSec = 3600, av_HaltUpN = 3, av_HaltDownM = 5,
      av_SafeUpN = 2, av_SafeDownM = 4, av_HaltDivergenceRejectRate = f_lit (80 / 100),
      av_HaltMinEvaluations = 20, av_HaltMinDeviationBps = 500,
      av_HaltCooldownRejectRate = f_lit (50 / 100),
      av_SafeTimeMismatchSkipRate = f_lit (70 / 100),
      av_SafeMissingNormSkipRate = f_lit (50 / 100), av_SafeMinEvaluations = 20\<rparr>"

definition env_pos :: "string \<Rightarrow> int64 \<Rightarrow> int64" where
  "env_pos v old =
     (case (if v = [] then None else parse_int v) of
        Some i \<Rightarrow> if 0 < i then i else old | None \<Rightarrow> old)"

definition env_rate :: "string \<Rightarrow> float64 \<Rightarrow> float64" where
  "env_rate v old =
     (case (if v = [] then None else parse_float v) of
        Some f \<Rightarrow> if f_le (Fin 0) f \<and> f_le f (Fin 1) then f else old | None \<Rightarrow> old)"

definition NewAdvisoryConfig :: "(string \<Rightarrow> string) \<Rightarrow> advisory_config" where
  "NewAdvisoryConfig env =
     (let c = advisory_defaults;
          en = env ''RISK_ADVISORY_ENABLED'';
          c = (if en \<noteq> [] then c\<lparr>av_Enabled := (en = ''1'' \<or> to_lower en = ''true'')\<rparr> else c)
      in c\<lparr>av_WindowSec := env_pos (env ''RISK_ADVISORY_WINDOW_SEC'') (av_WindowSec c),
           av_HaltDivergenceRejectRate :=
             env_rate (env ''RISK_ADVISORY_HALT_DIVERGENCE_RATE'') (av_HaltDivergenceRejectRate c),
           av_HaltMinEvaluations :=
             env_pos (env ''RISK_ADVISORY_HALT_MIN_EVALUATIONS'') (av_HaltMinEvaluations c),
           av_HaltMinDeviationBps :=
             env_pos (env ''RISK_ADVISORY_HALT_MIN_DEVIATION_BPS'') (av_HaltMinDeviationBps c),
           av_HaltCooldownRejectRate :=
             env_rate (env ''RISK_ADVISORY_HALT_COOLDOWN_RATE'') (av_HaltCooldownRejectRate c),
           av_SafeTimeMismatchSkipRate :=
             env_rate (env ''RISK_ADVISORY_SAFE_TIME_MISMATCH_RATE'') (av_SafeTimeMismatchSkipRate c),
           av_SafeMissingNormSkipRate :=
             env_rate (env ''RISK_ADVISORY_SAFE_MISSING_NORM_RATE'') (av_SafeMissingNormSkipRate c),
           av_SafeMinEvaluations :=
             env_pos (env ''RISK_ADVISORY_SAFE_MIN_EVALUATIONS'') (av_SafeMinEvaluations c)\<rparr>)"

subsection \<open>Evidence and the instantaneous mode\<close>

record evidence =
  ae_TotalEvaluations :: int64
  ae_RejectRate :: float64
  ae_SkipRate :: float64
  ae_TimeMismatchSkipRate :: float64
  ae_DivergenceRejectRate :: float64
  ae_CooldownRejectRate :: float64
  ae_MaxDeviationBps :: int64
  ae_P95DeviationBps :: int64

definition rate_of :: "int64 \<Rightarrow> int64 \<Rightarrow> float64" where
  "rate_of n tot = f_div (f_of_int n) (f_of_int tot)"

definition buildEvidence :: "stats_snapshot \<Rightarrow> evidence" where
  "buildEvidence st =
     (let tot = (if sp_TotalEvaluations st \<le> 0 then 1 else sp_TotalEvaluations st);
          get = (\<lambda>m k. map_get m 0 k)
      in \<lparr>ae_TotalEvaluations = sp_TotalEvaluations st,
          ae_RejectRate = rate_of (get (sp_VerdictCounts st) ''REJECT'') tot,
          ae_SkipRate = rate_of (get (sp_VerdictCounts st) ''SKIP'') tot,
          ae_TimeMismatchSkipRate = sp_TimeMismatchSkipRate st,
          ae_DivergenceRejectRate =
            rate_of (get (sp_RejectCountsByRuleID st) PriceSourceDivergenceRuleID) tot,
          ae_CooldownRejectRate =
            rate_of (get (sp_RejectCountsByRuleID st) CooldownAndFrequencyRuleID) tot,
          ae_MaxDeviationBps = ps_MaxDeviationBps (sp_PriceDivergence st),
          ae_P95DeviationBps = ps_P95DeviationBps (sp_PriceDivergence st)\<rparr>)"

definition computeInstantaneousMode :: "advisory_config \<Rightarrow> evidence \<Rightarrow> string" where
  "computeInstantaneousMode cfg e =
     (if av_HaltMinEvaluations cfg \<le> ae_TotalEvaluations e
         \<and> f_le (av_HaltDivergenceRejectRate cfg) (ae_DivergenceRejectRate e)
         \<and> av_HaltMinDeviationBps cfg \<le> ae_MaxDeviationBps e
      then SuggestionHalt
      else if av_HaltMinEvaluations cfg \<le> ae_TotalEvaluations e
              \<and> f_le (av_HaltCooldownRejectRate cfg) (ae_CooldownRejectRate e)
      then SuggestionHalt
      else if av_SafeMinEvaluations cfg \<le> ae_TotalEvaluations e
              \<and> f_le (av_SafeTimeMismatchSkipRate cfg) (ae_TimeMismatchSkipRate e)
      then SuggestionSafe
      else SuggestionNoChange)"

subsection \<open>Hysteresis\<close>

record advisory_state =
  as_UpdatedAtMS :: int64
  as_CurrentMode :: string
  as_StateSinceMs :: int64
  as_Counts :: "(string \<rightharpoonup> int64) option"

definition zero_counts :: "string \<rightharpoonup> int64" where
  "zero_counts = [SuggestionHalt \<mapsto> 0, SuggestionSafe \<mapsto> 0, SuggestionNoChange \<mapsto> 0]"

definition NewAdvisoryStateManager :: advisory_state where
  "NewAdvisoryStateManager =
     \<lparr>as_UpdatedAtMS = 0, as_CurrentMode = SuggestionNoChange, as_StateSinceMs = 0,
      as_Counts = Some zero_counts\<rparr>"

text \<open>The state file: a document sets the fields it has, and its counters are merged into those in
  memory; \<open>null\<close> makes the map nil.\<close>

datatype json_counts = CountsAbsent | CountsNull | CountsObj "(string \<times> int64) list"

record advisory_doc =
  ad_UpdatedAtMS :: "int64 option"
  ad_CurrentMode :: "string option"
  ad_StateSinceMs :: "int64 option"
  ad_Counts :: json_counts

datatype advisory_file =
  FileMissing | FileUnreadable | FileEmpty | FileBad | FileDoc advisory_doc

definition or_old :: "'a option \<Rightarrow> 'a \<Rightarrow> 'a" where
  "or_old v old = (case v of None \<Rightarrow> old | Some x \<Rightarrow> x)"

fun merge_counts :: "json_counts \<Rightarrow> (string \<rightharpoonup> int64) option \<Rightarrow> (string \<rightharpoonup> int64) option" where
  "merge_counts CountsAbsent m = m"
| "merge_counts CountsNull m = None"
| "merge_counts (CountsObj kvs) m =
     Some (fold (\<lambda>(k, v) f. f(k \<mapsto> v)) kvs (case m of None \<Rightarrow> Map.empty | Some f \<Rightarrow> f))"

fun advisory_load :: "gotime \<Rightarrow> advisory_file \<Rightarrow> advisory_state \<Rightarrow> advisory_state \<times> bool" where
  "advisory_load now FileMissing s =
     (\<lparr>as_UpdatedAtMS = unix_ms now, as_CurrentMode = SuggestionNoChange,
       as_StateSinceMs = unix_ms now, as_Counts = Some zero_counts\<rparr>, True)"
| "advisory_load now FileUnreadable s = (s, False)"
| "advisory_load now FileEmpty s = (s, True)"
| "advisory_load now FileBad s = (s, False)"
| "advisory_load now (FileDoc d) s =
     (let s = \<lparr>as_UpdatedAtMS = or_old (ad_UpdatedAtMS d) (as_UpdatedAtMS s),
               as_CurrentMode = or_old (ad_CurrentMode d) (as_CurrentMode s),
               as_StateSinceMs = or_old (ad_StateSinceMs d) (as_StateSinceMs s),
               as_Counts = merge_counts (ad_Counts d) (as_Counts s)\<rparr>;
          s = (if as_Counts s = None then s\<lparr>as_Counts := Some zero_counts\<rparr> else s);
          s = (if as_CurrentMode s = [] then s\<lparr>as_CurrentMode := SuggestionNoChange\<rparr> else s)
      in (s, True))"

definition bump_counts :: "string \<Rightarrow> (string \<rightharpoonup> int64) \<Rightarrow> (string \<rightharpoonup> int64)" where
  "bump_counts inst m =
     fold (\<lambda>mode f. if mode = inst then map_incr f mode else f(mode \<mapsto> 0))
       [SuggestionHalt, SuggestionSafe, SuggestionNoChange] m"

text \<open>The mode after one update, and whether it was switched, from the mode, the instantaneous mode
  and the counters.\<close>

definition next_mode ::
    "advisory_config \<Rightarrow> string \<Rightarrow> string \<Rightarrow> int64 \<Rightarrow> int64 \<Rightarrow> int64 \<Rightarrow> string \<times> bool" where
  "next_mode cfg inst cur h s n =
     (if inst = SuggestionHalt
      then (if cur \<noteq> SuggestionHalt \<and> av_HaltUpN cfg \<le> h then (SuggestionHalt, True) else (cur, False))
      else if inst = SuggestionSafe
      then (if cur = SuggestionHalt
            then (if av_HaltDownM cfg \<le> add64 s n then (SuggestionSafe, True) else (cur, False))
            else if cur \<noteq> SuggestionSafe \<and> av_SafeUpN cfg \<le> s then (SuggestionSafe, True)
            else (cur, False))
      else if inst = SuggestionNoChange
      then (if cur = SuggestionHalt
            then (if av_HaltDownM cfg \<le> add64 s n then (SuggestionNoChange, True) else (cur, False))
            else if cur = SuggestionSafe \<and> av_SafeDownM cfg \<le> n then (SuggestionNoChange, True)
            else (cur, False))
      else (cur, False))"

definition hysteresis_text ::
    "advisory_config \<Rightarrow> string \<Rightarrow> string \<Rightarrow> int64 \<Rightarrow> int64 \<Rightarrow> int64 \<Rightarrow> string" where
  "hysteresis_text cfg inst cur h s n =
     ''hysteresis: instantaneous='' @ inst @ '' current='' @ cur
     @ '' halt_up_n='' @ itoa (av_HaltUpN cfg) @ '' halt_down_m='' @ itoa (av_HaltDownM cfg)
     @ '' safe_up_n='' @ itoa (av_SafeUpN cfg) @ '' safe_down_m='' @ itoa (av_SafeDownM cfg)
     @ '' counts(H='' @ itoa h @ '',S='' @ itoa s @ '',N='' @ itoa n @ '')''"

definition UpdateState ::
    "string \<Rightarrow> advisory_config \<Rightarrow> gotime \<Rightarrow> advisory_state \<Rightarrow> advisory_state \<times> string \<times> string" where
  "UpdateState inst cfg now st =
     (let m = bump_counts inst (case as_Counts st of None \<Rightarrow> Map.empty | Some f \<Rightarrow> f);
          h = map_get m 0 SuggestionHalt; s = map_get m 0 SuggestionSafe;
          n = map_get m 0 SuggestionNoChange;
          old = as_CurrentMode st;
          (cur, switched) = next_mode cfg inst old h s n;
          st' = \<lparr>as_UpdatedAtMS = unix_ms now, as_CurrentMode = cur,
                 as_StateSinceMs = (if switched then unix_ms now else as_StateSinceMs st),
                 as_Counts = Some m\<rparr>;
          reason = hysteresis_text cfg inst cur h s n;
          reason = (if switched
                    then reason @ '' [SWITCHED: '' @ old @ [CHR 0xE2, CHR 0x86, CHR 0x92] @ cur @ '']''
                    else reason)
      in (st', cur, reason))"

subsection \<open>Reasons, severity and the advisory\<close>

definition buildReasons ::
    "string \<Rightarrow> string \<Rightarrow> evidence \<Rightarrow> advisory_config \<Rightarrow> string list \<times> float64" where
  "buildReasons inst stbl e cfg =
     (let ge = (\<lambda>name v t. name @ ''='' @ fmt_fixed 4 v @ '' >= '' @ fmt_fixed 4 t);
          d = f_le (av_HaltDivergenceRejectRate cfg) (ae_DivergenceRejectRate e);
          b = av_HaltMinDeviationBps cfg \<le> ae_MaxDeviationBps e;
          c = f_le (av_HaltCooldownRejectRate cfg) (ae_CooldownRejectRate e);
          t = f_le (av_SafeTimeMismatchSkipRate cfg) (ae_TimeMismatchSkipRate e);
          up = (\<lambda>p x conf. if p then f_add conf (f_lit x) else conf);
          (rs, conf) =
            (if inst = SuggestionHalt
             then ((if d then [ge ''divergence_reject_rate'' (ae_DivergenceRejectRate e)
                                (av_HaltDivergenceRejectRate cfg)] else [])
                   @ (if b then [''max_deviation_bps='' @ itoa (ae_MaxDeviationBps e) @ '' >= ''
                                 @ itoa (av_HaltMinDeviationBps cfg)] else [])
                   @ (if c then [ge ''cooldown_reject_rate'' (ae_CooldownRejectRate e)
                                  (av_HaltCooldownRejectRate cfg)] else []),
                   up c (20 / 100) (up b (20 / 100) (up d (20 / 100) (f_lit (50 / 100)))))
             else if inst = SuggestionSafe
             then ((if t then [ge ''time_mismatch_skip_rate'' (ae_TimeMismatchSkipRate e)
                                (av_SafeTimeMismatchSkipRate cfg)] else []),
                   up t (15 / 100) (f_lit (50 / 100)))
             else ([''no risk conditions triggered, system operating normally''],
                   f_lit (50 / 100)));
          conf = up (100 \<le> ae_TotalEvaluations e) (10 / 100) conf;
          conf = (if f_lt (Fin 1) conf then Fin 1 else conf);
          rs = (if inst \<noteq> stbl
                then rs @ [''stable_mode='' @ stbl @ '' (instantaneous='' @ inst @ '')''] else rs)
      in (rs, conf))"

definition add_score :: "int64 \<Rightarrow> string \<Rightarrow> int64 \<times> string list \<Rightarrow> int64 \<times> string list" where
  "add_score v name sc =
     (if 0 < v then (add64 (fst sc) v, snd sc @ [name @ ''='' @ itoa v]) else sc)"

definition div_score :: "evidence \<Rightarrow> int64" where
  "div_score e =
     (let v = f_to_i64 (f_mul (ae_DivergenceRejectRate e) (Fin 50));
          v = (if 0 < ae_MaxDeviationBps e
               then add64 v (f_to_i64 (f_div (f_of_int (ae_MaxDeviationBps e)) (Fin 25))) else v)
      in if 40 < v then 40 else v)"

definition mismatch_score :: "evidence \<Rightarrow> int64" where
  "mismatch_score e =
     (let v = f_to_i64 (f_mul (ae_TimeMismatchSkipRate e) (Fin 20)) in if 20 < v then 20 else v)"

definition CalculateSeverityScore :: "string \<Rightarrow> evidence \<Rightarrow> int64 \<times> string" where
  "CalculateSeverityScore inst e =
     (let sc = (if inst = SuggestionHalt then (60, [''halt_condition=60'']) else (0, []));
          sc = add_score (div_score e) ''divergence'' sc;
          sc = add_score (mismatch_score e) ''time_mismatch'' sc;
          score = fst sc;
          score = (if 100 < score then 100 else score);
          score = (if score < 0 then 0 else score)
      in (score, ''severity_score='' @ itoa score @ '' (components: ['' @ join '' '' (snd sc) @ ''])''))"

record advisory =
  ro_TsMS :: int64
  ro_WindowSec :: int64
  ro_SuggestedRiskMode :: string
  ro_Confidence :: float64
  ro_Reasons :: "string list"
  ro_Evidence :: evidence
  ro_StateSinceMs :: int64
  ro_InstantaneousMode :: string
  ro_SeverityScore :: int64
  ro_HysteresisCounts :: "(string \<rightharpoonup> int64) option"

definition GenerateAdvisory ::
    "advisory_config \<Rightarrow> stats_snapshot \<Rightarrow> gotime \<Rightarrow> advisory_state option
      \<Rightarrow> advisory_state option \<times> advisory" where
  "GenerateAdvisory cfg stats now mgr =
     (let e = buildEvidence stats;
          inst = computeInstantaneousMode cfg e;
          (mgr, stbl, hreason, since, counts) =
            (case mgr of
               None \<Rightarrow> (None, inst, ''hysteresis: disabled (no state manager)'', unix_ms now, None)
             | Some st \<Rightarrow>
                 let (st, stbl, hreason) = UpdateState inst cfg now st
                 in (Some st, stbl, hreason, as_StateSinceMs st, as_Counts st));
          (rs, conf) = buildReasons inst stbl e cfg;
          (score, sreason) = CalculateSeverityScore inst e
      in (mgr, \<lparr>ro_TsMS = unix_ms now, ro_WindowSec = av_WindowSec cfg,
                ro_SuggestedRiskMode = stbl, ro_Confidence = conf,
                ro_Reasons = rs @ [hreason, sreason], ro_Evidence = e, ro_StateSinceMs = since,
                ro_InstantaneousMode = inst, ro_SeverityScore = score,
                ro_HysteresisCounts = counts\<rparr>))"

text \<open>The generator: at every tick the statistics file is read (\<open>None\<close> if that fails), and the
  advisory is written unless the write fails.\<close>

record generator =
  gn_cfg :: advisory_config
  gn_state :: "advisory_state option"

definition NewGenerator :: "advisory_config \<Rightarrow> string \<Rightarrow> gotime \<Rightarrow> advisory_file \<Rightarrow> generator" where
  "NewGenerator cfg stateDir now src =
     \<lparr>gn_cfg = cfg,
      gn_state = (if trim_ascii stateDir \<noteq> []
                  then Some (fst (advisory_load now src NewAdvisoryStateManager)) else None)\<rparr>"

definition generator_tick ::
    "gotime \<Rightarrow> stats_snapshot option \<Rightarrow> bool \<Rightarrow> generator \<times> advisory option
      \<Rightarrow> generator \<times> advisory option" where
  "generator_tick now stats write_fails go =
     (case stats of
        None \<Rightarrow> go
      | Some st \<Rightarrow>
          let (mgr, adv) = GenerateAdvisory (gn_cfg (fst go)) st now (gn_state (fst go))
          in ((fst go)\<lparr>gn_state := mgr\<rparr>, if write_fails then snd go else Some adv))"

subsection \<open>The offline tool\<close>

record offline_stats =
  of_TotalEvaluations :: int64
  of_RejectCountsByID :: "(string \<rightharpoonup> int64) option"
  of_DivergenceRejectRate :: float64
  of_TimeMismatchSkipRate :: float64
  of_MaxDeviationBps :: int64

datatype 'a read_file = ReadMissing | ReadFails | ReadEmpty | ReadBad | ReadDoc 'a

definition default_offline :: offline_stats where
  "default_offline =
     \<lparr>of_TotalEvaluations = 100, of_RejectCountsByID = Some [PriceSourceDivergenceRuleID \<mapsto> 0],
      of_DivergenceRejectRate = Fin 0, of_TimeMismatchSkipRate = Fin 0, of_MaxDeviationBps = 0\<rparr>"

fun readStatsOrDefault :: "offline_stats read_file \<Rightarrow> offline_stats option" where
  "readStatsOrDefault ReadMissing = Some default_offline"
| "readStatsOrDefault ReadFails = None"
| "readStatsOrDefault ReadEmpty = Some default_offline"
| "readStatsOrDefault ReadBad = None"
| "readStatsOrDefault (ReadDoc s) =
     (let s = (if of_TotalEvaluations s \<le> 0 then s\<lparr>of_TotalEvaluations := 100\<rparr> else s)
      in Some (if of_RejectCountsByID s = None then s\<lparr>of_RejectCountsByID := Some Map.empty\<rparr> else s))"

definition computeDivergenceRejectRate :: "offline_stats \<Rightarrow> float64" where
  "computeDivergenceRejectRate s =
     (if f_lt (Fin 0) (of_DivergenceRejectRate s) then of_DivergenceRejectRate s
      else if of_TotalEvaluations s \<le> 0 then Fin 0
      else
        let n = (case of_RejectCountsByID s of None \<Rightarrow> 0
                 | Some m \<Rightarrow> map_get m 0 ''price_source_divergence'')
        in if n \<le> 0 then Fin 0 else rate_of n (of_TotalEvaluations s))"

definition classify :: "float64 \<Rightarrow> string \<times> int64" where
  "classify r =
     (if f_le (f_lit (20 / 100)) r then (SuggestionHalt, 90)
      else if f_le (f_lit (5 / 100)) r then (SuggestionSafe, 50) else (SuggestionNoChange, 15))"

subsection \<open>What the hysteresis does\<close>

definition is_mode :: "string \<Rightarrow> bool" where
  "is_mode m \<longleftrightarrow> m = SuggestionHalt \<or> m = SuggestionSafe \<or> m = SuggestionNoChange"

definition adv_step :: "advisory_config \<Rightarrow> gotime \<times> string \<Rightarrow> advisory_state \<Rightarrow> advisory_state" where
  "adv_step cfg x st = fst (UpdateState (snd x) cfg (fst x) st)"

definition adv_run :: "advisory_config \<Rightarrow> (gotime \<times> string) list \<Rightarrow> advisory_state \<Rightarrow> advisory_state" where
  "adv_run cfg xs st = fold (adv_step cfg) xs st"

text \<open>The length of the run of \<open>m\<close> at the end of a list of modes.\<close>

definition trail :: "string \<Rightarrow> string list \<Rightarrow> nat" where
  "trail m ms = length (takeWhile ((=) m) (rev ms))"

lemma trail_Nil [simp]: "trail m [] = 0"
  by (simp add: trail_def)

lemma trail_snoc: "trail m (ms @ [x]) = (if x = m then Suc (trail m ms) else 0)"
  by (simp add: trail_def)

lemma trail_le: "trail m ms \<le> length ms"
  unfolding trail_def by (metis length_rev length_takeWhile_le)

definition count_of :: "advisory_state \<Rightarrow> string \<Rightarrow> int64" where
  "count_of st m = (case as_Counts st of None \<Rightarrow> 0 | Some f \<Rightarrow> map_get f 0 m)"

lemma computeInstantaneousMode_mode: "is_mode (computeInstantaneousMode cfg e)"
  by (simp add: computeInstantaneousMode_def is_mode_def)

lemma bump_counts_get:
  "is_mode m \<Longrightarrow> map_get (bump_counts inst f) 0 m
     = (if m = inst then add64 (map_get f 0 m) 1 else 0)"
  by (auto simp: bump_counts_def is_mode_def map_get_upd map_incr_def)

lemma modes_are [simp]:
  "is_mode SuggestionHalt" "is_mode SuggestionSafe" "is_mode SuggestionNoChange"
  by (simp_all add: is_mode_def)

lemma adv_step_count:
  "is_mode m \<Longrightarrow> count_of (adv_step cfg x st) m = (if m = snd x then add64 (count_of st m) 1 else 0)"
  by (auto simp: adv_step_def UpdateState_def Let_def count_of_def bump_counts_get
           split: prod.splits option.splits)

lemma adv_step_mode:
  "as_CurrentMode (adv_step cfg x st) =
     fst (next_mode cfg (snd x) (as_CurrentMode st) (count_of (adv_step cfg x st) SuggestionHalt)
            (count_of (adv_step cfg x st) SuggestionSafe)
            (count_of (adv_step cfg x st) SuggestionNoChange))"
  by (auto simp: adv_step_def UpdateState_def Let_def count_of_def split: prod.splits option.splits)

lemma adv_run_snoc: "adv_run cfg (xs @ [x]) st = adv_step cfg x (adv_run cfg xs st)"
  by (simp add: adv_run_def)

lemma adv_run_mode_valid:
  assumes "is_mode (as_CurrentMode st)"
  shows "is_mode (as_CurrentMode (adv_run cfg xs st))"
proof (induction xs rule: rev_induct)
  case Nil
  then show ?case using assms by (simp add: adv_run_def)
next
  case (snoc x xs)
  then show ?case by (auto simp: adv_run_snoc adv_step_mode next_mode_def)
qed

lemma new_counts: "count_of NewAdvisoryStateManager m = 0"
  by (simp add: count_of_def NewAdvisoryStateManager_def zero_counts_def map_get_def)

lemma adv_run_counts:
  assumes "int (length xs) \<le> max_i64" "is_mode m"
  shows "count_of (adv_run cfg xs NewAdvisoryStateManager) m = int (trail m (map snd xs))"
  using assms(1)
proof (induction xs rule: rev_induct)
  case Nil
  then show ?case by (simp add: adv_run_def new_counts)
next
  case (snoc x xs)
  have le: "int (trail m (map snd xs)) \<le> int (length xs)" using trail_le[of m "map snd xs"] by simp
  have "is_i64 (int (trail m (map snd xs)) + 1)"
    using le snoc.prems by (simp add: i64_bounds)
  then show ?case
    using snoc assms(2) by (cases "m = snd x") (simp_all add: adv_run_snoc adv_step_count trail_snoc add64_id)
qed

lemma trail_other: "x \<noteq> m \<Longrightarrow> trail m (ms @ [x]) = 0"
  by (simp add: trail_snoc)

lemma adv_run_mode:
  assumes "int (length xs) < max_i64"
  shows "as_CurrentMode (adv_run cfg (xs @ [x]) NewAdvisoryStateManager) =
     (let cur = as_CurrentMode (adv_run cfg xs NewAdvisoryStateManager);
          t = (\<lambda>m. int (trail m (map snd (xs @ [x]))))
      in fst (next_mode cfg (snd x) cur (t SuggestionHalt) (t SuggestionSafe) (t SuggestionNoChange)))"
proof -
  have "int (length (xs @ [x])) \<le> max_i64" using assms by simp
  from adv_run_counts[OF this] show ?thesis
    by (simp add: Let_def adv_run_snoc adv_step_mode[of cfg x])
qed

lemma enter_halt_iff:
  assumes "int (length xs) < max_i64"
    and "as_CurrentMode (adv_run cfg xs NewAdvisoryStateManager) \<noteq> SuggestionHalt"
  shows "as_CurrentMode (adv_run cfg (xs @ [x]) NewAdvisoryStateManager) = SuggestionHalt
     \<longleftrightarrow> snd x = SuggestionHalt \<and> av_HaltUpN cfg \<le> int (trail SuggestionHalt (map snd (xs @ [x])))"
  using assms by (auto simp: adv_run_mode Let_def next_mode_def split: if_splits)

lemma leave_halt_iff:
  assumes "int (length xs) < max_i64" "is_mode (snd x)"
    and "as_CurrentMode (adv_run cfg xs NewAdvisoryStateManager) = SuggestionHalt"
  shows "as_CurrentMode (adv_run cfg (xs @ [x]) NewAdvisoryStateManager) \<noteq> SuggestionHalt
     \<longleftrightarrow> snd x \<noteq> SuggestionHalt \<and> av_HaltDownM cfg \<le> int (trail (snd x) (map snd (xs @ [x])))"
proof -
  have "int (trail m (map snd xs)) + 1 \<le> max_i64" for m
    using trail_le[of m "map snd xs"] assms(1) by (simp add: of_nat_less_iff)
  moreover have "0 \<le> int (trail m (map snd xs))" for m by simp
  ultimately have "is_i64 (int (trail m (map snd xs)) + 1)" for m by (simp add: i64_bounds)
  then have w: "wrap64 (int (trail m (map snd xs)) + 1) = int (trail m (map snd xs)) + 1" for m
    by (rule wrap64_id)
  then have w': "wrap64 (1 + int (trail m (map snd xs))) = 1 + int (trail m (map snd xs))" for m
    by (simp add: add.commute)
  have run: "as_CurrentMode (adv_run cfg (xs @ [x]) NewAdvisoryStateManager) =
      fst (next_mode cfg (snd x) SuggestionHalt (int (trail SuggestionHalt (map snd (xs @ [x]))))
            (int (trail SuggestionSafe (map snd (xs @ [x]))))
            (int (trail SuggestionNoChange (map snd (xs @ [x])))))"
    using assms(3) by (simp add: adv_run_mode[OF assms(1)] Let_def)
  show ?thesis
    using assms(2) unfolding run is_mode_def
    by (auto simp: next_mode_def add64_def trail_snoc w w')
qed

text \<open>A recovery that alternates between SAFE and NO_CHANGE never ends HALT: each counter is reset
  by the other mode.\<close>

definition flapping :: "gotime \<Rightarrow> nat \<Rightarrow> (gotime \<times> string) list" where
  "flapping now n = concat (replicate n [(now, SuggestionSafe), (now, SuggestionNoChange)])"

lemma flapping_step:
  assumes "2 \<le> av_HaltDownM cfg" "as_CurrentMode st = SuggestionHalt"
    "count_of st SuggestionSafe = 0"
  shows "as_CurrentMode (adv_run cfg (flapping now n) st) = SuggestionHalt
       \<and> count_of (adv_run cfg (flapping now n) st) SuggestionSafe = 0"
proof (induction n)
  case 0
  then show ?case using assms by (simp add: flapping_def adv_run_def)
next
  case (Suc n)
  let ?s = "adv_run cfg (flapping now n) st"
  have one: "add64 1 0 = 1" "add64 0 1 = 1" by (simp_all add: add64_id i64_bounds)
  have ra: "replicate n x @ [x] = x # replicate n x" for x :: "(gotime \<times> string) list"
    by (metis replicate_append_same)
  have "flapping now (Suc n) = concat (replicate n [(now, SuggestionSafe), (now, SuggestionNoChange)]
          @ [[(now, SuggestionSafe), (now, SuggestionNoChange)]])"
    unfolding flapping_def replicate_Suc ra by simp
  then have snoc: "flapping now (Suc n) =
      (flapping now n @ [(now, SuggestionSafe)]) @ [(now, SuggestionNoChange)]"
    by (simp add: flapping_def)
  show ?case
    unfolding snoc adv_run_snoc
    using Suc.IH assms(1)
    by (simp add: adv_step_mode adv_step_count next_mode_def one)
qed

subsection \<open>Severity\<close>

lemma add_score_fst:
  "v \<le> c \<Longrightarrow> 0 \<le> c \<Longrightarrow> 0 \<le> fst sc \<Longrightarrow> fst sc + c \<le> max_i64 \<Longrightarrow>
     fst sc \<le> fst (add_score v name sc) \<and> fst (add_score v name sc) \<le> fst sc + c"
  by (auto simp: add_score_def add64_id i64_bounds)

lemma div_score_le: "div_score e \<le> 40"
  by (simp add: div_score_def Let_def)

lemma mismatch_score_le: "mismatch_score e \<le> 20"
  by (simp add: mismatch_score_def Let_def)

lemma severity_bounds:
  "0 \<le> fst (CalculateSeverityScore inst e) \<and> fst (CalculateSeverityScore inst e) \<le> 100
   \<and> (inst = SuggestionHalt \<longrightarrow> 60 \<le> fst (CalculateSeverityScore inst e))"
proof -
  define s0 where "s0 = (if inst = SuggestionHalt then (60 :: int, [''halt_condition=60'']) else (0, []))"
  define s1 where "s1 = add_score (div_score e) ''divergence'' s0"
  define s2 where "s2 = add_score (mismatch_score e) ''time_mismatch'' s1"
  have 0: "0 \<le> fst s0" "fst s0 \<le> 60" "inst = SuggestionHalt \<longrightarrow> fst s0 = 60"
    by (auto simp: s0_def)
  have 1: "fst s0 \<le> fst s1 \<and> fst s1 \<le> fst s0 + 40"
    unfolding s1_def by (rule add_score_fst) (use 0 div_score_le in \<open>auto simp: max_i64_def\<close>)
  have 2: "fst s1 \<le> fst s2 \<and> fst s2 \<le> fst s1 + 20"
    unfolding s2_def by (rule add_score_fst) (use 0 1 mismatch_score_le in \<open>auto simp: max_i64_def\<close>)
  have "fst (CalculateSeverityScore inst e) = (let v = (if 100 < fst s2 then 100 else fst s2) in
          if v < 0 then 0 else v)"
    by (simp add: CalculateSeverityScore_def Let_def s2_def s1_def s0_def)
  then show ?thesis using 0 1 2 by (auto simp: Let_def)
qed

end
