(* ===== verification/Props_Strategy.thy ===== *)
theory Props_Strategy
  imports Intent_Queue Config Risk_Manager Strategies Univ3 Advisory
begin

text \<open>
  The properties of the strategies, the queue, the configuration, the risk manager, the Uniswap
  adapter and the risk advisory.
\<close>

subsection \<open>The intent queue\<close>

text \<open>The intent queue is a priority queue: any number of intents enqueued into a new queue
  and then dequeued come out in the order of decreasing urgency, none is lost and none invented, and
  whatever is left is at most as urgent as what came out.\<close>

theorem queue_by_urgency:
  "(let (out, q) = iq.pops n (iq.push_all its NewIntentQueue) in
     mset its = mset out + mset q \<and> length out = min n (length its)
     \<and> sorted (map (\<lambda>i. - int_Urgency i) out)
     \<and> list_all (\<lambda>x. list_all (\<lambda>y. int_Urgency y \<le> int_Urgency x) q) out \<and> is_heap q)"
proof -
  obtain out q where p: "iq.pops n (iq.push_all its NewIntentQueue) = (out, q)" by fastforce
  have inv: "is_heap (iq.push_all its NewIntentQueue)"
    by (rule iq.push_all_inv [OF iq.empty_inv])
  have "mset (iq.push_all its NewIntentQueue) = mset its"
    using iq.push_all_elems[OF iq.empty_inv, of its] by (simp add: iq.empty_elems)
  with iq.pops_correct[OF inv p] show ?thesis
    by (auto simp: p list_all_iff)
qed

subsection \<open>Configuration\<close>

text \<open>A running bot never holds an invalid configuration: the configuration that a manager
  starts with, every one it switches to when the file changes and every update it hands out passed
  the validation, and validating a configuration again changes nothing.\<close>

theorem reload_keeps_valid:
  assumes "NewManager path src = Inr m"
  shows "config_ok (cm_current (fold config_step es m))
    \<and> list_all config_ok (cm_updates (fold config_step es m))
    \<and> length (cm_updates (fold config_step es m)) \<le> 1
    \<and> ValidateConfig (cm_current (fold config_step es m)) = Inr (cm_current (fold config_step es m))"
  using manager_ok_run[OF manager_ok_new[OF assms], of es]
  by (simp add: manager_ok_def list_all_iff ValidateConfig_fixed)

definition ex_app :: app_config where
  "ex_app =
     \<lparr>ap_SchemaVersion = [], ap_StrategyVersion = ''v1'',
      ap_Events = \<lparr>ec_Driver = ''memory'', ec_RedisURL = [], ec_RedisPrefix = [], ec_RedisGroup = []\<rparr>,
      ap_Chains = [\<lparr>ch_ID = 1, ch_Name = [], ch_RPC = ''http'', ch_QuoterAddress = [],
                    ch_SwapHelperAddress = []\<rparr>],
      ap_Pools = [\<lparr>pc_ID = ''p'', pc_ChainID = 1, pc_Token0 = [], pc_Token1 = [], pc_Fee = 500,
                   pc_Address = [], pc_MaxInvestment = [], pc_PositionManager = [],
                   pc_Amount0 = [], pc_Amount1 = [], pc_Token0Decimals = 18,
                   pc_Token1Decimals = 6\<rparr>],
      ap_Strategy = \<lparr>sc_Name = ''s'', sc_Params = None, sc_DryRun = True\<rparr>,
      ap_Risk = \<lparr>rk_MaxDailyGas = Fin 1, rk_MaxDrawdown = Fin (1 / 2), rk_ConsecutiveFails = 3\<rparr>,
      ap_MonitoringPort = 0\<rparr>"

lemma ex_app_valid: "ValidateConfig ex_app = Inr ex_app"
  by (rule ValidateConfig_fixed) (simp add: config_ok_def ex_app_def check_risk_def f_le_def)

theorem reload_keeps_valid_witness:
  "config_ok (cm_current (fold config_step [WatchError, TakeUpdate]
     \<lparr>cm_path = ''c'', cm_current = ex_app, cm_updates = []\<rparr>))"
proof -
  have "NewManager ''c'' (Some (Some ex_app)) = Inr \<lparr>cm_path = ''c'', cm_current = ex_app, cm_updates = []\<rparr>"
    by (simp add: NewManager_def LoadConfig_def ex_app_valid)
  from reload_keeps_valid[OF this] show ?thesis by blast
qed

subsection \<open>The risk manager\<close>

text \<open>Enough failures in a row freeze the risk manager for good: after them nothing may
  proceed any more, whatever operations follow, successes and new limits included.\<close>

theorem failures_freeze_for_good:
  assumes "0 < n" "rm_MaxFails m \<le> rm_ConsecutiveFails m + int n"
    "is_i64 (rm_ConsecutiveFails m + int n)" "is_i64 (rm_ConsecutiveFails m)"
  shows "snd (CanProceed (fold manager_step ops ((manager_failure ^^ n) m))) = Some SystemFrozen"
  using frozen_run[of "(manager_failure ^^ n) m" ops] failures_freeze[OF assms]
  by (simp add: CanProceed_def)

theorem failures_freeze_for_good_witness:
  "snd (CanProceed (fold manager_step [OpSuccess 7, OpLimits (Fin 9) 9 (Fin 0)]
     ((manager_failure ^^ 3) (new_risk_manager (Fin 1) 3 (Fin 1))))) = Some SystemFrozen"
  by (rule failures_freeze_for_good) (simp_all add: new_risk_manager_def i64_bounds)

subsection \<open>Ticks\<close>

text \<open>The strategy and the Uniswap adapter align ticks in the same way although they compute
  it differently: both give the greatest multiple of the spacing that is not above the tick, also
  for negative ticks, and aligning twice changes nothing.\<close>

theorem alignments_agree:
  assumes "tick_small t" "tick_small s" "0 < s"
  shows "alignDownToSpacing t s = snapTickDown t s \<and> snapTickDown t s = t div s * s
    \<and> (alignDownToSpacing t s = t \<longleftrightarrow> s dvd t)
    \<and> snapTickUp t s = - (- t div s * s)"
  using strat_tick.align_eq[OF assms] univ_tick.align_eq[OF assms] strat_tick.align_fix[OF assms]
    snapUp_ceil[OF assms] by (simp add: floor_tick_def)

theorem alignments_agree_witness:
  "alignDownToSpacing (- 61) 60 = - 120 \<and> snapTickUp (- 61) 60 = - 60"
  using alignments_agree[of "- 61" 60] by (simp add: tick_small_def)

text \<open>The range that the strategy proposes: it starts and ends on multiples of the spacing,
  has the configured width rounded down to the spacing, contains its center, and contains the
  current tick whenever it is at least two spacings wide.\<close>

theorem centered_range:
  assumes "tick_small t" "tick_small w" "tick_small s" "0 < s"
    "computeCenteredRange t w s = (l, u, c)"
  shows "s dvd l \<and> s dvd u \<and> l < u \<and> l \<le> t \<and> l \<le> c \<and> c \<le> u
    \<and> (2 * s \<le> u - l \<longrightarrow> t < u)
    \<and> u - l = (if \<bar>w\<bar> < s then 10 * s else \<bar>w\<bar> div s * s)"
proof -
  note p = centered_range_props[OF assms]
  have "aligned_width w s = (if \<bar>w\<bar> < s then 10 * s else \<bar>w\<bar> div s * s)"
    using assms(4) pos_imp_zdiv_pos_iff[of s "\<bar>w\<bar>"]
    by (auto simp: aligned_width_def floor_tick_def div_pos_pos_trivial not_less)
  moreover have "0 < aligned_width w s" by (rule aligned_width_props(1)[OF assms(2-4)])
  ultimately show ?thesis using p by simp
qed

theorem centered_range_witness: "computeCenteredRange 605 600 60 = (300, 900, 600)"
proof -
  obtain l u c where e: "computeCenteredRange 605 600 60 = (l, u, c)" by (metis prod.exhaust)
  have "60 dvd l" "u - l = 600"
    using centered_range[OF _ _ _ _ e] by (simp_all add: tick_small_def)
  moreover have "computeCenteredRange 605 600 60 = (300, 900, 600)" by code_simp
  ultimately show ?thesis by simp
qed

text \<open>A range of a single spacing can miss the current tick: with the width 60 and the spacing
  60 the pool tick 25 gives the range from -60 to 0.\<close>

theorem narrow_range_misses_tick:
  "(let (l, u, c) = computeCenteredRange 25 60 60 in l = - 60 \<and> u = 0 \<and> u < 25)"
  by code_simp

subsection \<open>The V3 strategy\<close>

text \<open>C40. The cooldown of the strategy: over any sequence of ticks, two consecutive intents are at
  least the cooldown apart.\<close>

theorem intents_spaced:
  assumes "0 < vr_Cooldown cfg" "list_all (\<lambda>(now, i). \<not> t_is_zero now) ticks"
  shows "successively (\<lambda>a b. vr_Cooldown cfg \<le> t_sub b a)
    (v3_run fmt cfg ticks NewV3RebalanceStrategy)"
  using v3_run_spacing[OF assms(1), of ticks fmt NewV3RebalanceStrategy] assms(2)
  by (simp add: list_all_iff)

definition ex_v3_input :: "int64 \<Rightarrow> v3_input" where
  "ex_v3_input t =
     \<lparr>vi_ObservedAt = 0, vi_PoolTick = t, vi_CurrentLowerTick = 0, vi_CurrentUpperTick = 600,
      vi_AggPrice = Fin 1, vi_DivergencePct = Fin 0, vi_RiskMode = [], vi_RiskReason = [],
      vi_StaleAgeMs = 0\<rparr>"

theorem intents_spaced_witness:
  "successively (\<lambda>a b. 300 * second \<le> t_sub b a)
     (v3_run (\<lambda>_. []) defaultV3RebalanceConfig [(5, ex_v3_input 900), (6, ex_v3_input 900)]
        NewV3RebalanceStrategy)"
  using intents_spaced[of defaultV3RebalanceConfig "[(5, ex_v3_input 900), (6, ex_v3_input 900)]" "\<lambda>_. []"]
  by (simp add: defaultV3RebalanceConfig_def second_def t_is_zero_def)

text \<open>A rebalance settles: at the tick at which a range was computed, a position that has just
  that range is left alone, if the range is wider than both buffers and two spacings.\<close>

theorem rebalance_settles:
  assumes "tick_small (vi_PoolTick i)" "tick_small (vr_WidthTicks cfg)" "tick_small (vr_TickSpacing cfg)"
    "0 < vr_TickSpacing cfg"
    "computeCenteredRange (vi_PoolTick i) (vr_WidthTicks cfg) (vr_TickSpacing cfg)
      = (vi_CurrentLowerTick i, vi_CurrentUpperTick i, nc)"
    "0 \<le> vr_EdgeBufferTicks cfg"
    "2 * vr_EdgeBufferTicks cfg + 2 * vr_TickSpacing cfg
        < aligned_width (vr_WidthTicks cfg) (vr_TickSpacing cfg)"
    "0 < vr_MinTickMove cfg"
  shows "\<exists>r. EvaluateAt fmt cfg now i s = (s, r, None) \<and> vo_Action r = ''noop''"
proof -
  obtain s' r o' where e: "EvaluateAt fmt cfg now i s = (s', r, o')" by (metis prod.exhaust)
  have "o' = None" using EvaluateAt_stable[OF assms, of fmt now s] e by simp
  then show ?thesis using e EvaluateAt_none[of fmt cfg now i s s' r] by auto
qed

theorem rebalance_settles_witness:
  "\<exists>r. EvaluateAt (\<lambda>_. []) defaultV3RebalanceConfig 7
      ((ex_v3_input 605)\<lparr>vi_CurrentLowerTick := 300, vi_CurrentUpperTick := 900\<rparr>)
      NewV3RebalanceStrategy = (NewV3RebalanceStrategy, r, None) \<and> vo_Action r = ''noop''"
proof (rule rebalance_settles[where nc = 600])
  have "computeCenteredRange 605 600 60 = (300, 900, 600)" by code_simp
  then show "computeCenteredRange (vi_PoolTick ((ex_v3_input 605)\<lparr>vi_CurrentLowerTick := 300,
      vi_CurrentUpperTick := 900\<rparr>)) (vr_WidthTicks defaultV3RebalanceConfig)
      (vr_TickSpacing defaultV3RebalanceConfig)
    = (vi_CurrentLowerTick ((ex_v3_input 605)\<lparr>vi_CurrentLowerTick := 300, vi_CurrentUpperTick := 900\<rparr>),
       vi_CurrentUpperTick ((ex_v3_input 605)\<lparr>vi_CurrentLowerTick := 300, vi_CurrentUpperTick := 900\<rparr>), 600)"
    by (simp add: defaultV3RebalanceConfig_def ex_v3_input_def)
qed (simp_all add: defaultV3RebalanceConfig_def ex_v3_input_def tick_small_def aligned_width_def
      floor_tick_def)

text \<open>Nothing is lost on the way to the contract: the numbers of the IntentV1 that is built
  from the metadata of a rebalance intent are the numbers of the decision, although they travel
  as decimal strings.\<close>

theorem intent_numbers_roundtrip:
  assumes "EvaluateAt fmt cfg now i s = (s', r, Some it)" "v3_i64 cfg i"
  shows "(let v = iv_Params (ToIntentV1FromRebalance hash8 json_of it runID now' dry ttl) in
    v ''current_tick'' = Some (JInt (vo_CurrentTick r))
    \<and> v ''tick_lower'' = Some (JInt (vo_CurLower r)) \<and> v ''tick_upper'' = Some (JInt (vo_CurUpper r))
    \<and> v ''target_lower_tick'' = Some (JInt (vo_NewLower r))
    \<and> v ''target_upper_tick'' = Some (JInt (vo_NewUpper r))
    \<and> v ''target_center_tick'' = Some (JInt (vo_NewCenter r)))"
  using ToIntentV1_numbers[OF assms refl] by (simp add: Let_def)

lemma ex_v3_rebalance:
  "\<exists>s' r it. EvaluateAt (\<lambda>_. []) defaultV3RebalanceConfig 7 (ex_v3_input 900) NewV3RebalanceStrategy
     = (s', r, Some it) \<and> vo_CurrentTick r = 900"
  by (simp add: EvaluateAt_def Let_def ex_v3_input_def defaultV3RebalanceConfig_def
      NewV3RebalanceStrategy_def t_is_zero_def v3_reason_def v3_noop_def split: prod.splits)

theorem intent_numbers_roundtrip_witness:
  "\<exists>it. iv_Params (ToIntentV1FromRebalance (\<lambda>_. []) (\<lambda>_. None) it ''run'' 7 True 0) ''current_tick''
     = Some (JInt 900)"
proof -
  obtain s' r it where e: "EvaluateAt (\<lambda>_. []) defaultV3RebalanceConfig 7 (ex_v3_input 900)
      NewV3RebalanceStrategy = (s', r, Some it)" "vo_CurrentTick r = 900"
    using ex_v3_rebalance by blast
  have "v3_i64 defaultV3RebalanceConfig (ex_v3_input 900)"
    by (simp add: v3_i64_def defaultV3RebalanceConfig_def ex_v3_input_def i64_bounds)
  from intent_numbers_roundtrip[OF e(1) this, of "\<lambda>_. []" "\<lambda>_. None" "''run''" 7 True 0] e(2)
  show ?thesis by (auto simp: Let_def)
qed

subsection \<open>Uniswap V3\<close>

text \<open>The mint parameters are always acceptable to the pool: whatever ticks the metadata ask
  for, the ticks that are packed are multiples of the spacing of the fee, in order, and
  contain the range that was asked for.\<close>

theorem mint_ticks_valid:
  assumes "tick_small (meta_parse_int (meta_get (int_Metadata it) ''tick_lower'') (- 100))"
    "tick_small (meta_parse_int (meta_get (int_Metadata it) ''tick_upper'') 100)"
  shows "(let p = mint_params_of hexaddr it; s = spacingForFee (mp_Fee p) in
    s dvd mp_TickLower p \<and> s dvd mp_TickUpper p \<and> mp_TickLower p < mp_TickUpper p
    \<and> mp_TickLower p \<le> meta_parse_int (meta_get (int_Metadata it) ''tick_lower'') (- 100)
    \<and> meta_parse_int (meta_get (int_Metadata it) ''tick_upper'') 100 \<le> mp_TickUpper p)"
  using mint_ticks[OF assms refl] by (simp add: Let_def)

theorem mint_ticks_valid_witness:
  "mp_TickLower (mint_params_of (\<lambda>_. 0) zero_intent) < mp_TickUpper (mint_params_of (\<lambda>_. 0) zero_intent)"
  using mint_ticks_valid[of zero_intent "\<lambda>_. 0"]
  by (simp add: Let_def zero_intent_def meta_get_def meta_parse_int_def tick_small_def)

text \<open>The slippage protection is exact: the minimal output is the quote reduced by the
  slippage, rounded down by less than one unit, never negative and never above the quote; a
  slippage of 100 percent or more and a negative or missing quote are errors.\<close>

theorem min_out_exact:
  "(case ComputeMinOutBps q b of
      Inr m \<Rightarrow> q \<noteq> None \<and> 0 \<le> m \<and> m \<le> the q \<and> uint b < 10000
         \<and> m * 10000 \<le> the q * (10000 - uint b) \<and> the q * (10000 - uint b) < m * 10000 + 10000
    | Inl e \<Rightarrow> (if e = SlippageTooHigh then 10000 \<le> uint b else q = None \<or> the q < 0))"
proof (cases "ComputeMinOutBps q b")
  case (Inl e)
  have "10000 \<le> b \<longleftrightarrow> 10000 \<le> uint b" by (simp add: word_le_def)
  then show ?thesis using Inl by (auto simp: ComputeMinOutBps_def split: option.splits if_splits)
next
  case (Inr m)
  then obtain n where q: "q = Some n" "\<not> 10000 \<le> b"
    by (auto simp: ComputeMinOutBps_def split: option.splits if_splits)
  have "uint b < 10000" using q(2) by (simp add: word_le_def not_le)
  then show ?thesis using ComputeMinOut_bounds[of n b m] Inr q by simp
qed

text \<open>The direction of a swap: the loop over the bytes of the two token addresses finds whether
  the input token is the lower address, as the pool orders its tokens, and the
  default price limit is chosen on that side.\<close>

theorem swap_direction:
  "price_limit tin tout None = (if tin \<le> tout then min_sqrt_limit else max_sqrt_limit)
   \<and> price_limit tin tout (Some 0) = price_limit tin tout None"
  by (simp add: price_limit_def zero_for_one_address)

text \<open>The path of a quote carries the fee modulo 2 to the 24: a fee that does not fit into
  three bytes is truncated without an error, every other fee can be read back.\<close>

theorem path_carries_fee:
  "length (encodeV3Path tin fee tout) = 43
   \<and> path_fee (encodeV3Path tin fee tout) = unat fee mod 2 ^ 24
   \<and> take 20 (encodeV3Path tin fee tout) = addr_bytes tin
   \<and> drop 23 (encodeV3Path tin fee tout) = addr_bytes tout"
  using path_fee_encode[of tin fee tout] by (simp add: encodeV3Path_def)

subsection \<open>The risk advisory\<close>

text \<open>The hysteresis of the advisory, over all runs of a new state manager: from a mode other
  than HALT it switches to HALT exactly if the last \<open>HaltUpN\<close> instantaneous modes were
  all HALT, and it leaves HALT exactly if the last \<open>HaltDownM\<close> were all one and the same other
  mode.\<close>

theorem hysteresis:
  assumes "int (length xs) < max_i64" "is_mode (snd x)"
  shows "(let cur = as_CurrentMode (adv_run cfg xs NewAdvisoryStateManager);
       nxt = as_CurrentMode (adv_run cfg (xs @ [x]) NewAdvisoryStateManager);
       run = int (trail (snd x) (map snd (xs @ [x]))) in
     is_mode nxt \<and>
     (if cur = SuggestionHalt
      then nxt \<noteq> SuggestionHalt \<longleftrightarrow> snd x \<noteq> SuggestionHalt \<and> av_HaltDownM cfg \<le> run
      else nxt = SuggestionHalt \<longleftrightarrow> snd x = SuggestionHalt \<and> av_HaltUpN cfg \<le> run))"
proof -
  have "is_mode (as_CurrentMode NewAdvisoryStateManager)"
    by (simp add: NewAdvisoryStateManager_def)
  from adv_run_mode_valid[OF this, of cfg "xs @ [x]"] show ?thesis
    using enter_halt_iff[OF assms(1), of cfg x] leave_halt_iff[OF assms, of cfg]
    by (auto simp: Let_def)
qed

theorem hysteresis_witness:
  "as_CurrentMode (adv_run advisory_defaults ([(1, SuggestionHalt), (2, SuggestionHalt)] @ [(3, SuggestionHalt)])
     NewAdvisoryStateManager) = SuggestionHalt"
  using hysteresis[of "[(1, SuggestionHalt), (2, SuggestionHalt)]" "(3, SuggestionHalt)" advisory_defaults]
    adv_run_mode_valid[of NewAdvisoryStateManager]
  by (simp add: max_i64_def trail_def advisory_defaults_def Let_def split: if_splits)

text \<open>The advisory can be stuck in HALT: if the market recovers but alternates between SAFE
  and NO_CHANGE, each of the two resets the counter of the other and HALT is suggested for ever.\<close>

theorem flapping_never_recovers:
  assumes "2 \<le> av_HaltDownM cfg" "as_CurrentMode st = SuggestionHalt" "count_of st SuggestionSafe = 0"
  shows "as_CurrentMode (adv_run cfg (flapping now n) st) = SuggestionHalt"
  using flapping_step[OF assms] by blast

theorem flapping_never_recovers_witness:
  "as_CurrentMode (adv_run advisory_defaults (flapping 7 1000)
     (NewAdvisoryStateManager\<lparr>as_CurrentMode := SuggestionHalt\<rparr>)) = SuggestionHalt"
  by (rule flapping_never_recovers)
    (simp_all add: advisory_defaults_def count_of_def NewAdvisoryStateManager_def zero_counts_def)

text \<open>The severity is a score between 0 and 100, at least 60 under HALT, for any evidence,
  infinite and NaN rates included.\<close>

theorem severity_in_range:
  "(let v = fst (CalculateSeverityScore inst e) in
     0 \<le> v \<and> v \<le> 100 \<and> (if inst = SuggestionHalt then 60 \<le> v else True))"
  using severity_bounds[of inst e] by (simp add: Let_def)

end
