(* ===== verification/Swap_Policy.thy ===== *)
theory Swap_Policy
  imports Config Univ3
begin

text \<open>
  The policy on manual swaps: \<open>enforceSwapPolicy\<close> and \<open>maybePrepareSwapHelperCall\<close> of cmd/bot
  and \<open>validateSwapPolicy\<close> of internal/api.  The environment is a function from names to
  values (an unset variable is empty).  \<open>common.IsHexAddress\<close>, \<open>common.HexToAddress\<close> and
  \<open>Address.Hex\<close> of go-ethereum are the three fields of an \<open>addr_lib\<close>; the RPC client, the ABI
  encoder and the hexadecimal encoder are fields of a \<open>swap_lib\<close>.  The text of an error is
  replaced by a constructor that keeps the values printed in it.
\<close>

type_synonym environ = "string \<Rightarrow> string"

record addr_lib =
  al_IsHex :: "string \<Rightarrow> bool"
  al_ToAddress :: "string \<Rightarrow> address"
  al_Hex :: "address \<Rightarrow> string"

datatype swap_error =
  SwapFieldsMissing | InvalidAmountIn string | ConfirmRequired string
| AmountExceedsMax int int | SlippageExceedsMax nat nat
| InvalidSwapPool string | PoolNotAllowlisted
| InvalidSwapTokens | TokenInNotAllowlisted | TokenOutNotAllowlisted
| SwapMetadataMissing | SwapKeyMissing string
| NoChainOrPool | HelperNotSet | HelperInvalid string
| QuoterNotSet | QuoterInvalid string | QuoterDialFailed | QuoterQuoteFailed quote_error
| MinOutFailed min_out_error | SwapFeeMissing | SwapDataFailed swap_data_error

subsection \<open>Checks that both sides make\<close>

definition is_swap :: "intent \<Rightarrow> bool" where
  "is_swap it \<longleftrightarrow>
     int_Type it = IntentSwap
     \<or> to_lower (trim_space (meta_get (int_Metadata it) ''action'')) = ''swap_exact_in''"

definition parse_amount_in :: "string \<Rightarrow> int option" where
  "parse_amount_in s =
     (case big_set_string s of None \<Rightarrow> None | Some n \<Rightarrow> if n \<le> 0 then None else Some n)"

definition check_confirm :: "environ \<Rightarrow> bool \<Rightarrow> string \<Rightarrow> swap_error option" where
  "check_confirm env force given =
     (if force
      then let want = (if env ''PHOENIX_SWAP_CONFIRM_STRING'' = [] then ''I_UNDERSTAND_TESTNET_SWAP''
                       else env ''PHOENIX_SWAP_CONFIRM_STRING'')
           in if trim_space given \<noteq> want then Some (ConfirmRequired want) else None
      else None)"

definition check_max_amount :: "environ \<Rightarrow> int \<Rightarrow> swap_error option" where
  "check_max_amount env amountIn =
     (let maxStr = trim_space (env ''PHOENIX_SWAP_MAX_AMOUNT_IN'')
      in if maxStr = [] then None
         else case big_set_string maxStr of None \<Rightarrow> None
         | Some m \<Rightarrow> if 0 < m \<and> m < amountIn then Some (AmountExceedsMax amountIn m) else None)"

definition check_max_slippage :: "environ \<Rightarrow> string \<Rightarrow> swap_error option" where
  "check_max_slippage env bps =
     (let maxStr = trim_space (env ''PHOENIX_SWAP_MAX_SLIPPAGE_BPS'')
      in if maxStr = [] then None
         else case parse_uint 32 maxStr of None \<Rightarrow> None
         | Some wantMax \<Rightarrow>
             if trim_space bps = [] then None
             else case parse_uint 32 (trim_space bps) of None \<Rightarrow> None
             | Some cur \<Rightarrow> if wantMax < cur then Some (SlippageExceedsMax cur wantMax) else None)"

text \<open>The first error of a sequence of checks, as successive early returns give it.\<close>

fun first_error :: "'e option list \<Rightarrow> 'e option" where
  "first_error [] = None"
| "first_error (None # cs) = first_error cs"
| "first_error (Some e # cs) = Some e"

subsection \<open>The policy of the bot\<close>

definition parseAddressAllowlist :: "addr_lib \<Rightarrow> environ \<Rightarrow> string \<Rightarrow> string set option" where
  "parseAddressAllowlist lib env key =
     (let raw = trim_space (env key)
      in if raw = [] then None
         else Some (set (map (\<lambda>s. al_Hex lib (al_ToAddress lib s))
                (filter (\<lambda>s. s \<noteq> [] \<and> al_IsHex lib s)
                   (map (\<lambda>part. to_lower (trim_space part)) (split_on CHR '','' raw))))))"

definition allowlisted :: "addr_lib \<Rightarrow> string set \<Rightarrow> string \<Rightarrow> bool" where
  "allowlisted lib m s \<longleftrightarrow> al_Hex lib (al_ToAddress lib s) \<in> m"

definition check_pool_list :: "addr_lib \<Rightarrow> environ \<Rightarrow> string \<Rightarrow> swap_error option" where
  "check_pool_list lib env swapPool =
     (case parseAddressAllowlist lib env ''PHOENIX_SWAP_ALLOWLIST_POOLS'' of
        None \<Rightarrow> None
      | Some pools \<Rightarrow>
          if \<not> al_IsHex lib swapPool then Some (InvalidSwapPool swapPool)
          else if \<not> allowlisted lib pools swapPool then Some PoolNotAllowlisted
          else None)"

definition check_token_list ::
    "addr_lib \<Rightarrow> environ \<Rightarrow> string \<Rightarrow> string \<Rightarrow> swap_error option" where
  "check_token_list lib env tin tout =
     (case parseAddressAllowlist lib env ''PHOENIX_SWAP_ALLOWLIST_TOKENS'' of
        None \<Rightarrow> None
      | Some toks \<Rightarrow>
          if \<not> al_IsHex lib tin \<or> \<not> al_IsHex lib tout then Some InvalidSwapTokens
          else if \<not> allowlisted lib toks tin then Some TokenInNotAllowlisted
          else if \<not> allowlisted lib toks tout then Some TokenOutNotAllowlisted
          else None)"

text \<open>\<open>enforceSwapPolicy\<close> also replaces nil metadata by an empty map, for swaps only.\<close>

definition enforceSwapPolicy ::
    "addr_lib \<Rightarrow> environ \<Rightarrow> app_config option \<Rightarrow> intent \<Rightarrow> intent \<times> swap_error option" where
  "enforceSwapPolicy lib env cfg it =
     (if \<not> is_swap it then (it, None)
      else
        let it = (if int_Metadata it = None then it\<lparr>int_Metadata := Some Map.empty\<rparr> else it);
            meta = meta_get (int_Metadata it);
            swapPool = trim_space (meta ''swap_pool'');
            tin = trim_space (meta ''swap_token_in'');
            tout = trim_space (meta ''swap_token_out'');
            amtStr = trim_space (meta ''swap_amount_in'')
        in if swapPool = [] \<or> tin = [] \<or> tout = [] \<or> amtStr = [] then (it, Some SwapFieldsMissing)
           else case parse_amount_in amtStr of
             None \<Rightarrow> (it, Some (InvalidAmountIn amtStr))
           | Some amountIn \<Rightarrow>
               let dry = (case cfg of None \<Rightarrow> False | Some c \<Rightarrow> sc_DryRun (ap_Strategy c));
                   force = (env ''PHOENIX_SWAP_FORCE_CONFIRM'' = ''1'' \<or> \<not> dry)
               in (it, first_error
                     [check_confirm env force (meta ''swap_confirm''),
                      check_max_amount env amountIn,
                      check_max_slippage env (meta ''swap_slippage_bps''),
                      check_pool_list lib env swapPool,
                      check_token_list lib env tin tout]))"

subsection \<open>The policy of the API\<close>

text \<open>The API does not use go-ethereum: an address is \<open>0x\<close> and forty lower case hexadecimal
  digits after trimming and lower-casing.\<close>

definition is_lower_hex :: "char \<Rightarrow> bool" where
  "is_lower_hex c \<longleftrightarrow> is_digit c \<or> 97 \<le> (of_char c :: nat) \<and> (of_char c :: nat) \<le> 102"

definition is_api_address :: "string \<Rightarrow> bool" where
  "is_api_address s \<longleftrightarrow>
     length s = 42 \<and> has_prefix s ''0x'' \<and> list_all is_lower_hex (drop 2 s)"

definition parseAddressAllowlistEnv :: "environ \<Rightarrow> string \<Rightarrow> string set option" where
  "parseAddressAllowlistEnv env key =
     (let raw = trim_space (env key)
      in if raw = [] then None
         else Some (set (map (\<lambda>s. ''0x'' @ drop 2 s)
                (filter (\<lambda>s. s \<noteq> [] \<and> is_api_address s)
                   (map (\<lambda>part. to_lower (trim_space part)) (split_on CHR '','' raw))))))"

definition validateSwapPolicy :: "environ \<Rightarrow> metadata \<Rightarrow> swap_error option" where
  "validateSwapPolicy env m =
     (if m = None then Some SwapMetadataMissing
      else
        let meta = meta_get m;
            swapPool = to_lower (trim_space (meta ''swap_pool''));
            tin = to_lower (trim_space (meta ''swap_token_in''));
            tout = to_lower (trim_space (meta ''swap_token_out''));
            amtStr = trim_space (meta ''swap_amount_in'')
        in if swapPool = [] \<or> tin = [] \<or> tout = [] \<or> amtStr = [] then Some SwapFieldsMissing
           else case parse_amount_in amtStr of
             None \<Rightarrow> Some (InvalidAmountIn amtStr)
           | Some amountIn \<Rightarrow>
               first_error
                 [check_confirm env (env ''PHOENIX_SWAP_FORCE_CONFIRM'' = ''1'') (meta ''swap_confirm''),
                  check_max_amount env amountIn,
                  check_max_slippage env (meta ''swap_slippage_bps''),
                  (case parseAddressAllowlistEnv env ''PHOENIX_SWAP_ALLOWLIST_POOLS'' of
                     None \<Rightarrow> None
                   | Some pools \<Rightarrow> if swapPool \<notin> pools then Some PoolNotAllowlisted else None),
                  (case parseAddressAllowlistEnv env ''PHOENIX_SWAP_ALLOWLIST_TOKENS'' of
                     None \<Rightarrow> None
                   | Some toks \<Rightarrow>
                       if tin \<notin> toks then Some TokenInNotAllowlisted
                       else if tout \<notin> toks then Some TokenOutNotAllowlisted
                       else None)])"

subsection \<open>Preparing the call of the swap helper\<close>

record swap_lib =
  sl_addr :: addr_lib
  sl_dial :: "string \<Rightarrow> (address \<Rightarrow> bytes \<Rightarrow> bytes option) option"
  sl_quoter :: "quoter_api option"
  sl_pack :: "(address \<Rightarrow> address \<Rightarrow> address \<Rightarrow> int \<Rightarrow> int \<Rightarrow> int \<Rightarrow> bytes option) option"

datatype prepare_error = Policy swap_error | QuoterAbiFailed | HelperAbiFailed

definition hex_encode :: "bytes \<Rightarrow> string" where
  "hex_encode bs = concat (map (\<lambda>b. [hex_char (b div 16), hex_char (b mod 16)]) bs)"

definition put_meta :: "string \<Rightarrow> string \<Rightarrow> intent \<Rightarrow> intent" where
  "put_meta k v it = it\<lparr>int_Metadata := meta_put (int_Metadata it) k v\<rparr>"

definition or_env :: "environ \<Rightarrow> string \<Rightarrow> string \<Rightarrow> string" where
  "or_env env s key = (if trim_space s = [] then trim_space (env key) else trim_space s)"

definition swap_fee :: "pool_config \<Rightarrow> string \<Rightarrow> 32 word" where
  "swap_fee pool feeStr =
     (let fee = (word_of_int (pc_Fee pool) :: 32 word)
      in if fee \<noteq> 0 \<or> trim_space feeStr = [] then fee
         else case parse_uint 32 (trim_space feeStr) of None \<Rightarrow> fee | Some v \<Rightarrow> word_of_nat v)"

definition swap_slippage :: "environ \<Rightarrow> string \<Rightarrow> 32 word" where
  "swap_slippage env bps =
     (let given = trim_space bps; def = trim_space (env ''PHOENIX_SWAP_SLIPPAGE_BPS'')
      in if given \<noteq> []
         then (case parse_uint 32 given of None \<Rightarrow> 100 | Some v \<Rightarrow> word_of_nat v)
         else if def \<noteq> []
         then (case parse_uint 32 def of None \<Rightarrow> 100 | Some v \<Rightarrow> word_of_nat v)
         else 100)"

text \<open>The quote: the intent with what the quote adds to its metadata, and the minimal output.\<close>

definition swap_quote ::
    "swap_lib \<Rightarrow> string \<Rightarrow> string \<Rightarrow> bool \<Rightarrow> string \<Rightarrow> string \<Rightarrow> 32 word \<Rightarrow> int \<Rightarrow> 32 word \<Rightarrow> intent
      \<Rightarrow> prepare_error + (intent \<times> int)" where
  "swap_quote lib rpc quoterAddr requireQuoter tin tout fee amountIn slippage it =
     (let al = sl_addr lib in
      if quoterAddr \<noteq> [] \<and> al_IsHex al quoterAddr
      then case sl_dial lib rpc of None \<Rightarrow> Inl (Policy QuoterDialFailed)
      | Some call \<Rightarrow>
        (case sl_quoter lib of None \<Rightarrow> Inl QuoterAbiFailed
         | Some qa \<Rightarrow>
           (case QuoteExactInputWithFallback
                   (qa\<lparr>qa_caller := Some (call (al_ToAddress al quoterAddr))\<rparr>)
                   (al_ToAddress al tin) (al_ToAddress al tout) fee (Some amountIn) of
              Inl e \<Rightarrow> if requireQuoter then Inl (Policy (QuoterQuoteFailed e)) else Inr (it, 0)
            | Inr (out, meth) \<Rightarrow>
                (case ComputeMinOutBps (Some out) slippage of
                   Inl e \<Rightarrow> Inl (Policy (MinOutFailed e))
                 | Inr minOut \<Rightarrow>
                     Inr (put_meta ''swap_amount_out_minimum'' (itoa minOut)
                            (put_meta ''swap_quote_amount_out'' (itoa out)
                               (put_meta ''swap_quote_method'' meth it)), minOut))))
      else if requireQuoter then Inl (Policy (QuoterInvalid quoterAddr))
      else Inr (it, 0))"

text \<open>The last part: the calldata of the helper and the metadata that the gateway reads.\<close>

definition swap_call ::
    "swap_lib \<Rightarrow> string \<Rightarrow> string \<Rightarrow> string \<Rightarrow> string \<Rightarrow> int \<Rightarrow> int \<Rightarrow> 32 word \<Rightarrow> intent
      \<Rightarrow> intent \<times> prepare_error option" where
  "swap_call lib helperAddr pool tin tout amountIn minOut slippage it =
     (let al = sl_addr lib; helper = al_ToAddress al helperAddr in
      case sl_pack lib of None \<Rightarrow> (it, Some HelperAbiFailed)
      | Some pack \<Rightarrow>
        (case BuildSwapExactInputSingleMinOutData pack (al_ToAddress al pool) (al_ToAddress al tin)
                (al_ToAddress al tout) (Some amountIn) (Some minOut) (Some 0) of
           Inl e \<Rightarrow> (it, Some (Policy (SwapDataFailed e)))
         | Inr data \<Rightarrow>
             (put_meta ''swap_slippage_bps_effective'' (itoa (uint slippage))
                (put_meta ''swap_helper'' (al_Hex al helper)
                  (put_meta ''value'' ''0''
                    (put_meta ''calldata'' (hex_encode data)
                      (put_meta ''target'' (al_Hex al helper) it)))), None)))"

text \<open>What the call needs besides the quote: addresses, amount, fee and slippage.\<close>

record swap_request =
  sq_helper :: string
  sq_quoter :: string
  sq_require :: bool
  sq_pool :: string
  sq_in :: string
  sq_out :: string
  sq_amount :: int
  sq_fee :: "32 word"
  sq_slippage :: "32 word"

definition swap_request_of ::
    "addr_lib \<Rightarrow> environ \<Rightarrow> chain_config \<Rightarrow> pool_config \<Rightarrow> intent \<Rightarrow> swap_error + swap_request" where
  "swap_request_of al env chain poolCfg it =
     (let meta = meta_get (int_Metadata it);
          helper = or_env env (ch_SwapHelperAddress chain) ''PHOENIX_SWAP_HELPER_ADDRESS'';
          quoter = or_env env (ch_QuoterAddress chain) ''ARBITRUM_SEPOLIA_QUOTER_ADDRESS'';
          require = (env ''PHOENIX_SWAP_REQUIRE_QUOTER'' = ''1'');
          pool = (if trim_space (meta ''swap_pool'') = [] then trim_space (pc_Address poolCfg)
                  else trim_space (meta ''swap_pool''));
          tin = trim_space (meta ''swap_token_in'');
          tout = trim_space (meta ''swap_token_out'');
          amtStr = trim_space (meta ''swap_amount_in'');
          fee = swap_fee poolCfg (meta ''swap_fee'')
      in if helper = [] then Inl HelperNotSet
         else if \<not> al_IsHex al helper then Inl (HelperInvalid helper)
         else if require \<and> quoter = [] then Inl QuoterNotSet
         else if pool = [] \<or> \<not> al_IsHex al pool then Inl (InvalidSwapPool pool)
         else if tin = [] \<or> tout = [] \<or> \<not> al_IsHex al tin \<or> \<not> al_IsHex al tout
         then Inl InvalidSwapTokens
         else if amtStr = [] then Inl (SwapKeyMissing ''swap_amount_in'')
         else case parse_amount_in amtStr of None \<Rightarrow> Inl (InvalidAmountIn amtStr)
         | Some amountIn \<Rightarrow>
             if fee = 0 then Inl SwapFeeMissing
             else Inr \<lparr>sq_helper = helper, sq_quoter = quoter, sq_require = require,
                    sq_pool = pool, sq_in = tin, sq_out = tout, sq_amount = amountIn,
                    sq_fee = fee, sq_slippage = swap_slippage env (meta ''swap_slippage_bps'')\<rparr>)"

definition maybePrepareSwapHelperCall ::
    "swap_lib \<Rightarrow> environ \<Rightarrow> app_config option \<Rightarrow> intent \<Rightarrow> intent \<times> prepare_error option" where
  "maybePrepareSwapHelperCall lib env cfg it =
     (case cfg of None \<Rightarrow> (it, None)
      | Some c \<Rightarrow>
        if \<not> is_swap it then (it, None)
        else case (ap_Chains c, ap_Pools c) of
          (chain # _, poolCfg # _) \<Rightarrow>
            (case enforceSwapPolicy (sl_addr lib) env (Some c) it of
               (it, Some e) \<Rightarrow> (it, Some (Policy e))
             | (it, None) \<Rightarrow>
               (case swap_request_of (sl_addr lib) env chain poolCfg it of
                  Inl e \<Rightarrow> (it, Some (Policy e))
                | Inr r \<Rightarrow>
                  (case swap_quote lib (ch_RPC chain) (sq_quoter r) (sq_require r) (sq_in r)
                          (sq_out r) (sq_fee r) (sq_amount r) (sq_slippage r) it of
                     Inl e \<Rightarrow> (it, Some e)
                   | Inr (it, minOut) \<Rightarrow>
                       swap_call lib (sq_helper r) (sq_pool r) (sq_in r) (sq_out r)
                         (sq_amount r) minOut (sq_slippage r) it)))
        | _ \<Rightarrow> (it, Some (Policy NoChainOrPool)))"

end
