(* ===== verification/Go_Time.thy ===== *)
theory Go_Time
  imports Go_Strings
begin

text \<open>
  The texts that \<open>time.Time.Format\<close> makes of a time in UTC, for the layouts of the program:
  \<open>time.RFC3339\<close>, \<open>time.RFC3339Nano\<close> and the layout of the intent identifiers of the API.  The
  civil date of a day is computed in the proleptic Gregorian calendar, as package \<open>time\<close> does.
\<close>

subsection \<open>Days and dates\<close>

text \<open>Years begin in March, so that the leap day is the last one; a cycle of 400 years has
  146097 days.  Day 0 is 1 January of year 1, which is day 306 of the year that began in
  March of year 0.\<close>

definition year_of_cycle :: "int \<Rightarrow> int" where
  "year_of_cycle doe = (doe - doe div 1460 + doe div 36524 - doe div 146096) div 365"

definition day_of_year :: "int \<Rightarrow> int" where
  "day_of_year doe =
     (let y = year_of_cycle doe in doe - (365 * y + y div 4 - y div 100))"

definition march_month :: "int \<Rightarrow> int" where "march_month doy = (5 * doy + 2) div 153"

definition civil_of_days :: "int \<Rightarrow> int \<times> int \<times> int" where
  "civil_of_days d =
     (let z = d + 306; era = z div 146097; doe = z mod 146097;
          doy = day_of_year doe; mp = march_month doy;
          month = (if mp < 10 then mp + 3 else mp - 9)
      in (year_of_cycle doe + era * 400 + (if month \<le> 2 then 1 else 0), month,
          doy - (153 * mp + 2) div 5 + 1))"

definition nanos_per_day :: int where "nanos_per_day = 86400000000000"

subsection \<open>Layouts\<close>

definition zpad :: "nat \<Rightarrow> int \<Rightarrow> string" where
  "zpad n v = replicate (n - length (itoa v)) CHR ''0'' @ itoa v"

definition clock_fields :: "gotime \<Rightarrow> int \<times> int \<times> int \<times> int" where
  "clock_fields t =
     (let r = t mod nanos_per_day
      in (r div 3600000000000, r div 60000000000 mod 60, r div 1000000000 mod 60,
          r mod 1000000000))"

definition rfc3339_seconds :: "gotime \<Rightarrow> string" where
  "rfc3339_seconds t =
     (let (y, mo, d) = civil_of_days (t div nanos_per_day); (h, mi, s, n) = clock_fields t
      in zpad 4 y @ ''-'' @ zpad 2 mo @ ''-'' @ zpad 2 d @ ''T''
         @ zpad 2 h @ '':'' @ zpad 2 mi @ '':'' @ zpad 2 s)"

definition rfc3339 :: "gotime \<Rightarrow> string" where
  "rfc3339 t = rfc3339_seconds t @ ''Z''"

text \<open>The fraction of \<open>.999999999\<close> loses its trailing zeros, and its dot when nothing is left.\<close>

definition trim_zeros :: "string \<Rightarrow> string" where
  "trim_zeros s = rev (dropWhile (\<lambda>c. c = CHR ''0'') (rev s))"

definition nano_fraction :: "int \<Rightarrow> string" where
  "nano_fraction n = (if n = 0 then [] else CHR ''.'' # trim_zeros (zpad 9 n))"

definition rfc3339nano :: "gotime \<Rightarrow> string" where
  "rfc3339nano t =
     (let (h, mi, s, n) = clock_fields t in rfc3339_seconds t @ nano_fraction n @ ''Z'')"

text \<open>The layout \<open>20060102T150405.000Z\<close>.\<close>

definition stamp :: "gotime \<Rightarrow> string" where
  "stamp t =
     (let (y, mo, d) = civil_of_days (t div nanos_per_day); (h, mi, s, n) = clock_fields t
      in zpad 4 y @ zpad 2 mo @ zpad 2 d @ ''T'' @ zpad 2 h @ zpad 2 mi @ zpad 2 s
         @ ''.'' @ zpad 3 (n div 1000000) @ ''Z'')"

lemma epoch_date: "civil_of_days (unix_epoch div nanos_per_day) = (1970, 1, 1)"
  by code_simp

lemma leap_date: "civil_of_days 730178 = (2000, 2, 29)" "civil_of_days 730179 = (2000, 3, 1)"
  by code_simp+

lemma stamp_epoch: "stamp unix_epoch = ''19700101T000000.000Z''"
  by code_simp

lemma stamp_nonempty [simp]: "stamp t \<noteq> []"
  by (simp add: stamp_def case_prod_beta Let_def)

end
