(* ===== verification/Api_Server.thy ===== *)
theory Api_Server
  imports Swap_Policy Go_Time Price_Aggregator Intent_Queue Risk_State V3_Rebalance
begin

text \<open>
  internal/api/server.go: the state that the HTTP server publishes, its updates by the bot, the
  status document, and the entry point for manual intents.  Several clocks are read during one
  request; they are separate arguments.  \<open>http.Request\<close> is reduced to its method, the header
  \<open>X-Admin-Token\<close> and the body after \<open>json.Decode\<close> (\<open>None\<close> when it does not decode).  A lock
  protects each group of fields, so that an update is one step.
\<close>

subsection \<open>State\<close>

record decision_summary =
  ds_At :: gotime
  ds_Verdict :: string
  ds_RuleID :: string
  ds_Reason :: string
  ds_IntentID :: string
  ds_IntentType :: string
  ds_ChainID :: int64
  ds_PoolID :: string

record cooldown_summary =
  csu_At :: gotime
  csu_Key :: string
  csu_UntilMS :: int64
  csu_Reason :: string

record divergence_side =
  dv_Key :: string
  dv_Name :: string
  dv_RawPrice :: float64
  dv_NormalizedPrice :: float64
  dv_TsMS :: int64
  dv_NormalizationOK :: bool
  dv_NormalizationDetail :: string

record divergence_summary =
  dsu_At :: gotime
  dsu_Verdict :: string
  dsu_SkipReason :: string
  dsu_NormalizedOK :: bool
  dsu_SourceA :: divergence_side
  dsu_SourceB :: divergence_side
  dsu_RuleReason :: string

record gate_status =
  gs_RiskMode :: string
  gs_Reason :: string
  gs_StaleAgeMs :: int64

record decision_status =
  de_Enabled :: bool
  de_Blocked :: bool
  de_BlockReason :: string
  de_AutoEvalEnabled :: bool
  de_LastEvalAt :: gotime
  de_LastEvalAction :: string
  de_LastEvalReason :: string
  de_LastIntentType :: string
  de_LastIntentSummary :: string
  de_LastIntentFields :: "jmap option"
  de_LastRiskDecision :: "decision_summary option"
  de_LastRiskCooldown :: "cooldown_summary option"
  de_TopCooldowns :: "cooldown_entry list option"
  de_LastDivergenceCheck :: "divergence_summary option"
  de_PositionSource :: string
  de_PositionLower :: int64
  de_PositionUpper :: int64
  de_PositionTokenID :: nat
  de_PositionUpdatedAt :: gotime
  de_LastGate :: gate_status
  de_StatusV1 :: "status_v1 option"

definition zero_decision_status :: decision_status where
  "zero_decision_status =
     \<lparr>de_Enabled = False, de_Blocked = False, de_BlockReason = [], de_AutoEvalEnabled = False,
      de_LastEvalAt = 0, de_LastEvalAction = [], de_LastEvalReason = [], de_LastIntentType = [],
      de_LastIntentSummary = [], de_LastIntentFields = None, de_LastRiskDecision = None,
      de_LastRiskCooldown = None, de_TopCooldowns = None, de_LastDivergenceCheck = None,
      de_PositionSource = [], de_PositionLower = 0, de_PositionUpper = 0, de_PositionTokenID = 0,
      de_PositionUpdatedAt = 0, de_LastGate = \<lparr>gs_RiskMode = [], gs_Reason = [], gs_StaleAgeMs = 0\<rparr>,
      de_StatusV1 = None\<rparr>"

record pnl_snapshot =
  pn_UpdatedAt :: gotime
  pn_PortfolioUSD :: float64
  pn_BaselineUSD :: float64
  pn_TotalBaselineUSD :: float64
  pn_DailyGasUSD :: float64
  pn_TotalGasUSD :: float64
  pn_DailyPnLUSD :: float64
  pn_TotalPnLUSD :: float64
  pn_TradesCount24h :: int64

record alert =
  alr_Key :: string
  alr_Severity :: string
  alr_Message :: string
  alr_CreatedAt :: gotime

record system_status =
  sys_Healthy :: bool
  sys_LastUpdate :: gotime
  sys_EngineState :: string
  sys_BinanceConnected :: bool
  sys_PriceSource :: string

text \<open>The server shares the queue and the aggregator with the bot; the functions below take
  them as arguments.  \<open>as_market\<close> says whether an aggregator is set.\<close>

record server =
  as_lastCEX :: "ticker option"
  as_status :: system_status
  as_pnl :: "pnl_snapshot option"
  as_alerts :: "alert list option"
  as_market :: bool
  as_decision :: decision_status
  as_runID :: string
  as_mode :: v1_mode
  as_started :: gotime
  as_lastIntent :: "intent_v1 option"
  as_lastRisk :: "risk_decision_v1 option"
  as_lastExec :: "executor_result_v1 option"

definition NewServerWithConfig :: "gotime \<Rightarrow> gotime \<Rightarrow> bool \<Rightarrow> string \<Rightarrow> server" where
  "NewServerWithConfig now started binanceConnected priceSource =
     \<lparr>as_lastCEX = None,
      as_status = \<lparr>sys_Healthy = True, sys_LastUpdate = now, sys_EngineState = ''Running'',
                   sys_BinanceConnected = binanceConnected, sys_PriceSource = priceSource\<rparr>,
      as_pnl = None, as_alerts = None, as_market = False,
      as_decision = zero_decision_status\<lparr>de_Enabled := True\<rparr>,
      as_runID = [], as_mode = ModeDryRun, as_started = started,
      as_lastIntent = None, as_lastRisk = None, as_lastExec = None\<rparr>"

definition NewServer :: "gotime \<Rightarrow> gotime \<Rightarrow> server" where
  "NewServer now started = NewServerWithConfig now started False ''Fallback''"

subsection \<open>Updates\<close>

definition UpdateCEXPrice :: "gotime \<Rightarrow> ticker \<Rightarrow> server \<Rightarrow> server" where
  "UpdateCEXPrice now t s = s\<lparr>as_lastCEX := Some t, as_status := (as_status s)\<lparr>sys_LastUpdate := now\<rparr>\<rparr>"

definition SetMarketAggregator :: "bool \<Rightarrow> server \<Rightarrow> server" where
  "SetMarketAggregator present s = s\<lparr>as_market := present\<rparr>"

definition keep_old :: "'a option \<Rightarrow> 'a option \<Rightarrow> 'a option" where
  "keep_old old new = (case new of None \<Rightarrow> old | Some v \<Rightarrow> Some v)"

definition keep_old_list :: "'a list option \<Rightarrow> 'a list option \<Rightarrow> 'a list option" where
  "keep_old_list old new =
     (case (new, old) of (Some (x # xs), _) \<Rightarrow> new | (_, Some (y # ys)) \<Rightarrow> old | _ \<Rightarrow> new)"

definition UpdateDecision :: "decision_status \<Rightarrow> server \<Rightarrow> server" where
  "UpdateDecision d s =
     (let old = as_decision s
      in s\<lparr>as_decision := d\<lparr>
            de_LastRiskDecision := keep_old (de_LastRiskDecision old) (de_LastRiskDecision d),
            de_LastRiskCooldown := keep_old (de_LastRiskCooldown old) (de_LastRiskCooldown d),
            de_TopCooldowns := keep_old_list (de_TopCooldowns old) (de_TopCooldowns d),
            de_LastDivergenceCheck :=
              keep_old (de_LastDivergenceCheck old) (de_LastDivergenceCheck d)\<rparr>\<rparr>)"

definition UpdateLastRiskDecision :: "decision_summary \<Rightarrow> server \<Rightarrow> server" where
  "UpdateLastRiskDecision v s =
     s\<lparr>as_decision := (as_decision s)\<lparr>de_LastRiskDecision := Some v\<rparr>\<rparr>"

definition UpdateLastRiskCooldown ::
    "cooldown_summary \<Rightarrow> cooldown_entry list option \<Rightarrow> server \<Rightarrow> server" where
  "UpdateLastRiskCooldown v tops s =
     (let d = (as_decision s)\<lparr>de_LastRiskCooldown := Some v\<rparr>
      in s\<lparr>as_decision := (if tops \<noteq> None then d\<lparr>de_TopCooldowns := tops\<rparr> else d)\<rparr>)"

definition UpdateLastPriceDivergenceCheck :: "divergence_summary \<Rightarrow> server \<Rightarrow> server" where
  "UpdateLastPriceDivergenceCheck v s =
     s\<lparr>as_decision := (as_decision s)\<lparr>de_LastDivergenceCheck := Some v\<rparr>\<rparr>"

definition SetContractV1RunID :: "string \<Rightarrow> server \<Rightarrow> server" where
  "SetContractV1RunID r s = s\<lparr>as_runID := r\<rparr>"

definition SetContractV1Mode :: "v1_mode \<Rightarrow> server \<Rightarrow> server" where
  "SetContractV1Mode m s = s\<lparr>as_mode := m\<rparr>"

definition UpdateLastIntentV1 :: "intent_v1 \<Rightarrow> server \<Rightarrow> server" where
  "UpdateLastIntentV1 v s = s\<lparr>as_lastIntent := Some v\<rparr>"

definition UpdateLastRiskV1 :: "risk_decision_v1 \<Rightarrow> server \<Rightarrow> server" where
  "UpdateLastRiskV1 v s = s\<lparr>as_lastRisk := Some v\<rparr>"

definition UpdateLastExecV1 :: "executor_result_v1 \<Rightarrow> server \<Rightarrow> server" where
  "UpdateLastExecV1 v s = s\<lparr>as_lastExec := Some v\<rparr>"

definition UpdatePnL :: "pnl_snapshot \<Rightarrow> server \<Rightarrow> server" where
  "UpdatePnL p s = s\<lparr>as_pnl := Some p\<rparr>"

definition UpdateAlerts :: "alert list option \<Rightarrow> server \<Rightarrow> server" where
  "UpdateAlerts alerts s = s\<lparr>as_alerts := alerts\<rparr>"

subsection \<open>The published status\<close>

definition v1_state_of :: "decision_status \<Rightarrow> v1_state" where
  "v1_state_of d =
     (if de_Blocked d
      then if de_BlockReason d = ''manual_only'' then StatePaused else StateSafeMode
      else StateRunning)"

definition buildStatusV1 :: "gotime \<Rightarrow> decision_status \<Rightarrow> server \<Rightarrow> status_v1" where
  "buildStatusV1 now d s =
     \<lparr>sv_SchemaVersion = SchemaVersion, sv_RunID = as_runID s, sv_Mode = as_mode s,
      sv_State = v1_state_of d,
      sv_LastIntent = map_option (\<lambda>i.
        \<lparr>si_IntentType = iv_IntentType i, si_IntentID = iv_IntentID i, si_TsLocalMS = iv_TsLocalMS i,
         si_Summary = iv_Summary i, si_Fields = iv_Fields i\<rparr>) (as_lastIntent s),
      sv_LastRisk = map_option (\<lambda>r.
        \<lparr>sr_Level = rv_Level r, sr_TsLocalMS = rv_TsLocalMS r,
         sr_ReasonsCount = length (rv_Reasons r)\<rparr>) (as_lastRisk s),
      sv_LastExec = map_option (\<lambda>x.
        \<lparr>se_Status = xv_Status x, se_TsLocalMS = xv_TsLocalMS x, se_ErrorKind = xv_ErrorKind x\<rparr>)
        (as_lastExec s),
      sv_UptimeSec = f_to_i64 (dur_seconds (t_sub now (as_started s)))\<rparr>"

definition with_status :: "gotime \<Rightarrow> server \<Rightarrow> decision_status \<Rightarrow> decision_status" where
  "with_status now s d = d\<lparr>de_StatusV1 := Some (buildStatusV1 now d s)\<rparr>"

text \<open>\<open>snap\<close> is \<open>market.Snapshot()\<close> at the time of the call.\<close>

definition currentDecision ::
    "environ \<Rightarrow> gotime \<Rightarrow> market_snapshot \<Rightarrow> server \<Rightarrow> decision_status" where
  "currentDecision env now snap s =
     (let enabled = (env ''PHOENIX_MANUAL_ONLY'' \<noteq> ''1'');
          d = (as_decision s)\<lparr>de_Enabled := enabled,
                de_AutoEvalEnabled := (env ''PHOENIX_AUTO_EVAL'' = ''1'' \<and> enabled)\<rparr>
      in if \<not> enabled
         then with_status now s (d\<lparr>de_Blocked := True, de_BlockReason := ''manual_only''\<rparr>)
         else if \<not> as_market s
         then with_status now s (d\<lparr>de_Blocked := False, de_BlockReason := []\<rparr>)
         else
           let d = d\<lparr>de_LastGate := \<lparr>gs_RiskMode = mr_Mode (ms_Risk snap),
                      gs_Reason = mr_Reason (ms_Risk snap),
                      gs_StaleAgeMs = ag_StaleAgeMs (ms_Aggregate snap)\<rparr>\<rparr>
           in if to_lower (trim_space (mr_Mode (ms_Risk snap))) \<noteq> ''normal''
              then with_status now s
                     (d\<lparr>de_Blocked := True, de_BlockReason := mr_Reason (ms_Risk snap)\<rparr>)
              else with_status now s (d\<lparr>de_Blocked := False, de_BlockReason := []\<rparr>))"

definition ContractV1StatusSnapshot ::
    "environ \<Rightarrow> gotime \<Rightarrow> market_snapshot \<Rightarrow> server \<Rightarrow> status_v1 option" where
  "ContractV1StatusSnapshot env now snap s = de_StatusV1 (currentDecision env now snap s)"

datatype market_view = LegacyPrice float64 | AggregatorView market_snapshot

record status_response =
  sp_System :: system_status
  sp_Market :: market_view
  sp_RiskMode :: string
  sp_RiskReason :: string
  sp_Decision :: decision_status
  sp_PnL :: "pnl_snapshot option"
  sp_Alerts :: "alert list option"

text \<open>The handler takes two snapshots: one for the decision, one for the market section.\<close>

definition handleStatus ::
    "environ \<Rightarrow> gotime \<Rightarrow> market_snapshot \<Rightarrow> market_snapshot \<Rightarrow> server \<Rightarrow> server \<times> status_response" where
  "handleStatus env now snap1 snap s =
     (let d = currentDecision env now snap1 s;
          s' = (if as_market s
                then s\<lparr>as_status := (as_status s)\<lparr>
                   sys_BinanceConnected :=
                     list_ex (\<lambda>src. ss_Name src = ''binance'' \<and> ss_Connected src) (ms_Sources snap),
                   sys_PriceSource := ''WS''\<rparr>\<rparr>
                else s)
      in (s', \<lparr>sp_System = as_status s',
               sp_Market = (if as_market s then AggregatorView snap
                  else LegacyPrice (case as_lastCEX s of None \<Rightarrow> Fin 0 | Some t \<Rightarrow> tk_Price t)),
               sp_RiskMode = (if as_market s then mr_Mode (ms_Risk snap) else ''unknown''),
               sp_RiskReason = (if as_market s then mr_Reason (ms_Risk snap)
                                else ''no_market_aggregator''),
               sp_Decision = d, sp_PnL = as_pnl s, sp_Alerts = as_alerts s\<rparr>))"

subsection \<open>Manual intents\<close>

record enqueue_request =
  eq_ID :: string
  eq_Type :: string
  eq_PoolID :: string
  eq_ChainID :: int64
  eq_Urgency :: int64
  eq_StrategyVersion :: string
  eq_RiskMode :: string
  eq_Metadata :: metadata

datatype request_error =
  ChainIDRequired | TypeRequired | PoolIDRequired | SwapRefused swap_error

definition is_swap_request :: "enqueue_request \<Rightarrow> bool" where
  "is_swap_request r \<longleftrightarrow>
     to_lower (trim_space (eq_Type r)) = ''swap''
     \<or> to_lower (trim_space (meta_get (eq_Metadata r) ''action'')) = ''swap_exact_in''"

fun missing_key :: "metadata \<Rightarrow> string list \<Rightarrow> swap_error option" where
  "missing_key m [] = None"
| "missing_key m (k # ks) =
     (if trim_space (meta_get m k) = [] then Some (SwapKeyMissing k) else missing_key m ks)"

definition request_error_of :: "enqueue_request \<Rightarrow> request_error option" where
  "request_error_of r =
     (if eq_ChainID r = 0 then Some ChainIDRequired
      else if trim_space (eq_Type r) = [] then Some TypeRequired
      else if trim_space (eq_PoolID r) = [] then Some PoolIDRequired
      else None)"

text \<open>The clock is read for the identifier (\<open>idNow\<close>) and for the deadline (\<open>now\<close>).\<close>

definition normalizeIntent ::
    "environ \<Rightarrow> gotime \<Rightarrow> gotime \<Rightarrow> enqueue_request \<Rightarrow> request_error + intent" where
  "normalizeIntent env idNow now r =
     (case request_error_of r of Some e \<Rightarrow> Inl e
      | None \<Rightarrow>
        let r = (if eq_Urgency r = 0 then r\<lparr>eq_Urgency := 5\<rparr> else r);
            r = (if eq_Metadata r = None then r\<lparr>eq_Metadata := Some Map.empty\<rparr> else r);
            err = (if is_swap_request r
                   then first_error
                     [missing_key (eq_Metadata r)
                        [''swap_token_in'', ''swap_token_out'', ''swap_amount_in'', ''swap_pool''],
                      validateSwapPolicy env (eq_Metadata r)]
                   else None);
            meta = (if is_swap_request r
                    then meta_put (eq_Metadata r) ''action'' ''swap_exact_in'' else eq_Metadata r);
            ident = (if trim_space (eq_ID r) = [] then ''api-'' @ stamp idNow
                     else trim_space (eq_ID r))
        in case err of Some e \<Rightarrow> Inl (SwapRefused e)
           | None \<Rightarrow>
               Inr \<lparr>int_ID = ident, int_Type = eq_Type r, int_PoolID = eq_PoolID r,
                    int_ChainID = eq_ChainID r, int_Urgency = eq_Urgency r,
                    int_Deadline = t_add now 600000000000, int_ExpectedPnL = Fin 0,
                    int_StrategyVersion = eq_StrategyVersion r, int_RiskMode = eq_RiskMode r,
                    int_Metadata = meta\<rparr>)"

datatype enqueue_response =
  NoContent | MethodNotAllowed | AdminTokenUnset | Forbidden | InvalidJSON
| BadIntent request_error | Enqueued string

record http_request =
  hr_Method :: string
  hr_AdminToken :: string
  hr_Body :: "enqueue_request option"

definition handleEnqueueIntent ::
    "environ \<Rightarrow> gotime \<Rightarrow> gotime \<Rightarrow> http_request \<Rightarrow> pqueue \<Rightarrow> pqueue \<times> enqueue_response" where
  "handleEnqueueIntent env idNow now hr q =
     (if hr_Method hr = ''OPTIONS'' then (q, NoContent)
      else if hr_Method hr \<noteq> ''POST'' then (q, MethodNotAllowed)
      else if env ''ADMIN_TOKEN'' = [] then (q, AdminTokenUnset)
      else if hr_AdminToken hr = [] \<or> hr_AdminToken hr \<noteq> env ''ADMIN_TOKEN'' then (q, Forbidden)
      else case hr_Body hr of None \<Rightarrow> (q, InvalidJSON)
      | Some req \<Rightarrow>
          (case normalizeIntent env idNow now req of
             Inl e \<Rightarrow> (q, BadIntent e)
           | Inr it \<Rightarrow> (Enqueue it q, Enqueued (int_ID it))))"

definition handleIntents :: "pqueue \<Rightarrow> nat" where
  "handleIntents q = length q"

end
