(* ===== verification/Executor.thy ===== *)
theory Executor
  imports Api_Server Cooldown_Rule Risk_Stats Divergence_Samples Price_Normalization Strategies
begin

text \<open>
  The intent executor of cmd/bot: \<open>executeIntent\<close> takes an intent from the queue through the
  risk evaluation, the control file, the time to live, the market gate, the risk manager, the
  pool guard and the swap policy, and records a simulated execution; \<open>startIntentExecutor\<close> is
  the loop around it.

  Everything that the function changes is in the record \<open>exec_world\<close>; everything that it only
  reads is in \<open>exec_input\<close>.  Where the code reads the clock, the market or the order of a map
  several times, the input is a function of a number that tells the reads apart.  Whether the
  insertion of the trade record took effect and whether the stream took the record are inputs
  too (\<open>xi_saved\<close>, \<open>xi_delivered\<close>): the code writes a failed insertion to its log only and
  ignores a failed publication.  Each early
  return of the code is a gate whose result is \<open>Stop\<close> with the final state; \<open>Go\<close> continues
  with the next gate.  \<open>isDryRun\<close> is the constant true in the code, so the branches that send
  transactions cannot run and are left out, as are the lines that only write to the log.
\<close>

subsection \<open>State and input\<close>

datatype v1_event =
  EvRisk risk_decision_v1 | EvExec executor_result_v1 | EvStatus status_v1 | EvIntent intent_v1

record trade_record =
  tr_Time :: gotime
  tr_IntentID :: string
  tr_Type :: string
  tr_PoolID :: string
  tr_ChainID :: int64
  tr_TxHash :: string
  tr_Status :: string
  tr_Meta :: jmap
  tr_PnL :: float64
  tr_IsSimulation :: bool
  tr_StrategyVersion :: string
  tr_RiskMode :: string
  tr_NotionalUSD :: float64
  tr_GasCostUSD :: float64

record exec_world =
  xw_cool :: cooldown_world
  xw_stats :: "risk_stats option"
  xw_statsFile :: "stats_snapshot option"
  xw_samples :: "collector option"
  xw_samplesJSON :: "samples_report option"
  xw_samplesTXT :: "string list option"
  xw_risk :: manager
  xw_server :: "server option"
  xw_events :: "v1_event list"
  xw_trades :: "trade_record list"
  xw_published :: "trade_record list"

record onchain_price =
  oc_Source :: string
  oc_Price :: float64
  oc_Tick :: int64
  oc_Dec0 :: int64
  oc_Dec1 :: int64
  oc_Ts :: gotime

record exec_input =
  xi_env :: environ
  xi_clock :: "nat \<Rightarrow> gotime"
  xi_faults :: "nat \<Rightarrow> faults"
  xi_keys :: "nat \<Rightarrow> string list"
  xi_control :: "control_state option"
  xi_cfg :: app_config
  xi_eval :: "(cooldown_world \<Rightarrow> intent \<Rightarrow> risk_context \<Rightarrow> cooldown_world \<times> evaluation) option"
  xi_cooldown :: "cooldown_config option"
  xi_onchain :: "onchain_price option"
  xi_market :: "(nat \<Rightarrow> market_snapshot) option"
  xi_serverSnap :: "nat \<Rightarrow> market_snapshot"
  xi_guard :: guard
  xi_swap :: swap_lib
  xi_pow :: "float64 \<Rightarrow> float64 \<Rightarrow> float64"
  xi_log :: "float64 \<Rightarrow> float64"
  xi_fmt_g :: "float64 \<Rightarrow> string"
  xi_fmt_g12 :: "float64 \<Rightarrow> string"
  xi_samplesJSON :: string
  xi_samplesTXT :: string
  xi_divThreshold :: int64
  xi_saved :: bool
  xi_delivered :: bool

datatype gate_out = Stop exec_world | Go exec_world

fun world_of :: "gate_out \<Rightarrow> exec_world" where
  "world_of (Stop w) = w" | "world_of (Go w) = w"

fun then_gate :: "gate_out \<Rightarrow> (exec_world \<Rightarrow> gate_out) \<Rightarrow> gate_out" where
  "then_gate (Stop w) f = Stop w"
| "then_gate (Go w) f = f w"

subsection \<open>The contract v1 metadata of an intent\<close>

definition parseMetadataFloat :: "metadata \<Rightarrow> string \<Rightarrow> float64" where
  "parseMetadataFloat m key =
     (case m of None \<Rightarrow> Fin 0
      | Some f \<Rightarrow> (case f key of None \<Rightarrow> Fin 0
          | Some v \<Rightarrow> (case parse_float v of None \<Rightarrow> Fin 0 | Some x \<Rightarrow> x)))"

definition parseMetadataInt64 :: "metadata \<Rightarrow> string \<Rightarrow> int64" where
  "parseMetadataInt64 m key =
     (case m of None \<Rightarrow> 0
      | Some f \<Rightarrow> (case f key of None \<Rightarrow> 0
          | Some v \<Rightarrow> (case parse_int (trim_space v) of None \<Rightarrow> 0 | Some n \<Rightarrow> n)))"

record v1_meta =
  vm_IntentID :: string
  vm_RunID :: string
  vm_TsMS :: int64
  vm_TTLMS :: int64
  vm_nowMS :: int64

definition v1_meta_of :: "exec_input \<Rightarrow> intent \<Rightarrow> v1_meta" where
  "v1_meta_of x it =
     (let m = int_Metadata it; ident = trim_space (meta_get m ''contract_v1_intent_id'')
      in \<lparr>vm_IntentID = (if ident = [] then int_ID it else ident),
          vm_RunID = trim_space (meta_get m ''contract_v1_run_id''),
          vm_TsMS = parseMetadataInt64 m ''contract_v1_ts_local_ms'',
          vm_TTLMS = parseMetadataInt64 m ''contract_v1_ttl_ms'',
          vm_nowMS = unix_ms (xi_clock x 0)\<rparr>)"

definition non_nil_meta :: "intent \<Rightarrow> intent" where
  "non_nil_meta it =
     (if int_Metadata it = None then it\<lparr>int_Metadata := Some Map.empty\<rparr> else it)"

definition control_of :: "exec_input \<Rightarrow> control_state" where
  "control_of x = (case xi_control x of None \<Rightarrow> control_default | Some c \<Rightarrow> c)"

definition candidate_dry_run :: "exec_input \<Rightarrow> intent \<Rightarrow> bool" where
  "candidate_dry_run x it \<longleftrightarrow>
     sc_DryRun (ap_Strategy (xi_cfg x)) \<or> cs_ForceDryRun (control_of x)
     \<or> int_Type it = IntentMockRebalance \<or> int_Type it = IntentRebalanceV3"

subsection \<open>What is published\<close>

definition exec_result :: "v1_meta \<Rightarrow> exec_status \<Rightarrow> (string \<times> jval) list \<Rightarrow> executor_result_v1" where
  "exec_result v st receipt =
     \<lparr>xv_SchemaVersion = SchemaVersion, xv_IntentID = vm_IntentID v, xv_TsLocalMS = vm_nowMS v,
      xv_Status = st, xv_ErrorKind = ErrNone, xv_Receipt = map_of receipt\<rparr>"

definition on_server :: "(server \<Rightarrow> server) \<Rightarrow> exec_world \<Rightarrow> exec_world" where
  "on_server f w = w\<lparr>xw_server := map_option f (xw_server w)\<rparr>"

definition write_v1 :: "v1_event \<Rightarrow> exec_world \<Rightarrow> exec_world" where
  "write_v1 e w = w\<lparr>xw_events := xw_events w @ [e]\<rparr>"

definition publish_risk :: "risk_decision_v1 \<Rightarrow> exec_world \<Rightarrow> exec_world" where
  "publish_risk r w = write_v1 (EvRisk r) (on_server (UpdateLastRiskV1 r) w)"

definition publish_exec :: "executor_result_v1 \<Rightarrow> exec_world \<Rightarrow> exec_world" where
  "publish_exec r w = write_v1 (EvExec r) (on_server (UpdateLastExecV1 r) w)"

definition publish_status :: "exec_input \<Rightarrow> exec_world \<Rightarrow> exec_world" where
  "publish_status x w =
     (case xw_server w of None \<Rightarrow> w
      | Some s \<Rightarrow>
          (case ContractV1StatusSnapshot (xi_env x) (xi_clock x 8) (xi_serverSnap x 8) s of
             None \<Rightarrow> w | Some st \<Rightarrow> write_v1 (EvStatus st) w))"

definition top_cooldowns :: "exec_input \<Rightarrow> nat \<Rightarrow> exec_world \<Rightarrow> exec_world \<times> cooldown_entry list option" where
  "top_cooldowns x k w =
     (case cw_store (xw_cool w) of None \<Rightarrow> (w, None)
      | Some s \<Rightarrow>
          let (s, es) = SnapshotTopCooldowns (xi_keys x k) 10 (xi_clock x k) (xi_faults x k)
                          (cw_disk (xw_cool w)) s
          in (w\<lparr>xw_cool := (xw_cool w)\<lparr>cw_store := Some s\<rparr>\<rparr>, if es = [] then None else Some es))"

subsection \<open>The risk evaluation\<close>

definition point_of :: "string \<Rightarrow> normalization_result \<Rightarrow> gotime \<Rightarrow> price_point" where
  "point_of name n t =
     \<lparr>pp_SourceName = name, pp_RawPrice = nr_RawPrice n, pp_Price = nr_NormalizedPrice n,
      pp_NormalizedPrice = nr_NormalizedPrice n, pp_NormalizationOK = nr_NormalizationOK n,
      pp_NormalizationDetail = nr_NormalizationDetail n, pp_TsMS = unix_ms t\<rparr>"

definition exchange_point :: "market_snapshot \<Rightarrow> price_point option" where
  "exchange_point snap =
     (let a = ms_Aggregate snap
      in if f_lt (Fin 0) (ag_AggPrice a) \<and> \<not> t_is_zero (ag_AggUpdatedAt a)
         then Some (point_of ''price_aggregator''
                     (NormalizeExchangePriceToken1PerToken0 (ag_AggPrice a)) (ag_AggUpdatedAt a))
         else None)"

definition onchain_point :: "exec_input \<Rightarrow> price_point option \<Rightarrow> price_point option" where
  "onchain_point x ex =
     (case xi_onchain x of None \<Rightarrow> None
      | Some p \<Rightarrow>
          if f_lt (Fin 0) (oc_Price p) \<and> \<not> t_is_zero (oc_Ts p)
          then
            let ref = (case ex of None \<Rightarrow> Fin 0
                       | Some e \<Rightarrow> if f_lt (Fin 0) (pp_NormalizedPrice e)
                                    then pp_NormalizedPrice e else Fin 0)
            in Some (point_of (oc_Source p)
                 (NormalizeOnchainTickToken1PerToken0 (xi_pow x) (xi_log x) (xi_fmt_g x)
                    (oc_Tick p) (oc_Dec0 p) (oc_Dec1 p) (oc_Price p) ref) (oc_Ts p))
          else None)"

definition price_sources :: "exec_input \<Rightarrow> market_snapshot \<Rightarrow> (string \<rightharpoonup> price_point)" where
  "price_sources x snap =
     (let ex = exchange_point snap
      in (\<lambda>k. if k = ''exchange'' then ex
              else if k = ''onchain'' then onchain_point x ex else None))"

definition risk_context_of :: "exec_input \<Rightarrow> v1_meta \<Rightarrow> intent \<Rightarrow> risk_context" where
  "risk_context_of x v it =
     (let snap = (case xi_market x of None \<Rightarrow> zero_snapshot | Some m \<Rightarrow> m 0)
      in \<lparr>rc_Now = xi_clock x 1, rc_Control = control_of x, rc_Market = snap,
          rc_PriceSources = price_sources x snap,
          rc_LastDecisionAt = (if 0 < vm_TsMS v then time_unix_ms (vm_TsMS v) else 0),
          rc_System = \<lparr>sh_HealthzOK = True, sh_BacklogLen = - 1, sh_TickIntervalMsP95 = 0,
                       sh_RPCOK = True\<rparr>,
          rc_CandidateIsDryRun = candidate_dry_run x it\<rparr>)"

definition observe_stats :: "exec_input \<Rightarrow> evaluation \<Rightarrow> exec_world \<Rightarrow> exec_world" where
  "observe_stats x ev w =
     (case xw_stats w of None \<Rightarrow> w
      | Some s \<Rightarrow>
          let (s, d, e) = stats_save (xi_clock x 2) (xi_faults x 2) (ObserveEvaluation ev s)
                            (xw_statsFile w)
          in w\<lparr>xw_stats := Some s, xw_statsFile := d\<rparr>)"

definition divergence_side_of :: "string \<Rightarrow> price_point option \<Rightarrow> divergence_side" where
  "divergence_side_of key p =
     (let a = (case p of None \<Rightarrow> zero_point | Some a \<Rightarrow> a)
      in \<lparr>dv_Key = key, dv_Name = pp_SourceName a, dv_RawPrice = pp_RawPrice a,
          dv_NormalizedPrice = pp_NormalizedPrice a, dv_TsMS = pp_TsMS a,
          dv_NormalizationOK = pp_NormalizationOK a,
          dv_NormalizationDetail = pp_NormalizationDetail a\<rparr>)"

definition divergence_summary_of ::
    "gotime \<Rightarrow> (string \<rightharpoonup> price_point) \<Rightarrow> risk_decision \<Rightarrow> divergence_summary" where
  "divergence_summary_of now srcs d =
     (let a = divergence_side_of ''onchain'' (srcs ''onchain'');
          b = divergence_side_of ''exchange'' (srcs ''exchange'')
      in \<lparr>dsu_At = now,
          dsu_Verdict = (if rd_Verdict d = [] then VerdictApprove else rd_Verdict d),
          dsu_SkipReason = (if has_prefix (rd_Reason d) ''skip'' then rd_Reason d else []),
          dsu_NormalizedOK = (dv_NormalizationOK a \<and> dv_NormalizationOK b),
          dsu_SourceA = a, dsu_SourceB = b, dsu_RuleReason = rd_Reason d\<rparr>)"

text \<open>The samples of rejections and their two files.\<close>

definition collect_sample ::
    "exec_input \<Rightarrow> intent \<Rightarrow> risk_context \<Rightarrow> risk_decision \<Rightarrow> exec_world \<Rightarrow> exec_world" where
  "collect_sample x it ctx d w =
     (case xw_samples w of None \<Rightarrow> w
      | Some c \<Rightarrow>
          if rd_Verdict d \<noteq> VerdictReject then w
          else
            let c = ObserveReject it ctx d (xi_divThreshold x) c;
                rep = samples_snapshot rfc3339 (xi_divThreshold x) (xi_clock x 4) (Some c)
            in w\<lparr>xw_samples := Some c,
                 xw_samplesJSON :=
                   (if trim_space (xi_samplesJSON x) = [] \<or> ft_write (xi_faults x 4)
                    then xw_samplesJSON w else Some rep),
                 xw_samplesTXT :=
                   (if trim_space (xi_samplesTXT x) = [] \<or> ft_write (xi_faults x 5)
                    then xw_samplesTXT w else Some (report_lines (xi_fmt_g12 x) rep))\<rparr>)"

text \<open>The first decision of the divergence rule, if any, is published.\<close>

definition note_divergence ::
    "exec_input \<Rightarrow> intent \<Rightarrow> risk_context \<Rightarrow> evaluation \<Rightarrow> exec_world \<Rightarrow> exec_world" where
  "note_divergence x it ctx ev w =
     (case find (\<lambda>d. trim_space (rd_RuleID d) = PriceSourceDivergenceRuleID) (ev_Decisions ev) of
        None \<Rightarrow> w
      | Some d \<Rightarrow>
          collect_sample x it ctx d
            (on_server (UpdateLastPriceDivergenceCheck
               (divergence_summary_of (xi_clock x 3) (rc_PriceSources ctx) d)) w))"

definition decision_summary_of :: "gotime \<Rightarrow> intent \<Rightarrow> evaluation \<Rightarrow> decision_summary" where
  "decision_summary_of now it ev =
     \<lparr>ds_At = now, ds_Verdict = ev_FinalVerdict ev, ds_RuleID = ev_FinalRuleID ev,
      ds_Reason = ev_FinalReason ev, ds_IntentID = int_ID it, ds_IntentType = int_Type it,
      ds_ChainID = int_ChainID it, ds_PoolID = int_PoolID it\<rparr>"

definition note_cooldown ::
    "exec_input \<Rightarrow> intent \<Rightarrow> evaluation \<Rightarrow> exec_world \<Rightarrow> exec_world" where
  "note_cooldown x it ev w =
     (if xi_cooldown x = None \<or> ev_FinalRuleID ev \<noteq> CooldownAndFrequencyRuleID then w
      else
        let (key, untilMS) = LastMatch (xw_cool w);
            key = (if key = [] then CooldownKey ''phoenix'' it else key);
            (w, tops) = top_cooldowns x 6 w
        in on_server (UpdateLastRiskCooldown
             \<lparr>csu_At = xi_clock x 7, csu_Key = key, csu_UntilMS = untilMS,
              csu_Reason = ev_FinalReason ev\<rparr> tops) w)"

definition reject_receipt :: "intent \<Rightarrow> evaluation \<Rightarrow> (string \<times> jval) list" where
  "reject_receipt it ev =
     [(''skipped_reason'', JStr ''risk_control_reject''), (''rule_id'', JStr (ev_FinalRuleID ev)),
      (''reason'', JStr (ev_FinalReason ev)),
      (''cooldown_key'', JStr (CooldownKey ''phoenix'' it)), (''would_broadcast'', JBool False)]"

definition gate_evaluate :: "exec_input \<Rightarrow> v1_meta \<Rightarrow> intent \<Rightarrow> exec_world \<Rightarrow> gate_out" where
  "gate_evaluate x v it w =
     (case xi_eval x of None \<Rightarrow> Go w
      | Some eval \<Rightarrow>
          let ctx = risk_context_of x v it;
              (cool, ev) = eval (xw_cool w) it ctx;
              w = observe_stats x ev (w\<lparr>xw_cool := cool\<rparr>);
              w = note_divergence x it ctx ev w;
              w = on_server (UpdateLastRiskDecision (decision_summary_of (xi_clock x 5) it ev)) w;
              w = note_cooldown x it ev w
          in if ev_FinalVerdict ev = VerdictReject
             then Stop (publish_exec (exec_result v ExecSkipped (reject_receipt it ev)) w)
             else Go w)"

subsection \<open>The control file\<close>

definition control_level :: "string \<Rightarrow> risk_level" where
  "control_level mode =
     (if mode = ''PAUSE'' then LevelPause else if mode = ''SAFE_MODE'' then LevelSafeMode
      else if mode = ''HALT'' then LevelHalt else LevelDeny)"

definition control_decision ::
    "exec_input \<Rightarrow> v1_meta \<Rightarrow> risk_level \<Rightarrow> string list \<Rightarrow> risk_decision_v1" where
  "control_decision x v lvl reasons =
     \<lparr>rv_SchemaVersion = SchemaVersion, rv_RunID = vm_RunID v, rv_TsLocalMS = vm_nowMS v,
      rv_Level = lvl, rv_Reasons = reasons,
      rv_Fields = [''source'' \<mapsto> ''control.json'', ''reason'' \<mapsto> cs_Reason (control_of x)],
      rv_CooldownMS = 0\<rparr>"

definition gate_control_mode :: "exec_input \<Rightarrow> v1_meta \<Rightarrow> exec_world \<Rightarrow> gate_out" where
  "gate_control_mode x v w =
     (let mode = trim_space (cs_RiskMode (control_of x))
      in if mode = [] \<or> mode = ''SAFE'' then Go w
         else
           let w = publish_risk (control_decision x v (control_level mode)
                     [''control_risk_mode_override'', ''risk_mode='' @ mode]) w;
               w = publish_exec (exec_result v ExecSkipped
                     [(''skipped_reason'', JStr ''control_risk_mode_override''),
                      (''risk_mode'', JStr mode), (''would_broadcast'', JBool False)]) w
           in Stop (publish_status x w))"

definition gate_control_state :: "exec_input \<Rightarrow> v1_meta \<Rightarrow> exec_world \<Rightarrow> gate_out" where
  "gate_control_state x v w =
     (let desired = trim_space (cs_DesiredState (control_of x));
          safe = (desired = ''SAFE_MODE'')
      in if desired \<noteq> ''PAUSED'' \<and> \<not> safe then Go w
         else
           let w = publish_risk (control_decision x v (if safe then LevelSafeMode else LevelPause)
                     [''control_desired_state'', ''desired_state='' @ desired]) w;
               w = publish_exec (exec_result v ExecSkipped
                     [(''skipped_reason'', JStr (if safe then ''control_safe_mode'' else ''control_paused'')),
                      (''would_broadcast'', JBool False)]) w
           in Stop (publish_status x w))"

subsection \<open>Time to live and market\<close>

definition v1_expired :: "v1_meta \<Rightarrow> bool" where
  "v1_expired v \<longleftrightarrow>
     0 < vm_TTLMS v \<and> 0 < vm_TsMS v \<and> vm_TTLMS v < sub64 (vm_nowMS v) (vm_TsMS v)"

definition gate_expired :: "exec_input \<Rightarrow> v1_meta \<Rightarrow> exec_world \<Rightarrow> gate_out" where
  "gate_expired x v w =
     (if \<not> v1_expired v then Go w
      else Stop (publish_status x (publish_exec (exec_result v ExecSkipped
             [(''skipped_reason'', JStr ''intent_expired''), (''ts_local_ms'', JInt (vm_TsMS v)),
              (''ttl_ms'', JInt (vm_TTLMS v)), (''now_ms'', JInt (vm_nowMS v)),
              (''would_broadcast'', JBool False)]) w)))"

definition market_mode :: "market_snapshot \<Rightarrow> string" where
  "market_mode snap = to_lower (trim_space (mr_Mode (ms_Risk snap)))"

definition market_decision :: "v1_meta \<Rightarrow> market_snapshot \<Rightarrow> risk_decision_v1" where
  "market_decision v snap =
     (let mode = market_mode snap; reason = trim_space (mr_Reason (ms_Risk snap))
      in \<lparr>rv_SchemaVersion = SchemaVersion, rv_RunID = vm_RunID v, rv_TsLocalMS = vm_nowMS v,
          rv_Level = (if mode = ''degraded'' then LevelPause
                      else if mode = ''frozen'' then LevelSafeMode else LevelDeny),
          rv_Reasons = [''market_risk_mode='' @ mode @ '' reason='' @ reason],
          rv_Fields = [''risk_mode'' \<mapsto> mode, ''gate_reason'' \<mapsto> reason,
                       ''stale_age_ms'' \<mapsto> itoa (ag_StaleAgeMs (ms_Aggregate snap))],
          rv_CooldownMS = 0\<rparr>)"

definition gate_market :: "exec_input \<Rightarrow> v1_meta \<Rightarrow> exec_world \<Rightarrow> gate_out" where
  "gate_market x v w =
     (case xi_market x of None \<Rightarrow> Go w
      | Some m \<Rightarrow>
          if market_mode (m 1) = ''normal'' then Go w
          else
            let w = publish_risk (market_decision v (m 1)) w;
                w = publish_exec (exec_result v ExecSkipped
                      [(''skipped_reason'', JStr ''risk_denied''),
                       (''risk_mode'', JStr (market_mode (m 1))),
                       (''gate_reason'', JStr (trim_space (mr_Reason (ms_Risk (m 1))))),
                       (''stale_age_ms'', JInt (ag_StaleAgeMs (ms_Aggregate (m 1)))),
                       (''would_broadcast'', JBool False)]) w
            in Stop (publish_status x w))"

subsection \<open>Risk manager and pool guard\<close>

fun manager_error_text :: "manager_error \<Rightarrow> string" where
  "manager_error_text SystemFrozen = ''risk manager: system is FROZEN''"
| "manager_error_text GasExceeded = ''risk manager: daily gas limit exceeded''"
| "manager_error_text TooManyFailures = ''risk manager: too many consecutive failures''"
| "manager_error_text DrawdownExceeded = ''risk manager: maximum drawdown exceeded''"

text \<open>These two gates tell the server, but write no event.\<close>

definition gate_manager :: "v1_meta \<Rightarrow> exec_world \<Rightarrow> gate_out" where
  "gate_manager v w =
     (let (m, err) = CanProceed (xw_risk w); w = w\<lparr>xw_risk := m\<rparr>
      in case err of None \<Rightarrow> Go w
         | Some e \<Rightarrow> Stop (on_server (UpdateLastExecV1 (exec_result v ExecSkipped
             [(''skipped_reason'', JStr ''risk_can_proceed_failed''),
              (''error'', JStr (manager_error_text e)), (''would_broadcast'', JBool False)])) w))"

definition gate_poolguard :: "exec_input \<Rightarrow> v1_meta \<Rightarrow> intent \<Rightarrow> exec_world \<Rightarrow> gate_out" where
  "gate_poolguard x v it w =
     (let c = CheckPool (al_ToAddress (sl_addr (xi_swap x))) (xi_clock x 9) (xi_guard x)
                (int_PoolID it) ''0xTokenA'' ''0xTokenB''
      in if pk_Risk c \<noteq> RiskDanger then Go w
         else Stop (on_server (UpdateLastExecV1 (exec_result v ExecSkipped
             [(''skipped_reason'', JStr ''poolguard_danger''), (''reason'', JStr (pk_Reason c)),
              (''would_broadcast'', JBool False)])) w))"

subsection \<open>Execution\<close>

definition failure_policy :: "exec_input \<Rightarrow> int64 \<times> duration" where
  "failure_policy x =
     (case xi_cooldown x of None \<Rightarrow> (3, 300 * second)
      | Some cfg \<Rightarrow> let (th, cd) = FailurePolicy (Some cfg)
                    in if 0 < th \<and> 0 < cd then (th, cd) else (3, 300 * second))"

definition record_exec_failure :: "exec_input \<Rightarrow> intent \<Rightarrow> exec_world \<Rightarrow> exec_world" where
  "record_exec_failure x it w =
     (let w = w\<lparr>xw_risk := manager_failure (xw_risk w)\<rparr>; key = CooldownKey ''phoenix'' it;
          (th, cd) = failure_policy x
      in case cw_store (xw_cool w) of None \<Rightarrow> w
         | Some s \<Rightarrow>
             let (s, d, until, n, e) = RecordFailure key th cd (xi_clock x 10) (xi_faults x 10)
                                         (cw_disk (xw_cool w)) s;
                 w = w\<lparr>xw_cool := put_store s d (xw_cool w)\<rparr>
             in if 0 < until \<and> xw_server w \<noteq> None
                then let (w, tops) = top_cooldowns x 11 w
                     in on_server (UpdateLastRiskCooldown
                          \<lparr>csu_At = xi_clock x 12, csu_Key = key, csu_UntilMS = until,
                           csu_Reason = ''failure_threshold_reached failure_count='' @ itoa n
                             @ '' threshold='' @ itoa th\<rparr> tops) w
                else w)"

definition record_exec_success :: "exec_input \<Rightarrow> intent \<Rightarrow> exec_world \<Rightarrow> exec_world" where
  "record_exec_success x it w =
     (let w = w\<lparr>xw_risk := manager_success (xi_clock x 13) (xw_risk w)\<rparr>
      in case cw_store (xw_cool w) of None \<Rightarrow> w
         | Some s \<Rightarrow>
             let (s, d, e) = RecordSuccess (CooldownKey ''phoenix'' it) (xi_clock x 14)
                               (xi_faults x 14) (cw_disk (xw_cool w)) s
             in w\<lparr>xw_cool := put_store s d (xw_cool w)\<rparr>)"

definition audit_keys :: "string list" where
  "audit_keys =
     [''action'', ''target'', ''value'', ''recipient'', ''calldata'', ''swap_pool'', ''swap_token_in'',
      ''swap_token_out'', ''swap_fee'', ''swap_amount_in'', ''swap_slippage_bps'',
      ''swap_slippage_bps_effective'', ''swap_quote_method'', ''swap_quote_amount_out'',
      ''swap_amount_out_minimum'', ''swap_helper'', ''approve_tx_hash'', ''approve_amount'',
      ''approve_token'', ''approve_spender'']"

definition audit_field :: "intent \<Rightarrow> string \<Rightarrow> jmap \<Rightarrow> jmap" where
  "audit_field it k m =
     (let v = trim_space (meta_get (int_Metadata it) k)
      in if v = [] then m else m(k \<mapsto> JStr v))"

definition buildTradeMeta ::
    "environ \<Rightarrow> gotime \<Rightarrow> intent \<Rightarrow> string \<Rightarrow> string \<Rightarrow> bool \<Rightarrow> jmap" where
  "buildTradeMeta env now it txHash status dry =
     (let m = [''intent_id'' \<mapsto> JStr (int_ID it), ''intent_type'' \<mapsto> JStr (int_Type it),
               ''pool_id'' \<mapsto> JStr (int_PoolID it), ''chain_id'' \<mapsto> JInt (int_ChainID it),
               ''tx_hash'' \<mapsto> JStr txHash, ''status'' \<mapsto> JStr status,
               ''is_simulation'' \<mapsto> JBool dry, ''captured_at'' \<mapsto> JStr (rfc3339nano now)];
          m = fold (audit_field it) audit_keys m
      in m(''manual_only'' \<mapsto> JStr (env ''PHOENIX_MANUAL_ONLY''),
            ''swap_require_quoter'' \<mapsto> JStr (env ''PHOENIX_SWAP_REQUIRE_QUOTER''),
            ''swap_force_confirm'' \<mapsto> JStr (env ''PHOENIX_SWAP_FORCE_CONFIRM'')))"

definition simulated_hash :: "v1_meta \<Rightarrow> string" where
  "simulated_hash v = ''0xSIMULATED_'' @ vm_IntentID v"

definition simulated_result :: "exec_input \<Rightarrow> v1_meta \<Rightarrow> intent \<Rightarrow> executor_result_v1" where
  "simulated_result x v it =
     (exec_result v ExecSimulated
        [(''tx_hash'', JStr (simulated_hash v)), (''simulated'', JBool True),
         (''would_broadcast'', JBool False), (''legacy_status'', JStr ''simulated''),
         (''legacy_intent_id'', JStr (int_ID it))])\<lparr>xv_TsLocalMS := unix_ms (xi_clock x 15)\<rparr>"

definition trade_of :: "exec_input \<Rightarrow> v1_meta \<Rightarrow> intent \<Rightarrow> trade_record" where
  "trade_of x v it =
     \<lparr>tr_Time = xi_clock x 16, tr_IntentID = int_ID it, tr_Type = int_Type it,
      tr_PoolID = int_PoolID it, tr_ChainID = int_ChainID it, tr_TxHash = simulated_hash v,
      tr_Status = ''simulated'',
      tr_Meta = buildTradeMeta (xi_env x) (xi_clock x 17) it (simulated_hash v) ''simulated'' True,
      tr_PnL = Fin 0, tr_IsSimulation = True, tr_StrategyVersion = int_StrategyVersion it,
      tr_RiskMode = int_RiskMode it,
      tr_NotionalUSD = parseMetadataFloat (int_Metadata it) ''notional_usd'',
      tr_GasCostUSD = parseMetadataFloat (int_Metadata it) ''gas_usd''\<rparr>"

text \<open>What follows a prepared call: the success is counted, the simulated result and the status
  are published, then the record is stored and published - or not, and neither failure stops
  the other.\<close>

definition simulate_execution :: "exec_input \<Rightarrow> v1_meta \<Rightarrow> intent \<Rightarrow> exec_world \<Rightarrow> exec_world" where
  "simulate_execution x v it w =
     publish_status x (publish_exec (simulated_result x v it) (record_exec_success x it w))"

definition store_trade :: "exec_input \<Rightarrow> trade_record \<Rightarrow> exec_world \<Rightarrow> exec_world" where
  "store_trade x t w = (if xi_saved x then w\<lparr>xw_trades := xw_trades w @ [t]\<rparr> else w)"

definition publish_trade :: "exec_input \<Rightarrow> trade_record \<Rightarrow> exec_world \<Rightarrow> exec_world" where
  "publish_trade x t w = (if xi_delivered x then w\<lparr>xw_published := xw_published w @ [t]\<rparr> else w)"

text \<open>The last gate: a swap whose call cannot be prepared is recorded as a failure, anything
  else is executed.\<close>

definition gate_execute :: "exec_input \<Rightarrow> v1_meta \<Rightarrow> intent \<Rightarrow> exec_world \<Rightarrow> gate_out" where
  "gate_execute x v it w =
     (case maybePrepareSwapHelperCall (xi_swap x) (xi_env x) (Some (xi_cfg x)) it of
        (it, Some e) \<Rightarrow> Stop (record_exec_failure x it w)
      | (it, None) \<Rightarrow>
          let w = simulate_execution x v it w; t = trade_of x v it;
              w = store_trade x t w
          in Stop (publish_trade x t w))"

subsection \<open>The whole handler\<close>

definition executeIntent :: "exec_input \<Rightarrow> intent \<Rightarrow> exec_world \<Rightarrow> exec_world" where
  "executeIntent x it w =
     (let it = non_nil_meta it; v = v1_meta_of x it
      in world_of
          (then_gate (gate_evaluate x v it w) (\<lambda>w.
           then_gate (gate_control_mode x v w) (\<lambda>w.
           then_gate (gate_control_state x v w) (\<lambda>w.
           then_gate (gate_expired x v w) (\<lambda>w.
           then_gate (gate_market x v w) (\<lambda>w.
           then_gate (gate_manager v w) (\<lambda>w.
           then_gate (gate_poolguard x v it w) (\<lambda>w.
           gate_execute x v it w)))))))))"

text \<open>The loop: an intent that comes too soon after the last success is dropped.\<close>

datatype dequeue_result = Throttled string | Handled string

definition executor_step ::
    "exec_input \<Rightarrow> gotime \<Rightarrow> intent \<Rightarrow> exec_world \<Rightarrow> exec_world \<times> dequeue_result" where
  "executor_step x now it w =
     (if ShouldThrottle now (2 * second) (xw_risk w) then (w, Throttled (int_ID it))
      else (executeIntent x it w, Handled (int_ID it)))"

fun executor_run ::
    "(exec_input \<times> gotime) list \<Rightarrow> pqueue \<Rightarrow> exec_world \<Rightarrow> pqueue \<times> exec_world \<times> dequeue_result list" where
  "executor_run [] q w = (q, w, [])"
| "executor_run ((x, now) # rs) q w =
     (case Dequeue q of None \<Rightarrow> (q, w, [])
      | Some (it, q) \<Rightarrow>
          let (w, r) = executor_step x now it w; (q, w, rest) = executor_run rs q w
          in (q, w, r # rest))"

end
