(* ===== verification/Executor_Facts.thy ===== *)
theory Executor_Facts
  imports Executor
begin

text \<open>
  What the executor promises: which parts of the state each gate can change, when an intent
  gets as far as the execution, and what is published on the way.
\<close>

named_theorems exec_frame \<open>parts of the state that a step of the executor leaves alone\<close>

subsection \<open>Frames\<close>

text \<open>\<open>ledger\<close> is what an execution changes and a refusal must not: the trades, the published
  records, the risk manager and the simulated results in the event log.\<close>

fun is_simulated :: "v1_event \<Rightarrow> bool" where
  "is_simulated (EvExec r) = (xv_Status r = ExecSimulated)" | "is_simulated _ = False"

definition simulations :: "exec_world \<Rightarrow> v1_event list" where
  "simulations w = filter is_simulated (xw_events w)"

definition ledger :: "exec_world \<Rightarrow> trade_record list \<times> trade_record list \<times> manager \<times> v1_event list" where
  "ledger w = (xw_trades w, xw_published w, xw_risk w, simulations w)"

lemma exec_result_status [simp]: "xv_Status (exec_result v st rc) = st"
  by (simp add: exec_result_def)

lemma on_server_frame [exec_frame, simp]:
  "ledger (on_server f w) = ledger w" "xw_events (on_server f w) = xw_events w"
  "xw_cool (on_server f w) = xw_cool w"
  by (simp_all add: on_server_def ledger_def simulations_def)

lemma write_v1_frame [exec_frame, simp]:
  "\<not> is_simulated e \<Longrightarrow> ledger (write_v1 e w) = ledger w"
  "xw_events (write_v1 e w) = xw_events w @ [e]"
  "xw_cool (write_v1 e w) = xw_cool w"
  by (simp_all add: write_v1_def ledger_def simulations_def)

lemma publish_frame [exec_frame, simp]:
  "ledger (publish_risk r w) = ledger w" "xw_events (publish_risk r w) = xw_events w @ [EvRisk r]"
  "xv_Status q \<noteq> ExecSimulated \<Longrightarrow> ledger (publish_exec q w) = ledger w"
  "xw_events (publish_exec q w) = xw_events w @ [EvExec q]"
  by (simp_all add: publish_risk_def publish_exec_def)

definition status_events :: "exec_input \<Rightarrow> exec_world \<Rightarrow> v1_event list" where
  "status_events x w =
     (case xw_server w of None \<Rightarrow> []
      | Some s \<Rightarrow> (case ContractV1StatusSnapshot (xi_env x) (xi_clock x 8) (xi_serverSnap x 8) s of
                     None \<Rightarrow> [] | Some st \<Rightarrow> [EvStatus st]))"

lemma publish_status_frame [exec_frame, simp]:
  "ledger (publish_status x w) = ledger w"
  "xw_events (publish_status x w) = xw_events w @ status_events x w"
  by (simp_all add: publish_status_def status_events_def split: option.splits)

lemma top_cooldowns_frame [exec_frame, simp]:
  "ledger (fst (top_cooldowns x k w)) = ledger w"
  "xw_events (fst (top_cooldowns x k w)) = xw_events w"
  by (simp_all add: top_cooldowns_def ledger_def simulations_def case_prod_beta Let_def split: option.splits)

lemma observe_stats_frame [exec_frame, simp]:
  "ledger (observe_stats x ev w) = ledger w" "xw_events (observe_stats x ev w) = xw_events w"
  by (simp_all add: observe_stats_def ledger_def simulations_def case_prod_beta Let_def split: option.splits)

lemma collect_sample_frame [exec_frame, simp]:
  "ledger (collect_sample x it ctx d w) = ledger w"
  "xw_events (collect_sample x it ctx d w) = xw_events w"
  by (simp_all add: collect_sample_def ledger_def simulations_def Let_def split: option.splits)

lemma note_frame [exec_frame, simp]:
  "ledger (note_divergence x it ctx ev w) = ledger w"
  "xw_events (note_divergence x it ctx ev w) = xw_events w"
  "ledger (note_cooldown x it ev w) = ledger w"
  "xw_events (note_cooldown x it ev w) = xw_events w"
  by (simp_all add: note_divergence_def note_cooldown_def case_prod_beta Let_def split: option.splits)

lemma ledger_cool [simp]: "ledger (w\<lparr>xw_cool := c\<rparr>) = ledger w"
  by (simp add: ledger_def simulations_def)

text \<open>The four parts of the ledger under an operation that sets one of them.\<close>

lemma ledger_updates [simp]:
  "ledger (w\<lparr>xw_trades := ts\<rparr>) = (ts, xw_published w, xw_risk w, simulations w)"
  "ledger (w\<lparr>xw_published := ts\<rparr>) = (xw_trades w, ts, xw_risk w, simulations w)"
  "ledger (w\<lparr>xw_risk := m\<rparr>) = (xw_trades w, xw_published w, m, simulations w)"
  by (simp_all add: ledger_def simulations_def)

subsection \<open>When a gate stops\<close>

fun is_stop :: "gate_out \<Rightarrow> bool" where
  "is_stop (Stop w) = True" | "is_stop (Go w) = False"

lemma then_gate_cases:
  "world_of (then_gate g f) = (if is_stop g then world_of g else world_of (f (world_of g)))"
  by (cases g) simp_all

definition eval_rejects :: "exec_input \<Rightarrow> v1_meta \<Rightarrow> intent \<Rightarrow> exec_world \<Rightarrow> bool" where
  "eval_rejects x v it w \<longleftrightarrow>
     (case xi_eval x of None \<Rightarrow> False
      | Some eval \<Rightarrow>
          ev_FinalVerdict (snd (eval (xw_cool w) it (risk_context_of x v it))) = VerdictReject)"

definition control_stops :: "exec_input \<Rightarrow> bool" where
  "control_stops x \<longleftrightarrow>
     trim_space (cs_RiskMode (control_of x)) \<notin> {[], ''SAFE''}
     \<or> trim_space (cs_DesiredState (control_of x)) \<in> {''PAUSED'', ''SAFE_MODE''}"

definition market_stops :: "exec_input \<Rightarrow> bool" where
  "market_stops x \<longleftrightarrow>
     (case xi_market x of None \<Rightarrow> False | Some m \<Rightarrow> market_mode (m 1) \<noteq> ''normal'')"

definition pool_stops :: "exec_input \<Rightarrow> intent \<Rightarrow> bool" where
  "pool_stops x it \<longleftrightarrow>
     pk_Risk (CheckPool (al_ToAddress (sl_addr (xi_swap x))) (xi_clock x 9) (xi_guard x)
       (int_PoolID it) ''0xTokenA'' ''0xTokenB'') = RiskDanger"

definition swap_prepared :: "exec_input \<Rightarrow> intent \<Rightarrow> intent \<times> prepare_error option" where
  "swap_prepared x it = maybePrepareSwapHelperCall (xi_swap x) (xi_env x) (Some (xi_cfg x)) it"

lemma gate_evaluate_ledger: "ledger (world_of (gate_evaluate x v it w)) = ledger w"
  by (simp add: gate_evaluate_def case_prod_beta Let_def split: option.splits)

lemma gate_evaluate_stop: "is_stop (gate_evaluate x v it w) \<longleftrightarrow> eval_rejects x v it w"
  by (simp add: gate_evaluate_def eval_rejects_def case_prod_beta Let_def split: option.splits)

lemma control_gates:
  "ledger (world_of (gate_control_mode x v w)) = ledger w"
  "ledger (world_of (gate_control_state x v w)) = ledger w"
  "is_stop (gate_control_mode x v w)
     \<longleftrightarrow> trim_space (cs_RiskMode (control_of x)) \<notin> {[], ''SAFE''}"
  "is_stop (gate_control_state x v w)
     \<longleftrightarrow> trim_space (cs_DesiredState (control_of x)) \<in> {''PAUSED'', ''SAFE_MODE''}"
  by (auto simp: gate_control_mode_def gate_control_state_def Let_def)

lemma gate_expired_props:
  "ledger (world_of (gate_expired x v w)) = ledger w"
  "is_stop (gate_expired x v w) \<longleftrightarrow> v1_expired v"
  by (simp_all add: gate_expired_def)

lemma gate_market_props:
  "ledger (world_of (gate_market x v w)) = ledger w"
  "is_stop (gate_market x v w) \<longleftrightarrow> market_stops x"
  by (simp_all add: gate_market_def market_stops_def Let_def split: option.splits)

lemma gate_manager_props:
  "is_stop (gate_manager v w) \<longleftrightarrow> snd (CanProceed (xw_risk w)) \<noteq> None"
  "ledger (world_of (gate_manager v w))
     = (xw_trades w, xw_published w, fst (CanProceed (xw_risk w)), simulations w)"
  by (simp_all add: gate_manager_def case_prod_beta Let_def split: option.splits)

lemma gate_poolguard_props:
  "ledger (world_of (gate_poolguard x v it w)) = ledger w"
  "is_stop (gate_poolguard x v it w) \<longleftrightarrow> pool_stops x it"
  by (simp_all add: gate_poolguard_def pool_stops_def Let_def)

lemma record_exec_ledger:
  "ledger (record_exec_failure x it w)
     = (xw_trades w, xw_published w, manager_failure (xw_risk w), simulations w)"
  "ledger (record_exec_success x it w)
     = (xw_trades w, xw_published w, manager_success (xi_clock x 13) (xw_risk w), simulations w)"
  "xw_events (record_exec_failure x it w) = xw_events w"
  "xw_events (record_exec_success x it w) = xw_events w"
  by (simp_all add: record_exec_failure_def record_exec_success_def case_prod_beta Let_def
      split: option.splits)

subsection \<open>The handler as one case distinction\<close>

definition reaches_manager :: "exec_input \<Rightarrow> v1_meta \<Rightarrow> intent \<Rightarrow> exec_world \<Rightarrow> bool" where
  "reaches_manager x v it w \<longleftrightarrow>
     \<not> eval_rejects x v it w \<and> \<not> control_stops x \<and> \<not> v1_expired v \<and> \<not> market_stops x"

definition passes :: "exec_input \<Rightarrow> v1_meta \<Rightarrow> intent \<Rightarrow> exec_world \<Rightarrow> bool" where
  "passes x v it w \<longleftrightarrow>
     reaches_manager x v it w \<and> snd (CanProceed (xw_risk w)) = None \<and> \<not> pool_stops x it
     \<and> snd (swap_prepared x it) = None"

definition saved_of :: "exec_input \<Rightarrow> trade_record list \<Rightarrow> trade_record list" where
  "saved_of x ts = (if xi_saved x then ts else [])"

definition delivered_of :: "exec_input \<Rightarrow> trade_record list \<Rightarrow> trade_record list" where
  "delivered_of x ts = (if xi_delivered x then ts else [])"

lemma ledger_fields:
  assumes "ledger w = (ts, ps, m, es)"
  shows "xw_trades w = ts" "xw_published w = ps" "xw_risk w = m" "simulations w = es"
  using assms by (simp_all add: ledger_def)

lemma simulate_execution_ledger:
  "ledger (simulate_execution x v it w) =
     (xw_trades w, xw_published w, manager_success (xi_clock x 13) (xw_risk w),
      simulations w @ [EvExec (simulated_result x v it)])"
proof -
  define w1 where "w1 = record_exec_success x it w"
  define w2 where "w2 = publish_exec (simulated_result x v it) w1"
  have l: "ledger w1 = (xw_trades w, xw_published w, manager_success (xi_clock x 13) (xw_risk w), simulations w)"
    by (simp add: w1_def record_exec_ledger)
  have "xv_Status (simulated_result x v it) = ExecSimulated"
    by (simp add: simulated_result_def exec_result_def)
  then have "ledger w2 = (xw_trades w1, xw_published w1, xw_risk w1,
      simulations w1 @ [EvExec (simulated_result x v it)])"
    by (simp add: w2_def publish_exec_def write_v1_def on_server_def ledger_def simulations_def)
  moreover have "simulate_execution x v it w = publish_status x w2"
    by (simp add: simulate_execution_def w1_def w2_def)
  ultimately show ?thesis using ledger_fields [OF l] by simp
qed

lemma record_trade_ledger:
  "ledger (store_trade x t w) = (xw_trades w @ saved_of x [t], xw_published w, xw_risk w, simulations w)"
  "ledger (publish_trade x t w)
     = (xw_trades w, xw_published w @ delivered_of x [t], xw_risk w, simulations w)"
  "xw_events (store_trade x t w) = xw_events w" "xw_events (publish_trade x t w) = xw_events w"
  by (simp_all add: store_trade_def publish_trade_def saved_of_def delivered_of_def)
    (simp_all add: ledger_def)

lemma gate_execute_ledger:
  "ledger (world_of (gate_execute x v it w)) =
     (case swap_prepared x it of
        (it', Some e) \<Rightarrow> (xw_trades w, xw_published w, manager_failure (xw_risk w), simulations w)
      | (it', None) \<Rightarrow>
          (xw_trades w @ saved_of x [trade_of x v it'], xw_published w @ delivered_of x [trade_of x v it'],
           manager_success (xi_clock x 13) (xw_risk w),
           simulations w @ [EvExec (simulated_result x v it')]))"
proof (cases "swap_prepared x it")
  case (Pair it' e)
  show ?thesis
  proof (cases e)
    case None
    define t where "t = trade_of x v it'"
    define w1 where "w1 = simulate_execution x v it' w"
    define w2 where "w2 = store_trade x t w1"
    note f1 = ledger_fields [OF simulate_execution_ledger [of x v it' w, folded w1_def]]
    note f2 = ledger_fields [OF record_trade_ledger(1) [of x t w1, folded w2_def]]
    have "world_of (gate_execute x v it w) = publish_trade x t w2"
      using Pair None
      by (simp add: gate_execute_def swap_prepared_def w1_def w2_def t_def Let_def)
    then show ?thesis using Pair None f1 f2 by (simp add: record_trade_ledger(2) t_def)
  qed (use Pair in \<open>simp add: gate_execute_def swap_prepared_def record_exec_ledger\<close>)
qed

lemma ledger_eqD:
  assumes "ledger w = ledger w'"
  shows "xw_trades w = xw_trades w'" "xw_published w = xw_published w'" "xw_risk w = xw_risk w'"
    "simulations w = simulations w'"
  using assms by (simp_all add: ledger_def)

lemma gate_execute_cong:
  assumes "ledger w = ledger w'"
  shows "ledger (world_of (gate_execute x v it w)) = ledger (world_of (gate_execute x v it w'))"
  unfolding gate_execute_ledger ledger_eqD [OF assms] by (rule refl)

text \<open>The part of the handler from the risk manager on.\<close>

definition tail_gates :: "exec_input \<Rightarrow> v1_meta \<Rightarrow> intent \<Rightarrow> exec_world \<Rightarrow> gate_out" where
  "tail_gates x v it w =
     then_gate (gate_manager v w) (\<lambda>w. then_gate (gate_poolguard x v it w) (gate_execute x v it))"

lemma tail_gates_ledger:
  "ledger (world_of (tail_gates x v it w)) =
     (if snd (CanProceed (xw_risk w)) \<noteq> None
      then (xw_trades w, xw_published w, fst (CanProceed (xw_risk w)), simulations w)
      else if pool_stops x it then ledger w
      else ledger (world_of (gate_execute x v it w)))"
proof -
  define w1 where "w1 = world_of (gate_manager v w)"
  define w2 where "w2 = world_of (gate_poolguard x v it w1)"
  have l1: "ledger w1 = (xw_trades w, xw_published w, fst (CanProceed (xw_risk w)), simulations w)"
    by (simp add: w1_def gate_manager_props)
  have l2: "ledger w2 = ledger w1" by (simp add: w2_def gate_poolguard_props)
  have ok: "ledger w1 = ledger w" if "snd (CanProceed (xw_risk w)) = None"
    using CanProceed_ok_same [OF that] l1 by (simp add: ledger_def)
  have "ledger (world_of (gate_execute x v it w2)) = ledger (world_of (gate_execute x v it w))"
    if "snd (CanProceed (xw_risk w)) = None"
    using ok [OF that] l2 by (intro gate_execute_cong) simp
  then show ?thesis
    using l1 l2 ok
    by (auto simp: tail_gates_def then_gate_cases w1_def [symmetric] w2_def [symmetric]
        gate_manager_props(1) gate_poolguard_props(2))
qed

lemma tail_gates_cong:
  assumes "ledger w = ledger w'"
  shows "ledger (world_of (tail_gates x v it w)) = ledger (world_of (tail_gates x v it w'))"
  using gate_execute_cong [OF assms] assms
  by (simp add: tail_gates_ledger ledger_eqD [OF assms])

lemma executeIntent_split:
  "executeIntent x it w =
     (let it = non_nil_meta it; v = v1_meta_of x it in
      world_of (then_gate (gate_evaluate x v it w) (\<lambda>w.
        then_gate (gate_control_mode x v w) (\<lambda>w.
        then_gate (gate_control_state x v w) (\<lambda>w.
        then_gate (gate_expired x v w) (\<lambda>w.
        then_gate (gate_market x v w) (tail_gates x v it)))))))"
  by (simp add: executeIntent_def tail_gates_def [abs_def] Let_def)

lemma executeIntent_ledger:
  assumes "it' = non_nil_meta it" "v = v1_meta_of x it'"
  shows "ledger (executeIntent x it w) =
     (if reaches_manager x v it' w then ledger (world_of (tail_gates x v it' w)) else ledger w)"
proof -
  define w1 where "w1 = world_of (gate_evaluate x v it' w)"
  define w2 where "w2 = world_of (gate_control_mode x v w1)"
  define w3 where "w3 = world_of (gate_control_state x v w2)"
  define w4 where "w4 = world_of (gate_expired x v w3)"
  define w5 where "w5 = world_of (gate_market x v w4)"
  note ws = w1_def [symmetric] w2_def [symmetric] w3_def [symmetric] w4_def [symmetric]
    w5_def [symmetric]
  have l: "ledger w1 = ledger w" "ledger w2 = ledger w" "ledger w3 = ledger w"
    "ledger w4 = ledger w" "ledger w5 = ledger w"
    by (simp_all add: w1_def w2_def w3_def w4_def w5_def gate_evaluate_ledger control_gates
        gate_expired_props gate_market_props)
  have tail: "ledger (world_of (tail_gates x v it' w5)) = ledger (world_of (tail_gates x v it' w))"
    using l(5) by (rule tail_gates_cong)
  show ?thesis
    unfolding executeIntent_split Let_def assms [symmetric] then_gate_cases ws
      gate_evaluate_stop control_gates(3,4) gate_expired_props(2) gate_market_props(2)
    by (auto simp: l tail reaches_manager_def control_stops_def)
qed

definition manager_after :: "exec_input \<Rightarrow> v1_meta \<Rightarrow> intent \<Rightarrow> exec_world \<Rightarrow> manager" where
  "manager_after x v it w =
     (let m = xw_risk w in
      if \<not> reaches_manager x v it w then m
      else if snd (CanProceed m) \<noteq> None then fst (CanProceed m)
      else if pool_stops x it then m
      else if snd (swap_prepared x it) \<noteq> None then manager_failure m
      else manager_success (xi_clock x 13) m)"

text \<open>The prepared intent and its trade, if the intent is executed at all.\<close>

definition executed_trades :: "exec_input \<Rightarrow> v1_meta \<Rightarrow> intent \<Rightarrow> exec_world \<Rightarrow> trade_record list" where
  "executed_trades x v it w =
     (if passes x v it w then [trade_of x v (fst (swap_prepared x it))] else [])"

definition new_trades :: "exec_input \<Rightarrow> v1_meta \<Rightarrow> intent \<Rightarrow> exec_world \<Rightarrow> trade_record list" where
  "new_trades x v it w = saved_of x (executed_trades x v it w)"

definition new_published :: "exec_input \<Rightarrow> v1_meta \<Rightarrow> intent \<Rightarrow> exec_world \<Rightarrow> trade_record list" where
  "new_published x v it w = delivered_of x (executed_trades x v it w)"

definition new_simulations :: "exec_input \<Rightarrow> v1_meta \<Rightarrow> intent \<Rightarrow> exec_world \<Rightarrow> v1_event list" where
  "new_simulations x v it w =
     (if passes x v it w then [EvExec (simulated_result x v (fst (swap_prepared x it)))] else [])"

lemmas new_defs = new_trades_def new_published_def new_simulations_def executed_trades_def
  saved_of_def delivered_of_def

lemma executeIntent_out:
  assumes "it' = non_nil_meta it" "v = v1_meta_of x it'"
  shows "xw_trades (executeIntent x it w) = xw_trades w @ new_trades x v it' w"
    "xw_published (executeIntent x it w) = xw_published w @ new_published x v it' w"
    "xw_risk (executeIntent x it w) = manager_after x v it' w"
    "simulations (executeIntent x it w) = simulations w @ new_simulations x v it' w"
proof -
  have "ledger (executeIntent x it w) =
      (xw_trades w @ new_trades x v it' w, xw_published w @ new_published x v it' w,
       manager_after x v it' w, simulations w @ new_simulations x v it' w)"
    unfolding executeIntent_ledger [OF assms] tail_gates_ledger gate_execute_ledger
      new_defs passes_def manager_after_def ledger_def [of w] Let_def
    by (auto split: prod.splits option.splits)
  note f = ledger_fields [OF this]
  show "xw_trades (executeIntent x it w) = xw_trades w @ new_trades x v it' w"
    "xw_published (executeIntent x it w) = xw_published w @ new_published x v it' w"
    "xw_risk (executeIntent x it w) = manager_after x v it' w"
    "simulations (executeIntent x it w) = simulations w @ new_simulations x v it' w"
    by (rule f)+
qed

subsection \<open>What is written\<close>

text \<open>A result that claims nothing but a simulation or a refusal.\<close>

definition quiet_result :: "executor_result_v1 \<Rightarrow> bool" where
  "quiet_result r \<longleftrightarrow>
     (xv_Status r = ExecSimulated \<or> xv_Status r = ExecSkipped) \<and> xv_ErrorKind r = ErrNone
     \<and> xv_Receipt r ''would_broadcast'' = Some (JBool False)"

fun quiet_event :: "v1_event \<Rightarrow> bool" where
  "quiet_event (EvExec r) = quiet_result r"
| "quiet_event (EvRisk r) = (LevelSafe < rv_Level r)"
| "quiet_event (EvStatus s) = True"
| "quiet_event (EvIntent i) = False"

fun is_exec_event :: "v1_event \<Rightarrow> bool" where
  "is_exec_event (EvExec r) = True" | "is_exec_event _ = False"

definition quiet_events :: "v1_event list \<Rightarrow> bool" where
  "quiet_events es \<longleftrightarrow> list_all quiet_event es \<and> length (filter is_exec_event es) \<le> 1"

definition gate_quiet :: "exec_world \<Rightarrow> gate_out \<Rightarrow> bool" where
  "gate_quiet w g \<longleftrightarrow>
     (case g of Go w' \<Rightarrow> xw_events w' = xw_events w
      | Stop w' \<Rightarrow> \<exists>es. xw_events w' = xw_events w @ es \<and> quiet_events es)"

lemma then_gate_quiet:
  assumes "gate_quiet w g" "\<And>w'. gate_quiet w' (f w')"
  shows "gate_quiet w (then_gate g f)"
  using assms(1) assms(2) [of "world_of g"]
  by (cases g) (simp_all add: gate_quiet_def split: gate_out.splits)

lemma quiet_status: "list_all quiet_event (status_events x w)"
  "filter is_exec_event (status_events x w) = []"
  by (simp_all add: status_events_def split: option.splits)

lemma quiet_stop:
  assumes "xw_events w' = xw_events w @ es" "quiet_events es"
  shows "gate_quiet w (Stop w')"
  using assms by (auto simp: gate_quiet_def)

lemma quiet_levels: "LevelSafe < control_level m" "LevelSafe < LevelPause" "LevelSafe < LevelSafeMode"
  "LevelSafe < LevelDeny" "LevelSafe < LevelHalt"
  by (simp_all add: control_level_def less_risk_level_def)

lemmas quiet_simps = quiet_events_def quiet_result_def exec_result_def quiet_status quiet_levels

lemma gates_quiet:
  "gate_quiet w (gate_evaluate x v it w)"
  "gate_quiet w (gate_control_mode x v w)"
  "gate_quiet w (gate_control_state x v w)"
  "gate_quiet w (gate_expired x v w)"
  "gate_quiet w (gate_market x v w)"
  "gate_quiet w (gate_manager v w)"
  "gate_quiet w (gate_poolguard x v it w)"
  "gate_quiet w (gate_execute x v it w)"
proof -
  show "gate_quiet w (gate_evaluate x v it w)"
    by (simp add: gate_evaluate_def gate_quiet_def case_prod_beta Let_def reject_receipt_def
        quiet_simps split: option.splits)
  show "gate_quiet w (gate_control_mode x v w)" "gate_quiet w (gate_control_state x v w)"
    by (simp_all add: gate_control_mode_def gate_control_state_def gate_quiet_def Let_def
        control_decision_def quiet_simps)
  show "gate_quiet w (gate_expired x v w)"
    by (simp add: gate_expired_def gate_quiet_def quiet_simps)
  show "gate_quiet w (gate_market x v w)"
    by (simp add: gate_market_def gate_quiet_def Let_def market_decision_def quiet_simps
        split: option.splits)
  show "gate_quiet w (gate_manager v w)"
    by (simp add: gate_manager_def gate_quiet_def case_prod_beta Let_def quiet_simps
        split: option.splits)
  show "gate_quiet w (gate_poolguard x v it w)"
    by (simp add: gate_poolguard_def gate_quiet_def Let_def quiet_simps)
  show "gate_quiet w (gate_execute x v it w)"
    by (simp add: gate_execute_def simulate_execution_def gate_quiet_def simulated_result_def Let_def
        quiet_simps record_exec_ledger record_trade_ledger split: prod.splits option.splits)
qed

lemma executeIntent_events:
  "\<exists>es. xw_events (executeIntent x it w) = xw_events w @ es \<and> quiet_events es"
proof -
  let ?it = "non_nil_meta it" let ?v = "v1_meta_of x (non_nil_meta it)"
  have tail: "gate_quiet w (tail_gates x ?v ?it w)" for w
    unfolding tail_gates_def by (intro then_gate_quiet gates_quiet)
  have "gate_quiet w (then_gate (gate_evaluate x ?v ?it w) (\<lambda>w.
        then_gate (gate_control_mode x ?v w) (\<lambda>w.
        then_gate (gate_control_state x ?v w) (\<lambda>w.
        then_gate (gate_expired x ?v w) (\<lambda>w.
        then_gate (gate_market x ?v w) (tail_gates x ?v ?it))))))"
    by (intro then_gate_quiet gates_quiet tail)
  then show ?thesis
    by (auto simp: executeIntent_split Let_def gate_quiet_def quiet_events_def
        split: gate_out.splits)
qed

end
