(* ===== verification/Props_Swap.thy ===== *)
theory Props_Swap
  imports Api_Server
begin

text \<open>
  The properties of the swap policy, of the call that the bot prepares and of the entry point of
  the API.
\<close>

subsection \<open>Example values\<close>

text \<open>A stand-in for the address functions: an address is told by its last digit.\<close>

definition last_digit :: "string \<Rightarrow> char" where
  "last_digit s = (if to_lower s = [] then CHR ''0'' else last (to_lower s))"

definition ex_addr :: addr_lib where
  "ex_addr =
     \<lparr>al_IsHex = (\<lambda>s. is_api_address (to_lower s)),
      al_ToAddress = (\<lambda>s. if last_digit s = CHR ''1'' then 1 else 0),
      al_Hex = (\<lambda>a. if a = 1 then ''0x1'' else ''0x0'')\<rparr>"

definition ex_address :: "char \<Rightarrow> string" where
  "ex_address c = ''0x'' @ replicate 40 c"

definition ex_swap_meta :: "(string \<times> string) list" where
  "ex_swap_meta =
     [(''swap_pool'', ex_address CHR ''1''), (''swap_token_in'', ex_address CHR ''2''),
      (''swap_token_out'', ex_address CHR ''3''), (''swap_amount_in'', ''1000'')]"

definition ex_swap :: intent where
  "ex_swap = zero_intent\<lparr>int_ID := ''s1'', int_Type := IntentSwap, int_PoolID := ''p'',
     int_ChainID := 1, int_Metadata := Some (map_of ex_swap_meta)\<rparr>"

definition ex_env :: environ where
  "ex_env = (\<lambda>k.
     if k = ''PHOENIX_SWAP_MAX_AMOUNT_IN'' then ''1000''
     else if k = ''PHOENIX_SWAP_ALLOWLIST_POOLS'' then ex_address CHR ''1''
     else if k = ''ADMIN_TOKEN'' then ''t''
     else [])"

definition ex_cfg_dry :: app_config where
  "ex_cfg_dry =
     \<lparr>ap_SchemaVersion = [], ap_StrategyVersion = ''v1'',
      ap_Events = \<lparr>ec_Driver = ''memory'', ec_RedisURL = [], ec_RedisPrefix = [], ec_RedisGroup = []\<rparr>,
      ap_Chains = [\<lparr>ch_ID = 1, ch_Name = [], ch_RPC = ''http'',
                    ch_QuoterAddress = ex_address CHR ''4'',
                    ch_SwapHelperAddress = ex_address CHR ''5''\<rparr>],
      ap_Pools = [\<lparr>pc_ID = ''p'', pc_ChainID = 1, pc_Token0 = [], pc_Token1 = [], pc_Fee = 500,
                   pc_Address = [], pc_MaxInvestment = [], pc_PositionManager = [],
                   pc_Amount0 = [], pc_Amount1 = [], pc_Token0Decimals = 18,
                   pc_Token1Decimals = 6\<rparr>],
      ap_Strategy = \<lparr>sc_Name = ''s'', sc_Params = None, sc_DryRun = True\<rparr>,
      ap_Risk = \<lparr>rk_MaxDailyGas = Fin 1, rk_MaxDrawdown = Fin (1 / 2), rk_ConsecutiveFails = 3\<rparr>,
      ap_MonitoringPort = 0\<rparr>"

lemma first_error_None: "first_error cs = None \<longleftrightarrow> list_all (\<lambda>c. c = None) cs"
  by (induction cs rule: first_error.induct) simp_all

subsection \<open>The policy\<close>

definition confirm_string :: "environ \<Rightarrow> string" where
  "confirm_string env =
     (if env ''PHOENIX_SWAP_CONFIRM_STRING'' = [] then ''I_UNDERSTAND_TESTNET_SWAP''
      else env ''PHOENIX_SWAP_CONFIRM_STRING'')"

definition on_list :: "addr_lib \<Rightarrow> environ \<Rightarrow> string \<Rightarrow> string \<Rightarrow> bool" where
  "on_list al env key a =
     (case parseAddressAllowlist al env key of None \<Rightarrow> True
      | Some m \<Rightarrow> al_IsHex al a \<and> allowlisted al m a)"

text \<open>C9. What the policy of the bot lets through: the amount is a positive integer that does
  not exceed a positive readable cap, a slippage that is stated and readable does not exceed a readable
  cap, pool and tokens are on the allowlists that are set, and unless the configuration is a dry
  run the confirmation string is given.\<close>

theorem swap_policy_enforced:
  assumes "enforceSwapPolicy al env cfg it = (it', None)" "is_swap it"
  shows "\<exists>a. big_set_string (trim_space (meta_get (int_Metadata it) ''swap_amount_in'')) = Some a
     \<and> 0 < a
     \<and> (case big_set_string (trim_space (env ''PHOENIX_SWAP_MAX_AMOUNT_IN'')) of
          None \<Rightarrow> True | Some m \<Rightarrow> m \<le> 0 \<or> a \<le> m)
     \<and> (case (parse_uint 32 (trim_space (env ''PHOENIX_SWAP_MAX_SLIPPAGE_BPS'')),
              parse_uint 32 (trim_space (meta_get (int_Metadata it) ''swap_slippage_bps''))) of
          (Some m, Some b) \<Rightarrow> b \<le> m | _ \<Rightarrow> True)
     \<and> on_list al env ''PHOENIX_SWAP_ALLOWLIST_POOLS''
         (trim_space (meta_get (int_Metadata it) ''swap_pool''))
     \<and> on_list al env ''PHOENIX_SWAP_ALLOWLIST_TOKENS''
         (trim_space (meta_get (int_Metadata it) ''swap_token_in''))
     \<and> on_list al env ''PHOENIX_SWAP_ALLOWLIST_TOKENS''
         (trim_space (meta_get (int_Metadata it) ''swap_token_out''))
     \<and> ((case cfg of None \<Rightarrow> False | Some c \<Rightarrow> sc_DryRun (ap_Strategy c))
        \<or> trim_space (meta_get (int_Metadata it) ''swap_confirm'') = confirm_string env)"
proof -
  have m: "meta_get (int_Metadata (if int_Metadata it = None
      then it\<lparr>int_Metadata := Some Map.empty\<rparr> else it)) = meta_get (int_Metadata it)"
    by (auto simp: fun_eq_iff meta_get_Some)
  let ?g = "\<lambda>k. trim_space (meta_get (int_Metadata it) k)"
  let ?dry = "case cfg of None \<Rightarrow> False | Some c \<Rightarrow> sc_DryRun (ap_Strategy c)"
  obtain a where a: "parse_amount_in (?g ''swap_amount_in'') = Some a"
    and c: "check_confirm env (env ''PHOENIX_SWAP_FORCE_CONFIRM'' = ''1'' \<or> \<not> ?dry)
              (meta_get (int_Metadata it) ''swap_confirm'') = None"
    and mx: "check_max_amount env a = None"
    and sl: "check_max_slippage env (meta_get (int_Metadata it) ''swap_slippage_bps'') = None"
    and po: "check_pool_list al env (?g ''swap_pool'') = None"
    and tk: "check_token_list al env (?g ''swap_token_in'') (?g ''swap_token_out'') = None"
    using assms unfolding enforceSwapPolicy_def Let_def m
    by (auto simp: first_error_None split: if_splits option.splits)
  have "big_set_string (?g ''swap_amount_in'') = Some a \<and> 0 < a"
    using a by (auto simp: parse_amount_in_def split: option.splits if_splits)
  moreover have "case big_set_string (trim_space (env ''PHOENIX_SWAP_MAX_AMOUNT_IN'')) of
      None \<Rightarrow> True | Some m \<Rightarrow> m \<le> 0 \<or> a \<le> m"
    using mx by (auto simp: check_max_amount_def Let_def big_set_string_def parse_signed_def
        split: if_splits option.splits)
  moreover have "case (parse_uint 32 (trim_space (env ''PHOENIX_SWAP_MAX_SLIPPAGE_BPS'')),
              parse_uint 32 (?g ''swap_slippage_bps'')) of (Some m, Some b) \<Rightarrow> b \<le> m | _ \<Rightarrow> True"
    using sl by (auto simp: check_max_slippage_def Let_def parse_uint_def parse_nat_def
        split: if_splits option.splits)
  moreover have "?dry \<or> ?g ''swap_confirm'' = confirm_string env"
    using c by (auto simp: check_confirm_def confirm_string_def Let_def split: if_splits option.splits)
  moreover have "on_list al env ''PHOENIX_SWAP_ALLOWLIST_POOLS'' (?g ''swap_pool'')"
    using po by (simp add: on_list_def check_pool_list_def split: option.splits if_splits)
  moreover have "on_list al env ''PHOENIX_SWAP_ALLOWLIST_TOKENS'' (?g ''swap_token_in'')
      \<and> on_list al env ''PHOENIX_SWAP_ALLOWLIST_TOKENS'' (?g ''swap_token_out'')"
    using tk by (simp add: on_list_def check_token_list_def split: option.splits if_splits)
  ultimately show ?thesis by blast
qed

lemma ex_swap_enforced: "snd (enforceSwapPolicy ex_addr ex_env (Some ex_cfg_dry) ex_swap) = None"
  by code_simp

lemma ex_swap_amount:
  "big_set_string (trim_space (meta_get (int_Metadata ex_swap) ''swap_amount_in'')) = Some 1000"
  "big_set_string (trim_space (ex_env ''PHOENIX_SWAP_MAX_AMOUNT_IN'')) = Some 1000"
  by code_simp+

lemma ex_swap_is_swap: "is_swap ex_swap"
  by (simp add: is_swap_def ex_swap_def)

lemma ex_swap_pool_set: "trim_space (meta_get (int_Metadata ex_swap) ''swap_pool'') = ex_address CHR ''1''"
  by code_simp

definition ex_swap_large :: intent where
  "ex_swap_large = ex_swap\<lparr>int_Metadata := Some ((map_of ex_swap_meta)(''swap_amount_in'' \<mapsto> ''1001''))\<rparr>"

lemma ex_swap_large_refused:
  "snd (enforceSwapPolicy ex_addr ex_env (Some ex_cfg_dry) ex_swap_large) = Some (AmountExceedsMax 1001 1000)"
  by code_simp

text \<open>An accepted swap of 1000 under a cap of 1000 and a list with its pool; one of 1001 is
  refused.\<close>

theorem swap_policy_enforced_witness:
  "snd (enforceSwapPolicy ex_addr ex_env (Some ex_cfg_dry) ex_swap) = None
   \<and> (\<exists>a. big_set_string (trim_space (meta_get (int_Metadata ex_swap) ''swap_amount_in'')) = Some a
        \<and> 0 < a \<and> a \<le> 1000)
   \<and> on_list ex_addr ex_env ''PHOENIX_SWAP_ALLOWLIST_POOLS'' (ex_address CHR ''1'')
   \<and> snd (enforceSwapPolicy ex_addr ex_env (Some ex_cfg_dry) ex_swap_large) \<noteq> None"
proof -
  have "enforceSwapPolicy ex_addr ex_env (Some ex_cfg_dry) ex_swap
      = (fst (enforceSwapPolicy ex_addr ex_env (Some ex_cfg_dry) ex_swap), None)"
    using ex_swap_enforced by (simp add: prod_eq_iff)
  from swap_policy_enforced [OF this] ex_swap_is_swap ex_swap_amount(2)
  obtain a where "big_set_string (trim_space (meta_get (int_Metadata ex_swap) ''swap_amount_in'')) = Some a"
    "0 < a" "a \<le> 1000" "on_list ex_addr ex_env ''PHOENIX_SWAP_ALLOWLIST_POOLS''
       (trim_space (meta_get (int_Metadata ex_swap) ''swap_pool''))"
    by auto
  then show ?thesis using ex_swap_enforced ex_swap_pool_set ex_swap_large_refused by auto
qed

lemma check_slippage_blank: "trim_space b = [] \<Longrightarrow> check_max_slippage e b = None"
  by (simp add: check_max_slippage_def Let_def split: option.split)

text \<open>The cap on the slippage concerns only a slippage that the intent states: without one
  the cap changes nothing, and the swap uses the default of the environment, or one percent,
  however much smaller the cap is.\<close>

theorem slippage_cap_ignores_default:
  assumes "trim_space (meta_get (int_Metadata it) ''swap_slippage_bps'') = []"
  shows "enforceSwapPolicy al (env(''PHOENIX_SWAP_MAX_SLIPPAGE_BPS'' := c)) cfg it
      = enforceSwapPolicy al env cfg it
    \<and> swap_slippage (env(''PHOENIX_SWAP_MAX_SLIPPAGE_BPS'' := c))
        (meta_get (int_Metadata it) ''swap_slippage_bps'')
      = (case parse_uint 32 (trim_space (env ''PHOENIX_SWAP_SLIPPAGE_BPS'')) of
           None \<Rightarrow> 100 | Some v \<Rightarrow> word_of_nat v)"
proof -
  let ?env = "env(''PHOENIX_SWAP_MAX_SLIPPAGE_BPS'' := c)"
  let ?it = "if int_Metadata it = None then it\<lparr>int_Metadata := Some Map.empty\<rparr> else it"
  have "trim_space (meta_get (int_Metadata ?it) ''swap_slippage_bps'') = []"
    using assms by (simp add: meta_get_Some)
  then have "check_max_slippage e (meta_get (int_Metadata ?it) ''swap_slippage_bps'') = None" for e
    by (rule check_slippage_blank)
  moreover have "check_max_amount ?env a = check_max_amount env a"
    "check_confirm ?env f g = check_confirm env f g" for a f g
    by (simp_all add: check_max_amount_def check_confirm_def)
  moreover have "check_pool_list al ?env p = check_pool_list al env p"
    "check_token_list al ?env t u = check_token_list al env t u" for p t u
    by (simp_all add: check_pool_list_def check_token_list_def parseAddressAllowlist_def)
  ultimately have "enforceSwapPolicy al ?env cfg it = enforceSwapPolicy al env cfg it"
    unfolding enforceSwapPolicy_def Let_def by (simp only: fun_upd_def) simp
  then show ?thesis
    using assms by (auto simp: swap_slippage_def Let_def parse_uint_def parse_nat_def)
qed

theorem slippage_cap_ignores_default_witness:
  "enforceSwapPolicy ex_addr (ex_env(''PHOENIX_SWAP_MAX_SLIPPAGE_BPS'' := ''50'')) (Some ex_cfg_dry)
     ex_swap = enforceSwapPolicy ex_addr ex_env (Some ex_cfg_dry) ex_swap"
  using slippage_cap_ignores_default [of ex_swap ex_addr ex_env "''50''" "Some ex_cfg_dry"]
  by (simp add: ex_swap_def ex_swap_meta_def meta_get_Some map_get_def)

text \<open>What the API and the bot must agree on: an address in the form that the API accepts is an
  address for go-ethereum, which does not tell upper from lower case.\<close>

definition addr_lib_ok :: "addr_lib \<Rightarrow> bool" where
  "addr_lib_ok al \<longleftrightarrow>
     (\<forall>s. (is_api_address s \<longrightarrow> al_IsHex al s) \<and> al_IsHex al (to_lower s) = al_IsHex al s
        \<and> al_ToAddress al (to_lower s) = al_ToAddress al s)"

lemma ex_addr_ok: "addr_lib_ok ex_addr"
proof -
  have "lower_char c = c" if "is_lower_hex c" for c
  proof -
    have "\<not> (65 \<le> (of_char c :: nat) \<and> (of_char c :: nat) \<le> 90)"
      using that by (auto simp: is_lower_hex_def is_digit_def)
    then show ?thesis unfolding lower_char_def Let_def by meson
  qed
  then have "to_lower s = s" if adr: "is_api_address s" for s
  proof -
    assume l: "\<And>c. is_lower_hex c \<Longrightarrow> lower_char c = c"
    obtain t where s: "s = ''0x'' @ t"
      using adr by (auto simp: is_api_address_def has_prefix_iff)
    have t: "list_all is_lower_hex t" using adr by (simp add: is_api_address_def s)
    have "map lower_char t = t"
      using t l by (induction t) simp_all
    moreover have "lower_char CHR ''0'' = CHR ''0''" "lower_char CHR ''x'' = CHR ''x''"
      by (simp_all add: lower_char_def)
    ultimately show "to_lower s = s" by (simp add: s to_lower_def)
  qed
  then show ?thesis by (simp add: addr_lib_ok_def ex_addr_def last_digit_def)
qed

lemma api_listed:
  assumes "addr_lib_ok al" "parseAddressAllowlistEnv env key = Some m" "to_lower a \<in> m"
  shows "al_IsHex al a \<and> (\<exists>b. parseAddressAllowlist al env key = Some b \<and> allowlisted al b a)"
proof -
  let ?parts = "map (\<lambda>part. to_lower (trim_space part)) (split_on CHR '','' (trim_space (env key)))"
  from assms(2,3) obtain s where s: "s \<in> set ?parts" "s \<noteq> []" "is_api_address s"
    "to_lower a = ''0x'' @ drop 2 s" and raw: "trim_space (env key) \<noteq> []"
    by (auto simp: parseAddressAllowlistEnv_def Let_def split: if_splits)
  have "''0x'' @ drop 2 s = s"
    using s(3) by (auto simp: is_api_address_def has_prefix_iff)
  then have low: "to_lower a = s" using s(4) by simp
  have ok: "al_IsHex al s" "al_IsHex al a" "al_ToAddress al a = al_ToAddress al s"
    using assms(1) s(3) low by (metis addr_lib_ok_def)+
  have "al_Hex al (al_ToAddress al a) \<in> set (map (\<lambda>s. al_Hex al (al_ToAddress al s))
      (filter (\<lambda>s. s \<noteq> [] \<and> al_IsHex al s) ?parts))"
    using s(1,2) ok by auto
  with raw ok(2) show ?thesis
    by (simp add: parseAddressAllowlist_def allowlisted_def)
qed

lemma api_unset: "parseAddressAllowlistEnv env key = None \<longleftrightarrow> parseAddressAllowlist al env key = None"
  by (simp add: parseAddressAllowlistEnv_def parseAddressAllowlist_def Let_def)

lemma to_lower_Nil [simp]: "to_lower s = [] \<longleftrightarrow> s = []"
  by (simp add: to_lower_def)

text \<open>C18. In a dry run the bot accepts every swap that the API has accepted under the same
  environment: the two policies are written separately, but the one of the API is the stricter.\<close>

theorem api_accepts_bot_accepts:
  assumes "addr_lib_ok al" "validateSwapPolicy env (int_Metadata it) = None"
    "sc_DryRun (ap_Strategy cfg)"
  shows "enforceSwapPolicy al env (Some cfg) it = (it, None)"
proof -
  let ?g = "\<lambda>k. trim_space (meta_get (int_Metadata it) k)"
  let ?pools = "''PHOENIX_SWAP_ALLOWLIST_POOLS''" let ?toks = "''PHOENIX_SWAP_ALLOWLIST_TOKENS''"
  obtain a where md: "int_Metadata it \<noteq> None"
    and ne: "?g ''swap_pool'' \<noteq> []" "?g ''swap_token_in'' \<noteq> []" "?g ''swap_token_out'' \<noteq> []"
      "?g ''swap_amount_in'' \<noteq> []"
    and a: "parse_amount_in (?g ''swap_amount_in'') = Some a"
    and c: "check_confirm env (env ''PHOENIX_SWAP_FORCE_CONFIRM'' = ''1'')
              (meta_get (int_Metadata it) ''swap_confirm'') = None"
      "check_max_amount env a = None"
      "check_max_slippage env (meta_get (int_Metadata it) ''swap_slippage_bps'') = None"
    and po: "\<forall>m. parseAddressAllowlistEnv env ?pools = Some m \<longrightarrow> to_lower (?g ''swap_pool'') \<in> m"
    and tk: "\<forall>m. parseAddressAllowlistEnv env ?toks = Some m \<longrightarrow>
        to_lower (?g ''swap_token_in'') \<in> m \<and> to_lower (?g ''swap_token_out'') \<in> m"
    using assms(2) unfolding validateSwapPolicy_def Let_def
    by (auto simp: first_error_None split: if_splits option.splits)
  have "check_pool_list al env (?g ''swap_pool'') = None"
    using po api_listed [OF assms(1)] api_unset [of env ?pools al]
    by (cases "parseAddressAllowlistEnv env ?pools") (fastforce simp: check_pool_list_def)+
  moreover have "check_token_list al env (?g ''swap_token_in'') (?g ''swap_token_out'') = None"
    using tk api_listed [OF assms(1)] api_unset [of env ?toks al]
    by (cases "parseAddressAllowlistEnv env ?toks") (fastforce simp: check_token_list_def)+
  ultimately show ?thesis
    unfolding enforceSwapPolicy_def Let_def if_not_P [OF md]
    using ne a c assms(3) by (simp add: first_error_None)
qed

lemma ex_swap_validated: "validateSwapPolicy ex_env (int_Metadata ex_swap) = None"
  by code_simp

theorem api_accepts_bot_accepts_witness:
  "enforceSwapPolicy ex_addr ex_env (Some ex_cfg_dry) ex_swap = (ex_swap, None)"
  by (rule api_accepts_bot_accepts [OF ex_addr_ok ex_swap_validated])
    (simp add: ex_cfg_dry_def)

subsection \<open>The entry point\<close>

lemma validate_put_action:
  "validateSwapPolicy env (meta_put m ''action'' v) = validateSwapPolicy env m"
proof (cases "m = None")
  case False
  have g: "meta_get (meta_put m ''action'' v) ''swap_pool'' = meta_get m ''swap_pool''"
    "meta_get (meta_put m ''action'' v) ''swap_token_in'' = meta_get m ''swap_token_in''"
    "meta_get (meta_put m ''action'' v) ''swap_token_out'' = meta_get m ''swap_token_out''"
    "meta_get (meta_put m ''action'' v) ''swap_amount_in'' = meta_get m ''swap_amount_in''"
    "meta_get (meta_put m ''action'' v) ''swap_confirm'' = meta_get m ''swap_confirm''"
    "meta_get (meta_put m ''action'' v) ''swap_slippage_bps'' = meta_get m ''swap_slippage_bps''"
    using False by simp_all
  have n: "meta_put m ''action'' v = None \<longleftrightarrow> m = None" by (simp add: meta_put_def)
  show ?thesis unfolding validateSwapPolicy_def Let_def g n by (rule refl)
qed (simp add: meta_put_def)

text \<open>C17. Through the API only an authorised and complete request enters the queue: the method
  is POST, the administrator's token is set and equal, and the intent that is pushed has an
  identifier, a chain, an urgency other than zero and, if it is a swap, passes the swap policy
  and says \<open>swap_exact_in\<close>.\<close>

theorem enqueue_authorised:
  assumes "handleEnqueueIntent env idNow now hr q = (q', r)" "q' \<noteq> q"
  shows "\<exists>it. q' = Enqueue it q \<and> r = Enqueued (int_ID it)
    \<and> hr_Method hr = ''POST'' \<and> hr_AdminToken hr = env ''ADMIN_TOKEN'' \<and> env ''ADMIN_TOKEN'' \<noteq> []
    \<and> int_ID it \<noteq> [] \<and> int_ChainID it \<noteq> 0 \<and> int_Urgency it \<noteq> 0 \<and> int_Metadata it \<noteq> None
    \<and> (if is_swap it
       then validateSwapPolicy env (int_Metadata it) = None
            \<and> meta_get (int_Metadata it) ''action'' = ''swap_exact_in''
       else True)"
proof -
  obtain req it where b: "hr_Body hr = Some req" and n: "normalizeIntent env idNow now req = Inr it"
    and q': "q' = Enqueue it q" "r = Enqueued (int_ID it)"
    and h: "hr_Method hr = ''POST''" "env ''ADMIN_TOKEN'' \<noteq> []" "hr_AdminToken hr = env ''ADMIN_TOKEN''"
    using assms by (auto simp: handleEnqueueIntent_def split: if_splits option.splits sum.splits)
  define r1 where "r1 = (if eq_Urgency req = 0 then req\<lparr>eq_Urgency := 5\<rparr> else req)"
  define r2 where "r2 = (if eq_Metadata r1 = None then r1\<lparr>eq_Metadata := Some Map.empty\<rparr> else r1)"
  have e: "request_error_of req = None"
    using n by (auto simp: normalizeIntent_def split: option.splits)
  note n' = n [unfolded normalizeIntent_def e option.case Let_def, folded r1_def, folded r2_def]
  have r2: "eq_Metadata r2 \<noteq> None" "eq_Urgency r2 \<noteq> 0" "eq_ChainID r2 = eq_ChainID req"
    "eq_Type r2 = eq_Type req"
    by (auto simp: r2_def r1_def)
  have it: "int_ID it \<noteq> []" "int_ChainID it \<noteq> 0" "int_Urgency it \<noteq> 0" "int_Type it = eq_Type r2"
    "int_Metadata it = (if is_swap_request r2 then meta_put (eq_Metadata r2) ''action'' ''swap_exact_in''
       else eq_Metadata r2)"
    "is_swap_request r2 \<Longrightarrow> validateSwapPolicy env (eq_Metadata r2) = None"
    using n' e r2 by (auto simp: request_error_of_def first_error_None split: if_splits option.splits)
  have sw: "is_swap_request r2" if "is_swap it"
  proof (rule ccontr)
    assume no: "\<not> is_swap_request r2"
    have "to_lower (trim_space ''swap'') = ''swap''" by code_simp
    with no that show False
      by (auto simp: is_swap_def is_swap_request_def it(4,5))
  qed
  have "validateSwapPolicy env (meta_put m ''action'' v) = validateSwapPolicy env m" for m v
    by (rule validate_put_action)
  then have "if is_swap it then validateSwapPolicy env (int_Metadata it) = None
      \<and> meta_get (int_Metadata it) ''action'' = ''swap_exact_in'' else True"
    using sw it(5,6) r2(1) by simp
  moreover have "int_Metadata it \<noteq> None"
    using it(5) r2(1) by (cases "eq_Metadata r2") (auto simp: meta_put_def)
  ultimately show ?thesis using q' h it(1-3) by (intro exI [of _ it]) simp
qed

definition ex_http :: http_request where
  "ex_http =
     \<lparr>hr_Method = ''POST'', hr_AdminToken = ''t'',
      hr_Body = Some \<lparr>eq_ID = ''s1'', eq_Type = ''swap'', eq_PoolID = ''p'', eq_ChainID = 1, eq_Urgency = 0,
        eq_StrategyVersion = [], eq_RiskMode = [], eq_Metadata = Some (map_of ex_swap_meta)\<rparr>\<rparr>"

lemma ex_http_enqueued: "length (fst (handleEnqueueIntent ex_env 0 0 ex_http [])) = 1"
  by code_simp

theorem enqueue_authorised_witness:
  "\<exists>it. fst (handleEnqueueIntent ex_env 0 0 ex_http []) = Enqueue it [] \<and> int_ChainID it \<noteq> 0"
proof -
  have "fst (handleEnqueueIntent ex_env 0 0 ex_http []) \<noteq> []"
    using ex_http_enqueued by auto
  from enqueue_authorised [OF surjective_pairing this] show ?thesis by blast
qed

subsection \<open>The prepared call\<close>

lemma put_meta_get:
  "int_Metadata it \<noteq> None \<Longrightarrow>
   meta_get (int_Metadata (put_meta k v it)) k' = (if k' = k then v else meta_get (int_Metadata it) k')"
  "int_Metadata (put_meta k v it) = None \<longleftrightarrow> int_Metadata it = None"
  by (auto simp: put_meta_def meta_put_def meta_get_Some)

lemma enforced_same_meta:
  assumes "enforceSwapPolicy al env cfg it = (it1, None)" "is_swap it"
  shows "meta_get (int_Metadata it1) = meta_get (int_Metadata it)"
    "trim_space (meta_get (int_Metadata it) ''swap_pool'') \<noteq> []"
  using assms unfolding enforceSwapPolicy_def Let_def
  by (auto simp: fun_eq_iff meta_get_Some split: if_splits option.splits)

lemma swap_request_fields:
  assumes "swap_request_of al env chain pool it = Inr r"
  shows "sq_in r = trim_space (meta_get (int_Metadata it) ''swap_token_in'')"
    "sq_out r = trim_space (meta_get (int_Metadata it) ''swap_token_out'')"
    "big_set_string (trim_space (meta_get (int_Metadata it) ''swap_amount_in'')) = Some (sq_amount r)"
    "trim_space (meta_get (int_Metadata it) ''swap_pool'') \<noteq> [] \<Longrightarrow>
       sq_pool r = trim_space (meta_get (int_Metadata it) ''swap_pool'')"
    "sq_fee r = swap_fee pool (meta_get (int_Metadata it) ''swap_fee'')"
  using assms unfolding swap_request_of_def Let_def
  by (auto simp: parse_amount_in_def split: if_splits option.splits)


definition ex_swap_lib :: swap_lib where
  "ex_swap_lib =
     \<lparr>sl_addr = ex_addr, sl_dial = (\<lambda>_. Some (\<lambda>_ _. Some [7])),
      sl_quoter = Some \<lparr>qa_caller = None, qa_pack_single = (\<lambda>_ _ _ _ _. Some [1]),
        qa_unpack_single = (\<lambda>_. Some 990), qa_pack_path = (\<lambda>_ _. None),
        qa_unpack_path = (\<lambda>_. None)\<rparr>,
      sl_pack = Some (\<lambda>_ _ _ _ _ _. Some [1, 171])\<rparr>"

definition ex_env_quoter :: environ where
  "ex_env_quoter = ex_env(''PHOENIX_SWAP_REQUIRE_QUOTER'' := ''1'')"

definition ex_request :: swap_request where
  "ex_request =
     \<lparr>sq_helper = ex_address CHR ''5'', sq_quoter = ex_address CHR ''4'', sq_require = True,
      sq_pool = ex_address CHR ''1'', sq_in = ex_address CHR ''2'', sq_out = ex_address CHR ''3'',
      sq_amount = 1000, sq_fee = 500, sq_slippage = 100\<rparr>"

lemma ex_prepare_steps:
  "is_swap ex_swap" "al_IsHex ex_addr (ex_address CHR ''4'')"
  "snd (enforceSwapPolicy ex_addr ex_env_quoter (Some ex_cfg_dry) ex_swap) = None"
  "swap_request_of ex_addr ex_env_quoter (hd (ap_Chains ex_cfg_dry)) (hd (ap_Pools ex_cfg_dry)) ex_swap
     = Inr ex_request"
  by code_simp+

lemma maybePrepare_step:
  assumes "is_swap it" "ap_Chains c = [chain]" "ap_Pools c = [pool]"
    "enforceSwapPolicy (sl_addr lib) env (Some c) it = (it1, None)"
    "swap_request_of (sl_addr lib) env chain pool it1 = Inr r"
    "swap_quote lib (ch_RPC chain) (sq_quoter r) (sq_require r) (sq_in r) (sq_out r) (sq_fee r)
       (sq_amount r) (sq_slippage r) it1 = Inr (it2, m)"
  shows "maybePrepareSwapHelperCall lib env (Some c) it =
    swap_call lib (sq_helper r) (sq_pool r) (sq_in r) (sq_out r) (sq_amount r) m (sq_slippage r) it2"
  using assms by (simp add: maybePrepareSwapHelperCall_def)

lemma ex_prepared:
  "snd (maybePrepareSwapHelperCall ex_swap_lib ex_env_quoter (Some ex_cfg_dry) ex_swap) = None"
proof -
  have cp: "ap_Chains ex_cfg_dry = [hd (ap_Chains ex_cfg_dry)]"
    "ap_Pools ex_cfg_dry = [hd (ap_Pools ex_cfg_dry)]" by (simp_all add: ex_cfg_dry_def)
  have al: "sl_addr ex_swap_lib = ex_addr" by (simp add: ex_swap_lib_def)
  have "int_Metadata ex_swap \<noteq> None" by (simp add: ex_swap_def)
  then have e: "enforceSwapPolicy ex_addr ex_env_quoter (Some ex_cfg_dry) ex_swap = (ex_swap, None)"
    using ex_prepare_steps(3) unfolding enforceSwapPolicy_def Let_def
    by (auto split: if_splits option.splits)
  have "\<exists>it2 m. swap_quote ex_swap_lib rpc (sq_quoter ex_request) (sq_require ex_request)
      (sq_in ex_request) (sq_out ex_request) (sq_fee ex_request) (sq_amount ex_request)
      (sq_slippage ex_request) ex_swap = Inr (it2, m) \<and> 0 \<le> m" for rpc
    using ex_prepare_steps(2)
    by (simp add: swap_quote_def al ex_request_def ex_swap_lib_def QuoteExactInputWithFallback_def
        QuoteExactInputSingle_def call_quoter_def ComputeMinOutBps_def Let_def ex_address_def)
  then obtain it2 m where q: "swap_quote ex_swap_lib (ch_RPC (hd (ap_Chains ex_cfg_dry)))
      (sq_quoter ex_request) (sq_require ex_request)
      (sq_in ex_request) (sq_out ex_request) (sq_fee ex_request) (sq_amount ex_request)
      (sq_slippage ex_request) ex_swap = Inr (it2, m)" "0 \<le> m" by blast
  have "maybePrepareSwapHelperCall ex_swap_lib ex_env_quoter (Some ex_cfg_dry) ex_swap =
      swap_call ex_swap_lib (sq_helper ex_request) (sq_pool ex_request) (sq_in ex_request)
        (sq_out ex_request) (sq_amount ex_request) m (sq_slippage ex_request) it2"
    by (rule maybePrepare_step [OF ex_prepare_steps(1) cp, of ex_swap_lib, unfolded al,
          OF e ex_prepare_steps(4) q(1)])
  then show ?thesis
    using q(2) by (simp add: swap_call_def Let_def BuildSwapExactInputSingleMinOutData_def
        ex_swap_lib_def ex_request_def)
qed

definition ex_quoter :: quoter_api where
  "ex_quoter = the (sl_quoter ex_swap_lib)"

lemma ex_quote:
  "QuoteExactInputWithFallback (ex_quoter\<lparr>qa_caller := Some (\<lambda>_. Some [7])\<rparr>) a b fee (Some 1000)
     = Inr (990, ''quoteExactInputSingle'')"
  by (simp add: ex_quoter_def ex_swap_lib_def QuoteExactInputWithFallback_def QuoteExactInputSingle_def
      call_quoter_def Let_def)


end
