(* ===== verification/Props_Exec.thy ===== *)
theory Props_Exec
  imports Executor_Facts Props_Swap
begin

text \<open>
  The properties of the executor and of the queue in front of it.
\<close>

subsection \<open>One intent\<close>

text \<open>C1. Whatever the configuration, the rules, the market and the intent are: an intent adds to
  the event log at most one executor result, and it says SIMULATED or SKIPPED, without an error
  and with \<open>would_broadcast\<close> false; every risk decision that is logged has a level above SAFE;
  and every trade that is stored is marked as a simulation.\<close>

theorem executor_never_broadcasts:
  "\<exists>es ts. xw_events (executeIntent x it w) = xw_events w @ es
     \<and> list_all quiet_event es \<and> length (filter is_exec_event es) \<le> 1
     \<and> xw_trades (executeIntent x it w) = xw_trades w @ ts
     \<and> list_all (\<lambda>t. tr_IsSimulation t \<and> tr_Status t = ''simulated'') ts"
proof -
  define it' where "it' = non_nil_meta it"
  define v where "v = v1_meta_of x it'"
  obtain es where es: "xw_events (executeIntent x it w) = xw_events w @ es" "quiet_events es"
    using executeIntent_events by blast
  have "\<exists>ts. xw_trades (executeIntent x it w) = xw_trades w @ ts
      \<and> list_all (\<lambda>t. tr_IsSimulation t \<and> tr_Status t = ''simulated'') ts"
    using executeIntent_out(1) [OF it'_def v_def, of w]
    by (auto simp: new_defs trade_of_def)
  with es show ?thesis unfolding quiet_events_def by blast
qed


text \<open>The risk manager counts a failure exactly when the swap call cannot be prepared and a
  success exactly when the intent is executed; an intent that is refused before its turn leaves
  it as it is, and its own refusal changes only its mode.\<close>

theorem manager_after_intent:
  "let it' = non_nil_meta it; v = v1_meta_of x it'; m = xw_risk w
   in xw_risk (executeIntent x it w) =
        (if \<not> reaches_manager x v it' w then m
         else if snd (CanProceed m) \<noteq> None then m\<lparr>rm_CurrentMode := rm_CurrentMode (fst (CanProceed m))\<rparr>
         else if pool_stops x it' then m
         else if snd (swap_prepared x it') \<noteq> None then manager_failure m
         else manager_success (xi_clock x 13) m)"
proof -
  define it' where "it' = non_nil_meta it"
  define v where "v = v1_meta_of x it'"
  have m: "fst (CanProceed m) = m\<lparr>rm_CurrentMode := rm_CurrentMode (fst (CanProceed m))\<rparr>" for m
    by (simp add: CanProceed_def)
  show ?thesis
    using executeIntent_out(3) [OF it'_def v_def, of w]
    unfolding it'_def [symmetric] v_def [symmetric] Let_def m [of "xw_risk w", symmetric]
      manager_after_def
    by simp
qed

subsection \<open>Runs of the executor\<close>

lemma frozen_execute:
  assumes "rm_CurrentMode (xw_risk w) = ModeFrozen"
  shows "rm_CurrentMode (xw_risk (executeIntent x it w)) = ModeFrozen"
    "xw_trades (executeIntent x it w) = xw_trades w"
proof -
  define it' where "it' = non_nil_meta it"
  define v where "v = v1_meta_of x it'"
  have no: "CanProceed (xw_risk w) = (xw_risk w, Some SystemFrozen)"
    using assms by (simp add: CanProceed_def)
  show "rm_CurrentMode (xw_risk (executeIntent x it w)) = ModeFrozen"
    "xw_trades (executeIntent x it w) = xw_trades w"
    using executeIntent_out [OF it'_def v_def, of w] assms
    by (simp_all add: new_defs manager_after_def passes_def no Let_def)
qed

lemma executor_run_frozen:
  assumes "rm_CurrentMode (xw_risk w) = ModeFrozen" "executor_run rs q w = (q', w', out)"
  shows "rm_CurrentMode (xw_risk w') = ModeFrozen \<and> xw_trades w' = xw_trades w"
  using assms
proof (induction rs arbitrary: q w q' w' out)
  case (Cons r rs)
  obtain x now where r: "r = (x, now)" by (cases r)
  show ?case
  proof (cases "Dequeue q")
    case None
    with Cons.prems r show ?thesis by simp
  next
    case (Some p)
    obtain it q1 where p: "p = (it, q1)" by (cases p)
    obtain w1 d where st: "executor_step x now it w = (w1, d)" by fastforce
    obtain out1 where run: "executor_run rs q1 w1 = (q', w', out1)"
      using Cons.prems(2) r Some p st by (auto split: prod.splits)
    have "rm_CurrentMode (xw_risk w1) = ModeFrozen \<and> xw_trades w1 = xw_trades w"
      using st Cons.prems(1) frozen_execute [OF Cons.prems(1), of x it]
      by (auto simp: executor_step_def split: if_splits)
    with Cons.IH [OF _ run] show ?thesis by simp
  qed
qed simp

text \<open>C21. A frozen risk manager is the end: however the configuration, the market and the clock
  change, no run of the executor stores a trade again, and the manager stays frozen.\<close>

theorem frozen_executor_never_trades:
  assumes "rm_CurrentMode (xw_risk w) = ModeFrozen" "executor_run rs q w = (q', w', out)"
  shows "xw_trades w' = xw_trades w \<and> rm_CurrentMode (xw_risk w') = ModeFrozen"
  using executor_run_frozen [OF assms] by simp

subsection \<open>An example\<close>

definition ex_cool :: cooldown_world where
  "ex_cool =
     \<lparr>cw_store = None, cw_disk = None, cw_faults = (\<lambda>_. no_faults 0 0), cw_lastMatchKey = [],
      cw_lastUntilMS = 0\<rparr>"

definition ex_manager :: manager where
  "ex_manager = new_risk_manager (Fin 10) 3 (Fin (1 / 2))"

definition ex_exec_world :: exec_world where
  "ex_exec_world =
     \<lparr>xw_cool = ex_cool, xw_stats = None, xw_statsFile = None, xw_samples = None,
      xw_samplesJSON = None, xw_samplesTXT = None, xw_risk = ex_manager, xw_server = None,
      xw_events = [], xw_trades = [], xw_published = []\<rparr>"

definition ex_exec :: exec_input where
  "ex_exec =
     \<lparr>xi_env = (\<lambda>_. []), xi_clock = (\<lambda>_. unix_epoch), xi_faults = (\<lambda>_. no_faults 0 0),
      xi_keys = (\<lambda>_. []), xi_control = None, xi_cfg = ex_cfg_dry, xi_eval = None,
      xi_cooldown = None, xi_onchain = None, xi_market = None, xi_serverSnap = (\<lambda>_. zero_snapshot),
      xi_guard = new_guard, xi_swap = ex_swap_lib, xi_pow = (\<lambda>x _. x), xi_log = (\<lambda>x. x),
      xi_fmt_g = (\<lambda>_. []), xi_fmt_g12 = (\<lambda>_. []), xi_samplesJSON = [], xi_samplesTXT = [],
      xi_divThreshold = 100, xi_saved = True, xi_delivered = True\<rparr>"

definition ex_mock :: "string \<Rightarrow> intent" where
  "ex_mock ident = zero_intent\<lparr>int_ID := ident, int_Type := IntentMockRebalance, int_PoolID := ''p'',
     int_ChainID := 1\<rparr>"

definition ex_frozen :: exec_world where
  "ex_frozen = ex_exec_world\<lparr>xw_risk := ex_manager\<lparr>rm_CurrentMode := ModeFrozen\<rparr>\<rparr>"

theorem frozen_executor_never_trades_witness:
  "xw_trades (fst (snd (executor_run [(ex_exec, 5)] [ex_mock ''a''] ex_frozen))) = []"
  using frozen_executor_never_trades [of ex_frozen "[(ex_exec, 5)]" "[ex_mock ''a'']"
      "fst (executor_run [(ex_exec, 5)] [ex_mock ''a''] ex_frozen)"
      "fst (snd (executor_run [(ex_exec, 5)] [ex_mock ''a''] ex_frozen))"
      "snd (snd (executor_run [(ex_exec, 5)] [ex_mock ''a''] ex_frozen))"]
  by (simp add: ex_frozen_def ex_exec_world_def)

subsection \<open>The queue\<close>

fun is_handled :: "dequeue_result \<Rightarrow> bool" where
  "is_handled (Handled _) = True" | "is_handled (Throttled _) = False"

fun result_id :: "dequeue_result \<Rightarrow> string" where
  "result_id (Handled i) = i" | "result_id (Throttled i) = i"

lemma step_trades:
  assumes "executor_step x now it w = (w', r)"
  shows "result_id r = int_ID it
    \<and> length (xw_trades w') \<le> length (xw_trades w) + (if is_handled r then 1 else 0)"
proof -
  define it' where "it' = non_nil_meta it"
  define v where "v = v1_meta_of x it'"
  show ?thesis
    using assms executeIntent_out(1) [OF it'_def v_def, of w]
    by (auto simp: executor_step_def new_defs split: if_splits)
qed

text \<open>C22. The executor empties the queue: each round takes one intent until none is left, what
  comes out and what stays in is what was there, each intent once, the most urgent first; and
  only an intent that was not throttled can have led to a trade.\<close>

theorem executor_drains_queue:
  assumes "is_heap q" "executor_run rs q w = (q', w', out)"
  shows "is_heap q' \<and> image_mset int_ID (mset q) = mset (map result_id out) + image_mset int_ID (mset q')
    \<and> length out = min (length rs) (length q)
    \<and> length (xw_trades w') \<le> length (xw_trades w) + length (filter is_handled out)"
  using assms
proof (induction rs arbitrary: q w out)
  case (Cons r rs)
  obtain x now where r: "r = (x, now)" by (cases r)
  show ?case
  proof (cases "Dequeue q")
    case None
    with Cons.prems r iq.pop_none [OF Cons.prems(1)] show ?thesis by simp
  next
    case (Some p)
    obtain it q1 where p: "p = (it, q1)" by (cases p)
    note d = Some [unfolded p]
    note q1 = iq.pop_inv [OF Cons.prems(1) d] iq.pop_elems [OF Cons.prems(1) d]
    obtain w1 a where st: "executor_step x now it w = (w1, a)" by fastforce
    obtain out1 where run: "executor_run rs q1 w1 = (q', w', out1)" "out = a # out1"
      using Cons.prems(2) r Some p st by (auto split: prod.splits)
    have "size (mset q) = Suc (size (mset q1))" using q1(2) by simp
    then have "length q = Suc (length q1)" by simp
    then show ?thesis using Cons.IH [OF q1(1) run(1)] step_trades [OF st] run(2) q1(2)
      by (auto split: if_splits)
  qed
qed simp

lemma ex_heap: "is_heap [ex_mock ''a'']"
  by (simp add: is_heap_def heap_upto_def)

theorem executor_drains_queue_witness:
  "length (snd (snd (executor_run [(ex_exec, 5)] [ex_mock ''a''] ex_exec_world))) = 1"
  using executor_drains_queue [OF ex_heap, of "[(ex_exec, 5)]" ex_exec_world
      "fst (executor_run [(ex_exec, 5)] [ex_mock ''a''] ex_exec_world)"
      "fst (snd (executor_run [(ex_exec, 5)] [ex_mock ''a''] ex_exec_world))"
      "snd (snd (executor_run [(ex_exec, 5)] [ex_mock ''a''] ex_exec_world))"]
  by simp

text \<open>C34. An intent that is taken from the queue less than two seconds after an executed one is
  lost: it is neither executed nor written to the log nor put back.\<close>

theorem throttled_intent_lost:
  assumes "it' = non_nil_meta it" "passes x (v1_meta_of x it') it' w"
    "0 \<le> now - xi_clock x 13" "now - xi_clock x 13 < 2 * second" "Dequeue q = Some (it2, q')"
  shows "executor_run [(x2, now)] q (executeIntent x it w)
    = (q', executeIntent x it w, [Throttled (int_ID it2)])"
proof -
  have "xw_risk (executeIntent x it w) = manager_success (xi_clock x 13) (xw_risk w)"
    using executeIntent_out(3) [OF assms(1) refl, of x w] assms(2)
    by (auto simp: manager_after_def passes_def Let_def)
  then have "ShouldThrottle now (2 * second) (xw_risk (executeIntent x it w))"
    using assms(3,4) by (simp add: ShouldThrottle_def manager_success_def second_def t_sub_def
        min_i64_def max_i64_def)
  then show ?thesis using assms(5) by (simp add: executor_step_def)
qed

lemma ex_mock_passes: "passes ex_exec (v1_meta_of ex_exec (non_nil_meta (ex_mock i)))
    (non_nil_meta (ex_mock i)) ex_exec_world"
proof -
  define it where "it = non_nil_meta (ex_mock i)"
  have it: "int_Type it = IntentMockRebalance" "int_Metadata it = Some Map.empty" "int_PoolID it = ''p''"
    by (simp_all add: it_def non_nil_meta_def ex_mock_def zero_intent_def)
  have "\<not> is_swap it" by (simp add: is_swap_def it meta_get_Some to_lower_def)
  then have "snd (swap_prepared ex_exec it) = None"
    by (simp add: swap_prepared_def maybePrepareSwapHelperCall_def)
  moreover have "\<not> control_stops ex_exec" by code_simp
  moreover have "\<not> v1_expired (v1_meta_of ex_exec it)"
    by (simp add: v1_expired_def v1_meta_of_def it parseMetadataInt64_def Let_def)
  moreover have "\<not> pool_stops ex_exec it"
    by (simp add: pool_stops_def CheckPool_def it ex_exec_def new_guard_def contains_def to_lower_def
        lower_char_def has_prefix_def)
  moreover have "snd (CanProceed (xw_risk ex_exec_world)) = None"
    by (simp add: ex_exec_world_def ex_manager_def new_risk_manager_def CanProceed_def f_le_def)
  ultimately show ?thesis
    by (simp add: passes_def reaches_manager_def it_def [symmetric] eval_rejects_def market_stops_def)
      (simp add: ex_exec_def)
qed

lemma ex_dequeue: "Dequeue [it] = Some (it, [])"
proof -
  have h: "is_heap [it]" by (simp add: is_heap_def heap_upto_def)
  obtain y q' where d: "Dequeue [it] = Some (y, q')"
    using iq.pop_none [OF h] by (cases "Dequeue [it]") auto
  from iq.pop_elems [OF h d] have "y = it \<and> q' = []" by simp
  with d show ?thesis by simp
qed

theorem throttled_intent_lost_witness:
  "snd (snd (executor_run [(ex_exec, unix_epoch + second)] [ex_mock ''b'']
     (executeIntent ex_exec (ex_mock ''a'') ex_exec_world))) = [Throttled ''b'']"
  using throttled_intent_lost [OF refl ex_mock_passes _ _ ex_dequeue, of "unix_epoch + second" ex_exec]
  by (simp add: ex_exec_def second_def ex_mock_def)

subsection \<open>What the server shows\<close>

datatype server_op =
  OpDecision decision_status | OpRiskDecision decision_summary
| OpRiskCooldown cooldown_summary "cooldown_entry list option"
| OpDivergence divergence_summary | OpIntentV1 intent_v1 | OpRiskV1 risk_decision_v1
| OpExecV1 executor_result_v1 | OpPnL pnl_snapshot | OpAlerts "alert list option"
| OpRunID string | OpMode v1_mode | OpTicker gotime ticker

fun server_step :: "server_op \<Rightarrow> server \<Rightarrow> server" where
  "server_step (OpDecision d) s = UpdateDecision d s"
| "server_step (OpRiskDecision v) s = UpdateLastRiskDecision v s"
| "server_step (OpRiskCooldown v t) s = UpdateLastRiskCooldown v t s"
| "server_step (OpDivergence v) s = UpdateLastPriceDivergenceCheck v s"
| "server_step (OpIntentV1 v) s = UpdateLastIntentV1 v s"
| "server_step (OpRiskV1 v) s = UpdateLastRiskV1 v s"
| "server_step (OpExecV1 v) s = UpdateLastExecV1 v s"
| "server_step (OpPnL p) s = UpdatePnL p s"
| "server_step (OpAlerts a) s = UpdateAlerts a s"
| "server_step (OpRunID r) s = SetContractV1RunID r s"
| "server_step (OpMode m) s = SetContractV1Mode m s"
| "server_step (OpTicker t c) s = UpdateCEXPrice t c s"

lemmas server_defs = UpdateDecision_def UpdateLastRiskDecision_def UpdateLastRiskCooldown_def
  UpdateLastPriceDivergenceCheck_def UpdateLastIntentV1_def UpdateLastRiskV1_def
  UpdateLastExecV1_def UpdatePnL_def UpdateAlerts_def SetContractV1RunID_def
  SetContractV1Mode_def UpdateCEXPrice_def

definition shows_cooldowns :: "server \<Rightarrow> bool" where
  "shows_cooldowns s \<longleftrightarrow> (case de_TopCooldowns (as_decision s) of Some (e # es) \<Rightarrow> True | _ \<Rightarrow> False)"

text \<open>The updates that the executor makes: the list of cooldowns it passes is absent rather than
  empty.\<close>

fun op_wf :: "server_op \<Rightarrow> bool" where
  "op_wf (OpRiskCooldown v (Some es)) = (es \<noteq> [])" | "op_wf _ = True"

lemma shows_step: "shows_cooldowns s \<Longrightarrow> op_wf op \<Longrightarrow> shows_cooldowns (server_step op s)"
  by (cases op)
    (auto simp: shows_cooldowns_def server_defs keep_old_list_def Let_def neq_Nil_conv
      split: option.splits list.splits)

text \<open>The list of active cooldowns that the API publishes is never cleared: the executor
  reports an absent list when no cooldown is left, and an absent list keeps the old one, so that
  after any further updates the expired cooldowns are still shown.\<close>

theorem top_cooldowns_never_cleared:
  assumes "shows_cooldowns s" "list_all op_wf ops"
  shows "shows_cooldowns (fold server_step ops s)
    \<and> snd (top_cooldowns x k w) \<noteq> Some []"
proof -
  have "shows_cooldowns (fold server_step ops s)"
    using assms by (induction ops arbitrary: s) (simp_all add: shows_step)
  then show ?thesis by (simp add: top_cooldowns_def case_prod_beta Let_def split: option.split)
qed

definition ex_server :: server where
  "ex_server = UpdateLastRiskCooldown
     \<lparr>csu_At = 0, csu_Key = ''k'', csu_UntilMS = 5, csu_Reason = []\<rparr>
     (Some [\<lparr>ce_Key = ''k'', ce_CooldownUntilMS = 5\<rparr>]) (NewServer 0 0)"

theorem top_cooldowns_never_cleared_witness:
  "shows_cooldowns (fold server_step
     [OpRiskCooldown \<lparr>csu_At = 9, csu_Key = ''k'', csu_UntilMS = 0, csu_Reason = []\<rparr> None] ex_server)"
  using top_cooldowns_never_cleared [of ex_server
      "[OpRiskCooldown \<lparr>csu_At = 9, csu_Key = ''k'', csu_UntilMS = 0, csu_Reason = []\<rparr> None]"]
  by (simp add: shows_cooldowns_def ex_server_def UpdateLastRiskCooldown_def Let_def)

text \<open>C38. For the same snapshot of the market, the state that the server publishes and the market
  gate of the executor agree outside the manual mode: the state is RUNNING exactly when the gate
  lets intents through, and otherwise SAFE_MODE, or PAUSED if the reason of the market is the
  text \<open>manual_only\<close>.  In the manual mode the state is PAUSED whatever the market is, but the
  executor pays no attention to the mode: whether an intent other than a swap is executed does
  not depend on the environment at all, so injected intents are executed while the state says
  PAUSED.\<close>

theorem status_agrees_with_executor:
  assumes "xi_market x = Some m" "as_market s" "\<not> is_swap it"
  shows "map_option sv_State (ContractV1StatusSnapshot (xi_env x) now (m 1) s)
      = Some (if xi_env x ''PHOENIX_MANUAL_ONLY'' = ''1'' then StatePaused
              else if \<not> market_stops x then StateRunning
              else if mr_Reason (ms_Risk (m 1)) = ''manual_only'' then StatePaused else StateSafeMode)
    \<and> passes (x\<lparr>xi_env := env'\<rparr>) v it w = passes x v it w"
proof -
  have swap: "snd (swap_prepared y it) = None" for y
    using assms(3) by (simp add: swap_prepared_def maybePrepareSwapHelperCall_def)
  have oc: "onchain_point (x\<lparr>xi_env := env'\<rparr>) = onchain_point x"
    by (rule ext) (simp add: onchain_point_def Let_def split: option.split)
  have "price_sources (x\<lparr>xi_env := env'\<rparr>) = price_sources x"
    unfolding price_sources_def [abs_def] oc by (rule refl)
  then have ctx: "risk_context_of (x\<lparr>xi_env := env'\<rparr>) v it = risk_context_of x v it"
    by (simp add: risk_context_of_def control_of_def candidate_dry_run_def Let_def)
  have "eval_rejects (x\<lparr>xi_env := env'\<rparr>) v it w = eval_rejects x v it w"
    unfolding eval_rejects_def ctx by simp
  then have "passes (x\<lparr>xi_env := env'\<rparr>) v it w = passes x v it w"
    by (simp add: passes_def reaches_manager_def swap control_stops_def control_of_def market_stops_def
        pool_stops_def)
  then show ?thesis
    using assms(1,2)
    by (simp add: ContractV1StatusSnapshot_def currentDecision_def with_status_def buildStatusV1_def
        v1_state_of_def market_stops_def market_mode_def Let_def)
qed

text \<open>The example runs in manual mode: the state is PAUSED and the mock intent is executed.\<close>

definition ex_normal_market :: market_snapshot where
  "ex_normal_market = zero_snapshot\<lparr>ms_Risk := (ms_Risk zero_snapshot)\<lparr>mr_Mode := ''normal''\<rparr>\<rparr>"

definition ex_exec_market :: exec_input where
  "ex_exec_market = ex_exec\<lparr>xi_market := Some (\<lambda>_. ex_normal_market)\<rparr>"

definition ex_manual_env :: environ where
  "ex_manual_env = (\<lambda>_. [])(''PHOENIX_MANUAL_ONLY'' := ''1'')"

lemma ex_mock_not_swap: "\<not> is_swap (non_nil_meta (ex_mock i))"
  by (simp add: is_swap_def non_nil_meta_def ex_mock_def zero_intent_def meta_get_Some to_lower_def)

lemma ex_market_passes: "passes ex_exec_market (v1_meta_of ex_exec (non_nil_meta (ex_mock i)))
    (non_nil_meta (ex_mock i)) ex_exec_world"
proof -
  have "\<not> market_stops ex_exec_market"
  proof -
    have "market_mode ex_normal_market = ''normal''"
      by (simp add: market_mode_def ex_normal_market_def) code_simp
    then show ?thesis by (simp add: market_stops_def ex_exec_market_def)
  qed
  with ex_mock_passes [of i] show ?thesis
    by (simp add: passes_def reaches_manager_def eval_rejects_def control_stops_def control_of_def
        pool_stops_def swap_prepared_def ex_exec_market_def)
      (simp add: ex_exec_def)
qed

theorem status_agrees_with_executor_witness:
  "map_option sv_State (ContractV1StatusSnapshot ex_manual_env 0 ex_normal_market
     (SetMarketAggregator True (NewServer 0 0))) = Some StatePaused
   \<and> passes (ex_exec_market\<lparr>xi_env := ex_manual_env\<rparr>) (v1_meta_of ex_exec (non_nil_meta (ex_mock ''a'')))
       (non_nil_meta (ex_mock ''a'')) ex_exec_world"
proof -
  have m: "xi_market (ex_exec_market\<lparr>xi_env := ex_manual_env\<rparr>) = Some (\<lambda>_. ex_normal_market)"
    "as_market (SetMarketAggregator True (NewServer 0 0))"
    by (simp_all add: ex_exec_market_def SetMarketAggregator_def)
  have e: "(ex_exec_market\<lparr>xi_env := ex_manual_env\<rparr>)\<lparr>xi_env := xi_env ex_exec\<rparr> = ex_exec_market"
    by (simp add: ex_exec_market_def)
  have env: "xi_env (ex_exec_market\<lparr>xi_env := ex_manual_env\<rparr>) = ex_manual_env"
    "ex_manual_env ''PHOENIX_MANUAL_ONLY'' = ''1''"
    by (simp_all add: ex_manual_env_def)
  note r = status_agrees_with_executor [OF m ex_mock_not_swap [of "''a''"], where env' = "xi_env ex_exec" and now = 0
      and v = "v1_meta_of ex_exec (non_nil_meta (ex_mock ''a''))" and w = ex_exec_world]
  show ?thesis using r [unfolded e env] ex_market_passes [of "''a''"] by simp
qed

end
