(* ===== verification/Event_Stream.thy ===== *)
theory Event_Stream
  imports Prelude
begin

text \<open>
  internal/events/memory_stream.go: topics, subscribers with a bounded channel each, and
  publishers that drop the oldest event rather than block.

  A channel is the topic it was made for, its buffer and whether it is closed; it is named by
  its position in \<open>sm_chans\<close>.  The lock of the stream protects the table of subscribers only: a publisher copies
  the list of channels and sends without the lock, one channel after the other.  So a
  publication in progress is part of the state (\<open>sm_pubs\<close>), and one action of \<open>stream_step\<close> is
  one operation on the table or on one channel, which is what goroutines can interleave.
  \<open>None\<close> means that the action is not possible; \<open>sm_panic\<close> that the program has crashed,
  which sending on a closed channel and closing it twice do.  \<open>m.alive\<close> is never set to false.
\<close>

type_synonym topic = string

abbreviation TopicTicker :: topic where "TopicTicker \<equiv> ''ticker''"
abbreviation TopicPoolState :: topic where "TopicPoolState \<equiv> ''pool_state''"
abbreviation TopicIntentExec :: topic where "TopicIntentExec \<equiv> ''intent_exec''"

record 'p event =
  ev_Topic :: topic
  ev_Payload :: 'p
  ev_Timestamp :: gotime

record 'p channel =
  ch_topic :: topic
  ch_buf :: "'p event list"
  ch_closed :: bool

text \<open>Where a publisher is with its next channel: before the first attempt, before dropping the
  oldest event, before the second attempt.\<close>

datatype phase = Sending | Dropping | Resending

record 'p publisher =
  pb_event :: "'p event"
  pb_targets :: "nat list"
  pb_phase :: phase

record 'p stream =
  sm_buffer :: nat
  sm_subs :: "topic \<Rightarrow> nat list"
  sm_chans :: "'p channel list"
  sm_pubs :: "'p publisher list"
  sm_panic :: bool

definition NewMemoryStream :: "int64 \<Rightarrow> 'p stream" where
  "NewMemoryStream buffer =
     \<lparr>sm_buffer = (if buffer \<le> 0 then 32 else nat buffer), sm_subs = (\<lambda>_. []), sm_chans = [],
      sm_pubs = [], sm_panic = False\<rparr>"

subsection \<open>Subscribing and cancelling\<close>

definition stream_subscribe :: "topic \<Rightarrow> 'p stream \<Rightarrow> nat \<times> 'p stream" where
  "stream_subscribe t s =
     (let c = length (sm_chans s)
      in (c, s\<lparr>sm_chans := sm_chans s @ [\<lparr>ch_topic = t, ch_buf = [], ch_closed = False\<rparr>],
              sm_subs := (sm_subs s)(t := sm_subs s t @ [c])\<rparr>))"

text \<open>The first entry that is \<open>c\<close> gives its place to the last entry.\<close>

fun swap_remove :: "nat \<Rightarrow> nat list \<Rightarrow> nat list" where
  "swap_remove c [] = []"
| "swap_remove c (d # ds) =
     (if d = c then (if ds = [] then [] else last ds # butlast ds) else d # swap_remove c ds)"

text \<open>The function that \<open>Subscribe\<close> returns for the channel \<open>c\<close>.\<close>

definition stream_cancel :: "nat \<Rightarrow> 'p stream \<Rightarrow> 'p stream" where
  "stream_cancel c s =
     (let t = ch_topic (sm_chans s ! c);
          s = s\<lparr>sm_subs := (sm_subs s)(t := swap_remove c (sm_subs s t))\<rparr>
      in if ch_closed (sm_chans s ! c) then s\<lparr>sm_panic := True\<rparr>
         else s\<lparr>sm_chans := (sm_chans s)[c := (sm_chans s ! c)\<lparr>ch_closed := True\<rparr>]\<rparr>)"

subsection \<open>Publishing\<close>

text \<open>The copy of the subscribers; without any, nothing more happens.\<close>

definition publish_begin :: "topic \<Rightarrow> 'p \<Rightarrow> gotime \<Rightarrow> 'p stream \<Rightarrow> 'p stream" where
  "publish_begin t p now s =
     (if sm_subs s t = [] then s
      else s\<lparr>sm_pubs := sm_pubs s @
             [\<lparr>pb_event = \<lparr>ev_Topic = t, ev_Payload = p, ev_Timestamp = now\<rparr>,
               pb_targets = sm_subs s t, pb_phase = Sending\<rparr>]\<rparr>)"

definition put_buf :: "nat \<Rightarrow> 'p event list \<Rightarrow> 'p stream \<Rightarrow> 'p stream" where
  "put_buf c b s = s\<lparr>sm_chans := (sm_chans s)[c := (sm_chans s ! c)\<lparr>ch_buf := b\<rparr>]\<rparr>"

definition put_pub :: "nat \<Rightarrow> 'p publisher \<Rightarrow> 'p stream \<Rightarrow> 'p stream" where
  "put_pub i p s = s\<lparr>sm_pubs := (sm_pubs s)[i := p]\<rparr>"

definition next_target :: "'p publisher \<Rightarrow> 'p publisher" where
  "next_target p = p\<lparr>pb_targets := tl (pb_targets p), pb_phase := Sending\<rparr>"

definition publish_step :: "nat \<Rightarrow> 'p stream \<Rightarrow> 'p stream option" where
  "publish_step i s =
     (if length (sm_pubs s) \<le> i \<or> pb_targets (sm_pubs s ! i) = [] then None
      else
        let p = sm_pubs s ! i; c = hd (pb_targets p); ch = sm_chans s ! c; buf = ch_buf ch
        in Some (case pb_phase p of
             Sending \<Rightarrow>
               if ch_closed ch then s\<lparr>sm_panic := True\<rparr>
               else if length buf < sm_buffer s
               then put_pub i (next_target p) (put_buf c (buf @ [pb_event p]) s)
               else put_pub i (p\<lparr>pb_phase := Dropping\<rparr>) s
           | Dropping \<Rightarrow> put_pub i (p\<lparr>pb_phase := Resending\<rparr>) (put_buf c (tl buf) s)
           | Resending \<Rightarrow>
               if ch_closed ch then s\<lparr>sm_panic := True\<rparr>
               else if length buf < sm_buffer s
               then put_pub i (next_target p) (put_buf c (buf @ [pb_event p]) s)
               else put_pub i (next_target p) s))"

text \<open>If the context is done the first attempt may give up, and with it the whole publication.\<close>

definition publish_abort :: "nat \<Rightarrow> 'p stream \<Rightarrow> 'p stream option" where
  "publish_abort i s =
     (if length (sm_pubs s) \<le> i \<or> pb_targets (sm_pubs s ! i) = []
         \<or> pb_phase (sm_pubs s ! i) \<noteq> Sending then None
      else Some (put_pub i ((sm_pubs s ! i)\<lparr>pb_targets := []\<rparr>) s))"

subsection \<open>Runs\<close>

datatype 'p action =
  ASubscribe topic | ACancel nat | APublish topic 'p gotime | AStep nat | AAbort nat
| AReceive nat

fun stream_step :: "'p action \<Rightarrow> 'p stream \<Rightarrow> 'p stream option" where
  "stream_step a s =
     (if sm_panic s then None
      else case a of
        ASubscribe t \<Rightarrow> Some (snd (stream_subscribe t s))
      | ACancel c \<Rightarrow> if c < length (sm_chans s) then Some (stream_cancel c s) else None
      | APublish t p now \<Rightarrow> Some (publish_begin t p now s)
      | AStep i \<Rightarrow> publish_step i s
      | AAbort i \<Rightarrow> publish_abort i s
      | AReceive c \<Rightarrow>
          if c < length (sm_chans s) \<and> ch_buf (sm_chans s ! c) \<noteq> []
          then Some (put_buf c (tl (ch_buf (sm_chans s ! c))) s) else None)"

declare stream_step.simps [simp del]

inductive stream_reach :: "int64 \<Rightarrow> 'p stream \<Rightarrow> bool" for b where
  start: "stream_reach b (NewMemoryStream b)"
| step: "stream_reach b s \<Longrightarrow> stream_step a s = Some s' \<Longrightarrow> stream_reach b s'"

fun stream_run :: "'p action list \<Rightarrow> 'p stream \<Rightarrow> 'p stream option" where
  "stream_run [] s = Some s"
| "stream_run (a # as) s = (case stream_step a s of None \<Rightarrow> None | Some s' \<Rightarrow> stream_run as s')"

lemma stream_run_reach: "stream_reach b s \<Longrightarrow> stream_run as s = Some s' \<Longrightarrow> stream_reach b s'"
  by (induction as arbitrary: s) (auto split: option.splits intro: stream_reach.step)

subsection \<open>The invariant\<close>

text \<open>Buffers are within the bound and hold events of their topic only; the channels that are
  subscribed to a topic, and those that a publisher still has to serve, exist and are of that
  topic.\<close>

definition chan_ok :: "'p stream \<Rightarrow> topic \<Rightarrow> nat \<Rightarrow> bool" where
  "chan_ok s t c \<longleftrightarrow> c < length (sm_chans s) \<and> ch_topic (sm_chans s ! c) = t"

definition buf_ok :: "nat \<Rightarrow> 'p channel \<Rightarrow> bool" where
  "buf_ok n ch \<longleftrightarrow> length (ch_buf ch) \<le> n \<and> list_all (\<lambda>e. ev_Topic e = ch_topic ch) (ch_buf ch)"

definition stream_inv :: "'p stream \<Rightarrow> bool" where
  "stream_inv s \<longleftrightarrow>
     0 < sm_buffer s \<and> list_all (buf_ok (sm_buffer s)) (sm_chans s)
     \<and> list_all (\<lambda>p. list_all (chan_ok s (ev_Topic (pb_event p))) (pb_targets p)) (sm_pubs s)
     \<and> (\<forall>t. list_all (chan_ok s t) (sm_subs s t))"

lemma list_all_update: "list_all P xs \<Longrightarrow> P x \<Longrightarrow> list_all P (xs[i := x])"
  by (cases "i < length xs") (simp_all add: list_all_length nth_list_update list_update_beyond)

lemma swap_remove_set: "set (swap_remove c cs) \<subseteq> set cs"
  by (induction cs) (auto dest: in_set_butlastD)

lemma put_buf_topic: "ch_topic ((sm_chans s)[c := (sm_chans s ! c)\<lparr>ch_buf := b\<rparr>] ! d)
    = ch_topic (sm_chans s ! d)"
  by (cases "c < length (sm_chans s)"; cases "d = c")
    (simp_all add: not_less list_update_beyond)

lemma chan_ok_put [simp]:
  "chan_ok (put_pub i p s) = chan_ok s" "chan_ok (put_buf c b s) = chan_ok s"
  by (simp_all add: chan_ok_def put_pub_def put_buf_def put_buf_topic fun_eq_iff)

lemma inv_put_buf:
  assumes "stream_inv s" "c < length (sm_chans s)" "length b \<le> sm_buffer s"
    "list_all (\<lambda>e. ev_Topic e = ch_topic (sm_chans s ! c)) b"
  shows "stream_inv (put_buf c b s)"
proof -
  have "list_all (buf_ok (sm_buffer s)) ((sm_chans s)[c := (sm_chans s ! c)\<lparr>ch_buf := b\<rparr>])"
    using assms by (intro list_all_update) (simp_all add: stream_inv_def buf_ok_def)
  moreover have "chan_ok (put_buf c b s) = chan_ok s" by simp
  ultimately show ?thesis using assms(1)
    by (simp add: stream_inv_def) (simp add: put_buf_def)
qed

lemma inv_put_pub:
  assumes "stream_inv s" "list_all (chan_ok s (ev_Topic (pb_event p))) (pb_targets p)"
  shows "stream_inv (put_pub i p s)"
proof -
  have "list_all (\<lambda>p. list_all (chan_ok s (ev_Topic (pb_event p))) (pb_targets p)) ((sm_pubs s)[i := p])"
    using assms by (intro list_all_update) (simp_all add: stream_inv_def)
  with assms(1) show ?thesis
    by (simp add: stream_inv_def) (simp add: put_pub_def)
qed

lemma inv_nth:
  assumes "stream_inv s"
  shows "c < length (sm_chans s) \<Longrightarrow> buf_ok (sm_buffer s) (sm_chans s ! c)"
    "i < length (sm_pubs s) \<Longrightarrow>
      list_all (chan_ok s (ev_Topic (pb_event (sm_pubs s ! i)))) (pb_targets (sm_pubs s ! i))"
  using assms by (simp_all add: stream_inv_def list_all_length)

lemma list_all_tl: "list_all P xs \<Longrightarrow> list_all P (tl xs)"
  by (cases xs) simp_all

lemma inv_panic [simp]: "stream_inv (s\<lparr>sm_panic := p\<rparr>) = stream_inv s"
  by (simp add: stream_inv_def chan_ok_def [abs_def])

lemma inv_publish_step:
  assumes "stream_inv s" "publish_step i s = Some s'"
  shows "stream_inv s' \<and> sm_buffer s' = sm_buffer s"
proof -
  define p where "p = sm_pubs s ! i"
  define c where "c = hd (pb_targets p)"
  have i: "i < length (sm_pubs s)" and t: "pb_targets p \<noteq> []"
    using assms(2) by (auto simp: publish_step_def p_def split: if_splits)
  have all: "list_all (chan_ok s (ev_Topic (pb_event p))) (pb_targets p)"
    using inv_nth(2) [OF assms(1) i] by (simp add: p_def)
  then have c: "chan_ok s (ev_Topic (pb_event p)) c"
    using t by (cases "pb_targets p") (simp_all add: c_def)
  then have cl: "c < length (sm_chans s)" and ct: "ch_topic (sm_chans s ! c) = ev_Topic (pb_event p)"
    by (simp_all add: chan_ok_def)
  have b: "buf_ok (sm_buffer s) (sm_chans s ! c)" using inv_nth(1) [OF assms(1) cl] .
  have nx: "list_all (chan_ok s (ev_Topic (pb_event (next_target p)))) (pb_targets (next_target p))"
    using all by (simp add: next_target_def list_all_tl)
  have send: "stream_inv (put_pub i (next_target p) (put_buf c (ch_buf (sm_chans s ! c) @ [pb_event p]) s))"
    if "length (ch_buf (sm_chans s ! c)) < sm_buffer s"
    by (intro inv_put_pub inv_put_buf) (use assms(1) cl b that ct nx in \<open>simp_all add: buf_ok_def\<close>)
  have drop: "stream_inv (put_pub i (p\<lparr>pb_phase := Resending\<rparr>) (put_buf c (tl (ch_buf (sm_chans s ! c))) s))"
    by (intro inv_put_pub inv_put_buf) (use assms(1) cl b all in \<open>auto simp: buf_ok_def list_all_tl\<close>)
  have keep: "stream_inv (put_pub i (p\<lparr>pb_phase := Dropping\<rparr>) s)" "stream_inv (put_pub i (next_target p) s)"
    by (intro inv_put_pub assms(1), simp add: all, intro inv_put_pub assms(1) nx)
  have eq: "sm_buffer (put_pub i q r) = sm_buffer r" "sm_buffer (put_buf c bb r) = sm_buffer r" for q r bb
    by (simp_all add: put_pub_def put_buf_def)
  from assms(2) i t show ?thesis
    unfolding publish_step_def Let_def p_def [symmetric] c_def [symmetric]
    using assms(1) send drop keep
    by (auto simp: eq split: if_splits phase.splits)
qed

lemma chan_ok_append: "chan_ok s t c \<Longrightarrow> chan_ok (s\<lparr>sm_chans := sm_chans s @ cs\<rparr>) t c"
  by (simp add: chan_ok_def nth_append)

lemma chan_ok_frame [simp]:
  "chan_ok (s\<lparr>sm_subs := f\<rparr>) = chan_ok s" "chan_ok (s\<lparr>sm_pubs := ps\<rparr>) = chan_ok s"
  "chan_ok (s\<lparr>sm_panic := b\<rparr>) = chan_ok s"
  by (simp_all add: chan_ok_def fun_eq_iff)

lemma inv_subscribe: "stream_inv s \<Longrightarrow> stream_inv (snd (stream_subscribe t s))"
proof -
  assume i: "stream_inv s"
  let ?cs = "[\<lparr>ch_topic = t, ch_buf = [], ch_closed = False\<rparr>]"
  let ?s = "s\<lparr>sm_chans := sm_chans s @ ?cs\<rparr>"
  have "chan_ok ?s t (length (sm_chans s))" by (simp add: chan_ok_def)
  moreover have "chan_ok (s\<lparr>sm_chans := sm_chans s @ ?cs, sm_subs := g\<rparr>) = chan_ok ?s" for g
    by (simp add: chan_ok_def fun_eq_iff)
  ultimately show ?thesis
    using i by (auto simp: stream_inv_def stream_subscribe_def Let_def buf_ok_def list_all_iff
        intro!: chan_ok_append)
qed

lemma inv_cancel: "stream_inv s \<Longrightarrow> c < length (sm_chans s) \<Longrightarrow> stream_inv (stream_cancel c s)"
proof -
  assume i: "stream_inv s" and c: "c < length (sm_chans s)"
  let ?f = "(sm_subs s)(ch_topic (sm_chans s ! c) := swap_remove c (sm_subs s (ch_topic (sm_chans s ! c))))"
  let ?cs = "(sm_chans s)[c := (sm_chans s ! c)\<lparr>ch_closed := True\<rparr>]"
  have f: "list_all (chan_ok s t) (?f t)" for t
    using i swap_remove_set by (fastforce simp: stream_inv_def list_all_iff)
  have "list_all (buf_ok (sm_buffer s)) ?cs"
    using i inv_nth(1) [OF i c] by (intro list_all_update) (simp_all add: stream_inv_def buf_ok_def)
  moreover have "chan_ok (s\<lparr>sm_subs := ?f, sm_chans := ?cs\<rparr>) = chan_ok s"
    using c by (auto simp: chan_ok_def fun_eq_iff nth_list_update)
  ultimately show ?thesis
    using i f by (simp add: stream_cancel_def stream_inv_def Let_def)
qed

lemma inv_begin: "stream_inv s \<Longrightarrow> stream_inv (publish_begin t p now s)"
  by (simp add: publish_begin_def stream_inv_def)

lemma inv_abort: "stream_inv s \<Longrightarrow> publish_abort i s = Some s' \<Longrightarrow> stream_inv s'"
  by (auto simp: publish_abort_def split: if_splits intro!: inv_put_pub)

lemma inv_receive:
  "stream_inv s \<Longrightarrow> c < length (sm_chans s) \<Longrightarrow>
   stream_inv (put_buf c (tl (ch_buf (sm_chans s ! c))) s)"
  using inv_nth(1) [of s c] by (intro inv_put_buf) (auto simp: buf_ok_def list_all_tl)

lemma step_buffer: "stream_step a s = Some s' \<Longrightarrow> sm_buffer s' = sm_buffer s"
  by (auto simp: stream_step.simps stream_subscribe_def stream_cancel_def publish_begin_def
      publish_step_def publish_abort_def put_buf_def put_pub_def Let_def
      split: if_splits action.splits phase.splits)

lemma inv_step: "stream_inv s \<Longrightarrow> stream_step a s = Some s' \<Longrightarrow> stream_inv s'"
  by (cases a)
    (auto simp: stream_step.simps inv_subscribe inv_cancel inv_begin inv_receive
      dest: inv_publish_step inv_abort split: if_splits)

lemma inv_new: "stream_inv (NewMemoryStream b)"
  by (simp add: NewMemoryStream_def stream_inv_def)

lemma reach_inv:
  "stream_reach b s \<Longrightarrow> stream_inv s \<and> sm_buffer s = (if b \<le> 0 then 32 else nat b)"
proof (induction rule: stream_reach.induct)
  case start
  then show ?case by (simp add: inv_new) (simp add: NewMemoryStream_def)
next
  case (step s a s')
  then show ?case using inv_step step_buffer by metis
qed

end
