(* ===== verification/Props_Events.thy ===== *)
theory Props_Events
  imports Event_Stream
begin

text \<open>
  The properties of the in-memory event stream.
\<close>

text \<open>In every reachable state of the stream, however publishers, subscribers and
  cancellations interleave, a channel holds at most as many events as the configured buffer
  (32 by default), and only events of the topic it was subscribed to.\<close>

theorem stream_bounded_by_topic:
  assumes "stream_reach b s"
  shows "list_all (\<lambda>ch. length (ch_buf ch) \<le> (if b \<le> 0 then 32 else nat b)
    \<and> list_all (\<lambda>e. ev_Topic e = ch_topic ch) (ch_buf ch)) (sm_chans s)"
proof -
  have n: "sm_buffer s = (if b \<le> 0 then 32 else nat b)" and i: "stream_inv s"
    using reach_inv [OF assms] by blast+
  from i have "list_all (buf_ok (sm_buffer s)) (sm_chans s)" by (simp add: stream_inv_def)
  then show ?thesis unfolding buf_ok_def [abs_def] n .
qed

definition ex_actions :: "nat action list" where
  "ex_actions =
     [ASubscribe TopicTicker, APublish TopicTicker 1 0, AStep 0, APublish TopicTicker 2 0,
      AStep 1, AStep 1, AStep 1]"

lemma ex_actions_run: "stream_run ex_actions (NewMemoryStream 1) \<noteq> None"
  by code_simp

theorem stream_bounded_by_topic_witness:
  "list_all (\<lambda>ch. length (ch_buf ch) \<le> 1) (sm_chans (the (stream_run ex_actions (NewMemoryStream 1))))"
proof -
  obtain s where s: "stream_run ex_actions (NewMemoryStream 1) = Some s"
    using ex_actions_run by blast
  show ?thesis
    using stream_bounded_by_topic [OF stream_run_reach [OF stream_reach.start s]]
    by (simp add: s list_all_iff)
qed

subsection \<open>Publishing ends\<close>

text \<open>How many of its own steps a publisher has left at most.\<close>

fun phase_rank :: "phase \<Rightarrow> nat" where
  "phase_rank Sending = 0" | "phase_rank Dropping = 1" | "phase_rank Resending = 2"

definition pub_work :: "'p publisher \<Rightarrow> nat" where
  "pub_work p = (if pb_targets p = [] then 0 else 3 * length (pb_targets p) - phase_rank (pb_phase p))"

fun steps_of :: "nat \<Rightarrow> 'p action list \<Rightarrow> nat" where
  "steps_of i [] = 0"
| "steps_of i (a # as) = (case a of AStep j \<Rightarrow> if j = i then 1 else 0 | _ \<Rightarrow> 0) + steps_of i as"

lemma pub_work_next: "pb_targets p \<noteq> [] \<Longrightarrow> pub_work (next_target p) < pub_work p"
  by (cases "pb_targets p"; cases "pb_phase p"; auto simp: pub_work_def next_target_def)

lemma pub_work_pos: "pb_targets p \<noteq> [] \<Longrightarrow> 0 < pub_work p"
  by (cases "pb_targets p"; cases "pb_phase p"; auto simp: pub_work_def)

lemma put_sel [simp]:
  "sm_pubs (put_buf c b s) = sm_pubs s" "sm_pubs (put_pub i p s) = (sm_pubs s)[i := p]"
  "sm_panic (put_buf c b s) = sm_panic s" "sm_panic (put_pub i p s) = sm_panic s"
  by (simp_all add: put_buf_def put_pub_def)

lemma own_step_work:
  assumes "publish_step i s = Some s'"
  shows "sm_panic s' \<or> pub_work (sm_pubs s' ! i) < pub_work (sm_pubs s ! i)"
    "0 < pub_work (sm_pubs s ! i)" "length (sm_pubs s') = length (sm_pubs s)"
    "j \<noteq> i \<Longrightarrow> sm_pubs s' ! j = sm_pubs s ! j"
proof -
  define p where "p = sm_pubs s ! i"
  have i: "i < length (sm_pubs s)" and t: "pb_targets p \<noteq> []"
    using assms by (auto simp: publish_step_def p_def split: if_splits)
  obtain c cs where cs: "pb_targets p = c # cs" using t by (cases "pb_targets p") simp_all
  have "pub_work (p\<lparr>pb_phase := Dropping\<rparr>) < pub_work p" if "pb_phase p = Sending"
    using that cs by (simp add: pub_work_def)
  moreover have "pub_work (p\<lparr>pb_phase := Resending\<rparr>) < pub_work p" if "pb_phase p = Dropping"
    using that cs by (simp add: pub_work_def)
  ultimately show "sm_panic s' \<or> pub_work (sm_pubs s' ! i) < pub_work (sm_pubs s ! i)"
    using assms i t pub_work_next [OF t]
    by (auto simp: publish_step_def Let_def p_def [symmetric] split: if_splits phase.splits)
  show "0 < pub_work (sm_pubs s ! i)" using pub_work_pos t by (simp add: p_def)
  show "length (sm_pubs s') = length (sm_pubs s)" "j \<noteq> i \<Longrightarrow> sm_pubs s' ! j = sm_pubs s ! j"
    using assms by (auto simp: publish_step_def Let_def split: if_splits phase.splits)
qed

lemma other_step_work:
  assumes "stream_step a s = Some s'" "a \<noteq> AStep i" "i < length (sm_pubs s)"
  shows "pub_work (sm_pubs s' ! i) \<le> pub_work (sm_pubs s ! i) \<and> i < length (sm_pubs s')"
proof (cases a)
  case (AStep j)
  then have "publish_step j s = Some s'" "j \<noteq> i"
    using assms by (auto simp: stream_step.simps split: if_splits)
  with own_step_work(3) [of j s s'] own_step_work(4) [of j s s' i] assms(3) show ?thesis by simp
next
  case (AAbort j)
  then have "publish_abort j s = Some s'" using assms by (simp add: stream_step.simps split: if_splits)
  with assms(3) show ?thesis
    by (auto simp: publish_abort_def pub_work_def nth_list_update split: if_splits)
qed (use assms in \<open>auto simp: stream_step.simps stream_subscribe_def stream_cancel_def
      publish_begin_def Let_def nth_append split: if_splits\<close>)

lemma panic_stops: "sm_panic s \<Longrightarrow> stream_run as s = Some s' \<Longrightarrow> as = []"
  by (cases as) (auto simp: stream_step.simps)

text \<open>C35. A publication never blocks: whatever the others do in between, a publisher makes at most
  three steps for each channel it has to serve, so that every run contains only finitely many.\<close>

theorem publication_ends:
  assumes "stream_run as s = Some s'" "i < length (sm_pubs s)"
  shows "steps_of i as \<le> pub_work (sm_pubs s ! i)
    \<and> pub_work (sm_pubs s ! i) \<le> 3 * length (pb_targets (sm_pubs s ! i))"
proof -
  have "steps_of i as \<le> pub_work (sm_pubs s ! i)"
    using assms
  proof (induction as arbitrary: s)
    case (Cons a as)
    obtain s1 where st: "stream_step a s = Some s1" and run: "stream_run as s1 = Some s'"
      using Cons.prems(1) by (auto split: option.splits)
    show ?case
    proof (cases "a = AStep i")
      case True
      then have ps: "publish_step i s = Some s1" using st by (simp add: stream_step.simps split: if_splits)
      note w = own_step_work(1-3) [OF ps]
      show ?thesis
      proof (cases "sm_panic s1")
        case True
        then show ?thesis using panic_stops [OF True run] w(2) \<open>a = AStep i\<close> by simp
      next
        case False
        with w Cons.IH [OF run] Cons.prems(2) \<open>a = AStep i\<close> show ?thesis by simp
      qed
    next
      case False
      note w = other_step_work [OF st False Cons.prems(2)]
      have "steps_of i (a # as) = steps_of i as" using False by (cases a) simp_all
      with Cons.IH [OF run] w show ?thesis by simp
    qed
  qed simp
  then show ?thesis by (simp add: pub_work_def)
qed

definition ex_full :: "nat stream" where
  "ex_full = the (stream_run (take 4 ex_actions) (NewMemoryStream 1))"

lemma ex_full_run: "stream_run [AStep 1, AStep 1, AStep 1] ex_full \<noteq> None"
    "1 < length (sm_pubs ex_full)"
  by code_simp+

theorem publication_ends_witness: "3 \<le> pub_work (sm_pubs ex_full ! 1)"
  using ex_full_run publication_ends [of "[AStep 1, AStep 1, AStep 1]" ex_full _ 1] by auto

subsection \<open>Cancelling\<close>

fun is_cancel :: "'p action \<Rightarrow> bool" where
  "is_cancel (ACancel c) = True" | "is_cancel _ = False"

definition all_open :: "'p stream \<Rightarrow> bool" where
  "all_open s \<longleftrightarrow> list_all (\<lambda>ch. \<not> ch_closed ch) (sm_chans s) \<and> \<not> sm_panic s"

lemma all_open_put_buf: "all_open s \<Longrightarrow> all_open (put_buf c b s)"
  by (cases "c < length (sm_chans s)")
    (auto simp: all_open_def put_buf_def list_update_beyond not_less list_all_length nth_list_update)

lemma all_open_put_pub [simp]: "all_open (put_pub i p s) = all_open s"
  by (simp add: all_open_def put_pub_def)

lemma all_open_step:
  assumes "all_open s" "stream_inv s" "stream_step a s = Some s'" "\<not> is_cancel a"
  shows "all_open s'"
proof (cases a)
  case (AStep i)
  then have ps: "publish_step i s = Some s'" using assms(3) by (simp add: stream_step.simps split: if_splits)
  then have i: "i < length (sm_pubs s)" "pb_targets (sm_pubs s ! i) \<noteq> []"
    by (auto simp: publish_step_def split: if_splits)
  define c where "c = hd (pb_targets (sm_pubs s ! i))"
  have "chan_ok s (ev_Topic (pb_event (sm_pubs s ! i))) c"
    using inv_nth(2) [OF assms(2) i(1)] i(2) by (cases "pb_targets (sm_pubs s ! i)") (simp_all add: c_def)
  then have "c < length (sm_chans s)" by (simp add: chan_ok_def)
  then have "\<not> ch_closed (sm_chans s ! c)" using assms(1) by (simp add: all_open_def list_all_length)
  then show ?thesis using ps assms(1)
    by (auto simp: publish_step_def Let_def c_def [symmetric] all_open_put_buf split: if_splits phase.splits)
next
  case (AAbort i)
  then show ?thesis using assms by (auto simp: stream_step.simps publish_abort_def split: if_splits)
next
  case (AReceive c)
  then show ?thesis using assms by (auto simp: stream_step.simps all_open_put_buf split: if_splits)
qed (use assms in \<open>auto simp: stream_step.simps stream_subscribe_def publish_begin_def all_open_def
      Let_def split: if_splits\<close>)

lemma all_open_run:
  "all_open s \<Longrightarrow> stream_inv s \<Longrightarrow> stream_run as s = Some s' \<Longrightarrow> list_all (\<lambda>a. \<not> is_cancel a) as
    \<Longrightarrow> all_open s'"
proof (induction as arbitrary: s)
  case (Cons a as)
  obtain s1 where st: "stream_step a s = Some s1" and run: "stream_run as s1 = Some s'"
    using Cons.prems(3) by (auto split: option.splits)
  have "\<not> is_cancel a" "list_all (\<lambda>a. \<not> is_cancel a) as" using Cons.prems(4) by simp_all
  with Cons.IH [OF _ _ run] all_open_step [OF Cons.prems(1,2) st] inv_step [OF Cons.prems(2) st]
  show ?case by blast
qed simp

text \<open>C36. Only cancelling can crash the program: as long as no subscription is cancelled no run of
  the stream panics.  But a cancellation between the copy of the list of subscribers and the
  send does (the send hits a closed channel), and so does cancelling twice.\<close>

theorem only_cancel_panics:
  assumes "stream_run as (NewMemoryStream b) = Some s" "list_all (\<lambda>a. \<not> is_cancel a) as"
  shows "\<not> sm_panic s
    \<and> map_option sm_panic (stream_run [ASubscribe t, APublish t p now, ACancel 0, AStep 0]
         (NewMemoryStream b)) = Some True
    \<and> map_option sm_panic (stream_run [ASubscribe t, ACancel 0, ACancel 0]
         (NewMemoryStream b)) = Some True"
proof -
  have "all_open (NewMemoryStream b)" by (simp add: all_open_def NewMemoryStream_def)
  from all_open_run [OF this inv_new assms] have "\<not> sm_panic s" by (simp add: all_open_def)
  then show ?thesis
    by (simp add: stream_step.simps stream_subscribe_def publish_begin_def stream_cancel_def
        publish_step_def NewMemoryStream_def Let_def)
qed

theorem only_cancel_panics_witness:
  "\<not> sm_panic (the (stream_run ex_actions (NewMemoryStream 1)))"
proof -
  obtain s where s: "stream_run ex_actions (NewMemoryStream 1) = Some s"
    using ex_actions_run by blast
  have "list_all (\<lambda>a. \<not> is_cancel a) ex_actions" by (simp add: ex_actions_def)
  from conjunct1 [OF only_cancel_panics [OF s this]] s show ?thesis by simp
qed

subsection \<open>What a slow subscriber sees\<close>

text \<open>A publication that nobody interferes with: its own steps until it is done.\<close>

fun finish_pub :: "nat \<Rightarrow> nat \<Rightarrow> 'p stream \<Rightarrow> 'p stream" where
  "finish_pub 0 i s = s"
| "finish_pub (Suc n) i s = (case publish_step i s of None \<Rightarrow> s | Some s' \<Rightarrow> finish_pub n i s')"

definition publish_alone :: "topic \<Rightarrow> 'p \<times> gotime \<Rightarrow> 'p stream \<Rightarrow> 'p stream" where
  "publish_alone t e s =
     (let s1 = publish_begin t (fst e) (snd e) s
      in finish_pub (3 * length (sm_subs s t)) (length (sm_pubs s)) s1)"

definition serve :: "nat \<Rightarrow> 'p event \<Rightarrow> 'p event list \<Rightarrow> 'p event list" where
  "serve n e b = (if length b < n then b @ [e] else tl b @ [e])"

definition lone_subscriber :: "topic \<Rightarrow> nat \<Rightarrow> 'p stream \<Rightarrow> bool" where
  "lone_subscriber t c s \<longleftrightarrow>
     sm_subs s t = [c] \<and> c < length (sm_chans s) \<and> \<not> ch_closed (sm_chans s ! c)
     \<and> 0 < sm_buffer s \<and> length (ch_buf (sm_chans s ! c)) \<le> sm_buffer s"

definition event_of :: "topic \<Rightarrow> 'p \<times> gotime \<Rightarrow> 'p event" where
  "event_of t e = \<lparr>ev_Topic = t, ev_Payload = fst e, ev_Timestamp = snd e\<rparr>"

lemma publish_alone_serve:
  assumes "lone_subscriber t c s"
  shows "ch_buf (sm_chans (publish_alone t e s) ! c)
      = serve (sm_buffer s) (event_of t e) (ch_buf (sm_chans s ! c))"
    "lone_subscriber t c (publish_alone t e s)" "sm_buffer (publish_alone t e s) = sm_buffer s"
proof -
  let ?b = "ch_buf (sm_chans s ! c)" let ?i = "length (sm_pubs s)"
  let ?s1 = "publish_begin t (fst e) (snd e) s"
  let ?s2 = "put_buf c (serve (sm_buffer s) (event_of t e) ?b) ?s1"
  have eq: "\<exists>ps. publish_alone t e s = ?s2\<lparr>sm_pubs := ps\<rparr>"
  proof (cases "length ?b < sm_buffer s")
    case True
    then show ?thesis using assms
      by (auto simp: publish_alone_def publish_begin_def lone_subscriber_def publish_step_def
          event_of_def serve_def put_pub_def put_buf_def next_target_def Let_def eval_nat_numeral)
  next
    case False
    then have "?b \<noteq> []" using assms by (auto simp: lone_subscriber_def)
    then show ?thesis using assms False
      by (auto simp: publish_alone_def publish_begin_def lone_subscriber_def publish_step_def
          event_of_def serve_def put_pub_def put_buf_def next_target_def Let_def eval_nat_numeral)
  qed
  then obtain ps where ps: "publish_alone t e s = ?s2\<lparr>sm_pubs := ps\<rparr>" by blast
  show "ch_buf (sm_chans (publish_alone t e s) ! c) = serve (sm_buffer s) (event_of t e) ?b"
    "lone_subscriber t c (publish_alone t e s)" "sm_buffer (publish_alone t e s) = sm_buffer s"
    using assms by (auto simp: ps lone_subscriber_def put_buf_def publish_begin_def serve_def)
qed

lemma fold_serve:
  assumes "0 < n" "length b \<le> n"
  shows "fold (serve n) es b = drop (length b + length es - n) (b @ es)"
  using assms
proof (induction es arbitrary: b)
  case (Cons e es)
  show ?case
  proof (cases "length b < n")
    case True
    then show ?thesis using Cons.IH [of "b @ [e]"] Cons.prems by (simp add: serve_def del: drop_append)
  next
    case False
    then obtain x xs where b: "b = x # xs" "length b = n" using Cons.prems by (cases b) auto
    then have "fold (serve n) es (xs @ [e]) = drop (length es) (xs @ [e] @ es)"
      using Cons.IH [of "xs @ [e]"] Cons.prems by simp
    moreover have "serve n e b = xs @ [e]" using b by (simp add: serve_def)
    ultimately show ?thesis using b by simp
  qed
qed simp

lemma slow_subscriber_buffer:
  assumes "lone_subscriber t c s"
  shows "ch_buf (sm_chans (fold (publish_alone t) es s) ! c) =
    (let all = ch_buf (sm_chans s ! c) @ map (event_of t) es
     in drop (length all - sm_buffer s) all)"
proof -
  have "ch_buf (sm_chans (fold (publish_alone t) es s) ! c)
      = fold (serve (sm_buffer s)) (map (event_of t) es) (ch_buf (sm_chans s ! c))"
    using assms
  proof (induction es arbitrary: s)
    case (Cons e es)
    then show ?case using publish_alone_serve [OF Cons.prems, of e] by simp
  qed simp
  with fold_serve [of "sm_buffer s" "ch_buf (sm_chans s ! c)" "map (event_of t) es"] assms
  show ?thesis by (simp add: lone_subscriber_def Let_def del: drop_append)
qed

text \<open>C37. The only subscriber of a topic, if it does not read, loses the oldest events and nothing
  else as long as the events are published one after the other, each to its end: its channel then
  holds, in order, the last events that fit.  Two publications at the same time can lose the
  newest event instead: the one that has dropped the oldest to make room finds the room taken by
  the other and gives up (here the third of three events, on a channel for one).\<close>

theorem slow_subscriber_keeps_newest:
  assumes "lone_subscriber t c s"
  shows "ch_buf (sm_chans (fold (publish_alone t) es s) ! c) =
      (let all = ch_buf (sm_chans s ! c) @ map (event_of t) es
       in drop (length all - sm_buffer s) all)
    \<and> map_option (\<lambda>s'. map ev_Payload (ch_buf (sm_chans s' ! 0)))
        (stream_run [ASubscribe t, APublish t p0 now, AStep 0, APublish t p1 now, APublish t p2 now,
           AStep 2, AStep 2, AStep 1, AStep 2] (NewMemoryStream 1)) = Some [p1]"
proof (rule conjI)
  show "ch_buf (sm_chans (fold (publish_alone t) es s) ! c) =
      (let all = ch_buf (sm_chans s ! c) @ map (event_of t) es
       in drop (length all - sm_buffer s) all)"
    by (rule slow_subscriber_buffer [OF assms])
qed (simp add: stream_step.simps stream_subscribe_def publish_begin_def publish_step_def put_buf_def
    put_pub_def next_target_def NewMemoryStream_def Let_def eval_nat_numeral)

theorem slow_subscriber_keeps_newest_witness:
  "map ev_Payload (ch_buf (sm_chans (fold (publish_alone TopicTicker) [(1, 0), (2, 0), (3 :: nat, 0)]
     (snd (stream_subscribe TopicTicker (NewMemoryStream 2)))) ! 0)) = [2, 3]"
proof -
  have "lone_subscriber TopicTicker 0 (snd (stream_subscribe TopicTicker (NewMemoryStream 2 :: nat stream)))"
    by (simp add: lone_subscriber_def stream_subscribe_def NewMemoryStream_def Let_def)
  from conjunct1 [OF slow_subscriber_keeps_newest [OF this, of "[(1, 0), (2, 0), (3, 0)]"]]
  show ?thesis by (simp add: event_of_def stream_subscribe_def NewMemoryStream_def Let_def)
qed

end
