(* ===== verification/Executor_Steps.thy ===== *)
theory Executor_Steps
  imports Executor_Facts
begin

text \<open>
  The executor as a goroutine among others.  \<open>executeIntent\<close> holds no lock, so that other
  goroutines run between any two of its operations: here it is cut into steps, one for each gate
  and one each for preparing the call, for counting and publishing the result, for storing the
  trade and for publishing it.  What the code reads once and keeps - the control state and the
  configuration at the beginning, the prepared intent later - is in the job that is under way;
  the state of the bot is whatever the other goroutines have made of it by then.

  The answers of clock, network and file system over the whole execution are the input of the
  job; they are arbitrary, so it makes no difference that they are chosen when it begins.
\<close>

datatype exec_stage =
  AtEvaluate | AtMode | AtState | AtExpired | AtMarket | AtManager | AtPool
| AtPrepare | AtResult | AtSave | AtPublish

record exec_job =
  jb_input :: exec_input
  jb_meta :: v1_meta
  jb_intent :: intent
  jb_stage :: exec_stage

text \<open>The loop waits for an intent, has one in its hands, or executes it.\<close>

datatype executor = Idle | Taken intent | Running exec_job

definition begin_intent :: "exec_input \<Rightarrow> gotime \<Rightarrow> intent \<Rightarrow> exec_world \<Rightarrow> executor" where
  "begin_intent x now it w =
     (if ShouldThrottle now (2 * second) (xw_risk w) then Idle
      else let it = non_nil_meta it
           in Running \<lparr>jb_input = x, jb_meta = v1_meta_of x it, jb_intent = it, jb_stage = AtEvaluate\<rparr>)"

definition continue_at :: "exec_stage \<Rightarrow> exec_job \<Rightarrow> gate_out \<Rightarrow> exec_world \<times> executor" where
  "continue_at st j g =
     (case g of Stop w \<Rightarrow> (w, Idle) | Go w \<Rightarrow> (w, Running (j\<lparr>jb_stage := st\<rparr>)))"

definition job_trade :: "exec_job \<Rightarrow> trade_record" where
  "job_trade j = trade_of (jb_input j) (jb_meta j) (jb_intent j)"

text \<open>One step; \<open>oc\<close> is the price of the pool at the time of the evaluation.\<close>

fun stage_step ::
    "onchain_price option \<Rightarrow> exec_stage \<Rightarrow> exec_job \<Rightarrow> exec_world \<Rightarrow> exec_world \<times> executor" where
  "stage_step oc AtEvaluate j w =
     continue_at AtMode j (gate_evaluate ((jb_input j)\<lparr>xi_onchain := oc\<rparr>) (jb_meta j) (jb_intent j) w)"
| "stage_step oc AtMode j w = continue_at AtState j (gate_control_mode (jb_input j) (jb_meta j) w)"
| "stage_step oc AtState j w = continue_at AtExpired j (gate_control_state (jb_input j) (jb_meta j) w)"
| "stage_step oc AtExpired j w = continue_at AtMarket j (gate_expired (jb_input j) (jb_meta j) w)"
| "stage_step oc AtMarket j w = continue_at AtManager j (gate_market (jb_input j) (jb_meta j) w)"
| "stage_step oc AtManager j w = continue_at AtPool j (gate_manager (jb_meta j) w)"
| "stage_step oc AtPool j w =
     continue_at AtPrepare j (gate_poolguard (jb_input j) (jb_meta j) (jb_intent j) w)"
| "stage_step oc AtPrepare j w =
     (case swap_prepared (jb_input j) (jb_intent j) of
        (it, Some e) \<Rightarrow> (record_exec_failure (jb_input j) it w, Idle)
      | (it, None) \<Rightarrow> (w, Running (j\<lparr>jb_intent := it, jb_stage := AtResult\<rparr>)))"
| "stage_step oc AtResult j w =
     (simulate_execution (jb_input j) (jb_meta j) (jb_intent j) w, Running (j\<lparr>jb_stage := AtSave\<rparr>))"
| "stage_step oc AtSave j w =
     (store_trade (jb_input j) (job_trade j) w, Running (j\<lparr>jb_stage := AtPublish\<rparr>))"
| "stage_step oc AtPublish j w = (publish_trade (jb_input j) (job_trade j) w, Idle)"

definition job_step :: "onchain_price option \<Rightarrow> exec_job \<Rightarrow> exec_world \<Rightarrow> exec_world \<times> executor" where
  "job_step oc j w = stage_step oc (jb_stage j) j w"

subsection \<open>Without interruption the steps are the handler\<close>

fun run_job :: "onchain_price option \<Rightarrow> nat \<Rightarrow> exec_world \<Rightarrow> executor \<Rightarrow> exec_world \<times> executor" where
  "run_job oc (Suc n) w (Running j) = (let (w, e) = job_step oc j w in run_job oc n w e)"
| "run_job oc n w e = (w, e)"

lemma run_job_idle [simp]: "run_job oc n w Idle = (w, Idle)"
  by (cases n) simp_all

lemma run_end:
  "run_job oc (Suc (Suc (Suc (Suc n)))) w (Running (j\<lparr>jb_stage := AtPrepare\<rparr>))
     = (world_of (gate_execute (jb_input j) (jb_meta j) (jb_intent j) w), Idle)"
  by (simp add: job_step_def gate_execute_def swap_prepared_def job_trade_def case_prod_beta Let_def
      split: option.split)

lemma eleven: "11 = Suc (Suc (Suc (Suc (Suc (Suc (Suc (Suc (Suc (Suc (Suc 0))))))))))"
  by simp

lemma run_gate:
  assumes "\<And>w. run_job oc n w (Running (j\<lparr>jb_stage := st'\<rparr>)) = (world_of (f w), Idle)"
    "\<And>w. stage_step oc st (j\<lparr>jb_stage := st\<rparr>) w = continue_at st' (j\<lparr>jb_stage := st\<rparr>) (g w)"
  shows "run_job oc (Suc n) w (Running (j\<lparr>jb_stage := st\<rparr>)) = (world_of (then_gate (g w) f), Idle)"
  using assms by (simp add: job_step_def continue_at_def split: gate_out.split)

lemma run_all:
  assumes "oc = xi_onchain (jb_input j)"
  shows "run_job oc 11 w (Running (j\<lparr>jb_stage := AtEvaluate\<rparr>)) =
     (world_of (then_gate (gate_evaluate (jb_input j) (jb_meta j) (jb_intent j) w) (\<lambda>w.
        then_gate (gate_control_mode (jb_input j) (jb_meta j) w) (\<lambda>w.
        then_gate (gate_control_state (jb_input j) (jb_meta j) w) (\<lambda>w.
        then_gate (gate_expired (jb_input j) (jb_meta j) w) (\<lambda>w.
        then_gate (gate_market (jb_input j) (jb_meta j) w) (\<lambda>w.
        then_gate (gate_manager (jb_meta j) w) (\<lambda>w.
        then_gate (gate_poolguard (jb_input j) (jb_meta j) (jb_intent j) w) (\<lambda>w.
        gate_execute (jb_input j) (jb_meta j) (jb_intent j) w)))))))), Idle)" (is "_ = (world_of (then_gate (?ev w) ?rest), Idle)")
proof -
  have x: "(jb_input j)\<lparr>xi_onchain := oc\<rparr> = jb_input j" using assms by simp
  have "run_job oc (Suc (Suc (Suc (Suc (Suc (Suc (Suc (Suc (Suc (Suc (Suc 0))))))))))) w
      (Running (j\<lparr>jb_stage := AtEvaluate\<rparr>)) = (world_of (then_gate (?ev w) ?rest), Idle)"
    by (rule run_gate, rule run_gate, rule run_gate, rule run_gate, rule run_gate, rule run_gate,
        rule run_gate, rule run_end) (simp_all add: x)
  then show ?thesis by (simp only: eleven)
qed

text \<open>The reference for the interleaved executor: undisturbed, an intent takes eleven steps at
  most, and they do what \<open>executor_step\<close> does.\<close>

theorem uninterrupted_execution:
  "run_job (xi_onchain x) 11 w (begin_intent x now it w) = (fst (executor_step x now it w), Idle)"
proof (cases "ShouldThrottle now (2 * second) (xw_risk w)")
  case False
  let ?it = "non_nil_meta it"
  let ?j = "\<lparr>jb_input = x, jb_meta = v1_meta_of x ?it, jb_intent = ?it, jb_stage = AtEvaluate\<rparr>"
  have "begin_intent x now it w = Running (?j\<lparr>jb_stage := AtEvaluate\<rparr>)"
    using False by (simp add: begin_intent_def Let_def)
  with False run_all [of "xi_onchain x" ?j w] show ?thesis
    by (simp add: executor_step_def executeIntent_def Let_def)
qed (simp add: begin_intent_def executor_step_def)

subsection \<open>What a step does\<close>

fun next_stage :: "exec_stage \<Rightarrow> exec_stage" where
  "next_stage AtEvaluate = AtMode" | "next_stage AtMode = AtState" | "next_stage AtState = AtExpired"
| "next_stage AtExpired = AtMarket" | "next_stage AtMarket = AtManager" | "next_stage AtManager = AtPool"
| "next_stage AtPool = AtPrepare" | "next_stage AtPrepare = AtResult" | "next_stage AtResult = AtSave"
| "next_stage AtSave = AtPublish" | "next_stage AtPublish = AtPublish"

text \<open>Past the gates of the control file a job has been let through by them.\<close>

definition mode_stops :: "exec_input \<Rightarrow> bool" where
  "mode_stops x \<longleftrightarrow> trim_space (cs_RiskMode (control_of x)) \<notin> {[], ''SAFE''}"

definition job_ok :: "exec_job \<Rightarrow> bool" where
  "job_ok j \<longleftrightarrow>
     (jb_stage j \<notin> {AtEvaluate, AtMode} \<longrightarrow> \<not> mode_stops (jb_input j))
     \<and> (jb_stage j \<notin> {AtEvaluate, AtMode, AtState} \<longrightarrow> \<not> control_stops (jb_input j))"

lemma continue_running:
  "continue_at st j g = (w', Running j') \<longleftrightarrow> \<not> is_stop g \<and> w' = world_of g \<and> j' = j\<lparr>jb_stage := st\<rparr>"
  by (auto simp: continue_at_def split: gate_out.split)

lemma continue_world: "fst (continue_at st j g) = world_of g"
  by (simp add: continue_at_def split: gate_out.split)

lemma stage_next:
  assumes "stage_step oc (jb_stage j) j w = (w', Running j')"
  shows "jb_input j' = jb_input j" "jb_meta j' = jb_meta j" "jb_stage j' = next_stage (jb_stage j)"
    "jb_stage j \<noteq> AtPrepare \<Longrightarrow> jb_intent j' = jb_intent j"
    "job_ok j \<Longrightarrow> job_ok j'"
  using assms
  by (cases "jb_stage j"; auto simp: continue_running control_gates mode_stops_def control_stops_def
      job_ok_def split: prod.splits option.splits)+

lemma job_next:
  assumes "job_step oc j w = (w', Running j')"
  shows "jb_input j' = jb_input j" "jb_meta j' = jb_meta j" "jb_stage j' = next_stage (jb_stage j)"
    "jb_stage j \<noteq> AtPrepare \<Longrightarrow> jb_intent j' = jb_intent j"
    "job_ok j \<Longrightarrow> job_ok j'"
  using stage_next [OF assms [unfolded job_step_def]] by blast+

lemma job_begun: "begin_intent x now it w = Running j \<Longrightarrow> jb_input j = x \<and> job_ok j"
  by (auto simp: begin_intent_def job_ok_def Let_def split: if_splits)

text \<open>Trades are stored in one step and published in the next; nothing else touches them.\<close>

lemma job_step_trades:
  assumes "job_step oc j w = (w', e)"
  shows "xw_trades w' = xw_trades w @ (if jb_stage j = AtSave then saved_of (jb_input j) [job_trade j] else [])"
    "xw_published w' =
       xw_published w @ (if jb_stage j = AtPublish then delivered_of (jb_input j) [job_trade j] else [])"
proof -
  have w': "w' = fst (stage_step oc (jb_stage j) j w)" using assms by (simp add: job_step_def)
  have keep: "xw_trades w2 = xw_trades w \<and> xw_published w2 = xw_published w"
    if "ledger w2 = (xw_trades w, xw_published w, m, es)" for w2 m es
    using that by (simp add: ledger_def)
  have same: "xw_trades w2 = xw_trades w \<and> xw_published w2 = xw_published w"
    if "ledger w2 = ledger w" for w2
    using that by (simp add: ledger_def)
  note frames = same [OF gate_evaluate_ledger] same [OF control_gates(1)] same [OF control_gates(2)]
    same [OF gate_expired_props(1)] same [OF gate_market_props(1)] keep [OF gate_manager_props(2)]
    same [OF gate_poolguard_props(1)] keep [OF record_exec_ledger(1)] keep [OF simulate_execution_ledger]
    ledger_fields [OF record_trade_ledger(1)] ledger_fields [OF record_trade_ledger(2)]
  show "xw_trades w' = xw_trades w @ (if jb_stage j = AtSave then saved_of (jb_input j) [job_trade j] else [])"
    unfolding w' by (cases "jb_stage j") (simp_all add: continue_world frames split: prod.split option.split)
  show "xw_published w' =
      xw_published w @ (if jb_stage j = AtPublish then delivered_of (jb_input j) [job_trade j] else [])"
    unfolding w' by (cases "jb_stage j") (simp_all add: continue_world frames split: prod.split option.split)
qed

lemma job_trade_simulated:
  "tr_IsSimulation (job_trade j)" "tr_Status (job_trade j) = ''simulated''"
  by (simp_all add: job_trade_def trade_of_def)

end
