(* ===== verification/Decision_Loop.thy ===== *)
theory Decision_Loop
  imports Executor_Steps V3_Rebalance Intent_Queue File_Control
begin

text \<open>
  The main loop of cmd/bot: the select over price events, pool events and the decision ticker.
  A tick loads the control file, publishes the risk level of the market, and - if nothing
  blocks - evaluates the V3 strategy or the mock strategy and puts what it wants into the queue.

  The local variables of \<open>main\<close> that the loop reads again are the record \<open>bot\<close>; the world of
  the executor, with the API server and the event log, is part of it.  Everything a tick only
  reads is in \<open>tick_input\<close>, with a number for each read of the clock in one tick.  Lines that
  only write to the log are left out, and with them the variables \<open>lastDecision...\<close>, which only
  decide what is logged, and \<open>currentPos\<close>, which is written but never read.
\<close>

subsection \<open>State and input\<close>

record eval_memory =
  em_EvalAt :: gotime
  em_EvalAction :: string
  em_EvalReason :: string
  em_IntentType :: string
  em_IntentSummary :: string
  em_IntentFields :: "jmap option"
  em_PosSource :: string
  em_PosLower :: int64
  em_PosUpper :: int64
  em_PosTokenID :: nat
  em_PosUpdatedAt :: gotime

record bot =
  bt_runID :: string
  bt_cfg :: app_config
  bt_loader :: loader
  bt_control :: control_state
  bt_shared :: control_state
  bt_memory :: eval_memory
  bt_v3 :: v3_strategy
  bt_exec :: executor
  bt_mock :: mock_strategy
  bt_poolTick :: int64
  bt_cexPrice :: float64
  bt_dexPrice :: float64
  bt_dexReady :: bool
  bt_onchain :: "onchain_price option"
  bt_dec0 :: int64
  bt_dec1 :: int64
  bt_queue :: pqueue
  bt_world :: exec_world

text \<open>\<open>bt_cfg\<close> is \<open>cfgValue\<close>, \<open>bt_control\<close> the variable \<open>controlState\<close> of the loop, \<open>bt_shared\<close> the atomic value that
  the executor reads.\<close>

record tick_input =
  ti_env :: environ
  ti_clock :: "nat \<Rightarrow> gotime"
  ti_faults :: faults
  ti_disk :: "control_state disk"
  ti_snap :: market_snapshot
  ti_serverSnap :: "nat \<Rightarrow> market_snapshot"
  ti_fetch :: "string \<Rightarrow> string \<Rightarrow> int \<Rightarrow> (int64 \<times> int64 \<times> gotime) option"
  ti_hash8 :: "string \<Rightarrow> string"
  ti_json :: "intent \<Rightarrow> string option"

definition empty_memory :: eval_memory where
  "empty_memory =
     \<lparr>em_EvalAt = 0, em_EvalAction = [], em_EvalReason = [], em_IntentType = [],
      em_IntentSummary = [], em_IntentFields = None, em_PosSource = [], em_PosLower = 0,
      em_PosUpper = 0, em_PosTokenID = 0, em_PosUpdatedAt = 0\<rparr>"

text \<open>The decimals of the first pool, and the state before the first event: the tick is the
  middle of a made-up position, the price a default.\<close>

definition pool_decimals :: "app_config \<Rightarrow> int64 \<times> int64" where
  "pool_decimals cfg =
     (case ap_Pools cfg of [] \<Rightarrow> (18, 18)
      | p # ps \<Rightarrow> (if 0 < pc_Token0Decimals p then pc_Token0Decimals p else 18,
                  if 0 < pc_Token1Decimals p then pc_Token1Decimals p else 18))"

definition mock_position :: current_position where
  "mock_position = \<lparr>cp_LowerTick = 200000, cp_UpperTick = 202000, cp_Liquidity = Fin 1000\<rparr>"

definition initial_bot :: "string \<Rightarrow> string \<Rightarrow> app_config \<Rightarrow> exec_world \<Rightarrow> bot" where
  "initial_bot runID movePct cfg w =
     \<lparr>bt_runID = runID, bt_cfg = cfg, bt_loader = new_loader, bt_control = control_default,
      bt_shared = control_default, bt_memory = empty_memory, bt_v3 = NewV3RebalanceStrategy,
      bt_exec = Idle,
      bt_mock = NewMockRebalanceStrategyFromEnv movePct,
      bt_poolTick = div64 (add64 (cp_LowerTick mock_position) (cp_UpperTick mock_position)) 2,
      bt_cexPrice = Fin 2005, bt_dexPrice = Fin 2005, bt_dexReady = False, bt_onchain = None,
      bt_dec0 = fst (pool_decimals cfg), bt_dec1 = snd (pool_decimals cfg),
      bt_queue = NewIntentQueue, bt_world = w\<rparr>"

text \<open>\<open>PHOENIX_FORCE_DRY_RUN\<close> and \<open>PHOENIX_AUTO_EVAL\<close> force a dry run when the bot starts.\<close>

definition startup_config :: "environ \<Rightarrow> app_config \<Rightarrow> app_config" where
  "startup_config env cfg =
     (let dry = cfg\<lparr>ap_Strategy := (ap_Strategy cfg)\<lparr>sc_DryRun := True\<rparr>\<rparr>;
          c1 = (if env ''PHOENIX_FORCE_DRY_RUN'' = ''1'' \<and> \<not> sc_DryRun (ap_Strategy cfg)
                then dry else cfg)
      in if env ''PHOENIX_AUTO_EVAL'' = ''1'' \<and> env ''PHOENIX_ALLOW_LIVE'' \<noteq> ''1''
            \<and> \<not> sc_DryRun (ap_Strategy c1)
         then dry else c1)"

subsection \<open>Price and pool events\<close>

text \<open>A payload is a value of the type that is expected, a pointer to one, bytes that
  \<open>json.Unmarshal\<close> decodes or not, or anything else.\<close>

datatype 'a payload = Plain 'a | Pointer 'a | Bytes "'a option" | RawMessage "'a option" | Foreign

fun decode_payload :: "'a payload \<Rightarrow> 'a option" where
  "decode_payload (Plain v) = Some v"
| "decode_payload (Pointer v) = Some v"
| "decode_payload (Bytes d) = d"
| "decode_payload (RawMessage d) = d"
| "decode_payload Foreign = None"

definition decodeTicker :: "ticker payload \<Rightarrow> ticker option" where
  "decodeTicker p = decode_payload p"

record pool_event =
  pe_ChainID :: int64
  pe_PoolAddress :: string
  pe_CurrentTick :: int64
  pe_Liquidity :: string

definition decodePoolState :: "pool_event payload \<Rightarrow> pool_event option" where
  "decodePoolState p = decode_payload p"

definition tickToDexPrice ::
    "(float64 \<Rightarrow> float64 \<Rightarrow> float64) \<Rightarrow> int64 \<Rightarrow> int64 \<Rightarrow> int64 \<Rightarrow> float64" where
  "tickToDexPrice pow tick dec0 dec1 =
     (let price = f_mul (pow (f_lit (10001 / 10000)) (f_of_int tick))
                    (pow (Fin 10) (f_of_int (sub64 dec0 dec1)))
      in if f_le price (Fin 0) then Fin 0 else f_div (Fin 1) price)"

definition on_price :: "gotime \<Rightarrow> ticker payload \<Rightarrow> bot \<Rightarrow> bot" where
  "on_price now p b =
     (case decodeTicker p of None \<Rightarrow> b
      | Some t \<Rightarrow> b\<lparr>bt_world := on_server (UpdateCEXPrice now t) (bt_world b),
                   bt_cexPrice := tk_Price t\<rparr>)"

definition on_pool ::
    "(float64 \<Rightarrow> float64 \<Rightarrow> float64) \<Rightarrow> gotime \<Rightarrow> pool_event payload \<Rightarrow> bot \<Rightarrow> bot" where
  "on_pool pow now p b =
     (case decodePoolState p of None \<Rightarrow> b
      | Some e \<Rightarrow>
          let tick = pe_CurrentTick e; px = tickToDexPrice pow tick (bt_dec0 b) (bt_dec1 b);
              b = (if f_lt (Fin 0) px
                   then b\<lparr>bt_dexPrice := px, bt_dexReady := True,
                          bt_onchain := Some \<lparr>oc_Source = ''onchain_tick'', oc_Price = px,
                            oc_Tick = tick, oc_Dec0 = bt_dec0 b, oc_Dec1 = bt_dec1 b,
                            oc_Ts = now\<rparr>\<rparr>
                   else b)
          in b\<lparr>bt_poolTick := tick\<rparr>)"

subsection \<open>The control file\<close>

definition control_reasons :: "control_state \<Rightarrow> string list" where
  "control_reasons c =
     [''control_changed'']
     @ (if cs_Reason c \<noteq> [] then [''reason='' @ cs_Reason c] else [])
     @ (if cs_DesiredState c \<noteq> [] then [''desired_state='' @ cs_DesiredState c] else [])
     @ (if cs_RiskMode c \<noteq> [] then [''risk_mode='' @ cs_RiskMode c] else [])
     @ (if cs_ForceDryRun c then [''force_dry_run=true''] else [])"

definition mode_level :: "string \<Rightarrow> risk_level" where
  "mode_level m =
     (if m = ''DENY'' then LevelDeny else if m = ''PAUSE'' then LevelPause
      else if m = ''SAFE_MODE'' then LevelSafeMode else if m = ''HALT'' then LevelHalt
      else LevelSafe)"

definition control_event_level :: "control_state \<Rightarrow> risk_level" where
  "control_event_level c =
     (let ds = trim_space (cs_DesiredState c)
      in if ds = ''SAFE_MODE'' then LevelSafeMode else if ds = ''PAUSED'' then LevelPause
         else mode_level (trim_space (cs_RiskMode c)))"

definition control_event :: "string \<Rightarrow> gotime \<Rightarrow> control_state \<Rightarrow> risk_decision_v1" where
  "control_event runID now c =
     \<lparr>rv_SchemaVersion = SchemaVersion, rv_RunID = runID, rv_TsLocalMS = unix_ms now,
      rv_Level = control_event_level c, rv_Reasons = control_reasons c,
      rv_Fields = [''source'' \<mapsto> ''control.json''], rv_CooldownMS = 0\<rparr>"

definition on_bot_world :: "(exec_world \<Rightarrow> exec_world) \<Rightarrow> bot \<Rightarrow> bot" where
  "on_bot_world f b = b\<lparr>bt_world := f (bt_world b)\<rparr>"

definition load_control :: "tick_input \<Rightarrow> bot \<Rightarrow> bot" where
  "load_control t b =
     (let now = ti_clock t 0;
          (l, next, changed, err) = load_if_changed now (ti_faults t) (ti_disk t) (bt_loader b);
          b = b\<lparr>bt_loader := l\<rparr>
      in if err \<noteq> LoadOk then b
         else if changed
         then on_bot_world (publish_risk (control_event (bt_runID b) now next))
                (b\<lparr>bt_shared := next, bt_control := next\<rparr>)
         else b\<lparr>bt_control := next\<rparr>)"

subsection \<open>The gate of the market\<close>

definition manual_only :: "tick_input \<Rightarrow> bool" where
  "manual_only t \<longleftrightarrow> ti_env t ''PHOENIX_MANUAL_ONLY'' = ''1''"

definition auto_eval :: "tick_input \<Rightarrow> bool" where
  "auto_eval t \<longleftrightarrow> ti_env t ''PHOENIX_AUTO_EVAL'' = ''1'' \<and> \<not> manual_only t"

definition tick_mode :: "tick_input \<Rightarrow> string" where
  "tick_mode t = to_lower (trim_space (mr_Mode (ms_Risk (ti_snap t))))"

definition tick_reason :: "tick_input \<Rightarrow> string" where
  "tick_reason t = trim_space (mr_Reason (ms_Risk (ti_snap t)))"

definition tick_stale :: "tick_input \<Rightarrow> int64" where
  "tick_stale t = ag_StaleAgeMs (ms_Aggregate (ti_snap t))"

definition tick_v1_mode :: "app_config \<Rightarrow> v1_mode" where
  "tick_v1_mode cfg = (if sc_DryRun (ap_Strategy cfg) then ModeDryRun else ModeLive)"

definition tick_blocked :: "tick_input \<Rightarrow> bool" where
  "tick_blocked t \<longleftrightarrow> manual_only t \<or> tick_mode t \<noteq> ''normal''"

definition tick_block_reason :: "tick_input \<Rightarrow> string" where
  "tick_block_reason t =
     (if manual_only t then ''manual_only''
      else if tick_mode t \<noteq> ''normal'' then tick_reason t else [])"

definition tick_level :: "tick_input \<Rightarrow> risk_level" where
  "tick_level t =
     (if manual_only t then LevelPause
      else if tick_mode t = ''normal'' then LevelSafe
      else if tick_mode t = ''degraded'' then LevelPause
      else if tick_mode t = ''frozen'' then LevelSafeMode else LevelDeny)"

definition tick_risk :: "string \<Rightarrow> tick_input \<Rightarrow> risk_decision_v1" where
  "tick_risk runID t =
     \<lparr>rv_SchemaVersion = SchemaVersion, rv_RunID = runID, rv_TsLocalMS = unix_ms (ti_clock t 0),
      rv_Level = tick_level t,
      rv_Reasons =
        (if manual_only t then [''manual_only'']
         else if tick_mode t \<noteq> ''normal''
         then [''market_risk_mode='' @ tick_mode t @ '' reason='' @ tick_reason t
               @ '' stale_age_ms='' @ itoa (tick_stale t)]
         else []),
      rv_Fields =
        (if manual_only t then [''block_reason'' \<mapsto> ''manual_only'']
         else if tick_mode t \<noteq> ''normal''
         then [''risk_mode'' \<mapsto> tick_mode t, ''gate_reason'' \<mapsto> tick_reason t,
               ''stale_age_ms'' \<mapsto> itoa (tick_stale t)]
         else Map.empty),
      rv_CooldownMS = 0\<rparr>"

definition memory_status :: "eval_memory \<Rightarrow> decision_status" where
  "memory_status m = zero_decision_status
     \<lparr>de_LastEvalAt := em_EvalAt m, de_LastEvalAction := em_EvalAction m,
      de_LastEvalReason := em_EvalReason m, de_LastIntentType := em_IntentType m,
      de_LastIntentSummary := em_IntentSummary m, de_LastIntentFields := em_IntentFields m,
      de_PositionSource := em_PosSource m, de_PositionLower := em_PosLower m,
      de_PositionUpper := em_PosUpper m, de_PositionTokenID := em_PosTokenID m,
      de_PositionUpdatedAt := em_PosUpdatedAt m\<rparr>"

definition show_memory :: "bot \<Rightarrow> bot" where
  "show_memory b = on_bot_world (on_server (UpdateDecision (memory_status (bt_memory b)))) b"

definition remember_eval :: "gotime \<Rightarrow> string \<Rightarrow> string \<Rightarrow> bot \<Rightarrow> bot" where
  "remember_eval now action reason b =
     b\<lparr>bt_memory := (bt_memory b)\<lparr>em_EvalAt := now, em_EvalAction := action,
                                   em_EvalReason := reason\<rparr>\<rparr>"

definition control_blocks :: "control_state \<Rightarrow> bool" where
  "control_blocks c \<longleftrightarrow>
     trim_space (cs_RiskMode c) \<notin> {[], ''SAFE''}
     \<or> trim_space (cs_DesiredState c) \<in> {''PAUSED'', ''SAFE_MODE''}"

definition write_tick_status :: "nat \<Rightarrow> tick_input \<Rightarrow> exec_world \<Rightarrow> exec_world" where
  "write_tick_status k t w =
     (case xw_server w of None \<Rightarrow> w
      | Some s \<Rightarrow>
          (case ContractV1StatusSnapshot (ti_env t) (ti_clock t k) (ti_serverSnap t k) s of
             None \<Rightarrow> w | Some st \<Rightarrow> write_v1 (EvStatus st) w))"

subsection \<open>Evaluation of the strategies\<close>

fun position_source_str :: "position_source \<Rightarrow> string" where
  "position_source_str SourceOnchain = ''onchain''"
| "position_source_str SourceConfigAssumed = ''config_assumed''"
| "position_source_str SourceNone = ''none''"

definition intent_ttl_ms :: int64 where "intent_ttl_ms = 120000"

definition v3_fields :: "intent \<Rightarrow> v3_result \<Rightarrow> jmap" where
  "v3_fields it r = map_of
     [(''type'', JStr (int_Type it)), (''reason'', JStr (vo_Reason r)),
      (''current_tick'', JInt (vo_CurrentTick r)), (''current_lower'', JInt (vo_CurLower r)),
      (''current_upper'', JInt (vo_CurUpper r)), (''new_lower'', JInt (vo_NewLower r)),
      (''new_upper'', JInt (vo_NewUpper r)), (''new_center_tick'', JInt (vo_NewCenter r)),
      (''width_ticks'', JInt (vo_WidthTicks r)), (''edge_buffer_ticks'', JInt (vo_BufferTicks r)),
      (''cooldown_remaining_sec'', JInt (vo_CooldownLeft r))]"

definition v3_summary :: "v3_result \<Rightarrow> string" where
  "v3_summary r = brief_text (vo_Reason r) (vo_CurLower r) (vo_CurUpper r) (vo_CurrentTick r)
                    (vo_NewLower r) (vo_NewUpper r)"

text \<open>The four metadata keys by which the executor finds the published intent again.\<close>

definition stamp_intent :: "string \<Rightarrow> intent_v1 \<Rightarrow> intent \<Rightarrow> intent" where
  "stamp_intent runID v it =
     (let m = (case int_Metadata it of None \<Rightarrow> Map.empty | Some m \<Rightarrow> m)
      in it\<lparr>int_Metadata := Some (m
           (''contract_v1_intent_id'' \<mapsto> iv_IntentID v, ''contract_v1_run_id'' \<mapsto> runID,
            ''contract_v1_ts_local_ms'' \<mapsto> itoa (iv_TsLocalMS v),
            ''contract_v1_ttl_ms'' \<mapsto> itoa (iv_TTLms v)))\<rparr>)"

definition v3_input_of :: "tick_input \<Rightarrow> position_state \<Rightarrow> int64 \<Rightarrow> v3_input" where
  "v3_input_of t pos tick =
     (let a = ms_Aggregate (ti_snap t); r = ms_Risk (ti_snap t)
      in \<lparr>vi_ObservedAt = ti_clock t 4, vi_PoolTick = tick,
          vi_CurrentLowerTick = ps_LowerTick pos, vi_CurrentUpperTick = ps_UpperTick pos,
          vi_AggPrice = ag_AggPrice a, vi_DivergencePct = ag_DivergencePct a,
          vi_RiskMode = mr_Mode r, vi_RiskReason = mr_Reason r,
          vi_StaleAgeMs = ag_StaleAgeMs a\<rparr>)"

definition see_position :: "position_state \<Rightarrow> eval_memory \<Rightarrow> eval_memory" where
  "see_position pos m =
     m\<lparr>em_PosSource := position_source_str (ps_Source pos), em_PosLower := ps_LowerTick pos,
       em_PosUpper := ps_UpperTick pos, em_PosTokenID := nat (ps_TokenID pos),
       em_PosUpdatedAt := ps_UpdatedAt pos\<rparr>"

definition see_intent :: "string \<Rightarrow> string \<Rightarrow> jmap option \<Rightarrow> eval_memory \<Rightarrow> eval_memory" where
  "see_intent ty summary fs m =
     m\<lparr>em_IntentType := ty, em_IntentSummary := summary, em_IntentFields := fs\<rparr>"

text \<open>The published form of an intent of the V3 strategy.\<close>

definition v1_of_intent :: "string \<Rightarrow> app_config \<Rightarrow> tick_input \<Rightarrow> intent \<Rightarrow> intent_v1" where
  "v1_of_intent runID cfg t it =
     ToIntentV1FromRebalance (ti_hash8 t) (ti_json t) it runID (ti_clock t 5)
       (sc_DryRun (ap_Strategy cfg) \<or> int_Type it = IntentRebalanceV3) intent_ttl_ms"

definition publish_intent :: "tick_input \<Rightarrow> intent_v1 \<Rightarrow> exec_world \<Rightarrow> exec_world" where
  "publish_intent t v w =
     write_tick_status 6 t (write_v1 (EvIntent v) (on_server (UpdateLastIntentV1 v) w))"

definition eval_v3 :: "tick_input \<Rightarrow> v3_config \<Rightarrow> bot \<Rightarrow> bot \<times> string \<times> string \<times> intent list" where
  "eval_v3 t cfg b =
     (let pos = Resolve (ti_fetch t) (ti_clock t 2) cfg;
          m = see_position pos (bt_memory b);
          (st, r, res) = EvaluateAt rfc3339nano cfg (ti_clock t 3)
                           (v3_input_of t pos (bt_poolTick b)) (bt_v3 b);
          b = b\<lparr>bt_v3 := st\<rparr>
      in case res of
           None \<Rightarrow> (b\<lparr>bt_memory := see_intent [] [] None m\<rparr>, vo_Action r, vo_Reason r, [])
         | Some it \<Rightarrow>
             let v = v1_of_intent (bt_runID b) (bt_cfg b) t it;
                 b = b\<lparr>bt_memory := see_intent (int_Type it) (v3_summary r) (Some (v3_fields it r)) m\<rparr>
             in (on_bot_world (publish_intent t v) b, vo_Action r, vo_Reason r,
                 [stamp_intent (bt_runID b) v it]))"

definition mock_input_of :: "tick_input \<Rightarrow> mock_input" where
  "mock_input_of t =
     (let a = ms_Aggregate (ti_snap t); r = ms_Risk (ti_snap t)
      in \<lparr>mi_AggPrice = ag_AggPrice a, mi_DivergencePct = ag_DivergencePct a,
          mi_RiskMode = mr_Mode r, mi_RiskReason = mr_Reason r,
          mi_StaleAgeMs = ag_StaleAgeMs a\<rparr>)"

definition eval_mock :: "tick_input \<Rightarrow> bot \<Rightarrow> bot \<times> string \<times> string \<times> intent list" where
  "eval_mock t b =
     (let m = (bt_memory b)\<lparr>em_PosSource := [], em_PosLower := 0, em_PosUpper := 0,
                            em_PosTokenID := 0, em_PosUpdatedAt := 0\<rparr>;
          (st, action, reason, its) = EvaluateMock (ti_clock t 3) (mock_input_of t) (bt_mock b);
          m = (case its of [] \<Rightarrow> see_intent [] [] None m
               | it # _ \<Rightarrow> see_intent (int_Type it) reason
                            (Some (map_of [(''type'', JStr (int_Type it)), (''reason'', JStr reason)])) m)
      in (b\<lparr>bt_mock := st, bt_memory := m\<rparr>, action, reason, its))"

definition evaluate_strategies :: "tick_input \<Rightarrow> bot \<Rightarrow> bot" where
  "evaluate_strategies t b =
     (let cfg = LoadV3RebalanceConfig (ti_env t) (Some (bt_cfg b));
          (b, action, reason, its) = (if vr_Enabled cfg then eval_v3 t cfg b else eval_mock t b);
          b = on_bot_world (write_tick_status 8 t)
                (show_memory (remember_eval (ti_clock t 7) action reason b))
      in b\<lparr>bt_queue := fold Enqueue its (bt_queue b)\<rparr>)"

subsection \<open>One tick\<close>

definition publish_market :: "tick_input \<Rightarrow> bot \<Rightarrow> bot" where
  "publish_market t b =
     show_memory (on_bot_world (publish_risk (tick_risk (bt_runID b) t))
       (on_bot_world (on_server (SetContractV1Mode (tick_v1_mode (bt_cfg b)))) b))"

definition decision_tick :: "tick_input \<Rightarrow> bot \<Rightarrow> bot" where
  "decision_tick t b =
     (let b = publish_market t (load_control t b)
      in if tick_blocked t
         then show_memory (remember_eval (ti_clock t 1) ''blocked'' (tick_block_reason t) b)
         else if control_blocks (bt_control b) then b
         else if \<not> auto_eval t then b
         else evaluate_strategies t b)"

end
