(* ===== verification/Bot_System.thy ===== *)
theory Bot_System
  imports Decision_Loop Executor_Steps
begin

text \<open>
  The bot as one system: the steps of the main loop, of the goroutine that applies a reloaded
  configuration, of the intent executor and of the HTTP handler that enqueues, in any order, on
  one state.  The main loop and the request handler do a handler in one step; they share the
  queue (guarded by its mutex), the atomic values for configuration, control and on-chain price,
  and the API server (guarded by its mutex).  The executor holds no lock: it takes an intent in
  one step, begins it in the next - then it reads control state and configuration, once - and
  goes on gate by gate, with the steps of the others in between.
\<close>

datatype bot_action =
  PriceEvent gotime "ticker payload"
| PoolEvent "float64 \<Rightarrow> float64 \<Rightarrow> float64" gotime "pool_event payload"
| DecisionTick tick_input
| ConfigReload "app_config option"
| Take
| Begin exec_input gotime
| Advance
| Request environ gotime gotime http_request

text \<open>The goroutine that applies \<open>cfgManager.Updates()\<close>.\<close>

definition apply_reload :: "app_config option \<Rightarrow> bot \<Rightarrow> bot" where
  "apply_reload u b =
     (case u of None \<Rightarrow> b
      | Some cfg \<Rightarrow>
          let r = ap_Risk cfg
          in b\<lparr>bt_cfg := cfg, bt_world := (bt_world b)\<lparr>xw_risk :=
                 UpdateLimits (rk_MaxDailyGas r) (rk_ConsecutiveFails r) (rk_MaxDrawdown r)
                   (xw_risk (bt_world b))\<rparr>\<rparr>)"

definition bound_input :: "exec_input \<Rightarrow> bot \<Rightarrow> exec_input" where
  "bound_input x b =
     x\<lparr>xi_cfg := bt_cfg b, xi_control := Some (bt_shared b), xi_onchain := bt_onchain b\<rparr>"

inductive bot_step :: "bot \<Rightarrow> bot_action \<Rightarrow> bot \<Rightarrow> bool" where
  price: "bot_step b (PriceEvent now p) (on_price now p b)"
| pool: "bot_step b (PoolEvent pow now p) (on_pool pow now p b)"
| tick: "bot_step b (DecisionTick t) (decision_tick t b)"
| reload: "bot_step b (ConfigReload u) (apply_reload u b)"
| exec_take: "bt_exec b = Idle \<Longrightarrow> Dequeue (bt_queue b) = Some (it, q) \<Longrightarrow>
    bot_step b Take (b\<lparr>bt_queue := q, bt_exec := Taken it\<rparr>)"
| exec_begin: "bt_exec b = Taken it \<Longrightarrow>
    bot_step b (Begin x now)
      (b\<lparr>bt_exec := begin_intent (bound_input x b) now it (bt_world b)\<rparr>)"
| exec_advance: "bt_exec b = Running j \<Longrightarrow>
    job_step (bt_onchain b) j (bt_world b) = (w, e) \<Longrightarrow>
    bot_step b Advance (b\<lparr>bt_world := w, bt_exec := e\<rparr>)"
| request: "handleEnqueueIntent env idNow now hr (bt_queue b) = (q, resp) \<Longrightarrow>
    bot_step b (Request env idNow now hr) (b\<lparr>bt_queue := q\<rparr>)"

inductive_cases bot_price_cases: "bot_step b (PriceEvent now p) b'"
inductive_cases bot_pool_cases: "bot_step b (PoolEvent pow now p) b'"
inductive_cases bot_tick_cases: "bot_step b (DecisionTick t) b'"
inductive_cases bot_reload_cases: "bot_step b (ConfigReload u) b'"
inductive_cases bot_take_cases: "bot_step b Take b'"
inductive_cases bot_begin_cases: "bot_step b (Begin x now) b'"
inductive_cases bot_advance_cases: "bot_step b Advance b'"
inductive_cases bot_request_cases: "bot_step b (Request env idNow now hr) b'"

inductive bot_trace :: "bot \<Rightarrow> bot_action list \<Rightarrow> bot \<Rightarrow> bool" where
  trace_nil: "bot_trace b [] b"
| trace_snoc: "bot_trace b as b' \<Longrightarrow> bot_step b' a b'' \<Longrightarrow> bot_trace b (as @ [a]) b''"

subsection \<open>What the parts of a tick leave alone\<close>

named_theorems bot_frame "what an operation of the bot leaves as it is"

definition rest ::
    "bot \<Rightarrow> pqueue \<times> control_state \<times> control_state \<times> loader \<times> app_config \<times> executor" where
  "rest b = (bt_queue b, bt_control b, bt_shared b, bt_loader b, bt_cfg b, bt_exec b)"

lemma bot_world_frame [bot_frame, simp]:
  "rest (on_bot_world f b) = rest b" "bt_world (on_bot_world f b) = f (bt_world b)"
  "bt_runID (on_bot_world f b) = bt_runID b" "bt_memory (on_bot_world f b) = bt_memory b"
  "bt_v3 (on_bot_world f b) = bt_v3 b" "bt_poolTick (on_bot_world f b) = bt_poolTick b"
  "bt_mock (on_bot_world f b) = bt_mock b"
  by (simp_all add: on_bot_world_def rest_def)

lemma write_tick_status_ledger [simp]: "ledger (write_tick_status k t w) = ledger w"
  by (simp add: write_tick_status_def split: option.splits)

lemma show_memory_frame [bot_frame, simp]:
  "rest (show_memory b) = rest b" "ledger (bt_world (show_memory b)) = ledger (bt_world b)"
  "bt_runID (show_memory b) = bt_runID b" "bt_v3 (show_memory b) = bt_v3 b"
  "bt_poolTick (show_memory b) = bt_poolTick b" "bt_mock (show_memory b) = bt_mock b"
  by (simp_all add: show_memory_def)

lemma remember_eval_frame [bot_frame, simp]:
  "rest (remember_eval now a r b) = rest b" "bt_world (remember_eval now a r b) = bt_world b"
  by (simp_all add: remember_eval_def rest_def)

lemma publish_market_frame [bot_frame, simp]:
  "rest (publish_market t b) = rest b"
  "ledger (bt_world (publish_market t b)) = ledger (bt_world b)"
  "bt_runID (publish_market t b) = bt_runID b" "bt_v3 (publish_market t b) = bt_v3 b"
  "bt_poolTick (publish_market t b) = bt_poolTick b" "bt_mock (publish_market t b) = bt_mock b"
  by (simp_all add: publish_market_def)

lemma eval_v3_frame [bot_frame, simp]:
  "rest (fst (eval_v3 t cfg b)) = rest b"
  "ledger (bt_world (fst (eval_v3 t cfg b))) = ledger (bt_world b)"
  by (simp_all add: eval_v3_def publish_intent_def rest_def Let_def case_prod_beta on_bot_world_def
      split: option.splits)

lemma eval_mock_frame [bot_frame, simp]:
  "rest (fst (eval_mock t b)) = rest b" "bt_world (fst (eval_mock t b)) = bt_world b"
  by (simp_all add: eval_mock_def rest_def Let_def case_prod_beta)

lemma load_control_frame [bot_frame]:
  "bt_queue (load_control t b) = bt_queue b" "bt_cfg (load_control t b) = bt_cfg b"
  "bt_exec (load_control t b) = bt_exec b"
  "ledger (bt_world (load_control t b)) = ledger (bt_world b)"
  "bt_runID (load_control t b) = bt_runID b" "bt_v3 (load_control t b) = bt_v3 b"
  "bt_poolTick (load_control t b) = bt_poolTick b" "bt_mock (load_control t b) = bt_mock b"
  "bt_loader (load_control t b) = load_step (ti_clock t 0) (ti_faults t) (ti_disk t) (bt_loader b)"
  by (simp_all add: load_control_def load_step_def on_bot_world_def case_prod_beta Let_def)

text \<open>The intents of one tick.\<close>

definition strategy_result :: "tick_input \<Rightarrow> bot \<Rightarrow> bot \<times> string \<times> string \<times> intent list" where
  "strategy_result t b =
     (let cfg = LoadV3RebalanceConfig (ti_env t) (Some (bt_cfg b))
      in if vr_Enabled cfg then eval_v3 t cfg b else eval_mock t b)"

definition tick_intents :: "tick_input \<Rightarrow> bot \<Rightarrow> intent list" where
  "tick_intents t b =
     (let b' = publish_market t (load_control t b)
      in if tick_blocked t \<or> control_blocks (bt_control b') \<or> \<not> auto_eval t then []
         else snd (snd (snd (strategy_result t b'))))"

lemma rest_queue: "rest b = rest b' \<Longrightarrow> bt_queue b = bt_queue b'"
  by (simp add: rest_def)

lemma rest_strategy: "rest (fst (strategy_result t b)) = rest b"
  by (simp add: strategy_result_def Let_def)

lemma ledger_strategy:
  "ledger (bt_world (fst (strategy_result t b))) = ledger (bt_world b)"
  by (simp add: strategy_result_def Let_def)

lemma evaluate_strategies_eq:
  "evaluate_strategies t b =
     (let (b', action, reason, its) = strategy_result t b;
          b' = on_bot_world (write_tick_status 8 t)
                 (show_memory (remember_eval (ti_clock t 7) action reason b'))
      in b'\<lparr>bt_queue := fold Enqueue its (bt_queue b')\<rparr>)"
  by (simp add: evaluate_strategies_def strategy_result_def Let_def)

lemma rest_eqD:
  assumes "rest b = rest b'"
  shows "bt_queue b = bt_queue b'" "bt_control b = bt_control b'" "bt_shared b = bt_shared b'"
    "bt_loader b = bt_loader b'" "bt_cfg b = bt_cfg b'" "bt_exec b = bt_exec b'"
  using assms by (simp_all add: rest_def)

lemma evaluate_strategies_rest:
  "bt_queue (evaluate_strategies t b) = fold Enqueue (snd (snd (snd (strategy_result t b)))) (bt_queue b)"
  "bt_control (evaluate_strategies t b) = bt_control b"
  "bt_shared (evaluate_strategies t b) = bt_shared b"
  "bt_loader (evaluate_strategies t b) = bt_loader b"
  "bt_cfg (evaluate_strategies t b) = bt_cfg b"
  "bt_exec (evaluate_strategies t b) = bt_exec b"
  "ledger (bt_world (evaluate_strategies t b)) = ledger (bt_world b)"
proof -
  obtain b1 a r its where s: "strategy_result t b = (b1, a, r, its)" by (cases "strategy_result t b")
  define b2 where "b2 = on_bot_world (write_tick_status 8 t)
    (show_memory (remember_eval (ti_clock t 7) a r b1))"
  have e: "evaluate_strategies t b = b2\<lparr>bt_queue := fold Enqueue its (bt_queue b2)\<rparr>"
    by (simp add: evaluate_strategies_eq s b2_def Let_def)
  have "rest b2 = rest b1" by (simp add: b2_def)
  also have "\<dots> = rest b" using rest_strategy [of t b] s by simp
  finally have r: "rest b2 = rest b" .
  have "ledger (bt_world b2) = ledger (bt_world b)"
    using ledger_strategy [of t b] s by (simp add: b2_def)
  with rest_eqD [OF r]
  show "bt_queue (evaluate_strategies t b)
      = fold Enqueue (snd (snd (snd (strategy_result t b)))) (bt_queue b)"
    "bt_control (evaluate_strategies t b) = bt_control b"
    "bt_shared (evaluate_strategies t b) = bt_shared b"
    "bt_loader (evaluate_strategies t b) = bt_loader b"
    "bt_cfg (evaluate_strategies t b) = bt_cfg b"
    "bt_exec (evaluate_strategies t b) = bt_exec b"
    "ledger (bt_world (evaluate_strategies t b)) = ledger (bt_world b)"
    by (simp_all add: e s)
qed

text \<open>A tick, seen from outside: it loads the control file, adds its intents to the queue and
  touches neither trades nor the risk manager.\<close>

lemma decision_tick_out:
  "bt_queue (decision_tick t b) = fold Enqueue (tick_intents t b) (bt_queue b)"
  "bt_control (decision_tick t b) = bt_control (load_control t b)"
  "bt_shared (decision_tick t b) = bt_shared (load_control t b)"
  "bt_loader (decision_tick t b) = load_step (ti_clock t 0) (ti_faults t) (ti_disk t) (bt_loader b)"
  "bt_cfg (decision_tick t b) = bt_cfg b"
  "ledger (bt_world (decision_tick t b)) = ledger (bt_world b)"
  "bt_exec (decision_tick t b) = bt_exec b"
proof -
  define c where "c = publish_market t (load_control t b)"
  define d where "d = show_memory (remember_eval (ti_clock t 1) ''blocked'' (tick_block_reason t) c)"
  have rc: "rest c = rest (load_control t b)" and rd: "rest d = rest c" by (simp_all add: c_def d_def)
  have lc: "ledger (bt_world c) = ledger (bt_world b)" and ld: "ledger (bt_world d) = ledger (bt_world c)"
    by (simp_all add: c_def d_def load_control_frame)
  have e: "decision_tick t b =
      (if tick_blocked t then d else if control_blocks (bt_control c) then c
       else if \<not> auto_eval t then c else evaluate_strategies t c)"
    by (simp add: decision_tick_def c_def d_def Let_def)
  have i: "tick_intents t b = (if tick_blocked t \<or> control_blocks (bt_control c) \<or> \<not> auto_eval t
      then [] else snd (snd (snd (strategy_result t c))))"
    by (simp add: tick_intents_def c_def Let_def)
  show "bt_queue (decision_tick t b) = fold Enqueue (tick_intents t b) (bt_queue b)"
    "bt_control (decision_tick t b) = bt_control (load_control t b)"
    "bt_shared (decision_tick t b) = bt_shared (load_control t b)"
    "bt_loader (decision_tick t b) = load_step (ti_clock t 0) (ti_faults t) (ti_disk t) (bt_loader b)"
    "bt_cfg (decision_tick t b) = bt_cfg b"
    "ledger (bt_world (decision_tick t b)) = ledger (bt_world b)"
    "bt_exec (decision_tick t b) = bt_exec b"
    unfolding e i
    using rest_eqD [OF rc] rest_eqD [OF rd] lc ld load_control_frame [of t b]
    by (simp_all add: evaluate_strategies_rest)
qed

subsection \<open>The invariant of the system\<close>

text \<open>The queue is a heap, the loop and the executor see the same control state, which is the one
  the loader keeps, every trade that is stored or published is a simulation, and a job that is
  past the gates of the control file has been let through by them.\<close>

definition simulated_trade :: "trade_record \<Rightarrow> bool" where
  "simulated_trade t \<longleftrightarrow> tr_IsSimulation t \<and> tr_Status t = ''simulated''"

definition control_synced :: "bot \<Rightarrow> bool" where
  "control_synced b \<longleftrightarrow>
     bt_control b = bt_shared b \<and> bt_shared b = ld_lastState (bt_loader b)
     \<and> (\<not> ld_lastExists (bt_loader b) \<longrightarrow> ld_lastState (bt_loader b) = control_default)"

fun executor_ok :: "executor \<Rightarrow> bool" where
  "executor_ok (Running j) = job_ok j" | "executor_ok _ = True"

definition bot_inv :: "bot \<Rightarrow> bool" where
  "bot_inv b \<longleftrightarrow>
     is_heap (bt_queue b) \<and> control_synced b \<and> executor_ok (bt_exec b)
     \<and> list_all simulated_trade (xw_trades (bt_world b))
     \<and> list_all simulated_trade (xw_published (bt_world b))"

lemma load_exists:
  assumes "load_if_changed now ft d l = (l', st, ch, e)"
  shows "ld_lastExists l' \<or> st = control_default \<or> ld_lastExists l' = ld_lastExists l \<and> st = ld_lastState l"
  using assms by (auto simp: load_if_changed_def Let_def split: if_splits option.splits)

lemma load_unchanged:
  assumes "load_if_changed now ft d l = (l', st, False, e)"
  shows "st = ld_lastState l \<or> st = control_default \<and> \<not> ld_lastExists l"
  using assms by (auto simp: load_if_changed_def Let_def split: if_splits option.splits)

lemma load_quiet_keeps:
  assumes "load_if_changed now ft d l = (l', st, ch, e)"
    "\<not> ld_lastExists l \<longrightarrow> ld_lastState l = control_default"
  shows "ld_lastState l' = st" "\<not> ld_lastExists l' \<longrightarrow> st = control_default"
    "\<not> ch \<or> e \<noteq> LoadOk \<longrightarrow> st = ld_lastState l"
proof -
  show "ld_lastState l' = st" by (rule load_returns_kept [OF assms(1)])
  show "\<not> ld_lastExists l' \<longrightarrow> st = control_default"
    using load_exists [OF assms(1)] assms(2) by metis
  have "\<not> ch \<Longrightarrow> st = ld_lastState l" using load_unchanged [of now ft d l l' st e] assms by auto
  then show "\<not> ch \<or> e \<noteq> LoadOk \<longrightarrow> st = ld_lastState l"
    using load_error_keeps [OF assms(1)] by blast
qed

lemma load_control_synced:
  assumes "control_synced b"
  shows "control_synced (load_control t b)"
proof -
  obtain l st ch e where
    l: "load_if_changed (ti_clock t 0) (ti_faults t) (ti_disk t) (bt_loader b) = (l, st, ch, e)"
    by (cases "load_if_changed (ti_clock t 0) (ti_faults t) (ti_disk t) (bt_loader b)")
  have c: "bt_control b = ld_lastState (bt_loader b)" "bt_shared b = ld_lastState (bt_loader b)"
    "\<not> ld_lastExists (bt_loader b) \<longrightarrow> ld_lastState (bt_loader b) = control_default"
    using assms by (simp_all add: control_synced_def)
  note k = load_quiet_keeps [OF l c(3)]
  show ?thesis
    using k c(1,2)
    by (cases "e = LoadOk"; cases ch) (simp_all add: load_control_def control_synced_def on_bot_world_def l)
qed

lemma control_synced_rest: "rest b = rest b' \<Longrightarrow> control_synced b = control_synced b'"
  by (simp add: rest_def control_synced_def)

lemma synced_tick: "control_synced b \<Longrightarrow> control_synced (decision_tick t b)"
  using load_control_synced [of b t]
  by (simp add: control_synced_def decision_tick_out load_control_frame)

lemma enqueue_all: "is_heap q \<Longrightarrow> is_heap (fold Enqueue its q) \<and> mset (fold Enqueue its q) = mset its + mset q"
  using iq.push_all_inv [of q its] iq.push_all_elems [of q its] by (simp add: iq.push_all_def)

lemma request_heap:
  assumes "handleEnqueueIntent env idNow now hr q = (q', resp)" "is_heap q"
  shows "is_heap q'"
  using assms iq.push_inv [OF assms(2)]
  by (auto simp: handleEnqueueIntent_def split: if_splits option.splits sum.splits)

text \<open>What a step adds to the books, given the executor before it.\<close>

definition step_stores :: "executor \<Rightarrow> bot_action \<Rightarrow> trade_record list" where
  "step_stores e a =
     (case (e, a) of
        (Running j, Advance) \<Rightarrow>
          if jb_stage j = AtSave then saved_of (jb_input j) [job_trade j] else []
      | _ \<Rightarrow> [])"

definition step_publishes :: "executor \<Rightarrow> bot_action \<Rightarrow> trade_record list" where
  "step_publishes e a =
     (case (e, a) of
        (Running j, Advance) \<Rightarrow>
          if jb_stage j = AtPublish then delivered_of (jb_input j) [job_trade j] else []
      | _ \<Rightarrow> [])"

lemma step_books_other [simp]:
  "a \<noteq> Advance \<Longrightarrow> step_stores e a = []" "a \<noteq> Advance \<Longrightarrow> step_publishes e a = []"
  by (cases a; simp add: step_stores_def step_publishes_def split: executor.split)+

lemma bot_step_books:
  assumes "bot_step b a b'"
  shows "xw_trades (bt_world b') = xw_trades (bt_world b) @ step_stores (bt_exec b) a"
    "xw_published (bt_world b') = xw_published (bt_world b) @ step_publishes (bt_exec b) a"
proof -
  have "ledger (bt_world b') = ledger (bt_world b)" if "a \<noteq> Advance" "\<And>u. a \<noteq> ConfigReload u"
    using assms that
    by cases (auto simp: on_price_def on_pool_def decision_tick_out Let_def split: option.splits)
  moreover have "xw_trades (bt_world b') = xw_trades (bt_world b)
      \<and> xw_published (bt_world b') = xw_published (bt_world b)" if "a = ConfigReload u" for u
    using assms that by cases (auto simp: apply_reload_def Let_def split: option.splits)
  moreover have "xw_trades (bt_world b') = xw_trades (bt_world b) @ step_stores (bt_exec b) a
      \<and> xw_published (bt_world b') = xw_published (bt_world b) @ step_publishes (bt_exec b) a"
    if "a = Advance"
    using assms that
    by cases (auto simp: step_stores_def step_publishes_def job_step_trades)
  ultimately show "xw_trades (bt_world b') = xw_trades (bt_world b) @ step_stores (bt_exec b) a"
    "xw_published (bt_world b') = xw_published (bt_world b) @ step_publishes (bt_exec b) a"
    by (cases a; auto simp: ledger_def)+
qed

lemma step_books_simulated:
  "list_all simulated_trade (step_stores e a)" "list_all simulated_trade (step_publishes e a)"
  by (simp_all add: step_stores_def step_publishes_def saved_of_def delivered_of_def
      simulated_trade_def job_trade_simulated split: executor.split bot_action.split)

lemma bot_step_heap:
  assumes "bot_step b a b'" "is_heap (bt_queue b)"
  shows "is_heap (bt_queue b')"
  using assms
proof cases
  case (pool pow now p)
  then show ?thesis using assms(2) by (auto simp: on_pool_def Let_def split: option.splits)
next
  case (exec_take it q)
  then show ?thesis using iq.pop_inv [OF assms(2)] by simp
qed (auto simp: on_price_def apply_reload_def decision_tick_out enqueue_all request_heap Let_def
    split: option.splits)

lemma bot_step_synced:
  assumes "bot_step b a b'" "control_synced b"
  shows "control_synced b'"
  using assms(1)
proof cases
  case (tick t)
  then show ?thesis using synced_tick [OF assms(2)] by simp
qed (use assms(2) in \<open>auto simp: on_price_def on_pool_def apply_reload_def control_synced_def Let_def
      split: option.splits\<close>)

text \<open>How the executor moves: the other goroutines leave it alone.\<close>

lemma bot_step_exec:
  assumes "bot_step b a b'"
  shows "(case bt_exec b' of
      Running j' \<Rightarrow>
        (a \<noteq> Advance \<and> bt_exec b = Running j')
        \<or> (\<exists>x now it. a = Begin x now \<and> bt_exec b = Taken it \<and> jb_input j' = bound_input x b \<and> job_ok j')
        \<or> (\<exists>j w. a = Advance \<and> bt_exec b = Running j
              \<and> job_step (bt_onchain b) j (bt_world b) = (w, Running j'))
    | _ \<Rightarrow> True)"
  using assms
  by cases (auto simp: on_price_def on_pool_def apply_reload_def decision_tick_out Let_def
      dest: job_begun split: option.splits executor.splits)

lemma bot_step_executor_ok:
  assumes "bot_step b a b'" "executor_ok (bt_exec b)"
  shows "executor_ok (bt_exec b')"
  using bot_step_exec [OF assms(1)] assms(2) job_next(5)
  by (auto split: executor.splits)

lemma bot_step_inv:
  assumes "bot_step b a b'" "bot_inv b"
  shows "bot_inv b'"
  using assms(2) bot_step_heap [OF assms(1)] bot_step_synced [OF assms(1)]
    bot_step_executor_ok [OF assms(1)]
  by (simp add: bot_inv_def bot_step_books [OF assms(1)] step_books_simulated)

lemma initial_bot_inv:
  assumes "xw_trades w = []" "xw_published w = []"
  shows "bot_inv (initial_bot runID mv cfg w)"
  using assms iq.empty_inv
  by (simp add: bot_inv_def initial_bot_def control_synced_def new_loader_def)

lemma bot_trace_inv: "bot_trace b as b' \<Longrightarrow> bot_inv b \<Longrightarrow> bot_inv b'"
  by (induction rule: bot_trace.induct) (auto intro: bot_step_inv)

end
