(* ===== verification/Props_System.thy ===== *)
theory Props_System
  imports Bot_System Props_Exec
begin

text \<open>
  The properties of the bot as a whole: the decision loop, the executor, the control file, the
  reload of the configuration and the queue between them, in any interleaving.
\<close>

subsection \<open>Every reachable state\<close>

text \<open>The executions whose record the database and the stream accept, and the trade that is
  stored but not yet published.\<close>

fun faultless :: "bot_action \<Rightarrow> bool" where
  "faultless (Begin x now) = (xi_saved x \<and> xi_delivered x)" | "faultless _ = True"

fun unpublished :: "executor \<Rightarrow> trade_record list" where
  "unpublished (Running j) = (if jb_stage j = AtPublish then [job_trade j] else [])"
| "unpublished _ = []"

fun accepted :: "executor \<Rightarrow> bool" where
  "accepted (Running j) = (xi_saved (jb_input j) \<and> xi_delivered (jb_input j))" | "accepted _ = True"

lemma job_begun_stage: "begin_intent x now it w = Running j \<Longrightarrow> jb_stage j = AtEvaluate"
  by (auto simp: begin_intent_def Let_def split: if_splits)

lemma books_agree_step:
  assumes "bot_step b a b'" "faultless a" "accepted (bt_exec b)"
    "xw_trades (bt_world b) = xw_published (bt_world b) @ unpublished (bt_exec b)"
  shows "accepted (bt_exec b')
    \<and> xw_trades (bt_world b') = xw_published (bt_world b') @ unpublished (bt_exec b')"
  using assms(1)
proof cases
  case (exec_begin it x now)
  then show ?thesis using assms(2,4) job_begun job_begun_stage
    by (cases "begin_intent (bound_input x b) now it (bt_world b)") (auto simp: bound_input_def)
next
  case (exec_advance j w e)
  note st = job_step_trades [OF exec_advance(4)]
  have acc: "xi_saved (jb_input j)" "xi_delivered (jb_input j)" using assms(3) exec_advance(3) by simp_all
  show ?thesis
  proof (cases e)
    case (Running j')
    note nx = job_next [OF exec_advance(4) [unfolded Running]]
    have "jb_stage j \<noteq> AtPublish" using exec_advance(4) Running by (auto simp: job_step_def)
    moreover have "jb_stage j = AtSave \<Longrightarrow> job_trade j' = job_trade j"
      using nx by (simp add: job_trade_def)
    moreover have "next_stage (jb_stage j) = AtPublish \<longleftrightarrow> jb_stage j \<in> {AtSave, AtPublish}"
      by (cases "jb_stage j") simp_all
    ultimately show ?thesis
      using assms(4) exec_advance(2,3) st acc nx Running by (auto simp: saved_of_def)
  next
    case Idle
    have "jb_stage j \<noteq> AtSave" using exec_advance(4) Idle by (auto simp: job_step_def)
    then show ?thesis using assms(4) exec_advance(2,3) st acc Idle by (auto simp: delivered_of_def)
  next
    case (Taken it)
    have "stage_step oc st j w1 \<noteq> (w2, Taken it)" for oc st w1 w2
      by (cases st) (auto simp: continue_at_def split: gate_out.split prod.split option.split)
    then show ?thesis using exec_advance(4) Taken by (auto simp: job_step_def)
  qed
next
  case (tick t)
  then show ?thesis using assms(3,4) decision_tick_out(6,7) [of t b] by (simp add: ledger_def)
qed (use assms(3,4) bot_step_books [OF assms(1)] in
    \<open>auto simp: on_price_def on_pool_def apply_reload_def Let_def split: option.splits\<close>)

lemma books_agree:
  assumes "bot_trace b as b'" "list_all faultless as" "accepted (bt_exec b)"
    "xw_trades (bt_world b) = xw_published (bt_world b) @ unpublished (bt_exec b)"
  shows "accepted (bt_exec b')
    \<and> xw_trades (bt_world b') = xw_published (bt_world b') @ unpublished (bt_exec b')"
  using assms by (induction rule: bot_trace.induct) (auto dest: books_agree_step)

text \<open>C5. Whatever happens to a started bot, in whatever order - prices, pool states, ticks,
  reloads, requests and the single steps of the executor - the queue is a heap, the decision loop
  and the executor see the same control state, which is the last good one of the file, and every
  trade that is stored or published is a simulation.  As long as every insertion into the
  database and every publication works, what is stored is what is published, but for the trade
  between its two steps; when one of them fails, the code goes on and the two differ.\<close>

theorem reachable_bot_ok:
  assumes "xw_trades w = []" "xw_published w = []" "bot_trace (initial_bot runID mv cfg w) as b"
  shows "is_heap (bt_queue b)
    \<and> bt_control b = bt_shared b \<and> bt_shared b = ld_lastState (bt_loader b)
    \<and> list_all (\<lambda>t. tr_IsSimulation t \<and> tr_Status t = ''simulated'') (xw_trades (bt_world b))
    \<and> list_all (\<lambda>t. tr_IsSimulation t \<and> tr_Status t = ''simulated'') (xw_published (bt_world b))
    \<and> (list_all faultless as \<longrightarrow>
         xw_trades (bt_world b) = xw_published (bt_world b) @ unpublished (bt_exec b))"
  using bot_trace_inv [OF assms(3) initial_bot_inv [OF assms(1,2)]] books_agree [OF assms(3)] assms(1,2)
  by (auto simp: bot_inv_def control_synced_def simulated_trade_def list_all_iff initial_bot_def)

subsection \<open>The emergency stop\<close>

fun file_halts :: "control_state disk \<Rightarrow> bool" where
  "file_halts None = False"
| "file_halts (Some f) =
     (case fl_doc f of None \<Rightarrow> True | Some c \<Rightarrow> control_blocks (normalize_control c))"

fun stays_halted :: "bot_action \<Rightarrow> bool" where
  "stays_halted (DecisionTick t) = file_halts (ti_disk t)"
| "stays_halted _ = True"

fun is_request :: "bot_action \<Rightarrow> bool" where
  "is_request (Request _ _ _ _) = True" | "is_request _ = False"

lemma halted_load:
  assumes "control_synced b" "control_blocks (bt_shared b)" "file_halts (ti_disk t)"
  shows "control_blocks (bt_shared (load_control t b))"
proof -
  have s: "bt_shared (load_control t b) = ld_lastState (bt_loader (load_control t b))"
    "bt_shared b = ld_lastState (bt_loader b)"
    using load_control_synced [OF assms(1)] assms(1) by (simp_all add: control_synced_def)
  have "ti_disk t \<noteq> None" using assms(3) by (cases "ti_disk t") auto
  moreover have "control_blocks (normalize_control v)" if "readable (ti_faults t) (ti_disk t) = Some v" for v
    using that assms(3) by (auto simp: readable_def split: if_splits option.splits)
  ultimately show ?thesis
    using ctl.load_current [of "ti_clock t 0" "ti_faults t" "ti_disk t" "bt_loader b"] s assms(2)
    by (auto simp: load_control_frame)
qed

lemma halted_tick_intents:
  assumes "control_synced b" "control_blocks (bt_shared b)" "file_halts (ti_disk t)"
  shows "tick_intents t b = []"
proof -
  have "control_synced (load_control t b)" by (rule load_control_synced [OF assms(1)])
  then have "control_blocks (bt_control (publish_market t (load_control t b)))"
    using halted_load [OF assms] rest_eqD(2) [OF publish_market_frame(1) [of t "load_control t b"]]
    by (simp add: control_synced_def)
  then show ?thesis by (simp add: tick_intents_def Let_def)
qed

text \<open>An execution that has read a control state which does not stop it.\<close>

fun free_job :: "executor \<Rightarrow> bool" where
  "free_job (Running j) = (\<not> control_stops (jb_input j))" | "free_job _ = False"

definition may_publish :: "executor \<Rightarrow> nat" where
  "may_publish e = (if free_job e then 1 else 0)"

fun may_store :: "executor \<Rightarrow> nat" where
  "may_store (Running j) = (if \<not> control_stops (jb_input j) \<and> jb_stage j \<noteq> AtPublish then 1 else 0)"
| "may_store _ = 0"

lemma may_store_le: "may_store e \<le> may_publish e"
  by (cases e) (simp_all add: may_publish_def)

lemma bound_control: "control_stops (bound_input x b) = control_blocks (bt_shared b)"
  by (simp add: control_stops_def control_blocks_def control_of_def bound_input_def)

lemma step_books_bounded:
  assumes "executor_ok e"
  shows "length (step_stores e a) \<le> may_store e" "length (step_publishes e a) \<le> may_publish e"
  using assms
  by (cases e; cases a; auto simp: step_stores_def step_publishes_def saved_of_def delivered_of_def
      job_ok_def may_publish_def)+

text \<open>While the shared control state stops the bot, nothing new becomes able to store a trade.\<close>

lemma halted_books:
  assumes "bot_step b a b'" "executor_ok (bt_exec b)" "control_blocks (bt_shared b)"
  shows "length (step_stores (bt_exec b) a) + may_store (bt_exec b') \<le> may_store (bt_exec b)"
    "length (step_publishes (bt_exec b) a) + may_publish (bt_exec b') \<le> may_publish (bt_exec b)"
proof -
  have "length (step_stores (bt_exec b) a) + may_store (bt_exec b') \<le> may_store (bt_exec b)
    \<and> length (step_publishes (bt_exec b) a) + may_publish (bt_exec b') \<le> may_publish (bt_exec b)"
  proof (cases "bt_exec b'")
    case (Running j')
    from bot_step_exec [OF assms(1)] Running consider
      (same) "a \<noteq> Advance" "bt_exec b = Running j'"
      | (begun) x now where "a = Begin x now" "jb_input j' = bound_input x b"
      | (step) j w where "a = Advance" "bt_exec b = Running j"
          "job_step (bt_onchain b) j (bt_world b) = (w, Running j')"
      by auto
    then show ?thesis
    proof cases
      case same
      then show ?thesis using Running by simp
    next
      case begun
      then show ?thesis using Running bound_control [of x b] assms(3) by (simp add: may_publish_def)
    next
      case step
      have "jb_stage j \<noteq> AtPublish" using step(3) by (auto simp: job_step_def)
      then show ?thesis
        using Running step job_next [OF step(3)] assms(2) step_books_bounded [OF assms(2), of a]
        by (auto simp: step_stores_def step_publishes_def may_publish_def split: if_splits)
    qed
  qed (use step_books_bounded [OF assms(2)] in \<open>simp_all add: may_publish_def\<close>)
  then show "length (step_stores (bt_exec b) a) + may_store (bt_exec b') \<le> may_store (bt_exec b)"
    "length (step_publishes (bt_exec b) a) + may_publish (bt_exec b') \<le> may_publish (bt_exec b)"
    by blast+
qed

lemma halted_step:
  assumes "bot_step b a b'" "bot_inv b" "control_blocks (bt_shared b)" "stays_halted a"
  shows "control_blocks (bt_shared b')"
    "\<not> is_request a \<Longrightarrow> mset (bt_queue b') \<subseteq># mset (bt_queue b)"
proof -
  have inv: "is_heap (bt_queue b)" "control_synced b" using assms(2) by (simp_all add: bot_inv_def)
  from assms(1) have "control_blocks (bt_shared b')
    \<and> (\<not> is_request a \<longrightarrow> mset (bt_queue b') \<subseteq># mset (bt_queue b))"
  proof cases
    case (tick t)
    then show ?thesis
      using assms(3,4) inv halted_load [of b t] halted_tick_intents [of b t]
      by (simp add: decision_tick_out)
  next
    case (exec_take it q)
    then show ?thesis using assms(3) iq.pop_elems [OF inv(1)] by simp
  qed (use assms(3) in \<open>auto simp: on_price_def on_pool_def apply_reload_def Let_def split: option.splits\<close>)
  then show "control_blocks (bt_shared b')"
    "\<not> is_request a \<Longrightarrow> mset (bt_queue b') \<subseteq># mset (bt_queue b)" by blast+
qed

lemma halted_trace:
  assumes "bot_trace b as b'" "bot_inv b" "control_blocks (bt_shared b)" "list_all stays_halted as"
  shows "control_blocks (bt_shared b')
    \<and> (\<exists>ts. xw_trades (bt_world b') = xw_trades (bt_world b) @ ts
          \<and> length ts + may_store (bt_exec b') \<le> may_store (bt_exec b))
    \<and> (\<exists>ps. xw_published (bt_world b') = xw_published (bt_world b) @ ps
          \<and> length ps + may_publish (bt_exec b') \<le> may_publish (bt_exec b))
    \<and> (list_all (\<lambda>a. \<not> is_request a) as \<longrightarrow> mset (bt_queue b') \<subseteq># mset (bt_queue b))"
  using assms
proof (induction rule: bot_trace.induct)
  case (trace_snoc b as b' a b'')
  have inv: "bot_inv b'" using trace_snoc bot_trace_inv by blast
  then have ok: "executor_ok (bt_exec b')" by (simp add: bot_inv_def)
  from trace_snoc obtain ts ps where ih: "control_blocks (bt_shared b')"
    "xw_trades (bt_world b') = xw_trades (bt_world b) @ ts"
    "length ts + may_store (bt_exec b') \<le> may_store (bt_exec b)"
    "xw_published (bt_world b') = xw_published (bt_world b) @ ps"
    "length ps + may_publish (bt_exec b') \<le> may_publish (bt_exec b)"
    "list_all (\<lambda>a. \<not> is_request a) as \<longrightarrow> mset (bt_queue b') \<subseteq># mset (bt_queue b)"
    by auto
  note h = halted_books [OF trace_snoc.hyps(2) ok ih(1)]
  show ?case
  proof (intro conjI exI)
    show "control_blocks (bt_shared b'')"
      using halted_step [OF trace_snoc.hyps(2) inv ih(1)] trace_snoc.prems(3) by simp
    show "xw_trades (bt_world b'') = xw_trades (bt_world b) @ (ts @ step_stores (bt_exec b') a)"
      "xw_published (bt_world b'') = xw_published (bt_world b) @ (ps @ step_publishes (bt_exec b') a)"
      by (simp_all add: bot_step_books [OF trace_snoc.hyps(2)] ih(2,4))
    show "length (ts @ step_stores (bt_exec b') a) + may_store (bt_exec b'') \<le> may_store (bt_exec b)"
      "length (ps @ step_publishes (bt_exec b') a) + may_publish (bt_exec b'') \<le> may_publish (bt_exec b)"
      using h ih(3,5) by simp_all
    show "list_all (\<lambda>a. \<not> is_request a) (as @ [a]) \<longrightarrow> mset (bt_queue b'') \<subseteq># mset (bt_queue b)"
      using halted_step(2) [OF trace_snoc.hyps(2) inv ih(1)] trace_snoc.prems(3) ih(6)
      by (auto intro: subset_mset.order_trans)
  qed
qed simp

text \<open>C2. The control file stops the bot: once the bot has loaded a state that halts, pauses or
  sets any risk mode but SAFE, and as long as every version of the file it finds is unreadable or
  stops it too, no intent whose execution begins from then on stores or publishes a trade, in any
  interleaving of the events with the steps of the executor, failing system calls included; and
  unless a request comes in, nothing is added to the queue.  What it does not stop is an
  execution that has read a permitting control state before - the executor reads it once, at the
  beginning: that one can still store and publish its one trade.\<close>

theorem control_file_stops_bot:
  assumes "bot_trace b as b'" "bot_inv b" "control_blocks (bt_shared b)" "list_all stays_halted as"
  shows "(\<exists>ts ps. xw_trades (bt_world b') = xw_trades (bt_world b) @ ts
       \<and> xw_published (bt_world b') = xw_published (bt_world b) @ ps
       \<and> length ts \<le> (if free_job (bt_exec b) then 1 else 0)
       \<and> length ps \<le> (if free_job (bt_exec b) then 1 else 0))
    \<and> (free_job (bt_exec b') \<longrightarrow> free_job (bt_exec b))
    \<and> control_blocks (bt_shared b')
    \<and> (list_all (\<lambda>a. \<not> is_request a) as \<longrightarrow> mset (bt_queue b') \<subseteq># mset (bt_queue b))"
proof -
  from halted_trace [OF assms] obtain ts ps where h: "control_blocks (bt_shared b')"
    "xw_trades (bt_world b') = xw_trades (bt_world b) @ ts"
    "length ts + may_store (bt_exec b') \<le> may_store (bt_exec b)"
    "xw_published (bt_world b') = xw_published (bt_world b) @ ps"
    "length ps + may_publish (bt_exec b') \<le> may_publish (bt_exec b)"
    "list_all (\<lambda>a. \<not> is_request a) as \<longrightarrow> mset (bt_queue b') \<subseteq># mset (bt_queue b)" by blast
  have "length ts \<le> may_publish (bt_exec b)" "length ps \<le> may_publish (bt_exec b)"
    "may_publish (bt_exec b') \<le> may_publish (bt_exec b)"
    using h(3,5) may_store_le [of "bt_exec b"] by linarith+
  with h(1,2,4,6) show ?thesis by (auto simp: may_publish_def split: if_splits)
qed

subsection \<open>Automatic intents\<close>

lemma strategy_result_len: "length (snd (snd (snd (strategy_result t b)))) \<le> 1"
  by (simp add: strategy_result_def eval_v3_def eval_mock_def EvaluateMock_def Let_def case_prod_beta
      split: option.splits)

text \<open>C6. A tick puts at most one intent into the queue, and loses none that is there; it adds one
  only if the automatic evaluation is switched on, manual mode is off, the market is in normal
  mode - then the level it publishes is SAFE - and the control state that it has just loaded
  allows it.  It never touches the trades.\<close>

theorem auto_intents_gated:
  assumes "is_heap (bt_queue b)"
  shows "\<exists>its. mset (bt_queue (decision_tick t b)) = mset its + mset (bt_queue b)
     \<and> length its \<le> 1 \<and> is_heap (bt_queue (decision_tick t b))
     \<and> xw_trades (bt_world (decision_tick t b)) = xw_trades (bt_world b)
     \<and> (its \<noteq> [] \<longrightarrow> ti_env t ''PHOENIX_AUTO_EVAL'' = ''1'' \<and> ti_env t ''PHOENIX_MANUAL_ONLY'' \<noteq> ''1''
          \<and> tick_mode t = ''normal'' \<and> tick_level t = LevelSafe
          \<and> \<not> control_blocks (bt_control (decision_tick t b)))"
proof (intro exI conjI impI)
  show "mset (bt_queue (decision_tick t b)) = mset (tick_intents t b) + mset (bt_queue b)"
    "is_heap (bt_queue (decision_tick t b))"
    using enqueue_all [OF assms] by (simp_all add: decision_tick_out)
  show "length (tick_intents t b) \<le> 1"
    using strategy_result_len by (simp add: tick_intents_def Let_def)
  show "xw_trades (bt_world (decision_tick t b)) = xw_trades (bt_world b)"
    using decision_tick_out(6) [of t b] by (simp add: ledger_def)
  assume "tick_intents t b \<noteq> []"
  then have h: "\<not> tick_blocked t" "auto_eval t"
    "\<not> control_blocks (bt_control (publish_market t (load_control t b)))"
    by (auto simp: tick_intents_def Let_def split: if_splits)
  then show "ti_env t ''PHOENIX_AUTO_EVAL'' = ''1''" "ti_env t ''PHOENIX_MANUAL_ONLY'' \<noteq> ''1''"
    "tick_mode t = ''normal''" "tick_level t = LevelSafe"
    by (simp_all add: tick_blocked_def auto_eval_def manual_only_def tick_level_def)
  show "\<not> control_blocks (bt_control (decision_tick t b))"
    using h(3) rest_eqD(2) [OF publish_market_frame(1) [of t "load_control t b"]]
    by (simp add: decision_tick_out)
qed

subsection \<open>The way of an automatic intent\<close>

lemma graphic_trim: "s \<noteq> [] \<Longrightarrow> list_all graphic s \<Longrightarrow> trim_space s = s"
  by (rule trim_space_id) (auto simp: list_all_iff)

lemma stamped_meta:
  "meta_get (int_Metadata (stamp_intent runID v it)) ''contract_v1_intent_id'' = iv_IntentID v"
  "meta_get (int_Metadata (stamp_intent runID v it)) ''contract_v1_run_id'' = runID"
  "parseMetadataInt64 (int_Metadata (stamp_intent runID v it)) ''contract_v1_ts_local_ms''
     = (case parse_int (itoa (iv_TsLocalMS v)) of None \<Rightarrow> 0 | Some n \<Rightarrow> n)"
  "parseMetadataInt64 (int_Metadata (stamp_intent runID v it)) ''contract_v1_ttl_ms''
     = (case parse_int (itoa (iv_TTLms v)) of None \<Rightarrow> 0 | Some n \<Rightarrow> n)"
  by (simp_all add: stamp_intent_def meta_get_Some parseMetadataInt64_def map_get_def Let_def)

lemma v1_of_intent_fields:
  "iv_TsLocalMS (v1_of_intent runID cfg t it) = unix_ms (ti_clock t 5)"
  "iv_TTLms (v1_of_intent runID cfg t it) = intent_ttl_ms"
  "\<exists>base. iv_IntentID (v1_of_intent runID cfg t it)
     = trim_space runID @ ''_REBALANCE_V3_'' @ ti_hash8 t base"
  by (simp_all add: v1_of_intent_def ToIntentV1FromRebalance_def computeRebalanceIntentV1ID_def Let_def)
    (rule exI, rule refl)

lemma stamped_meta_of:
  assumes "runID \<noteq> []" "list_all graphic runID"
    "\<And>s. ti_hash8 t s \<noteq> [] \<and> list_all graphic (ti_hash8 t s)"
    "v = v1_of_intent runID cfg t it"
  shows "v1_meta_of x (stamp_intent runID v it) =
    \<lparr>vm_IntentID = iv_IntentID v, vm_RunID = runID, vm_TsMS = iv_TsLocalMS v,
     vm_TTLMS = intent_ttl_ms, vm_nowMS = unix_ms (xi_clock x 0)\<rparr>"
proof -
  obtain base where ident: "iv_IntentID v = trim_space runID @ ''_REBALANCE_V3_'' @ ti_hash8 t base"
    using v1_of_intent_fields(3) unfolding assms(4) by blast
  have "list_all graphic ''_REBALANCE_V3_''" by code_simp
  then have "list_all graphic (iv_IntentID v)"
    using assms(1-3) graphic_trim [OF assms(1,2)] by (simp add: ident)
  then have "trim_space (iv_IntentID v) = iv_IntentID v" "iv_IntentID v \<noteq> []"
    using graphic_trim by (simp_all add: ident)
  moreover have "is_i64 (unix_ms (ti_clock t 5))" "is_i64 intent_ttl_ms"
    by (simp add: unix_ms_def) (simp add: intent_ttl_ms_def is_i64_def min_i64_def max_i64_def)
  ultimately show ?thesis
    using graphic_trim [OF assms(1,2)]
    by (simp add: v1_meta_of_def stamped_meta v1_of_intent_fields assms(4) Let_def)
qed

text \<open>C10. The executor finds the published intent again: from the metadata that the decision loop
  stamps on an intent of the V3 strategy it reads back the identifier and the time stamp of the
  IntentV1 that was published, the run and the time to live of two minutes - provided that
  the run and the hash are printable text, as the code makes them.\<close>

theorem stamped_intent_found_again:
  assumes "runID \<noteq> []" "list_all graphic runID"
    "\<And>s. ti_hash8 t s \<noteq> [] \<and> list_all graphic (ti_hash8 t s)"
  shows "let v = v1_of_intent runID cfg t it; m = v1_meta_of x (stamp_intent runID v it)
    in vm_IntentID m = iv_IntentID v \<and> vm_RunID m = runID \<and> vm_TsMS m = iv_TsLocalMS v
       \<and> vm_TTLMS m = 120000"
  by (simp add: stamped_meta_of [OF assms refl] Let_def intent_ttl_ms_def)

lemma unix_ms_exact:
  assumes "unix_epoch \<le> n" "n \<le> unix_epoch + max_i64"
  shows "unix_ms n = (n - unix_epoch) div 1000000"
proof -
  have "0 \<le> (n - unix_epoch) div 1000000" using assms by simp
  moreover have "(n - unix_epoch) div 1000000 \<le> n - unix_epoch"
    using assms by (simp add: div_le_self_int)
  ultimately have "is_i64 ((n - unix_epoch) div 1000000)"
    using assms(2) by (simp add: is_i64_def min_i64_def)
  then show ?thesis by (simp add: unix_ms_def wrap64_id)
qed

lemma expired_after_ttl:
  assumes "unix_epoch + 1000000 \<le> t0" "t0 + 120001 * 1000000 \<le> t1" "t1 \<le> unix_epoch + max_i64"
  shows "v1_expired \<lparr>vm_IntentID = i, vm_RunID = r, vm_TsMS = unix_ms t0,
     vm_TTLMS = intent_ttl_ms, vm_nowMS = unix_ms t1\<rparr>"
proof -
  let ?a = "(t0 - unix_epoch) div 1000000" and ?b = "(t1 - unix_epoch) div 1000000"
  have ab: "unix_ms t0 = ?a" "unix_ms t1 = ?b"
    using assms by (simp_all add: unix_ms_exact)
  have "1 \<le> ?a" "?a + 120001 \<le> ?b" using assms by linarith+
  moreover have "?b \<le> max_i64"
    using assms div_le_self_int [of "t1 - unix_epoch" 1000000] by linarith
  ultimately have "sub64 ?b ?a = ?b - ?a"
    by (intro sub64_id) (simp add: is_i64_def min_i64_def)
  with \<open>1 \<le> ?a\<close> \<open>?a + 120001 \<le> ?b\<close> show ?thesis
    by (simp add: v1_expired_def ab intent_ttl_ms_def)
qed


subsection \<open>Where the system does not do what it means to\<close>

text \<open>A forced dry run does not survive a reload of the configuration: with
  PHOENIX_FORCE_DRY_RUN=1 the bot starts in dry-run mode whatever the file says, but the next
  reloaded file replaces the forced value, and the next tick publishes the mode LIVE.\<close>

theorem forced_dry_run_lost:
  assumes "env ''PHOENIX_FORCE_DRY_RUN'' = ''1''" "\<not> sc_DryRun (ap_Strategy cfg')"
    "xw_server w = Some s"
  shows "let b = initial_bot runID mv (startup_config env cfg) w; b' = apply_reload (Some cfg') b
    in tick_v1_mode (bt_cfg b) = ModeDryRun \<and> tick_v1_mode (bt_cfg b') = ModeLive
       \<and> map_option as_mode (xw_server (bt_world (publish_market t b'))) = Some ModeLive"
proof -
  let ?b = "initial_bot runID mv (startup_config env cfg) w"
  have "tick_v1_mode (bt_cfg ?b) = ModeDryRun"
    using assms(1) by (simp add: initial_bot_def startup_config_def tick_v1_mode_def Let_def)
  moreover have live: "tick_v1_mode (bt_cfg (apply_reload (Some cfg') ?b)) = ModeLive"
    using assms(2) by (simp add: apply_reload_def tick_v1_mode_def Let_def)
  moreover have "xw_server (bt_world (apply_reload (Some cfg') ?b)) = Some s"
    using assms(3) by (simp add: apply_reload_def initial_bot_def Let_def)
  ultimately show ?thesis
    by (simp add: publish_market_def show_memory_def on_bot_world_def publish_risk_def write_v1_def
        on_server_def UpdateDecision_def UpdateLastRiskV1_def SetContractV1Mode_def Let_def)
qed

text \<open>The level that the loop publishes for a changed control file understates it: it is SAFE
  although the state stops the bot exactly for a risk mode that is not one of the known words
  (\<open>halt\<close> in lower case, for instance), and HALT becomes PAUSE when the file also pauses.\<close>

theorem control_level_understates:
  "(control_event_level c = LevelSafe \<and> control_blocks c
     \<longleftrightarrow> trim_space (cs_DesiredState c) \<notin> {''PAUSED'', ''SAFE_MODE''}
        \<and> trim_space (cs_RiskMode c) \<notin> {[], ''SAFE'', ''DENY'', ''PAUSE'', ''SAFE_MODE'', ''HALT''})
   \<and> (\<forall>d \<in> {''PAUSED'', ''SAFE_MODE''}. trim_space (cs_DesiredState c) = d \<longrightarrow>
        control_event_level c < control_level ''HALT'')"
  by (auto simp: control_event_level_def control_blocks_def mode_level_def control_level_def
      less_risk_level_def Let_def)

fun is_pool_event :: "bot_action \<Rightarrow> bool" where
  "is_pool_event (PoolEvent _ _ _) = True" | "is_pool_event _ = False"

lemma load_control_tick: "bt_poolTick (load_control t b) = bt_poolTick b"
  by (rule load_control_frame)

lemma evaluate_strategies_tick: "bt_poolTick (evaluate_strategies t b) = bt_poolTick b"
  by (simp add: evaluate_strategies_def eval_v3_def eval_mock_def on_bot_world_def show_memory_def
      remember_eval_def publish_intent_def Let_def case_prod_beta split: option.splits)

lemma step_keeps_tick:
  assumes "bot_step b a b'" "\<not> is_pool_event a"
  shows "bt_poolTick b' = bt_poolTick b"
  using assms(1)
proof cases
  case (tick t)
  have "bt_poolTick (remember_eval now act why c) = bt_poolTick c" for now act why c
    by (simp add: remember_eval_def)
  then show ?thesis
    by (simp add: tick decision_tick_def evaluate_strategies_tick load_control_tick Let_def)
qed (use assms(2) in \<open>auto simp: on_price_def apply_reload_def Let_def split: option.splits\<close>)

lemma trace_keeps_tick:
  "bot_trace b as b' \<Longrightarrow> list_all (\<lambda>a. \<not> is_pool_event a) as \<Longrightarrow> bt_poolTick b' = bt_poolTick b"
  by (induction rule: bot_trace.induct) (simp_all add: step_keeps_tick)

text \<open>C33. Until the first pool state arrives - fifteen seconds after the start, or never when no pool
  address is configured or the
  RPC fails - the loop evaluates the V3 strategy at the tick 201000, the middle of a made-up
  position.  A real position below it counts as out of range, and the evaluation asks to move it
  around a tick that the pool never had.\<close>

theorem made_up_tick_rebalances:
  assumes "bot_trace (initial_bot runID mv cfg w) as b" "list_all (\<lambda>a. \<not> is_pool_event a) as"
    "pos = Resolve (ti_fetch t) (ti_clock t 2) vcfg" "ps_LowerTick pos < ps_UpperTick pos"
    "ps_UpperTick pos < 201000" "v3_lastIntentAt (bt_v3 b) = 0"
  shows "bt_poolTick b = 201000 \<and> length (snd (snd (snd (eval_v3 t vcfg b)))) = 1
    \<and> fst (snd (snd (eval_v3 t vcfg b))) = ''out_of_range''"
proof -
  have tick: "bt_poolTick b = 201000"
    using trace_keeps_tick [OF assms(1,2)]
    by (simp add: initial_bot_def mock_position_def add64_def div64_def tquot_def wrap64_def)
  have "\<exists>st r it. EvaluateAt rfc3339nano vcfg (ti_clock t 3) (v3_input_of t pos (bt_poolTick b))
      (bt_v3 b) = (st, r, Some it) \<and> vo_Reason r = ''out_of_range''"
    using assms(4-6)
    by (auto simp: EvaluateAt_def v3_input_of_def v3_reason_def v3_noop_def tick t_is_zero_def Let_def
        split: prod.splits)
  then show ?thesis using tick by (auto simp: eval_v3_def assms(3) [symmetric] Let_def)
qed

subsection \<open>Examples\<close>

definition ex_live_world :: exec_world where
  "ex_live_world = ex_exec_world\<lparr>xw_server := Some (NewServer 0 0)\<rparr>"

definition ex_bot :: bot where
  "ex_bot = initial_bot ''phoenix-1'' [] ex_cfg_dry ex_live_world"

definition ex_halt :: control_state where
  "ex_halt = control_default\<lparr>cs_RiskMode := ''HALT''\<rparr>"

definition ex_tick :: tick_input where
  "ex_tick =
     \<lparr>ti_env = (\<lambda>_. []), ti_clock = (\<lambda>_. unix_epoch + second), ti_faults = no_faults 0 0,
      ti_disk = Some \<lparr>fl_mod = 1, fl_size = 1, fl_doc = Some ex_halt\<rparr>, ti_snap = zero_snapshot,
      ti_serverSnap = (\<lambda>_. zero_snapshot), ti_fetch = (\<lambda>_ _ _. Some (- 600, 600, 5)),
      ti_hash8 = (\<lambda>_. ''0a1b2c3d''), ti_json = (\<lambda>_. None)\<rparr>"

definition ex_halted :: bot where
  "ex_halted = ex_bot\<lparr>bt_control := ex_halt, bt_shared := ex_halt,
     bt_loader := new_loader\<lparr>ld_lastState := ex_halt, ld_lastExists := True\<rparr>\<rparr>"

lemma ex_one_tick: "bot_trace b [DecisionTick t] (decision_tick t b)"
  using trace_snoc [OF trace_nil tick, of b t] by simp

lemma ex_world_empty: "xw_trades ex_live_world = []" "xw_published ex_live_world = []"
  by (simp_all add: ex_live_world_def ex_exec_world_def)

lemma ex_halt_blocks: "control_blocks ex_halt" "file_halts (ti_disk ex_tick)"
  by code_simp+

lemma ex_halted_inv: "bot_inv ex_halted"
  using initial_bot_inv [OF ex_world_empty]
  by (simp add: bot_inv_def ex_halted_def ex_bot_def control_synced_def)

theorem reachable_bot_ok_witness:
  "bt_control (decision_tick ex_tick ex_bot) = bt_shared (decision_tick ex_tick ex_bot)"
proof -
  have "bot_trace (initial_bot ''phoenix-1'' [] ex_cfg_dry ex_live_world) [DecisionTick ex_tick]
      (decision_tick ex_tick ex_bot)"
    using ex_one_tick [of ex_bot ex_tick] by (simp add: ex_bot_def)
  from reachable_bot_ok [OF ex_world_empty this] show ?thesis by blast
qed

text \<open>An execution in flight when the bot halts: it has passed the gates, and still stores its
  trade.\<close>

definition ex_job :: exec_job where
  "ex_job = \<lparr>jb_input = ex_exec, jb_meta = v1_meta_of ex_exec (non_nil_meta (ex_mock ''a'')),
     jb_intent = non_nil_meta (ex_mock ''a''), jb_stage = AtSave\<rparr>"

definition ex_flying :: bot where
  "ex_flying = ex_halted\<lparr>bt_exec := Running ex_job\<rparr>"

definition ex_landed :: bot where
  "ex_landed = ex_flying\<lparr>bt_world := store_trade ex_exec (job_trade ex_job) (bt_world ex_flying),
     bt_exec := Running (ex_job\<lparr>jb_stage := AtPublish\<rparr>)\<rparr>"

lemma ex_flying_inv: "bot_inv ex_flying" "free_job (bt_exec ex_flying)"
proof -
  have "\<not> control_stops ex_exec" by code_simp
  moreover have "\<not> mode_stops ex_exec" by code_simp
  ultimately show "bot_inv ex_flying" "free_job (bt_exec ex_flying)"
    using ex_halted_inv
    by (simp_all add: bot_inv_def ex_flying_def control_synced_def job_ok_def)
      (simp_all add: ex_job_def)
qed

lemma ex_flight: "bot_trace ex_flying [Advance] ex_landed"
proof -
  have "bt_exec ex_flying = Running ex_job" by (simp add: ex_flying_def)
  moreover have "job_step (bt_onchain ex_flying) ex_job (bt_world ex_flying)
      = (store_trade ex_exec (job_trade ex_job) (bt_world ex_flying), Running (ex_job\<lparr>jb_stage := AtPublish\<rparr>))"
    by (simp add: job_step_def ex_job_def)
  ultimately have "bot_step ex_flying Advance ex_landed"
    unfolding ex_landed_def by (rule exec_advance)
  from trace_snoc [OF trace_nil this] show ?thesis by simp
qed

theorem control_file_stops_bot_witness:
  "xw_trades (bt_world (decision_tick ex_tick ex_halted)) = []
   \<and> length (xw_trades (bt_world ex_landed)) = 1 \<and> control_blocks (bt_shared ex_landed)"
proof -
  have c: "control_blocks (bt_shared ex_halted)" "control_blocks (bt_shared ex_flying)"
    by (simp_all add: ex_halted_def ex_flying_def ex_halt_blocks)
  have "\<not> free_job (bt_exec ex_halted)" by (simp add: ex_halted_def ex_bot_def initial_bot_def)
  with control_file_stops_bot [OF ex_one_tick ex_halted_inv c(1), of ex_tick]
  have "xw_trades (bt_world (decision_tick ex_tick ex_halted)) = xw_trades (bt_world ex_halted)"
    by (auto simp: ex_halt_blocks)
  moreover have "control_blocks (bt_shared ex_landed)"
    using control_file_stops_bot [OF ex_flight ex_flying_inv(1) c(2)] by simp
  moreover have "xi_saved ex_exec" by (simp add: ex_exec_def)
  ultimately show ?thesis
    by (simp add: ex_landed_def ex_flying_def ex_halted_def ex_bot_def initial_bot_def ex_world_empty
        store_trade_def)
qed

theorem auto_intents_gated_witness:
  "mset (bt_queue (decision_tick ex_tick ex_halted)) = {#}"
proof -
  have "is_heap (bt_queue ex_halted)" using ex_halted_inv by (simp add: bot_inv_def)
  from auto_intents_gated [OF this, of ex_tick]
  have "mset (bt_queue (decision_tick ex_tick ex_halted)) = mset (bt_queue ex_halted)"
    by (auto simp: ex_tick_def)
  then show ?thesis by (simp add: ex_halted_def ex_bot_def initial_bot_def NewIntentQueue_def)
qed

lemma ex_printable: "list_all graphic ''phoenix-1''" "list_all graphic ''0a1b2c3d''"
  by code_simp+

lemma ex_hash: "ti_hash8 ex_tick s \<noteq> [] \<and> list_all graphic (ti_hash8 ex_tick s)"
  using ex_printable by (simp add: ex_tick_def)

theorem stamped_intent_found_again_witness:
  "vm_RunID (v1_meta_of ex_exec (stamp_intent ''phoenix-1''
     (v1_of_intent ''phoenix-1'' ex_cfg_dry ex_tick (ex_mock ''a'')) (ex_mock ''a''))) = ''phoenix-1''"
  using stamped_intent_found_again [OF _ ex_printable(1) ex_hash, of ex_cfg_dry "ex_mock ''a''" ex_exec]
  by (simp add: Let_def)


theorem forced_dry_run_lost_witness:
  "tick_v1_mode (bt_cfg (apply_reload
     (Some (ex_cfg_dry\<lparr>ap_Strategy := (ap_Strategy ex_cfg_dry)\<lparr>sc_DryRun := False\<rparr>\<rparr>)) ex_bot)) = ModeLive"
proof -
  have "xw_server ex_live_world = Some (NewServer 0 0)" by (simp add: ex_live_world_def)
  moreover have "startup_config (\<lambda>_. ''1'') ex_cfg_dry = ex_cfg_dry"
    by (simp add: startup_config_def ex_cfg_dry_def Let_def)
  ultimately show ?thesis
    using forced_dry_run_lost [of "\<lambda>_. ''1''"
        "ex_cfg_dry\<lparr>ap_Strategy := (ap_Strategy ex_cfg_dry)\<lparr>sc_DryRun := False\<rparr>\<rparr>"
        ex_live_world "NewServer 0 0" "''phoenix-1''" "[]" ex_cfg_dry ex_tick]
    by (simp add: ex_bot_def Let_def)
qed

theorem control_level_understates_witness:
  "control_event_level (control_default\<lparr>cs_RiskMode := ''halt''\<rparr>) = LevelSafe
   \<and> control_blocks (control_default\<lparr>cs_RiskMode := ''halt''\<rparr>)"
proof -
  let ?c = "control_default\<lparr>cs_RiskMode := ''halt''\<rparr>"
  have "trim_space (cs_DesiredState ?c) \<notin> {''PAUSED'', ''SAFE_MODE''}
    \<and> trim_space (cs_RiskMode ?c) \<notin> {[], ''SAFE'', ''DENY'', ''PAUSE'', ''SAFE_MODE'', ''HALT''}"
    by code_simp
  with control_level_understates [of ?c] show ?thesis by blast
qed

theorem made_up_tick_rebalances_witness:
  "fst (snd (snd (eval_v3 ex_tick
     (defaultV3RebalanceConfig\<lparr>vr_PositionTokenID := 7, vr_NPMAddress := ''npm'', vr_ChainRPCURL := ''rpc''\<rparr>)
     ex_bot))) = ''out_of_range''"
proof -
  let ?c = "defaultV3RebalanceConfig\<lparr>vr_PositionTokenID := 7, vr_NPMAddress := ''npm'',
    vr_ChainRPCURL := ''rpc''\<rparr>"
  let ?p = "Resolve (ti_fetch ex_tick) (ti_clock ex_tick 2) ?c"
  have "trim_space ''npm'' = ''npm''" "trim_space ''rpc'' = ''rpc''" by code_simp+
  then have p: "ps_LowerTick ?p = - 600" "ps_UpperTick ?p = 600"
    by (simp_all add: Resolve_def ex_tick_def defaultV3RebalanceConfig_def Let_def)
  have "bot_trace ex_bot [] ex_bot" by (rule trace_nil)
  then have "bot_trace (initial_bot ''phoenix-1'' [] ex_cfg_dry ex_live_world) [] ex_bot"
    by (simp add: ex_bot_def)
  from made_up_tick_rebalances [OF this _ refl, of ex_tick ?c]
  have "ps_LowerTick ?p < ps_UpperTick ?p \<Longrightarrow> ps_UpperTick ?p < 201000 \<Longrightarrow>
    v3_lastIntentAt (bt_v3 ex_bot) = 0 \<Longrightarrow>
    fst (snd (snd (eval_v3 ex_tick ?c ex_bot))) = ''out_of_range''" by simp
  moreover have "v3_lastIntentAt (bt_v3 ex_bot) = 0"
    by (simp add: ex_bot_def initial_bot_def NewV3RebalanceStrategy_def)
  ultimately show ?thesis by (simp only: p)
qed

end
