(* ===== verification/Pnl_Loop.thy ===== *)
theory Pnl_Loop
  imports Executor Go_Time
begin

text \<open>
  The PnL and alert loop of cmd/bot: every ten seconds it values the wallet, reads or sets the
  daily and the total baseline in a JSON file, subtracts the cost of gas, publishes the result
  and alerts, and posts new alerts to a webhook.

  Parameters: the address functions of go-ethereum (\<open>addr_lib\<close>), the balances that the RPC
  returns (\<open>None\<close> is an error), the environment and the answers of the webhook.  The table of
  trades is a list; a query that fails gives no rows, since its error is dropped.  Arithmetic
  of \<open>math/big\<close> is exact rational arithmetic rounded to the precision of the operands.
\<close>

subsection \<open>Numbers of math/big\<close>

text \<open>\<open>big.Float\<close>: rounding to a precision, to nearest and ties to even, without bounds on the
  exponent.  An integer has the precision of its length, but at least 64 bits.\<close>

definition big_round :: "int \<Rightarrow> rat \<Rightarrow> rat" where
  "big_round prec x = (if x = 0 then 0 else rq (ilog2 \<bar>x\<bar> - (prec - 1)) x)"

definition int_prec :: "int \<Rightarrow> int" where
  "int_prec n = max 64 (bitlen \<bar>n\<bar>)"

definition wei_per_eth :: rat where "wei_per_eth = 1000000000000000000"

definition eth_of_wei :: "int \<Rightarrow> rat" where
  "eth_of_wei n = big_round (int_prec n) (of_int n / wei_per_eth)"

definition weiToETH :: "int option \<Rightarrow> float64" where
  "weiToETH wei =
     (case wei of None \<Rightarrow> Fin 0
      | Some n \<Rightarrow> if n \<le> 0 then Fin 0 else rnd (eth_of_wei n))"

text \<open>\<open>math.Pow10\<close> is a product of two entries of its tables.\<close>

definition pow10_table :: "nat \<Rightarrow> float64" where
  "pow10_table n = f_lit (10 ^ n)"

definition Pow10 :: "int64 \<Rightarrow> float64" where
  "Pow10 n =
     (if 308 < n then PInf
      else f_mul (pow10_table (32 * (nat n div 32))) (pow10_table (nat n mod 32)))"

definition unitsToFloat :: "int option \<Rightarrow> int64 \<Rightarrow> float64" where
  "unitsToFloat units decimals =
     (case units of None \<Rightarrow> Fin 0
      | Some n \<Rightarrow>
          if n = 0 then Fin 0
          else if decimals \<le> 0 then rnd (big_round (int_prec n) (of_int n))
          else (case Pow10 decimals of
                  Fin d \<Rightarrow> rnd (big_round (int_prec n) (of_int n / d))
                | _ \<Rightarrow> Fin 0))"

subsection \<open>The cost of gas\<close>

text \<open>The gas of one trade in wei, if its metadata states a positive amount.\<close>

definition gas_wei :: "trade_record \<Rightarrow> int option" where
  "gas_wei tr =
     (case tr_Meta tr ''gas_cost_wei'' of
        Some (JStr s) \<Rightarrow>
          if trim_space s = [] then None
          else (case big_set_string s of None \<Rightarrow> None | Some n \<Rightarrow> if n \<le> 0 then None else Some n)
      | _ \<Rightarrow> None)"

text \<open>\<open>wei / 1e18 * price\<close>; the price is not a NaN here (\<open>big.NewFloat\<close> would panic).\<close>

definition gas_usd :: "int \<Rightarrow> float64 \<Rightarrow> float64" where
  "gas_usd n price =
     (case price of
        Fin p \<Rightarrow> rnd (big_round (int_prec n) (eth_of_wei n * p))
      | _ \<Rightarrow> PInf)"

fun add_gas :: "float64 \<Rightarrow> trade_record list \<Rightarrow> float64 \<Rightarrow> float64" where
  "add_gas price [] acc = acc"
| "add_gas price (tr # trs) acc =
     (case gas_wei tr of None \<Rightarrow> add_gas price trs acc
      | Some n \<Rightarrow> add_gas price trs (f_add acc (gas_usd n price)))"

text \<open>\<open>None\<close> is the panic of \<open>big.NewFloat\<close> on a NaN.\<close>

definition sumGasUSD :: "trade_record list \<Rightarrow> float64 \<Rightarrow> float64 option" where
  "sumGasUSD trades ethPrice =
     (if trades = [] \<or> f_le ethPrice (Fin 0) then Some (Fin 0)
      else if ethPrice = NaN \<and> (\<exists>tr \<in> set trades. gas_wei tr \<noteq> None) then None
      else Some (add_gas ethPrice trades (Fin 0)))"

text \<open>The queries of internal/storage, newest first.\<close>

definition GetTradesSince :: "bool \<Rightarrow> gotime \<Rightarrow> trade_record list \<Rightarrow> trade_record list" where
  "GetTradesSince err start trades =
     (if err then [] else sort_key (\<lambda>t. - tr_Time t) (filter (\<lambda>t. start \<le> tr_Time t) trades))"

definition GetRecentTrades :: "bool \<Rightarrow> nat \<Rightarrow> trade_record list \<Rightarrow> trade_record list" where
  "GetRecentTrades err limit trades =
     (if err then [] else take limit (sort_key (\<lambda>t. - tr_Time t) trades))"

subsection \<open>The value of the wallet\<close>

definition parseEnvFloat :: "environ \<Rightarrow> string \<Rightarrow> float64 \<Rightarrow> float64" where
  "parseEnvFloat env key dflt =
     (let s = trim_space (env key)
      in if s = [] then dflt else (case parse_float s of None \<Rightarrow> dflt | Some v \<Rightarrow> v))"

definition parseAddressSet :: "addr_lib \<Rightarrow> string \<Rightarrow> string set option" where
  "parseAddressSet lib raw =
     (let raw = trim_space raw
      in if raw = [] then None
         else Some (set (map (\<lambda>s. al_Hex lib (al_ToAddress lib s))
                (filter (\<lambda>s. s \<noteq> [] \<and> al_IsHex lib s) (map trim_space (split_on CHR '','' raw))))))"

definition price_entry :: "addr_lib \<Rightarrow> string \<Rightarrow> (string \<times> float64) option" where
  "price_entry lib part =
     (let part = trim_space part
      in if part = [] \<or> CHR ''='' \<notin> set part then None
         else
           let (a, v) = cut_at CHR ''='' part; a = trim_space a; v = trim_space v
           in if \<not> al_IsHex lib a then None
              else case parse_float v of None \<Rightarrow> None
                | Some f \<Rightarrow> if f_le f (Fin 0) then None else Some (al_Hex lib (al_ToAddress lib a), f))"

definition put_entry :: "(string \<times> float64) option \<Rightarrow> (string \<rightharpoonup> float64) \<Rightarrow> (string \<rightharpoonup> float64)" where
  "put_entry e m = (case e of None \<Rightarrow> m | Some (k, v) \<Rightarrow> m(k \<mapsto> v))"

definition parsePriceOverrides :: "addr_lib \<Rightarrow> string \<Rightarrow> (string \<rightharpoonup> float64) option" where
  "parsePriceOverrides lib raw =
     (let raw = trim_space raw
      in if raw = [] then None
         else Some (fold (\<lambda>part. put_entry (price_entry lib part)) (split_on CHR '','' raw) Map.empty))"

definition tokenUSDPrice :: "string \<Rightarrow> string set option \<Rightarrow> (string \<rightharpoonup> float64) option \<Rightarrow> float64" where
  "tokenUSDPrice token stables overrides =
     (case (case overrides of None \<Rightarrow> None | Some m \<Rightarrow> m token) of
        Some v \<Rightarrow> if f_lt (Fin 0) v then v
                  else if (case stables of None \<Rightarrow> False | Some s \<Rightarrow> token \<in> s) then Fin 1 else Fin 0
      | None \<Rightarrow> if (case stables of None \<Rightarrow> False | Some s \<Rightarrow> token \<in> s) then Fin 1 else Fin 0)"

record wallet_view =
  wv_native :: "int option"
  wv_erc20 :: "address \<Rightarrow> int option"

definition add_token ::
    "addr_lib \<Rightarrow> wallet_view \<Rightarrow> string \<Rightarrow> int64 \<Rightarrow> float64 \<Rightarrow> float64 \<Rightarrow> float64" where
  "add_token lib w token decimals usd acc =
     (if al_IsHex lib token \<and> 0 < decimals \<and> f_lt (Fin 0) usd
      then case wv_erc20 w (al_ToAddress lib token) of
          None \<Rightarrow> acc
        | Some b \<Rightarrow> f_add acc (f_mul (unitsToFloat (Some b) decimals) usd)
      else acc)"

definition stable_tokens :: "addr_lib \<Rightarrow> environ \<Rightarrow> pool_config \<Rightarrow> string set option" where
  "stable_tokens lib env pool =
     (case parseAddressSet lib (env ''PHOENIX_STABLE_TOKENS'') of
        Some s \<Rightarrow> Some s
      | None \<Rightarrow>
          if pc_Token1Decimals pool = 6 \<and> al_IsHex lib (pc_Token1 pool)
          then Some {al_Hex lib (al_ToAddress lib (pc_Token1 pool))} else None)"

definition token_prices ::
    "addr_lib \<Rightarrow> environ \<Rightarrow> pool_config \<Rightarrow> float64 \<Rightarrow> float64 \<times> float64" where
  "token_prices lib env pool dex =
     (let overrides = parsePriceOverrides lib (env ''PHOENIX_PRICE_USD_OVERRIDES'');
          stables = stable_tokens lib env pool;
          hex = (\<lambda>t. al_Hex lib (al_ToAddress lib t));
          p1 = tokenUSDPrice (hex (pc_Token1 pool)) stables overrides;
          p0 = tokenUSDPrice (hex (pc_Token0 pool)) stables overrides;
          p0 = (if f_eq p0 (Fin 0) \<and> f_lt (Fin 0) p1 \<and> f_lt (Fin 0) dex then f_div p1 dex else p0)
      in (p0, p1))"

definition computePortfolioUSD ::
    "addr_lib \<Rightarrow> environ \<Rightarrow> wallet_view \<Rightarrow> app_config option \<Rightarrow> float64 \<Rightarrow> float64 \<Rightarrow> float64" where
  "computePortfolioUSD lib env w cfg ethUSD dex =
     (case (case cfg of None \<Rightarrow> [] | Some c \<Rightarrow> ap_Pools c) of
        [] \<Rightarrow> Fin 0
      | pool # _ \<Rightarrow>
          if f_le ethUSD (Fin 0) then Fin 0
          else case wv_native w of None \<Rightarrow> Fin 0
          | Some wei \<Rightarrow>
              let acc = f_mul (weiToETH (Some wei)) ethUSD;
                  (p0, p1) = token_prices lib env pool dex;
                  acc = add_token lib w (pc_Token0 pool) (pc_Token0Decimals pool) p0 acc
              in add_token lib w (pc_Token1 pool) (pc_Token1Decimals pool) p1 acc)"

subsection \<open>The baselines\<close>

record baseline_file =
  bl_UpdatedAt :: string
  bl_Baselines :: "string \<rightharpoonup> float64"

definition empty_baselines :: baseline_file where
  "empty_baselines = \<lparr>bl_UpdatedAt = [], bl_Baselines = Map.empty\<rparr>"

definition read_baselines :: "faults \<Rightarrow> baseline_file disk \<Rightarrow> baseline_file" where
  "read_baselines ft d =
     (if ft_read ft then empty_baselines
      else case d of None \<Rightarrow> empty_baselines
      | Some f \<Rightarrow> (case fl_doc f of None \<Rightarrow> empty_baselines | Some s \<Rightarrow> s))"

text \<open>\<open>json.MarshalIndent\<close> refuses numbers that are not finite.  Numbers that were read from a
  file are finite.\<close>

definition is_fin :: "float64 \<Rightarrow> bool" where
  "is_fin v \<longleftrightarrow> \<not> f_is_nan v \<and> \<not> f_is_inf v"

definition baselineKey :: "app_config option \<Rightarrow> string \<Rightarrow> string \<Rightarrow> string" where
  "baselineKey cfg wallet label =
     (let chain = (case cfg of None \<Rightarrow> 0
                   | Some c \<Rightarrow> (case ap_Chains c of [] \<Rightarrow> 0 | ch # _ \<Rightarrow> ch_ID ch))
      in itoa chain @ '':'' @ to_lower (trim_space wallet) @ '':'' @ label)"

definition known_baseline :: "string \<Rightarrow> baseline_file \<Rightarrow> float64 option" where
  "known_baseline key s =
     (case bl_Baselines s key of None \<Rightarrow> None | Some v \<Rightarrow> if f_lt (Fin 0) v then Some v else None)"

definition persistBaselineUSD ::
    "gotime \<Rightarrow> faults \<Rightarrow> string \<Rightarrow> float64 \<Rightarrow> bool \<Rightarrow> baseline_file disk
      \<Rightarrow> baseline_file disk \<times> float64" where
  "persistBaselineUSD now ft key currentUSD overwrite d =
     (let s = read_baselines ft d
      in case (if overwrite then None else known_baseline key s) of
           Some v \<Rightarrow> (d, v)
         | None \<Rightarrow>
             let s = \<lparr>bl_UpdatedAt = rfc3339nano now, bl_Baselines = (bl_Baselines s)(key \<mapsto> currentUSD)\<rparr>
             in (if is_fin currentUSD \<and> \<not> ft_write ft
                 then Some \<lparr>fl_mod = ft_mod ft, fl_size = ft_size ft, fl_doc = Some s\<rparr> else d,
                 currentUSD))"

definition day_label :: "gotime \<Rightarrow> string" where
  "day_label t =
     (let (y, mo, d) = civil_of_days (t div nanos_per_day)
      in zpad 4 y @ ''-'' @ zpad 2 mo @ ''-'' @ zpad 2 d)"

text \<open>The label is trimmed; an empty one stands for the day on which the call is made.\<close>

definition baseline_label :: "gotime \<Rightarrow> string \<Rightarrow> string" where
  "baseline_label now label =
     (let label = trim_space label in if label = [] then day_label now else label)"

text \<open>\<open>ft 0\<close> are the faults of the first read, \<open>ft 1\<close> those of \<open>persistBaselineUSD\<close>; the clock is
  read for an empty label (0) and for the time of the update (1).\<close>

definition getOrSetBaselineUSD ::
    "environ \<Rightarrow> (nat \<Rightarrow> gotime) \<Rightarrow> (nat \<Rightarrow> faults) \<Rightarrow> app_config option \<Rightarrow> string \<Rightarrow> string \<Rightarrow> float64
      \<Rightarrow> baseline_file disk \<Rightarrow> baseline_file disk \<times> float64" where
  "getOrSetBaselineUSD env clock ft cfg wallet label currentUSD d =
     (if cfg = None \<or> wallet = [] \<or> f_le currentUSD (Fin 0) then (d, Fin 0)
      else
        let key = baselineKey cfg wallet (baseline_label (clock 0) label)
        in if env ''PHOENIX_PNL_RESET_BASELINE'' = ''1''
           then persistBaselineUSD (clock 1) (ft 1) key currentUSD True d
           else case known_baseline key (read_baselines (ft 0) d) of
               Some v \<Rightarrow> (d, v)
             | None \<Rightarrow> persistBaselineUSD (clock 1) (ft 1) key currentUSD False d)"

subsection \<open>One round of the loop\<close>

record pnl_input =
  pi_now :: gotime
  pi_env :: environ
  pi_clock :: "nat \<Rightarrow> gotime"
  pi_faults :: "nat \<Rightarrow> faults"
  pi_dbErr :: "nat \<Rightarrow> bool"
  pi_trades :: "trade_record list"
  pi_cfg :: "app_config option"
  pi_lib :: addr_lib
  pi_view :: wallet_view
  pi_wallet :: string
  pi_ethPrice :: float64
  pi_dexPrice :: float64
  pi_dexReady :: bool
  pi_post :: "alert \<Rightarrow> bool"
  pi_postAt :: "alert \<Rightarrow> gotime"

text \<open>An accepted post: its key, the time of the round that made it, which the loop remembers, and
  the time at which the request was made.  The two differ by whatever the round did before: three
  queries, the requests for the balances (six seconds), the baselines and the posts of earlier
  alerts (five seconds each).\<close>

record post =
  po_Key :: string
  po_Round :: gotime
  po_At :: gotime

record pnl_state =
  ps_disk :: "baseline_file disk"
  ps_server :: server
  ps_lastSent :: "string \<rightharpoonup> gotime"
  ps_posted :: "post list"

definition max_daily_gas :: "pnl_input \<Rightarrow> float64" where
  "max_daily_gas i = parseEnvFloat (pi_env i) ''PHOENIX_ALERT_MAX_DAILY_GAS_USD'' (Fin 5)"

definition max_daily_loss :: "pnl_input \<Rightarrow> float64" where
  "max_daily_loss i = parseEnvFloat (pi_env i) ''PHOENIX_ALERT_MAX_DAILY_LOSS_USD'' (Fin 5)"

definition alerts_of :: "pnl_input \<Rightarrow> pnl_snapshot \<Rightarrow> alert list" where
  "alerts_of i p =
     (let g = max_daily_gas i; l = max_daily_loss i
      in (if f_lt (Fin 0) g \<and> f_lt g (pn_DailyGasUSD p)
          then [\<lparr>alr_Key = ''daily_gas_exceeded'', alr_Severity = ''warn'',
                 alr_Message = ''daily gas cost exceeded: '' @ fmt_fixed 4 (pn_DailyGasUSD p)
                   @ '' USD > '' @ fmt_fixed 4 g @ '' USD'',
                 alr_CreatedAt = pi_now i\<rparr>] else [])
         @ (if f_lt (Fin 0) l \<and> f_lt (pn_DailyPnLUSD p) (f_neg l)
            then [\<lparr>alr_Key = ''daily_loss_exceeded'', alr_Severity = ''critical'',
                   alr_Message = ''daily PnL below limit: '' @ fmt_fixed 4 (pn_DailyPnLUSD p)
                     @ '' USD < -'' @ fmt_fixed 4 l @ '' USD'',
                   alr_CreatedAt = pi_now i\<rparr>] else []))"

text \<open>The webhook: an alert is posted unless a round less than ten minutes before this one has
  posted its key; only an accepted post counts, and it counts from the start of its round.\<close>

definition recently_sent :: "gotime \<Rightarrow> string \<Rightarrow> (string \<rightharpoonup> gotime) \<Rightarrow> bool" where
  "recently_sent now k m \<longleftrightarrow> (case m k of None \<Rightarrow> False | Some t \<Rightarrow> t_sub now t < 600 * second)"

fun post_alerts :: "pnl_input \<Rightarrow> alert list \<Rightarrow> pnl_state \<Rightarrow> pnl_state" where
  "post_alerts i [] s = s"
| "post_alerts i (a # as) s =
     (if trim_space (pi_env i ''PHOENIX_ALERT_WEBHOOK_URL'') = []
         \<or> recently_sent (pi_now i) (alr_Key a) (ps_lastSent s) \<or> \<not> pi_post i a
      then post_alerts i as s
      else post_alerts i as
             (s\<lparr>ps_lastSent := (ps_lastSent s)(alr_Key a \<mapsto> pi_now i),
                ps_posted := ps_posted s
                  @ [\<lparr>po_Key = alr_Key a, po_Round = pi_now i, po_At = pi_postAt i a\<rparr>]\<rparr>))"

definition dex_price_of :: "pnl_input \<Rightarrow> float64" where
  "dex_price_of i = (if pi_dexReady i then pi_dexPrice i else Fin 0)"

definition start_of_day :: "gotime \<Rightarrow> gotime" where
  "start_of_day t = t - t mod nanos_per_day"

definition portfolio_of :: "pnl_input \<Rightarrow> float64" where
  "portfolio_of i =
     computePortfolioUSD (pi_lib i) (pi_env i) (pi_view i) (pi_cfg i) (pi_ethPrice i) (dex_price_of i)"

definition pnl_tick :: "pnl_input \<Rightarrow> pnl_state \<Rightarrow> pnl_state option" where
  "pnl_tick i s =
     (let now = pi_now i;
          trades24h = GetTradesSince (pi_dbErr i 0) (t_add now (- (86400 * second))) (pi_trades i);
          tradesDay = GetTradesSince (pi_dbErr i 1) (start_of_day now) (pi_trades i);
          recent = GetRecentTrades (pi_dbErr i 2) 2000 (pi_trades i)
      in case (sumGasUSD recent (pi_ethPrice i), sumGasUSD tradesDay (pi_ethPrice i)) of
           (Some totalGas, Some dailyGas) \<Rightarrow>
             let portfolio = portfolio_of i;
                 (d, daily) = getOrSetBaselineUSD (pi_env i) (\<lambda>k. pi_clock i k) (\<lambda>k. pi_faults i k)
                                (pi_cfg i) (pi_wallet i) (day_label now) portfolio (ps_disk s);
                 (d, allTime) = getOrSetBaselineUSD (pi_env i) (\<lambda>k. pi_clock i (k + 2)) (\<lambda>k. pi_faults i (k + 2))
                                (pi_cfg i) (pi_wallet i) ''ALL'' portfolio d;
                 snap = \<lparr>pn_UpdatedAt = now, pn_PortfolioUSD = portfolio, pn_BaselineUSD = daily,
                         pn_TotalBaselineUSD = allTime, pn_DailyGasUSD = dailyGas,
                         pn_TotalGasUSD = totalGas,
                         pn_DailyPnLUSD = f_sub (f_sub portfolio daily) dailyGas,
                         pn_TotalPnLUSD = f_sub (f_sub portfolio allTime) totalGas,
                         pn_TradesCount24h = int (length trades24h)\<rparr>;
                 alerts = alerts_of i snap;
                 server = UpdateAlerts (if alerts = [] then None else Some alerts)
                            (UpdatePnL snap (ps_server s))
             in Some (post_alerts i alerts (s\<lparr>ps_disk := d, ps_server := server\<rparr>))
         | _ \<Rightarrow> None)"

end
