(* ===== verification/Props_Pnl.thy ===== *)
theory Props_Pnl
  imports Pnl_Loop Props_Exec
begin

text \<open>
  The properties of the PnL and alert loop: the baselines, the webhook and the ways in which a
  loss goes unnoticed or is invented.
\<close>

subsection \<open>Baselines\<close>

text \<open>The map of baselines that a file holds; a file that does not decode holds none.\<close>

definition baselines_of :: "baseline_file disk \<Rightarrow> string \<rightharpoonup> float64" where
  "baselines_of d = bl_Baselines (read_baselines (no_faults 0 0) d)"

definition positive_entry :: "string \<Rightarrow> (string \<rightharpoonup> float64) \<Rightarrow> float64 option" where
  "positive_entry k m =
     (case m k of None \<Rightarrow> None | Some v \<Rightarrow> if f_lt (Fin 0) v then Some v else None)"

lemma known_baseline_eq: "known_baseline k s = positive_entry k (bl_Baselines s)"
  by (simp add: known_baseline_def positive_entry_def)

lemma read_ok: "\<not> ft_read ft \<Longrightarrow> bl_Baselines (read_baselines ft d) = baselines_of d"
  by (simp add: baselines_of_def read_baselines_def no_faults_def split: option.splits)

lemma persist_spec:
  assumes "\<not> ft_read ft" "\<not> ft_write ft" "is_fin v"
  shows "let (d', r) = persistBaselineUSD now ft k v ow d; m = baselines_of d;
             old = (if ow then None else positive_entry k m)
    in r = (case old of None \<Rightarrow> v | Some b \<Rightarrow> b)
       \<and> baselines_of d' = (if old = None then m(k \<mapsto> v) else m)"
  using assms read_ok [OF assms(1), of d]
  by (auto simp: persistBaselineUSD_def known_baseline_eq baselines_of_def read_baselines_def
      no_faults_def Let_def split: option.splits)

lemma same_label:
  "trim_space label \<noteq> [] \<or> day_label t = day_label t' \<Longrightarrow> baseline_label t label = baseline_label t' label"
  by (auto simp: baseline_label_def Let_def)

text \<open>C31. On a file system that works, and unless PHOENIX_PNL_RESET_BASELINE is 1, a baseline is a
  get-or-insert in the map of the file: the first positive value of the wallet is kept under the
  chain, the wallet and the trimmed label - for a blank label, the day - and a later call with a
  label that is not blank, or on the same day, answers it whatever the wallet is worth by then and
  leaves the file alone; the other entries stay.\<close>

theorem baseline_get_or_insert:
  assumes "env ''PHOENIX_PNL_RESET_BASELINE'' \<noteq> ''1''" "cfg = Some c" "wallet \<noteq> []"
    "f_lt (Fin 0) v" "is_fin v" "f_lt (Fin 0) v2" "is_fin v2"
    "\<forall>k. \<not> ft_read (ft k) \<and> \<not> ft_write (ft k)" "\<forall>k. \<not> ft_read (ft2 k)"
    "trim_space label \<noteq> [] \<or> day_label (clock 0) = day_label (clock2 0)"
  shows "let key = baselineKey cfg wallet
               (if trim_space label = [] then day_label (clock 0) else trim_space label);
             m = baselines_of d;
             (d1, b1) = getOrSetBaselineUSD env clock ft cfg wallet label v d;
             (d2, b2) = getOrSetBaselineUSD env clock2 ft2 cfg wallet label v2 d1
    in (case positive_entry key m of
          Some b \<Rightarrow> b1 = b \<and> d1 = d
        | None \<Rightarrow> b1 = v \<and> baselines_of d1 = m(key \<mapsto> v))
       \<and> b2 = b1 \<and> d2 = d1"
proof -
  define key where "key = baselineKey cfg wallet (baseline_label (clock 0) label)"
  have key2: "baselineKey cfg wallet (baseline_label (clock2 0) label) = key"
    using same_label [OF assms(10)] by (simp add: key_def)
  have key: "baselineKey cfg wallet
      (if trim_space label = [] then day_label (clock 0) else trim_space label) = key"
    by (simp add: key_def baseline_label_def Let_def)
  have pos: "\<not> f_le w (Fin 0)" if "f_lt (Fin 0) w" for w
    using that by (cases w) (auto simp: f_le_def)
  note p = pos [OF assms(4)] pos [OF assms(6)]
  have r: "bl_Baselines (read_baselines (ft k) d') = baselines_of d'"
    "bl_Baselines (read_baselines (ft2 k) d') = baselines_of d'" for k d'
    using assms(8,9) read_ok by blast+
  have second: "getOrSetBaselineUSD env clock2 ft2 cfg wallet label v2 d' = (d', b)"
    if "positive_entry key (baselines_of d') = Some b" for d' b
    using that p assms(1-3) by (simp add: getOrSetBaselineUSD_def known_baseline_eq r key2 [unfolded assms(2)] Let_def)
  show ?thesis
  proof (cases "positive_entry key (baselines_of d)")
    case (Some b)
    then have "getOrSetBaselineUSD env clock ft cfg wallet label v d = (d, b)"
      using p assms(1-3)
      by (simp add: getOrSetBaselineUSD_def known_baseline_eq r key_def [symmetric, unfolded assms(2)] Let_def)
    with Some second [OF Some] show ?thesis unfolding key by (simp add: Let_def)
  next
    case None
    obtain d1 b1 where q: "persistBaselineUSD (clock 1) (ft 1) key v False d = (d1, b1)" by fastforce
    have g: "getOrSetBaselineUSD env clock ft cfg wallet label v d = (d1, b1)"
      using None p assms(1-3) q
      by (simp add: getOrSetBaselineUSD_def known_baseline_eq r key_def [symmetric, unfolded assms(2)] Let_def)
    have s: "b1 = v" "baselines_of d1 = (baselines_of d)(key \<mapsto> v)"
      using persist_spec [of "ft 1" v "clock 1" key False d] assms(5,8) None q by (simp_all add: Let_def)
    then have "positive_entry key (baselines_of d1) = Some v"
      using assms(4) by (simp add: positive_entry_def)
    from second [OF this] g s None show ?thesis unfolding key by (simp add: Let_def)
  qed
qed

text \<open>A read error is taken for an empty file: when the file cannot be read but can be
  written, one call replaces it by a file with a single baseline, and all others - of other
  chains, wallets and days, the total one included - are lost.\<close>

theorem unreadable_baselines_lost:
  assumes "cfg = Some c" "wallet \<noteq> []" "f_lt (Fin 0) v" "is_fin v"
    "\<forall>k. ft_read (ft k) \<and> \<not> ft_write (ft k)"
  shows "let (d', b) = getOrSetBaselineUSD env clock ft cfg wallet label v d
    in b = v \<and> baselines_of d' = [baselineKey cfg wallet (baseline_label (clock 0) label) \<mapsto> v]"
proof -
  have "\<not> f_le v (Fin 0)" using assms(3) by (cases v) (auto simp: f_le_def)
  then show ?thesis
    using assms
    by (simp add: getOrSetBaselineUSD_def persistBaselineUSD_def known_baseline_eq baselines_of_def
        read_baselines_def empty_baselines_def positive_entry_def no_faults_def Let_def)
qed

subsection \<open>Profit and loss\<close>

lemma post_alerts_server: "ps_server (post_alerts i as s) = ps_server s"
  by (induction i as s rule: post_alerts.induct) simp_all

lemma persist_fresh:
  assumes "ow \<or> known_baseline k (read_baselines ft d) = None"
  shows "snd (persistBaselineUSD now ft k v ow d) = v"
  using assms by (auto simp: persistBaselineUSD_def Let_def split: option.splits)

text \<open>Whether a baseline is made anew in this round.\<close>

definition fresh_baseline :: "pnl_input \<Rightarrow> pnl_state \<Rightarrow> bool" where
  "fresh_baseline i s \<longleftrightarrow>
     pi_env i ''PHOENIX_PNL_RESET_BASELINE'' = ''1''
     \<or> (\<forall>k. known_baseline (baselineKey (pi_cfg i) (pi_wallet i)
                                (baseline_label (pi_clock i 0) (day_label (pi_now i))))
              (read_baselines (pi_faults i k) (ps_disk s)) = None)"

lemma fresh_daily:
  assumes "fresh_baseline i s" "pi_cfg i = Some c" "pi_wallet i \<noteq> []" "\<not> f_le v (Fin 0)"
  shows "snd (getOrSetBaselineUSD (pi_env i) (pi_clock i) (pi_faults i) (pi_cfg i) (pi_wallet i)
    (day_label (pi_now i)) v (ps_disk s)) = v"
  using assms persist_fresh by (auto simp: fresh_baseline_def getOrSetBaselineUSD_def Let_def)

text \<open>A loss is invisible whenever the baseline is made anew: with
  PHOENIX_PNL_RESET_BASELINE=1, in every round and not only in the first, and whenever the file
  of baselines has no entry of the day or cannot be read.  The daily result is then minus the
  gas, whatever the wallet lost.\<close>

theorem fresh_baseline_hides_loss:
  assumes "pnl_tick i s = Some s'" "fresh_baseline i s" "pi_cfg i = Some c" "pi_wallet i \<noteq> []"
    "portfolio_of i = Fin p" "0 < p"
  shows "\<exists>snap. as_pnl (ps_server s') = Some snap \<and> pn_PortfolioUSD snap = Fin p
    \<and> pn_BaselineUSD snap = Fin p \<and> pn_DailyPnLUSD snap = f_sub (Fin 0) (pn_DailyGasUSD snap)"
proof -
  let ?get = "getOrSetBaselineUSD (pi_env i) (pi_clock i) (pi_faults i) (pi_cfg i) (pi_wallet i)
    (day_label (pi_now i)) (Fin p) (ps_disk s)"
  have "\<not> f_le (Fin p) (Fin 0)" using assms(6) by (simp add: f_le_def)
  from fresh_daily [OF assms(2-4) this]
  obtain d1 where d1: "?get = (d1, Fin p)" by (metis surjective_pairing)
  have z: "f_sub (Fin p) (Fin p) = Fin 0" using rnd_repr [OF repr_zero] by (simp add: f_sub_def)
  show ?thesis
    using assms(1,5) d1
    by (auto simp: pnl_tick_def post_alerts_server UpdatePnL_def UpdateAlerts_def z Let_def
        split: option.splits prod.splits)
qed

text \<open>A balance that cannot be read is left out of the sum, which is the value of a wallet that
  holds none of the token.\<close>

lemma f_add_zero: "is_f64 t \<Longrightarrow> f_add t (Fin 0) = t"
  by (cases t) (simp_all add: rnd_repr)

lemma unreadable_token:
  assumes "is_f64 t" "is_fin usd" "wv_erc20 w (al_ToAddress lib token) = None"
    "wv_erc20 w' (al_ToAddress lib token) = Some 0"
  shows "add_token lib w token dec usd t = add_token lib w' token dec usd t"
proof -
  have "f_mul (Fin 0) usd = Fin 0"
    using assms(2) rnd_repr [OF repr_zero] by (cases usd) (auto simp: is_fin_def f_is_nan_def f_is_inf_def)
  then show ?thesis using assms by (simp add: add_token_def unitsToFloat_def f_add_zero)
qed

lemma add_token_f64: "is_f64 t \<Longrightarrow> is_f64 (add_token lib w token dec usd t)"
  by (simp add: add_token_def split: option.splits)

text \<open>A failed read of the token balances looks like a loss of the tokens: the value of the
  wallet is then the value of a wallet without tokens, so that a wallet with a baseline raises
  the critical alert although nothing was lost.\<close>

theorem failed_balance_is_a_loss:
  assumes "wv_erc20 w = (\<lambda>_. None)" "cfg = Some c" "ap_Pools c = pool # ps"
    "is_fin (fst (token_prices lib env pool dex))" "is_fin (snd (token_prices lib env pool dex))"
  shows "computePortfolioUSD lib env w cfg ethUSD dex
    = computePortfolioUSD lib env (w\<lparr>wv_erc20 := \<lambda>_. Some 0\<rparr>) cfg ethUSD dex"
proof -
  let ?w' = "w\<lparr>wv_erc20 := \<lambda>_. Some 0\<rparr>"
  obtain p0 p1 where p: "token_prices lib env pool dex = (p0, p1)" by fastforce
  have eq: "add_token lib w tok dec usd t = add_token lib ?w' tok dec usd t"
    if "is_f64 t" "is_fin usd" for tok dec usd t
    using unreadable_token [OF that] assms(1) by simp
  show ?thesis
    using assms(2-5) p
    by (auto simp: computePortfolioUSD_def eq add_token_f64 split: option.splits)
qed

subsection \<open>The webhook\<close>

fun pnl_run :: "pnl_input list \<Rightarrow> pnl_state \<Rightarrow> pnl_state option" where
  "pnl_run [] s = Some s"
| "pnl_run (i # is) s = (case pnl_tick i s of None \<Rightarrow> None | Some s' \<Rightarrow> pnl_run is s')"

text \<open>The rounds that post a key are ten minutes apart, and the loop remembers a time for each
  key that no such round is after.\<close>

definition far_apart :: "post list \<Rightarrow> bool" where
  "far_apart ps \<longleftrightarrow> sorted_wrt (\<lambda>p q. po_Key p = po_Key q \<longrightarrow> 600 * second \<le> po_Round q - po_Round p) ps"

definition posts_ok :: "pnl_state \<Rightarrow> bool" where
  "posts_ok s \<longleftrightarrow> far_apart (ps_posted s)
     \<and> (\<forall>p \<in> set (ps_posted s). \<exists>t. ps_lastSent s (po_Key p) = Some t \<and> po_Round p \<le> t)"

lemma post_step:
  assumes "posts_ok s" "\<not> recently_sent now k (ps_lastSent s)" "po_Key p0 = k" "po_Round p0 = now"
  shows "posts_ok (s\<lparr>ps_lastSent := (ps_lastSent s)(k \<mapsto> now), ps_posted := ps_posted s @ [p0]\<rparr>)"
proof -
  have gap: "600 * second \<le> now - po_Round p" if p: "p \<in> set (ps_posted s)" "po_Key p = k" for p
  proof -
    obtain t where t: "ps_lastSent s k = Some t" "po_Round p \<le> t"
      using assms(1) p unfolding posts_ok_def by blast
    then have "\<not> now - t < 600 * second"
      using assms(2) by (simp add: recently_sent_def t_sub_less_iff second_def min_i64_def max_i64_def)
    with t(2) show ?thesis by linarith
  qed
  have late: "po_Round p \<le> now" if "p \<in> set (ps_posted s)" "po_Key p = k" for p
    using gap [OF that] by (simp add: second_def)
  have 1: "far_apart (ps_posted s @ [p0])"
    using assms(1,3,4) gap by (simp add: posts_ok_def far_apart_def sorted_wrt_append)
  have 2: "\<exists>t. ((ps_lastSent s)(k \<mapsto> now)) (po_Key p) = Some t \<and> po_Round p \<le> t"
    if "p \<in> set (ps_posted s @ [p0])" for p
  proof (cases "p \<in> set (ps_posted s)")
    case True
    then show ?thesis using assms(1) late [of p] unfolding posts_ok_def by (cases "po_Key p = k") auto
  next
    case False
    with that have "p = p0" by simp
    then show ?thesis using assms(3,4) by simp
  qed
  show ?thesis using 1 2 by (simp add: posts_ok_def)
qed

lemma post_alerts_ok: "posts_ok s \<Longrightarrow> posts_ok (post_alerts i as s)"
proof (induction i as s rule: post_alerts.induct)
  case (2 i a as s)
  then show ?case using post_step [OF 2(3)] by simp
qed simp

text \<open>Every post is made within the delay of its round.\<close>

definition posts_prompt :: "duration \<Rightarrow> pnl_state \<Rightarrow> bool" where
  "posts_prompt D s \<longleftrightarrow> (\<forall>p \<in> set (ps_posted s). po_Round p \<le> po_At p \<and> po_At p \<le> po_Round p + D)"

lemma post_alerts_prompt:
  assumes "\<forall>a. pi_now i \<le> pi_postAt i a \<and> pi_postAt i a \<le> pi_now i + D" "posts_prompt D s"
  shows "posts_prompt D (post_alerts i as s)"
  using assms by (induction i as s rule: post_alerts.induct) (auto simp: posts_prompt_def)

lemma pnl_tick_posts:
  assumes "pnl_tick i s = Some s'"
  obtains as d srv where "s' = post_alerts i as (s\<lparr>ps_disk := d, ps_server := srv\<rparr>)"
  using assms by (auto simp: pnl_tick_def Let_def split: option.splits prod.splits)

lemma pnl_tick_ok:
  assumes "pnl_tick i s = Some s'" "posts_ok s" "posts_prompt D s"
    "\<forall>a. pi_now i \<le> pi_postAt i a \<and> pi_postAt i a \<le> pi_now i + D"
  shows "posts_ok s' \<and> posts_prompt D s'"
proof -
  obtain as d srv where s': "s' = post_alerts i as (s\<lparr>ps_disk := d, ps_server := srv\<rparr>)"
    using assms(1) by (rule pnl_tick_posts)
  have "posts_ok (s\<lparr>ps_disk := d, ps_server := srv\<rparr>)" "posts_prompt D (s\<lparr>ps_disk := d, ps_server := srv\<rparr>)"
    using assms(2,3) by (simp_all add: posts_ok_def posts_prompt_def)
  then show ?thesis unfolding s' using post_alerts_ok post_alerts_prompt [OF assms(4)] by blast
qed


subsection \<open>Examples\<close>

definition ex_pnl_state :: pnl_state where
  "ex_pnl_state = \<lparr>ps_disk = None, ps_server = NewServer 0 0, ps_lastSent = Map.empty, ps_posted = []\<rparr>"

text \<open>A wallet with one ether that is worth two dollars, and no tokens to be seen.\<close>

definition ex_pnl_env :: environ where
  "ex_pnl_env = (\<lambda>_. [])(''PHOENIX_PNL_RESET_BASELINE'' := ''1'')"

definition ex_pnl :: pnl_input where
  "ex_pnl =
     \<lparr>pi_now = unix_epoch, pi_env = ex_pnl_env, pi_clock = (\<lambda>_. unix_epoch),
      pi_faults = (\<lambda>_. no_faults 0 0), pi_dbErr = (\<lambda>_. False), pi_trades = [],
      pi_cfg = Some ex_cfg_dry, pi_lib = ex_addr,
      pi_view = \<lparr>wv_native = Some 1000000000000000000, wv_erc20 = (\<lambda>_. None)\<rparr>,
      pi_wallet = ''0xw'', pi_ethPrice = Fin 2, pi_dexPrice = Fin 0, pi_dexReady = False,
      pi_post = (\<lambda>_. True), pi_postAt = (\<lambda>_. unix_epoch + second)\<rparr>"

lemma ex_prices_of:
  assumes "env ''PHOENIX_PRICE_USD_OVERRIDES'' = []" "env ''PHOENIX_STABLE_TOKENS'' = []"
  shows "token_prices ex_addr env (hd (ap_Pools ex_cfg_dry)) (Fin 0) = (Fin 0, Fin 0)"
proof -
  have e: "parsePriceOverrides ex_addr (env ''PHOENIX_PRICE_USD_OVERRIDES'') = None"
    "parseAddressSet ex_addr (env ''PHOENIX_STABLE_TOKENS'') = None"
    by (simp_all add: assms parsePriceOverrides_def parseAddressSet_def Let_def)
  have "\<not> al_IsHex ex_addr (pc_Token1 (hd (ap_Pools ex_cfg_dry)))" by code_simp
  then have "stable_tokens ex_addr env (hd (ap_Pools ex_cfg_dry)) = None"
    by (simp add: stable_tokens_def e)
  then show ?thesis by (simp add: token_prices_def e tokenUSDPrice_def Let_def)
qed

lemma ex_prices: "token_prices ex_addr ex_pnl_env (hd (ap_Pools ex_cfg_dry)) (Fin 0) = (Fin 0, Fin 0)"
  by (rule ex_prices_of) (simp_all add: ex_pnl_env_def)

lemma big_round_one: "1 \<le> prec \<Longrightarrow> big_round prec 1 = 1"
proof -
  assume p: "1 \<le> prec"
  have l: "ilog2 1 = 0" by (rule ilog2_unique) (simp_all add: pow2_def)
  have "1 / pow2 (1 - prec) = pow2 (prec - 1)" using pow2_diff [of 0 "1 - prec"] by (simp add: pow2_def)
  also have "\<dots> = of_int (2 ^ nat (prec - 1))" using pow2_nat [of "nat (prec - 1)"] p by simp
  finally have q: "1 / pow2 (1 - prec) = of_int (2 ^ nat (prec - 1))" .
  have "rq (1 - prec) 1 = 1 / pow2 (1 - prec) * pow2 (1 - prec)" unfolding rq_def q rne_int by (rule refl)
  then show ?thesis by (simp add: big_round_def l)
qed

lemma ex_portfolio_of:
  assumes "env ''PHOENIX_PRICE_USD_OVERRIDES'' = []" "env ''PHOENIX_STABLE_TOKENS'' = []"
  shows "portfolio_of (ex_pnl\<lparr>pi_env := env\<rparr>) = Fin 2"
proof -
  have "eth_of_wei 1000000000000000000 = 1"
    by (simp add: eth_of_wei_def wei_per_eth_def big_round_one int_prec_def)
  then have "weiToETH (Some 1000000000000000000) = Fin 1"
    using rnd_repr [OF repr_one] by (simp add: weiToETH_def)
  moreover have "f_mul (Fin 1) (Fin 2) = Fin 2" using rnd_repr [OF repr_numeral] by simp
  moreover obtain p where p: "ap_Pools ex_cfg_dry = [p]" by (simp add: ex_cfg_dry_def)
  moreover have "token_prices ex_addr env p (Fin 0) = (Fin 0, Fin 0)"
    using ex_prices_of [OF assms] by (simp add: p)
  moreover have "add_token lib w tok dec (Fin 0) acc = acc" for lib w tok dec acc
    by (simp add: add_token_def)
  ultimately show ?thesis
    by (simp add: portfolio_of_def ex_pnl_def dex_price_of_def computePortfolioUSD_def f_le_def)
qed

lemma ex_portfolio: "portfolio_of ex_pnl = Fin 2"
proof -
  have "ex_pnl = ex_pnl\<lparr>pi_env := ex_pnl_env\<rparr>" by (simp add: ex_pnl_def)
  then show ?thesis using ex_portfolio_of [of ex_pnl_env] by (simp add: ex_pnl_env_def)
qed

lemma ex_pnl_runs: "\<exists>s'. pnl_tick ex_pnl ex_pnl_state = Some s'"
proof -
  have "sumGasUSD (GetRecentTrades False 2000 []) (Fin 2) = Some (Fin 0)"
    "sumGasUSD (GetTradesSince False t []) (Fin 2) = Some (Fin 0)" for t
    by (simp_all add: sumGasUSD_def GetRecentTrades_def GetTradesSince_def)
  then show ?thesis by (simp add: pnl_tick_def ex_pnl_def case_prod_beta Let_def)
qed

theorem baseline_get_or_insert_witness:
  "snd (getOrSetBaselineUSD (\<lambda>_. []) (\<lambda>_. 0) (\<lambda>_. no_faults 0 0) (Some ex_cfg_dry) ''0xw'' ''ALL'' (Fin 7)
     (fst (getOrSetBaselineUSD (\<lambda>_. []) (\<lambda>_. 0) (\<lambda>_. no_faults 0 0) (Some ex_cfg_dry) ''0xw'' ''ALL'' (Fin 5)
       None))) = Fin 5"
proof -
  have "is_fin (Fin 5)" "is_fin (Fin 7)" by (simp_all add: is_fin_def f_is_nan_def f_is_inf_def)
  moreover have "positive_entry k (baselines_of None) = None" for k
    by (simp add: baselines_of_def read_baselines_def empty_baselines_def positive_entry_def)
  ultimately show ?thesis
    using baseline_get_or_insert [of "\<lambda>_. []" "Some ex_cfg_dry" ex_cfg_dry "''0xw''" "Fin 5" "Fin 7"
        "\<lambda>_. no_faults 0 0" "\<lambda>_. no_faults 0 0" "''ALL''" "\<lambda>_. 0" "\<lambda>_. 0" None]
    by (simp add: no_faults_def case_prod_beta Let_def)
qed

theorem unreadable_baselines_lost_witness:
  "baselines_of (fst (getOrSetBaselineUSD (\<lambda>_. []) (\<lambda>_. 0) (\<lambda>_. (no_faults 0 0)\<lparr>ft_read := True\<rparr>)
     (Some ex_cfg_dry) ''0xw'' ''ALL'' (Fin 5)
     (Some \<lparr>fl_mod = 0, fl_size = 0, fl_doc = Some \<lparr>bl_UpdatedAt = [], bl_Baselines = [''k'' \<mapsto> Fin 9]\<rparr>\<rparr>)))
   ''k'' = None"
proof -
  let ?d = "Some \<lparr>fl_mod = 0, fl_size = 0, fl_doc = Some \<lparr>bl_UpdatedAt = [], bl_Baselines = [''k'' \<mapsto> Fin 9]\<rparr>\<rparr>"
  have "is_fin (Fin 5)" by (simp add: is_fin_def f_is_nan_def f_is_inf_def)
  moreover have "baselineKey (Some ex_cfg_dry) ''0xw'' (baseline_label 0 ''ALL'') \<noteq> ''k''" by code_simp
  ultimately show ?thesis
    using unreadable_baselines_lost [of "Some ex_cfg_dry" ex_cfg_dry "''0xw''" "Fin 5"
        "\<lambda>_. (no_faults 0 0)\<lparr>ft_read := True\<rparr>" "\<lambda>_. []" "\<lambda>_. 0" "''ALL''" ?d]
    by (simp add: no_faults_def case_prod_beta Let_def)
qed

theorem fresh_baseline_hides_loss_witness:
  "map_option pn_BaselineUSD (as_pnl (ps_server (the (pnl_tick ex_pnl ex_pnl_state)))) = Some (Fin 2)"
proof -
  obtain s' where s: "pnl_tick ex_pnl ex_pnl_state = Some s'" using ex_pnl_runs by blast
  have "fresh_baseline ex_pnl ex_pnl_state" by (simp add: fresh_baseline_def ex_pnl_def ex_pnl_env_def)
  moreover have "pi_cfg ex_pnl = Some ex_cfg_dry" "pi_wallet ex_pnl \<noteq> []" by (simp_all add: ex_pnl_def)
  ultimately show ?thesis
    using fresh_baseline_hides_loss [OF s _ _ _ ex_portfolio] s by auto
qed

theorem failed_balance_is_a_loss_witness:
  "computePortfolioUSD ex_addr ex_pnl_env (pi_view ex_pnl) (Some ex_cfg_dry) (Fin 2) (Fin 0)
   = computePortfolioUSD ex_addr ex_pnl_env ((pi_view ex_pnl)\<lparr>wv_erc20 := \<lambda>_. Some 0\<rparr>)
       (Some ex_cfg_dry) (Fin 2) (Fin 0)"
proof -
  have "ap_Pools ex_cfg_dry = hd (ap_Pools ex_cfg_dry) # []" by (simp add: ex_cfg_dry_def)
  from failed_balance_is_a_loss [OF _ refl this, of "pi_view ex_pnl" ex_addr ex_pnl_env "Fin 0" "Fin 2"]
    ex_prices
  show ?thesis by (simp add: ex_pnl_def is_fin_def f_is_nan_def f_is_inf_def)
qed

text \<open>Two rounds of a bot with a webhook and a baseline of a hundred dollars: the first posts a
  second after it began, the second at once.\<close>

definition ex_hook_env :: environ where
  "ex_hook_env = (\<lambda>_. [])(''PHOENIX_ALERT_WEBHOOK_URL'' := ''http://hook'')"

definition ex_round :: "gotime \<Rightarrow> gotime \<Rightarrow> pnl_input" where
  "ex_round now t = ex_pnl\<lparr>pi_env := ex_hook_env, pi_now := now, pi_postAt := \<lambda>_. t\<rparr>"

definition ex_loss_file :: "baseline_file disk" where
  "ex_loss_file = Some \<lparr>fl_mod = 0, fl_size = 0,
     fl_doc = Some \<lparr>bl_UpdatedAt = [], bl_Baselines = \<lambda>_. Some (Fin 100)\<rparr>\<rparr>"

lemma ex_loss_baseline:
  assumes "env ''PHOENIX_PNL_RESET_BASELINE'' = []"
  shows "getOrSetBaselineUSD env clock (\<lambda>k. no_faults 0 0) (Some c) ''0xw'' label (Fin 2) ex_loss_file
    = (ex_loss_file, Fin 100)"
  using assms
  by (simp add: getOrSetBaselineUSD_def ex_loss_file_def known_baseline_def read_baselines_def
      no_faults_def f_le_def Let_def)

lemma ex_loss_snapshot:
  assumes "ps_disk s = ex_loss_file"
  obtains p where "pnl_tick (ex_round now t) s =
    Some (post_alerts (ex_round now t) (alerts_of (ex_round now t) p)
      (s\<lparr>ps_server := UpdateAlerts (if alerts_of (ex_round now t) p = [] then None
          else Some (alerts_of (ex_round now t) p)) (UpdatePnL p (ps_server s))\<rparr>))"
    "pn_DailyGasUSD p = Fin 0" "pn_DailyPnLUSD p = Fin (- 98)"
proof -
  let ?i = "ex_round now t"
  have i: "pi_env ?i = ex_hook_env" "pi_faults ?i = (\<lambda>_. no_faults 0 0)" "pi_cfg ?i = Some ex_cfg_dry"
    "pi_wallet ?i = ''0xw''" "pi_trades ?i = []" "pi_ethPrice ?i = Fin 2" "pi_dbErr ?i = (\<lambda>_. False)"
    by (simp_all add: ex_round_def ex_pnl_def)
  have "portfolio_of ?i = portfolio_of (ex_pnl\<lparr>pi_env := ex_hook_env\<rparr>)"
    by (simp add: portfolio_of_def dex_price_of_def ex_round_def)
  then have v: "portfolio_of ?i = Fin 2"
    using ex_portfolio_of [of ex_hook_env] by (simp add: ex_hook_env_def)
  have g: "sumGasUSD (GetRecentTrades False 2000 []) (Fin 2) = Some (Fin 0)"
    "sumGasUSD (GetTradesSince False u []) (Fin 2) = Some (Fin 0)" for u
    by (simp_all add: sumGasUSD_def GetRecentTrades_def GetTradesSince_def)
  have b: "getOrSetBaselineUSD ex_hook_env clock (\<lambda>k. no_faults 0 0) (Some ex_cfg_dry) ''0xw'' label
      (Fin 2) ex_loss_file = (ex_loss_file, Fin 100)" for clock label
    by (rule ex_loss_baseline) (simp add: ex_hook_env_def)
  have "repr (- 98)" by (rule repr_minus, rule repr_numeral) simp
  then have f: "f_sub (f_sub (Fin 2) (Fin 100)) (Fin 0) = Fin (- 98)"
    by (simp add: f_sub_def rnd_repr)
  have disk: "s\<lparr>ps_disk := ex_loss_file, ps_server := srv\<rparr> = s\<lparr>ps_server := srv\<rparr>" for srv
    using assms by simp
  show ?thesis
    by (rule that, unfold pnl_tick_def Let_def i g v b assms prod.case option.case disk, rule refl)
      (simp_all add: f)
qed

lemma ex_loss_alert:
  assumes "ps_disk s = ex_loss_file" "\<not> recently_sent now ''daily_loss_exceeded'' (ps_lastSent s)"
  obtains srv where "pnl_tick (ex_round now t) s =
    Some (s\<lparr>ps_server := srv, ps_lastSent := (ps_lastSent s)(''daily_loss_exceeded'' \<mapsto> now),
      ps_posted := ps_posted s @ [\<lparr>po_Key = ''daily_loss_exceeded'', po_Round = now, po_At = t\<rparr>]\<rparr>)"
proof -
  let ?i = "ex_round now t"
  obtain p where p: "pnl_tick ?i s =
    Some (post_alerts ?i (alerts_of ?i p)
      (s\<lparr>ps_server := UpdateAlerts (if alerts_of ?i p = [] then None
          else Some (alerts_of ?i p)) (UpdatePnL p (ps_server s))\<rparr>))"
    "pn_DailyGasUSD p = Fin 0" "pn_DailyPnLUSD p = Fin (- 98)"
    using ex_loss_snapshot [OF assms(1)] by blast
  have "max_daily_gas ?i = Fin 5" "max_daily_loss ?i = Fin 5"
    by (simp_all add: max_daily_gas_def max_daily_loss_def parseEnvFloat_def ex_round_def ex_hook_env_def Let_def)
  then obtain a where a: "alerts_of ?i p = [a]" "alr_Key a = ''daily_loss_exceeded''"
    by (simp add: alerts_of_def p Let_def)
  have "trim_space ''http://hook'' = ''http://hook''" by code_simp
  then have hook: "trim_space (pi_env ?i ''PHOENIX_ALERT_WEBHOOK_URL'') \<noteq> []" "pi_post ?i a" "pi_now ?i = now"
    "pi_postAt ?i a = t"
    by (simp_all add: ex_round_def ex_pnl_def ex_hook_env_def)
  show ?thesis
    by (rule that, unfold p(1) a(1)) (simp add: a(2) hook assms(2))
qed

lemma ex_two_posts:
  "\<exists>s'. pnl_run [ex_round 0 second, ex_round (600 * second) (600 * second)]
     (ex_pnl_state\<lparr>ps_disk := ex_loss_file\<rparr>) = Some s'
   \<and> map po_At (ps_posted s') = [second, 600 * second] \<and> map po_Key (ps_posted s') = replicate 2 ''daily_loss_exceeded''"
proof -
  let ?s = "ex_pnl_state\<lparr>ps_disk := ex_loss_file\<rparr>" and ?k = "''daily_loss_exceeded''"
  have "\<not> recently_sent 0 ?k (ps_lastSent ?s)" by (simp add: recently_sent_def ex_pnl_state_def)
  then obtain srv where 1: "pnl_tick (ex_round 0 second) ?s = Some (?s\<lparr>ps_server := srv,
      ps_lastSent := (ps_lastSent ?s)(?k \<mapsto> 0),
      ps_posted := ps_posted ?s @ [\<lparr>po_Key = ?k, po_Round = 0, po_At = second\<rparr>]\<rparr>)" (is "_ = Some ?s1")
    using ex_loss_alert [of ?s 0 second] by auto
  have "\<not> recently_sent (600 * second) ?k (ps_lastSent ?s1)"
    by (simp add: recently_sent_def t_sub_def second_def max_i64_def min_i64_def)
  then obtain srv' where 2: "pnl_tick (ex_round (600 * second) (600 * second)) ?s1 = Some (?s1\<lparr>ps_server := srv',
      ps_lastSent := (ps_lastSent ?s1)(?k \<mapsto> 600 * second),
      ps_posted := ps_posted ?s1 @ [\<lparr>po_Key = ?k, po_Round = 600 * second, po_At = 600 * second\<rparr>]\<rparr>)"
    using ex_loss_alert [of ?s1 "600 * second" "600 * second"] by auto
  from 1 2 show ?thesis by (simp add: ex_pnl_state_def numeral_2_eq_2)
qed


end
