(* ===== verification/Json_Log.thy ===== *)
theory Json_Log
  imports Files
begin

text \<open>
  The event log of internal/obs/v1jsonl: one JSON document per line, with the values of
  sensitive keys replaced before it is written.

  A document is a value of the datatype \<open>json\<close>: what \<open>json.Decoder\<close> with \<open>UseNumber\<close> makes of
  the bytes of \<open>json.Marshal\<close>, an object being the list of its members.  A value that
  \<open>json.Marshal\<close> refuses is \<open>None\<close>.  The matching of keys ignores the case of ASCII letters.
  A write that fails has written some bytes of the line, or none.
\<close>

datatype json =
  JsNull | JsBool bool | JsNum string | JsStr string | JsArr "json list"
| JsObj "(string \<times> json) list"

subsection \<open>Redaction\<close>

definition sensitive_words :: "string list" where
  "sensitive_words =
     [''secret'', ''token'', ''passphrase'', ''private'', ''apikey'', ''api_key'', ''api-key'',
      ''accesskey'', ''access_key'', ''access-key'']"

definition sensitive_key :: "string \<Rightarrow> bool" where
  "sensitive_key k \<longleftrightarrow> list_ex (contains (to_lower k)) sensitive_words"

definition redacted :: json where "redacted = JsStr ''[REDACTED]''"

fun redactAny :: "json \<Rightarrow> json" where
  "redactAny (JsArr vs) = JsArr (map redactAny vs)"
| "redactAny (JsObj ms) =
     JsObj (map (\<lambda>(k, v). (k, if sensitive_key k then redacted else redactAny v)) ms)"
| "redactAny v = v"

definition sanitizeToJSONSafe :: "json option \<Rightarrow> json option" where
  "sanitizeToJSONSafe v = map_option redactAny v"

subsection \<open>The writer\<close>

record log_line =
  ln_Type :: string
  ln_TsMS :: int64
  ln_Data :: json

text \<open>What is in the file: a line with its newline, or the first bytes of one, which the next line
  continues.\<close>

datatype log_entry = Whole log_line | Cut log_line nat

fun entry_line :: "log_entry \<Rightarrow> log_line" where
  "entry_line (Whole l) = l" | "entry_line (Cut l n) = l"

fun is_cut :: "log_entry \<Rightarrow> bool" where
  "is_cut (Whole l) = False" | "is_cut (Cut l n) = True"

record log_writer =
  lw_path :: string
  lw_nil :: bool

datatype log_error = EventTypeEmpty | EncodeFailed | MkdirFailed | OpenFailed | WriteFailed

record log_faults =
  lf_mkdir :: bool
  lf_open :: bool
  lf_write :: "nat option"  \<comment> \<open>\<open>Some n\<close>: the write fails after \<open>n\<close> bytes\<close>

definition NewWriter :: "string \<Rightarrow> log_writer" where
  "NewWriter path =
     \<lparr>lw_path = (if trim_space path = [] then ''var/contract_v1.jsonl'' else path), lw_nil = False\<rparr>"

text \<open>\<open>data\<close> is the document of the event, \<open>None\<close> when it cannot be encoded: then redaction
  fails, the original is kept, and encoding the envelope fails as well.\<close>

definition WriteEvent ::
    "gotime \<Rightarrow> log_faults \<Rightarrow> log_writer \<Rightarrow> string \<Rightarrow> json option \<Rightarrow> log_entry list
      \<Rightarrow> log_entry list \<times> log_error option" where
  "WriteEvent now ft w typ data lines =
     (if lw_nil w then (lines, None)
      else
        let typ = trim_space typ
        in if typ = [] then (lines, Some EventTypeEmpty)
           else
             let safe = (case sanitizeToJSONSafe data of None \<Rightarrow> data | Some v \<Rightarrow> Some v)
             in case safe of
                  None \<Rightarrow> (lines, Some EncodeFailed)
                | Some v \<Rightarrow>
                    if lf_mkdir ft then (lines, Some MkdirFailed)
                    else if lf_open ft then (lines, Some OpenFailed)
                    else
                      let line = \<lparr>ln_Type = typ, ln_TsMS = unix_ms now, ln_Data = v\<rparr>
                      in case lf_write ft of
                           None \<Rightarrow> (lines @ [Whole line], None)
                         | Some n \<Rightarrow>
                             (if n = 0 then lines else lines @ [Cut line n], Some WriteFailed))"

fun log_run ::
    "(gotime \<times> log_faults \<times> string \<times> json option) list \<Rightarrow> log_writer \<Rightarrow> log_entry list \<Rightarrow> log_entry list" where
  "log_run [] w lines = lines"
| "log_run ((now, ft, typ, data) # es) w lines = log_run es w (fst (WriteEvent now ft w typ data lines))"

subsection \<open>What redaction promises\<close>

text \<open>A document without secrets: at every depth the value of a sensitive key is the mark.\<close>

fun clean :: "json \<Rightarrow> bool" where
  "clean (JsArr vs) = list_all clean vs"
| "clean (JsObj ms) = list_all (\<lambda>(k, v). if sensitive_key k then v = redacted else clean v) ms"
| "clean v = True"

text \<open>Well-formed documents have objects whose members have distinct names.\<close>

fun json_wf :: "json \<Rightarrow> bool" where
  "json_wf (JsArr vs) = list_all json_wf vs"
| "json_wf (JsObj ms) = (distinct (map fst ms) \<and> list_all (\<lambda>(k, v). json_wf v) ms)"
| "json_wf v = True"

fun has_sensitive :: "json \<Rightarrow> bool" where
  "has_sensitive (JsArr vs) = list_ex has_sensitive vs"
| "has_sensitive (JsObj ms) = list_ex (\<lambda>(k, v). sensitive_key k \<or> has_sensitive v) ms"
| "has_sensitive v = False"

text \<open>The value at a path of member names and array positions.\<close>

datatype step = Member string | Item nat

fun at_path :: "step list \<Rightarrow> json \<Rightarrow> json option" where
  "at_path [] v = Some v"
| "at_path (Member k # p) (JsObj ms) = (case map_of ms k of None \<Rightarrow> None | Some v \<Rightarrow> at_path p v)"
| "at_path (Item n # p) (JsArr vs) = (if n < length vs then at_path p (vs ! n) else None)"
| "at_path (s # p) v = None"

definition public_path :: "step list \<Rightarrow> bool" where
  "public_path p \<longleftrightarrow> list_all (\<lambda>s. case s of Member k \<Rightarrow> \<not> sensitive_key k | Item n \<Rightarrow> True) p"

lemma redact_clean: "clean (redactAny v)"
proof (induction v rule: redactAny.induct)
  case (2 ms)
  then show ?case by (auto simp: list_all_iff)
qed (auto simp: list_all_iff)

lemma clean_redact_id: "clean v \<Longrightarrow> redactAny v = v"
proof (induction v rule: redactAny.induct)
  case (1 vs)
  then show ?case by (simp add: list_all_iff map_idI)
next
  case (2 ms)
  then have "(case m of (k, v) \<Rightarrow> (k, if sensitive_key k then redacted else redactAny v)) = m"
    if "m \<in> set ms" for m
    using that by (auto simp: list_all_iff split: if_splits)
  then show ?case by (simp add: map_idI)
qed simp_all

lemma redact_keys: "map fst (map (\<lambda>(k, v). (k, f k v)) ms) = map fst ms"
  by (induction ms) auto

lemma redact_wf: "json_wf v \<Longrightarrow> json_wf (redactAny v)"
proof (induction v rule: redactAny.induct)
  case (2 ms)
  then show ?case
    by (auto simp: list_all_iff redact_keys redacted_def simp del: map_map)
qed (auto simp: list_all_iff)

lemma map_of_redact:
  "map_of (map (\<lambda>(k, v). (k, f k v)) ms) k = map_option (f k) (map_of ms k)"
  by (induction ms) auto

lemma redact_path:
  "public_path p \<Longrightarrow> at_path p (redactAny v) = map_option redactAny (at_path p v)"
proof (induction p v rule: at_path.induct)
  case (2 k p ms)
  then show ?case by (auto simp: public_path_def map_of_redact split: option.splits)
next
  case (3 n p vs)
  then show ?case by (auto simp: public_path_def)
qed (auto simp: public_path_def)

lemma redact_scalar:
  "redactAny v = JsStr s \<longleftrightarrow> v = JsStr s" "redactAny v = JsNum n \<longleftrightarrow> v = JsNum n"
  by (cases v; simp)+

lemma no_secret_same: "\<not> has_sensitive v \<Longrightarrow> redactAny v = v"
proof (induction v rule: redactAny.induct)
  case (1 vs)
  then show ?case by (simp add: list_ex_iff map_idI)
next
  case (2 ms)
  then have "(case m of (k, v) \<Rightarrow> (k, if sensitive_key k then redacted else redactAny v)) = m"
    if "m \<in> set ms" for m
    using that by (auto simp: list_ex_iff)
  then show ?case by (simp add: map_idI)
qed simp_all

lemma WriteEvent_out:
  assumes "WriteEvent now ft w typ data lines = (lines', err)"
  shows "lines' = lines \<or> (\<exists>v e. data = Some v \<and> lines' = lines @ [e]
     \<and> entry_line e = \<lparr>ln_Type = trim_space typ, ln_TsMS = unix_ms now, ln_Data = redactAny v\<rparr>
     \<and> (is_cut e \<longrightarrow> lf_write ft \<noteq> None) \<and> (err = None \<longrightarrow> \<not> is_cut e))"
  using assms
  by (auto simp: WriteEvent_def sanitizeToJSONSafe_def Let_def split: if_splits option.splits)

end
