(* ===== verification/Price_Feeds.thy ===== *)
theory Price_Feeds
  imports Json_Log Price_Aggregator
begin

text \<open>
  The price feeds of internal/feed: the WebSocket clients of Binance and OKX with their
  reconnects and the checks of every message, the configuration from the environment, the REST
  fallbacks and the older aggregator.

  The network is an input: an attempt to connect fails with an error text or gives a session,
  a message is what \<open>json.Unmarshal\<close> makes of its bytes.  \<open>fmt.Sscanf\<close> reads a number at the
  beginning of a text and ignores what follows; hexadecimal numerals and white space beyond
  ASCII are outside the model.
\<close>

subsection \<open>Configuration\<close>

record feed_config = agg_config +
  fc_PriceMode :: string

definition feed_env_int :: "(string \<Rightarrow> string) \<Rightarrow> string \<Rightarrow> int64 \<Rightarrow> int64" where
  "feed_env_int env key dflt =
     (let s = trim_space (env key)
      in if s = [] then dflt else (case parse_int s of None \<Rightarrow> dflt | Some v \<Rightarrow> v))"

definition feed_env_float :: "(string \<Rightarrow> string) \<Rightarrow> string \<Rightarrow> float64 \<Rightarrow> float64" where
  "feed_env_float env key dflt =
     (let s = trim_space (env key)
      in if s = [] then dflt else (case parse_float s of None \<Rightarrow> dflt | Some v \<Rightarrow> v))"

definition DefaultPriceAggregatorConfig :: feed_config where
  "DefaultPriceAggregatorConfig =
     \<lparr>ac_Symbol = ''ETH/USDT'', ac_StaleWindow = 5 * second, ac_FreezeWindow = 20 * second,
      ac_DivergencePct = f_lit (3 / 1000), ac_LogInterval = 7 * second,
      fc_PriceMode = ''ws_only''\<rparr>"

definition window_of :: "int64 \<Rightarrow> duration \<Rightarrow> duration" where
  "window_of sec dflt = (if 0 < sec then mul64 sec second else dflt)"

definition price_mode_of :: "(string \<Rightarrow> string) \<Rightarrow> string" where
  "price_mode_of env =
     (let m = to_lower (trim_space (env ''PRICE_MODE''))
      in if trim_space (env ''PRICE_ENABLE_REST_FALLBACK'') = ''1'' \<or> m = ''ws_with_rest_fallback''
         then ''ws_with_rest_fallback'' else ''ws_only'')"

definition LoadPriceAggregatorConfigFromEnv :: "(string \<Rightarrow> string) \<Rightarrow> feed_config" where
  "LoadPriceAggregatorConfigFromEnv env =
     (let c = DefaultPriceAggregatorConfig;
          spec = trim_space (env ''PRICE_SYMBOL'');
          dv = feed_env_float env ''DIVERGENCE_PCT'' (ac_DivergencePct c)
      in c\<lparr>ac_Symbol := (if spec = [] then ac_Symbol c else spec),
           ac_StaleWindow := window_of (feed_env_int env ''PRICE_STALE_SEC'' 5) (ac_StaleWindow c),
           ac_FreezeWindow := window_of (feed_env_int env ''PRICE_FREEZE_SEC'' 20) (ac_FreezeWindow c),
           ac_DivergencePct := (if f_lt (Fin 0) dv then dv else ac_DivergencePct c),
           ac_LogInterval := window_of (feed_env_int env ''PRICE_LOG_SEC'' 7) (ac_LogInterval c),
           fc_PriceMode := price_mode_of env\<rparr>)"

definition WSOnly :: "feed_config \<Rightarrow> bool" where
  "WSOnly c \<longleftrightarrow> to_lower (trim_space (fc_PriceMode c)) \<noteq> ''ws_with_rest_fallback''"

subsection \<open>Reading numbers\<close>

type_synonym scan = "string \<times> string"

definition accept :: "string \<Rightarrow> scan \<Rightarrow> bool \<times> scan" where
  "accept cs sc =
     (case snd sc of [] \<Rightarrow> (False, sc)
      | c # r \<Rightarrow> if c \<in> set cs then (True, (fst sc @ [c], r)) else (False, sc))"

definition accept_run :: "string \<Rightarrow> scan \<Rightarrow> scan" where
  "accept_run cs sc =
     (fst sc @ takeWhile (\<lambda>c. c \<in> set cs) (snd sc), dropWhile (\<lambda>c. c \<in> set cs) (snd sc))"

definition accept3 :: "string \<Rightarrow> string \<Rightarrow> string \<Rightarrow> scan \<Rightarrow> bool \<times> scan" where
  "accept3 a b c sc =
     (let (x, sc) = accept a sc in if \<not> x then (False, sc) else
      let (y, sc) = accept b sc in if \<not> y then (False, sc) else accept c sc)"

definition scan_digits :: string where "scan_digits = ''0123456789_''"

definition float_token :: "string \<Rightarrow> string" where
  "float_token s =
     (let (nan, sc) = accept3 ''nN'' ''aA'' ''nN'' ([], s)
      in if nan then fst sc
         else
           let sc = snd (accept ''+-'' sc);
               (inf, sc) = accept3 ''iI'' ''nN'' ''fF'' sc
           in if inf then fst sc
              else
                let sc = accept_run scan_digits sc;
                    (dot, sc) = accept ''.'' sc;
                    sc = (if dot then accept_run scan_digits sc else sc);
                    (ex, sc) = accept ''eEpP'' sc;
                    sc = (if ex then accept_run scan_digits (snd (accept ''+-'' sc)) else sc)
                in fst sc)"

fun ldexp :: "float64 \<Rightarrow> int \<Rightarrow> float64" where
  "ldexp (Fin x) n = rnd (x * pow2 n)"
| "ldexp v n = v"

definition convert_float :: "string \<Rightarrow> float64 option" where
  "convert_float tok =
     (if CHR ''p'' \<in> set tok
      then let (m, e) = cut_at CHR ''p'' tok
           in case (parse_float m, parse_int e) of (Some f, Some n) \<Rightarrow> Some (ldexp f n) | _ \<Rightarrow> None
      else parse_float tok)"

fun skip_space :: "string \<Rightarrow> string option" where
  "skip_space [] = Some []"
| "skip_space (c # s) =
     (if c = CHR 0x0A then None else if ascii_space c then skip_space s else Some (c # s))"

definition sscanf_float :: "string \<Rightarrow> float64 option" where
  "sscanf_float s =
     (case skip_space s of None \<Rightarrow> None
      | Some r \<Rightarrow> if r = [] then None else convert_float (float_token r))"

definition int_token :: "string \<Rightarrow> string" where
  "int_token s = fst (accept_run scan_digits (snd (accept ''+-'' ([], s))))"

definition sscanf_int :: "string \<Rightarrow> int64 option" where
  "sscanf_int s =
     (case skip_space s of None \<Rightarrow> None | Some r \<Rightarrow> parse_int (int_token r))"

definition feedParseFloat :: "string \<Rightarrow> float64" where
  "feedParseFloat s = (case sscanf_float s of None \<Rightarrow> Fin 0 | Some v \<Rightarrow> v)"

definition parseFloatStrict :: "string \<Rightarrow> float64 option" where
  "parseFloatStrict s =
     (case sscanf_float s of None \<Rightarrow> None
      | Some v \<Rightarrow> if f_is_nan v \<or> f_is_inf v then None else Some v)"

definition parseOKXMillis :: "string \<Rightarrow> gotime" where
  "parseOKXMillis ms =
     (case sscanf_int ms of None \<Rightarrow> 0 | Some v \<Rightarrow> if v \<le> 0 then 0 else time_unix_ms v)"

subsection \<open>Messages of Binance\<close>

datatype parse_error = NotAnObject | MissingSymbol | MissingBidAsk | InvalidBidAsk string string

record book_ticker =
  bk_Symbol :: string
  bk_Bid :: float64
  bk_Ask :: float64
  bk_EventAt :: gotime

text \<open>\<open>json.Unmarshal\<close> of one member into a string or an \<open>int64\<close>; any other value leaves the
  variable as it is.\<close>

fun str_member :: "json option \<Rightarrow> string" where
  "str_member (Some (JsStr s)) = s" | "str_member _ = []"

fun int_member :: "json option \<Rightarrow> int64 option" where
  "int_member (Some (JsNum t)) = parse_int t" | "int_member (Some JsNull) = Some 0" | "int_member _ = None"

fun raw_object :: "json option \<Rightarrow> (string \<rightharpoonup> json) option" where
  "raw_object (Some (JsObj ms)) = Some (map_of ms)"
| "raw_object (Some JsNull) = Some Map.empty"
| "raw_object _ = None"

definition parseBinanceBookTicker :: "json option \<Rightarrow> parse_error + book_ticker" where
  "parseBinanceBookTicker msg =
     (case raw_object msg of None \<Rightarrow> Inl NotAnObject
      | Some raw \<Rightarrow>
          let symbol = str_member (raw ''s'')
          in if trim_space symbol = [] then Inl MissingSymbol
             else
               let b = trim_space (str_member (raw ''b'')); a = trim_space (str_member (raw ''a''))
               in if b = [] \<or> a = [] then Inl MissingBidAsk
                  else case (parseFloatStrict b, parseFloatStrict a) of
                    (Some bid, Some ask) \<Rightarrow>
                      Inr \<lparr>bk_Symbol = symbol, bk_Bid = bid, bk_Ask = ask,
                           bk_EventAt = (case int_member (raw ''E'') of
                               Some ms \<Rightarrow> if 0 < ms then time_unix_ms ms else 0 | None \<Rightarrow> 0)\<rparr>
                  | _ \<Rightarrow> Inl (InvalidBidAsk b a))"

definition feed_event :: "string \<Rightarrow> bool \<Rightarrow> string option \<Rightarrow> gotime \<Rightarrow> source_event" where
  "feed_event source conn err now =
     \<lparr>sev_Source = source, sev_Connected = conn, sev_Err = err, sev_At = now\<rparr>"

text \<open>\<open>jsonErr\<close> is the text of the error of \<open>json.Unmarshal\<close>.\<close>

fun parse_error_text :: "string \<Rightarrow> parse_error \<Rightarrow> string" where
  "parse_error_text jsonErr NotAnObject = jsonErr"
| "parse_error_text jsonErr MissingSymbol = ''missing symbol (s)''"
| "parse_error_text jsonErr MissingBidAsk = ''missing bid/ask price fields (b/a)''"
| "parse_error_text jsonErr (InvalidBidAsk b a) =
     ''invalid bid/ask price (b='' @ quote b @ '' a='' @ quote a @ '')''"

definition price_sane :: "float64 \<Rightarrow> bool" where
  "price_sane p \<longleftrightarrow> \<not> f_lt p (Fin 500) \<and> \<not> f_lt (Fin 100000) p"

definition no_price :: "float64 \<Rightarrow> bool" where
  "no_price p \<longleftrightarrow> f_is_nan p \<or> f_is_inf p \<or> f_le p (Fin 0)"

definition binance_message ::
    "symbol_spec \<Rightarrow> gotime \<Rightarrow> string \<Rightarrow> json option \<Rightarrow> price_update option \<times> source_event option" where
  "binance_message spec now jsonErr msg =
     (case parseBinanceBookTicker msg of
        Inl e \<Rightarrow> (None, Some (feed_event ''binance'' True
                          (Some (''parse_error: '' @ parse_error_text jsonErr e)) now))
      | Inr t \<Rightarrow>
          if trim_space (bk_Symbol t) \<noteq> to_upper (sy_Binance spec) then (None, None)
          else if f_le (bk_Bid t) (Fin 0) \<or> f_le (bk_Ask t) (Fin 0)
          then (None, Some (feed_event ''binance'' True
                       (Some ''parse_error: invalid bid/ask (<=0)'') now))
          else
            let price = f_div (f_add (bk_Bid t) (bk_Ask t)) (Fin 2)
            in if no_price price then (None, None)
               else if \<not> price_sane price
               then (None, Some (feed_event ''binance'' True
                       (Some (''parse_error: price out of range (mid='' @ fmt_fixed 6 price @ '')'')) now))
               else (Some \<lparr>pu_Source = ''binance'', pu_Symbol = sy_Display spec, pu_Price = price,
                          pu_EventTime = (if t_is_zero (bk_EventAt t) then now else bk_EventAt t),
                          pu_ReceivedAt = now\<rparr>, None))"

subsection \<open>Messages of OKX\<close>

record okx_tickers =
  ot_Channel :: string
  ot_InstID :: string
  ot_Data :: "(string \<times> string) list"  \<comment> \<open>last and ts\<close>

text \<open>What \<open>json.Unmarshal\<close> makes of a message as an event frame (event, code, message) and as
  a ticker frame.\<close>

record okx_message =
  om_event :: "(string \<times> string \<times> string) option"
  om_tick :: "okx_tickers option"

datatype okx_out = OkxSkip | OkxStop string | OkxReport source_event | OkxUpdate price_update

definition okx_tick :: "symbol_spec \<Rightarrow> gotime \<Rightarrow> okx_tickers \<Rightarrow> okx_out" where
  "okx_tick spec now t =
     (if ot_Channel t \<noteq> ''tickers'' \<or> ot_InstID t \<noteq> sy_OKX spec then OkxSkip
      else case ot_Data t of [] \<Rightarrow> OkxSkip
      | (lastPx, ts) # _ \<Rightarrow>
          let price = feedParseFloat lastPx
          in if no_price price then OkxSkip
             else if \<not> price_sane price
             then OkxReport (feed_event ''okx'' True
                    (Some (''parse_error: price out of range (last='' @ fmt_fixed 6 price @ '')'')) now)
             else OkxUpdate \<lparr>pu_Source = ''okx'', pu_Symbol = sy_Display spec, pu_Price = price,
                    pu_EventTime = (let e = parseOKXMillis ts in if t_is_zero e then now else e),
                    pu_ReceivedAt = now\<rparr>)"

definition okx_read :: "symbol_spec \<Rightarrow> gotime \<Rightarrow> okx_message \<Rightarrow> okx_out" where
  "okx_read spec now m =
     (case om_event m of
        Some (ev, code, txt) \<Rightarrow>
          if ev = ''error''
          then OkxStop (''handshake: okx subscribe error code='' @ code @ '' msg='' @ txt)
          else if ev \<noteq> [] then OkxSkip
          else (case om_tick m of None \<Rightarrow> OkxSkip | Some t \<Rightarrow> okx_tick spec now t)
      | None \<Rightarrow> (case om_tick m of None \<Rightarrow> OkxSkip | Some t \<Rightarrow> okx_tick spec now t))"

text \<open>Updates go to a channel of the aggregator; when it is full they are dropped.\<close>

definition offer :: "nat \<Rightarrow> 'a \<Rightarrow> 'a list \<Rightarrow> 'a list" where
  "offer cap x buf = (if length buf < cap then buf @ [x] else buf)"

subsection \<open>Reconnecting\<close>

definition nextBackoff :: "duration \<Rightarrow> duration" where
  "nextBackoff cur =
     (if cur \<le> 0 then second
      else let n = mul64 cur 2 in if 30 * second < n then 30 * second else n)"

text \<open>An error: its text, and the text of the error inside the first \<open>url.Error\<close> of its chain, if
  there is one.  The kind is told from the inner text, what is reported is the whole.\<close>

record dial_error =
  er_Text :: string
  er_Inner :: "string option"

definition classifyDialErr :: "dial_error \<Rightarrow> string \<times> bool" where
  "classifyDialErr err =
     (let msg = to_lower (case er_Inner err of None \<Rightarrow> er_Text err | Some inner \<Rightarrow> inner);
          has = contains msg
      in if has ''no such host'' \<or> has ''server misbehaving''
            \<or> has ''temporary failure in name resolution'' then (''dns'', True)
         else if has ''handshake'' then (''handshake'', False)
         else if has ''timeout'' then (''dial_timeout'', False)
         else (''dial'', False))"

text \<open>One turn of the loop of \<open>Run\<close>: the dial fails, the subscription fails (OKX only), or a
  session runs until it ends with an error or without.  The result is the new state, the
  events that are reported and how long the loop sleeps.\<close>

datatype attempt = DialFails dial_error | SessionEnds "dial_error option"
datatype okx_attempt = Attempt attempt | SubscribeFails string

record conn_state =
  cn_idx :: nat
  cn_backoff :: duration

definition new_conn :: conn_state where
  "new_conn = \<lparr>cn_idx = 0, cn_backoff = second\<rparr>"

definition okx_endpoints :: "string list" where
  "okx_endpoints =
     [''wss://ws.okx.com:8443/ws/v5/public'', ''wss://wsaws.okx.com:8443/ws/v5/public'',
      ''wss://wseea.okx.com:8443/ws/v5/public'']"

definition okx_url :: "conn_state \<Rightarrow> string" where
  "okx_url c = okx_endpoints ! (cn_idx c mod length okx_endpoints)"

definition with_backoff :: "conn_state \<Rightarrow> conn_state \<times> duration" where
  "with_backoff c = (let b = nextBackoff (cn_backoff c) in (c\<lparr>cn_backoff := b\<rparr>, b))"

definition okx_turn ::
    "gotime \<Rightarrow> okx_attempt \<Rightarrow> conn_state \<Rightarrow> conn_state \<times> source_event list \<times> duration" where
  "okx_turn now a c =
     (let c = c\<lparr>cn_idx := Suc (cn_idx c)\<rparr>; up = feed_event ''okx'' True None now
      in case a of
           Attempt (DialFails err) \<Rightarrow>
             let (kind, quick) = classifyDialErr err;
                 ev = feed_event ''okx'' False (Some (kind @ '': '' @ er_Text err)) now
             in if quick then (c, [ev], 250 * millisecond)
                else (let (c, d) = with_backoff c in (c, [ev], d))
         | SubscribeFails err \<Rightarrow>
             let (c, d) = with_backoff (c\<lparr>cn_backoff := second\<rparr>)
             in (c, [up, feed_event ''okx'' False (Some (''handshake: '' @ err)) now], d)
         | Attempt (SessionEnds err) \<Rightarrow>
             let (c, d) = with_backoff (c\<lparr>cn_backoff := second\<rparr>);
                 txt = (case err of None \<Rightarrow> ''okx ws read loop ended''
                        | Some e \<Rightarrow> fst (classifyDialErr e) @ '': '' @ er_Text e)
             in (c, [up, feed_event ''okx'' False (Some txt) now], d))"

definition binance_turn ::
    "gotime \<Rightarrow> attempt \<Rightarrow> conn_state \<Rightarrow> conn_state \<times> source_event list \<times> duration" where
  "binance_turn now a c =
     (let c = c\<lparr>cn_idx := Suc (cn_idx c)\<rparr>
      in case a of
           DialFails err \<Rightarrow>
             let (c, d) = with_backoff c in (c, [feed_event ''binance'' False (Some (er_Text err)) now], d)
         | SessionEnds err \<Rightarrow>
             let (c, d) = with_backoff (c\<lparr>cn_backoff := second\<rparr>);
                 txt = (case err of None \<Rightarrow> ''binance ws read loop ended'' | Some e \<Rightarrow> er_Text e)
             in (c, [feed_event ''binance'' True None now, feed_event ''binance'' False (Some txt) now], d))"

fun turns ::
    "(gotime \<Rightarrow> 'a \<Rightarrow> conn_state \<Rightarrow> conn_state \<times> source_event list \<times> duration)
      \<Rightarrow> (gotime \<times> 'a) list \<Rightarrow> conn_state \<Rightarrow> conn_state \<times> duration list" where
  "turns f [] c = (c, [])"
| "turns f ((now, a) # as) c =
     (let (c, evs, d) = f now a c; (c, ds) = turns f as c in (c, d # ds))"

subsection \<open>The REST fallbacks\<close>

record feed_status =
  fs_Source :: string
  fs_Healthy :: bool
  fs_DelayMs :: int64
  fs_LastUpdateAt :: gotime

definition mapSymbol :: "string \<Rightarrow> string" where
  "mapSymbol symbol =
     (if to_upper symbol \<in> {''BTCUSDT'', ''BTCUSD'', ''BTC''} then ''bitcoin'' else ''ethereum'')"

definition gecko_id :: "string \<Rightarrow> string" where
  "gecko_id symbol = (if to_upper symbol = ''BTCUSDT'' then ''bitcoin'' else ''ethereum'')"

text \<open>A REST answer: \<open>None\<close> is an error of the request, its status or its decoding.\<close>

definition GetPriceREST :: "string option \<Rightarrow> float64 option" where
  "GetPriceREST price = (case price of None \<Rightarrow> None | Some s \<Rightarrow> sscanf_float s)"

definition GetPriceCoinGecko :: "string \<Rightarrow> (string \<rightharpoonup> float64) option \<Rightarrow> float64 option" where
  "GetPriceCoinGecko symbol res = (case res of None \<Rightarrow> None | Some m \<Rightarrow> m (gecko_id symbol))"

text \<open>\<open>CoinGeckoFeed.fetchPrice\<close>: a missing price reads as zero, which is an error.\<close>

definition fetchPrice :: "string \<Rightarrow> (string \<rightharpoonup> (string \<rightharpoonup> float64)) option \<Rightarrow> float64 option" where
  "fetchPrice symbol res =
     (case res of None \<Rightarrow> None
      | Some m \<Rightarrow>
          let p = (case m (mapSymbol symbol) of None \<Rightarrow> Fin 0 | Some f \<Rightarrow> map_get f (Fin 0) ''usd'')
          in if f_eq p (Fin 0) then None else Some p)"

text \<open>\<open>CoinGeckoFeed\<close>: a turn of \<open>poll\<close> gives the status that is reported and the ticker that is
  sent, if any; then the loop sleeps for the interval.\<close>

definition NewCoinGeckoFeed :: "duration \<Rightarrow> duration" where
  "NewCoinGeckoFeed interval = (if interval \<le> 0 then 5 * second else interval)"

definition gecko_poll ::
    "gotime \<Rightarrow> duration \<Rightarrow> string \<Rightarrow> (string \<rightharpoonup> (string \<rightharpoonup> float64)) option \<Rightarrow> feed_status \<times> ticker option" where
  "gecko_poll now interval symbol res =
     (let status = (\<lambda>ok delay. \<lparr>fs_Source = ''coingecko'', fs_Healthy = ok, fs_DelayMs = delay,
                                 fs_LastUpdateAt = now\<rparr>)
      in case fetchPrice symbol res of
           None \<Rightarrow> (status False 0, None)
         | Some p \<Rightarrow> (status True (interval div millisecond),
             Some \<lparr>tk_Symbol = to_upper symbol, tk_Price = p, tk_Timestamp = now\<rparr>))"

text \<open>
  \<open>BinanceFeed.SubscribeTicker\<close>: a reader of the WebSocket, or polling at once when no endpoint
  answers.  When the reader fails it starts the goroutine that polls and returns; its deferred
  calls then close the connection and, in a step of its own, the channel.  In between the polling
  may already have sent.  A send on the full channel waits, a send on the closed one panics, and
  so does a send that waits when the channel is closed (here: the send is tried after the close).
\<close>

record rest_feed =
  rf_chan :: "ticker list"
  rf_closed :: bool
  rf_reading :: bool
  rf_returning :: bool
  rf_polling :: bool
  rf_api :: nat
  rf_status :: "feed_status option"
  rf_panicked :: bool

datatype rest_action =
  WsTicker gotime string string  \<comment> \<open>a message that decodes: symbol and price text\<close>
| WsGarbage | WsError gotime
| CloseOut  \<comment> \<open>the deferred close of the channel\<close>
| PollOk gotime float64 | PollFails | Take

definition rest_cap :: nat where "rest_cap = 10"

definition binance_status :: "bool \<Rightarrow> int64 \<Rightarrow> gotime \<Rightarrow> feed_status" where
  "binance_status healthy delay now =
     \<lparr>fs_Source = ''binance'', fs_Healthy = healthy, fs_DelayMs = delay, fs_LastUpdateAt = now\<rparr>"

definition SubscribeTicker :: "gotime \<Rightarrow> bool \<Rightarrow> bool \<Rightarrow> rest_feed" where
  "SubscribeTicker now primary backup =
     (let b = \<lparr>rf_chan = [], rf_closed = False, rf_reading = False, rf_returning = False,
               rf_polling = False, rf_api = 0, rf_status = None, rf_panicked = False\<rparr>
      in if primary \<or> backup
         then b\<lparr>rf_reading := True, rf_status := Some (binance_status True 0 now)\<rparr>
         else b\<lparr>rf_polling := True\<rparr>)"

definition rest_send :: "ticker \<Rightarrow> rest_feed \<Rightarrow> rest_feed option" where
  "rest_send t b =
     (if rf_closed b then Some (b\<lparr>rf_panicked := True\<rparr>)
      else if rest_cap \<le> length (rf_chan b) then None
      else Some (b\<lparr>rf_chan := rf_chan b @ [t]\<rparr>))"

fun rest_step :: "string \<Rightarrow> rest_action \<Rightarrow> rest_feed \<Rightarrow> rest_feed option" where
  "rest_step symbol (WsTicker now s c) b =
     (if \<not> rf_reading b then None
      else case rest_send \<lparr>tk_Symbol = s, tk_Price = feedParseFloat c, tk_Timestamp = now\<rparr> b of
        None \<Rightarrow> None
      | Some b \<Rightarrow> Some (b\<lparr>rf_status := Some (binance_status True 0 now)\<rparr>))"
| "rest_step symbol WsGarbage b = (if rf_reading b then Some b else None)"
| "rest_step symbol (WsError now) b =
     (if \<not> rf_reading b then None
      else Some (b\<lparr>rf_reading := False, rf_returning := True, rf_polling := True,
                   rf_status := Some (binance_status False 0 now)\<rparr>))"
| "rest_step symbol CloseOut b =
     (if rf_returning b then Some (b\<lparr>rf_returning := False, rf_closed := True\<rparr>) else None)"
| "rest_step symbol (PollOk now price) b =
     (if \<not> rf_polling b then None
      else case rest_send \<lparr>tk_Symbol = to_upper symbol, tk_Price = price, tk_Timestamp = now\<rparr> b of
        None \<Rightarrow> None
      | Some b \<Rightarrow> Some (if rf_panicked b then b
                       else b\<lparr>rf_status := Some (binance_status True 5000 now)\<rparr>))"
| "rest_step symbol PollFails b =
     (if rf_polling b then Some (b\<lparr>rf_api := Suc (rf_api b) mod 2\<rparr>) else None)"
| "rest_step symbol Take b =
     (case rf_chan b of [] \<Rightarrow> None | t # ts \<Rightarrow> Some (b\<lparr>rf_chan := ts\<rparr>))"

inductive rest_run :: "string \<Rightarrow> rest_feed \<Rightarrow> rest_action list \<Rightarrow> rest_feed \<Rightarrow> bool" for symbol where
  rest_nil: "rest_run symbol b [] b"
| rest_cons: "\<not> rf_panicked b \<Longrightarrow> rest_step symbol a b = Some b1 \<Longrightarrow> rest_run symbol b1 as b2 \<Longrightarrow>
    rest_run symbol b (a # as) b2"

inductive_simps rest_run_simps: "rest_run symbol b [] b'" "rest_run symbol b (a # as) b'"

inductive_cases rest_nil_cases [elim!]: "rest_run symbol b [] b'"
inductive_cases rest_cons_cases [elim!]: "rest_run symbol b (a # as) b'"

subsection \<open>The older aggregator\<close>

text \<open>The map of last tickers is a list in the order of iteration.\<close>

definition same_symbol :: "string \<Rightarrow> (string \<times> ticker) list \<Rightarrow> ticker list" where
  "same_symbol symbol m = filter (\<lambda>t. tk_Symbol t = symbol) (map snd m)"

definition aggregateLocked :: "string \<Rightarrow> (string \<times> ticker) list \<Rightarrow> ticker" where
  "aggregateLocked symbol m =
     (let ts = same_symbol symbol m
      in if ts = [] then \<lparr>tk_Symbol = [], tk_Price = Fin 0, tk_Timestamp = 0\<rparr>
         else \<lparr>tk_Symbol = symbol,
               tk_Price = f_div (fold (\<lambda>t acc. f_add acc (tk_Price t)) ts (Fin 0))
                            (f_of_int (int (length ts))),
               tk_Timestamp = fold (\<lambda>t latest. max latest (tk_Timestamp t)) ts 0\<rparr>)"

definition put_last :: "string \<Rightarrow> ticker \<Rightarrow> (string \<times> ticker) list \<Rightarrow> (string \<times> ticker) list" where
  "put_last name t m =
     (if name \<in> set (map fst m) then map (\<lambda>(n, u). (n, if n = name then t else u)) m
      else m @ [(name, t)])"

definition source_ticker ::
    "string \<Rightarrow> ticker \<Rightarrow> (string \<times> ticker) list \<times> ticker list
      \<Rightarrow> (string \<times> ticker) list \<times> ticker list" where
  "source_ticker name t a =
     (let m = put_last name t (fst a); agg = aggregateLocked (tk_Symbol t) m
      in (m, if t_is_zero (tk_Timestamp agg) then snd a else offer 32 agg (snd a)))"

end
