(* ===== verification/Props_Feeds.thy ===== *)
theory Props_Feeds
  imports Price_Feeds "HOL-Library.Sublist"
begin

text \<open>
  The properties of the price feeds and of the event log.
\<close>

subsection \<open>Prices that leave a feed\<close>

lemma sane_price:
  assumes "\<not> no_price p" "price_sane p"
  shows "\<exists>x. p = Fin x \<and> 500 \<le> x \<and> x \<le> 100000"
  using assms by (cases p) (auto simp: no_price_def price_sane_def f_is_nan_def f_is_inf_def Let_def)

text \<open>C23. Whatever a venue sends, a price that a feed passes on is a finite number between 500 and
  100000 for the configured symbol - the message names that symbol, and is a ticker of it in the
  case of OKX; the one of Binance is the rounded mean of two positive
  quotes that the message carries under its lower-case keys, and a message that gives a price
  gives no error.\<close>

theorem feed_prices_sane:
  "(binance_message spec now je msg = (Some u, ev) \<longrightarrow>
      ev = None \<and> pu_Symbol u = sy_Display spec \<and> pu_Source u = ''binance''
      \<and> (\<exists>t. parseBinanceBookTicker msg = Inr t \<and> trim_space (bk_Symbol t) = to_upper (sy_Binance spec))
      \<and> (\<exists>x. pu_Price u = Fin x \<and> 500 \<le> x \<and> x \<le> 100000)
      \<and> (\<exists>ms b a bid ask. msg = Some (JsObj ms) \<and> map_of ms ''b'' = Some (JsStr b)
           \<and> map_of ms ''a'' = Some (JsStr a) \<and> parseFloatStrict (trim_space b) = Some (Fin bid)
           \<and> parseFloatStrict (trim_space a) = Some (Fin ask) \<and> 0 < bid \<and> 0 < ask
           \<and> pu_Price u = f_div (rnd (bid + ask)) (Fin 2)))
   \<and> (okx_read spec now m = OkxUpdate v \<longrightarrow>
      pu_Symbol v = sy_Display spec \<and> pu_Source v = ''okx''
      \<and> (\<exists>t px ts more. om_tick m = Some t \<and> ot_Channel t = ''tickers'' \<and> ot_InstID t = sy_OKX spec
           \<and> ot_Data t = (px, ts) # more \<and> pu_Price v = feedParseFloat px)
      \<and> (\<exists>x. pu_Price v = Fin x \<and> 500 \<le> x \<and> x \<le> 100000))"
proof (intro conjI impI)
  assume a: "binance_message spec now je msg = (Some u, ev)"
  obtain t where t: "parseBinanceBookTicker msg = Inr t"
    using a by (auto simp: binance_message_def split: sum.splits)
  let ?p = "f_div (f_add (bk_Bid t) (bk_Ask t)) (Fin 2)"
  have u: "ev = None" "pu_Symbol u = sy_Display spec" "pu_Source u = ''binance''" "pu_Price u = ?p"
    "\<not> no_price ?p" "price_sane ?p" "\<not> f_le (bk_Bid t) (Fin 0)" "\<not> f_le (bk_Ask t) (Fin 0)"
    "trim_space (bk_Symbol t) = to_upper (sy_Binance spec)"
    using a t by (auto simp: binance_message_def Let_def split: if_splits)
  then show "ev = None" "pu_Symbol u = sy_Display spec" "pu_Source u = ''binance''"
    "\<exists>x. pu_Price u = Fin x \<and> 500 \<le> x \<and> x \<le> 100000"
    "\<exists>t. parseBinanceBookTicker msg = Inr t \<and> trim_space (bk_Symbol t) = to_upper (sy_Binance spec)"
    using sane_price t by auto
  obtain raw where raw: "raw_object msg = Some raw"
    "parseFloatStrict (trim_space (str_member (raw ''b''))) = Some (bk_Bid t)"
    "parseFloatStrict (trim_space (str_member (raw ''a''))) = Some (bk_Ask t)"
    "trim_space (str_member (raw ''b'')) \<noteq> []" "trim_space (str_member (raw ''a'')) \<noteq> []"
    using t by (auto simp: parseBinanceBookTicker_def Let_def split: option.splits if_splits)
  obtain b where b: "raw ''b'' = Some (JsStr b)"
    using raw(4) by (cases "raw ''b''" rule: str_member.cases) auto
  obtain ask' where a': "raw ''a'' = Some (JsStr ask')"
    using raw(5) by (cases "raw ''a''" rule: str_member.cases) auto
  obtain ms where ms: "msg = Some (JsObj ms)" "raw = map_of ms"
    using raw(1) b by (cases msg rule: raw_object.cases) auto
  obtain bid where bid: "bk_Bid t = Fin bid" "0 < bid"
    using raw(2) u(7)
    by (cases "bk_Bid t") (auto simp: parseFloatStrict_def f_is_nan_def f_is_inf_def f_le_def split: option.splits if_splits)
  obtain ask where ask: "bk_Ask t = Fin ask" "0 < ask"
    using raw(3) u(8)
    by (cases "bk_Ask t") (auto simp: parseFloatStrict_def f_is_nan_def f_is_inf_def f_le_def split: option.splits if_splits)
  show "\<exists>ms b a bid ask. msg = Some (JsObj ms) \<and> map_of ms ''b'' = Some (JsStr b)
      \<and> map_of ms ''a'' = Some (JsStr a) \<and> parseFloatStrict (trim_space b) = Some (Fin bid)
      \<and> parseFloatStrict (trim_space a) = Some (Fin ask) \<and> 0 < bid \<and> 0 < ask
      \<and> pu_Price u = f_div (rnd (bid + ask)) (Fin 2)"
    using ms b a' raw(2,3) bid ask u(4)
    by (intro exI [of _ ms] exI [of _ b] exI [of _ ask'] exI [of _ bid] exI [of _ ask]) simp
next
  assume "okx_read spec now m = OkxUpdate v"
  then obtain t where m: "om_tick m = Some t" and t: "okx_tick spec now t = OkxUpdate v"
    by (auto simp: okx_read_def split: option.splits if_splits)
  obtain px ts more where d: "ot_Data t = (px, ts) # more"
    using t by (auto simp: okx_tick_def split: if_splits list.splits)
  then have v: "ot_Channel t = ''tickers''" "ot_InstID t = sy_OKX spec" "pu_Price v = feedParseFloat px"
    "pu_Symbol v = sy_Display spec" "pu_Source v = ''okx''"
    "\<not> no_price (pu_Price v)" "price_sane (pu_Price v)"
    using t by (auto simp: okx_tick_def Let_def split: if_splits)
  with m d show "\<exists>t px ts more. om_tick m = Some t \<and> ot_Channel t = ''tickers'' \<and> ot_InstID t = sy_OKX spec
      \<and> ot_Data t = (px, ts) # more \<and> pu_Price v = feedParseFloat px"
    by (intro exI conjI)
  from v show "pu_Symbol v = sy_Display spec" "pu_Source v = ''okx''"
    "\<exists>x. pu_Price v = Fin x \<and> 500 \<le> x \<and> x \<le> 100000"
    using sane_price by auto
qed

lemma parse_2000: "parseFloatStrict ''2000'' = Some (Fin 2000)"
proof -
  have "parse_unsigned ''2000'' = Some 2000"
    by (simp add: parse_unsigned_def is_digit_def digits_val.simps digit_val_def)
  then have "parse_float ''2000'' = Some (Fin 2000)"
    using rnd_repr [OF repr_numeral [of "Num.Bit0 (Num.Bit0 (Num.Bit0 (Num.Bit0 (Num.Bit1 (Num.Bit0 (Num.Bit1 (Num.Bit1 (Num.Bit1 (Num.Bit1 Num.One)))))))))"]]
    by (simp add: parse_float_def parse_special_def to_lower_def)
  moreover have "skip_space ''2000'' = Some ''2000''" "float_token ''2000'' = ''2000''" by code_simp+
  ultimately show ?thesis
    by (simp add: parseFloatStrict_def sscanf_float_def convert_float_def f_is_nan_def f_is_inf_def)
qed

theorem feed_prices_sane_witness:
  "\<exists>u. binance_message (NormalizeSymbol ''ETH/USDT'') 7 [] 
      (Some (JsObj [(''s'', JsStr ''ETHUSDT''), (''b'', JsStr ''2000''), (''a'', JsStr ''2000'')])) = (Some u, None)
     \<and> pu_Symbol u = ''ETH/USDT'' \<and> (\<exists>x. pu_Price u = Fin x \<and> 500 \<le> x \<and> x \<le> 100000)"
proof -
  let ?m = "Some (JsObj [(''s'', JsStr ''ETHUSDT''), (''b'', JsStr ''2000''), (''a'', JsStr ''2000'')])"
  let ?s = "NormalizeSymbol ''ETH/USDT''"
  have trim: "trim_space ''2000'' = ''2000''" "trim_space ''ETHUSDT'' = ''ETHUSDT''" by code_simp+
  have spec: "sy_Display ?s = ''ETH/USDT''" "to_upper (sy_Binance ?s) = ''ETHUSDT''" by code_simp+
  have r: "rnd 4000 = Fin 4000" "rnd 2000 = Fin 2000"
    using rnd_repr [OF repr_numeral [of "Num.Bit0 (Num.Bit0 (Num.Bit0 (Num.Bit0 (Num.Bit0 (Num.Bit1 (Num.Bit0 (Num.Bit1 (Num.Bit1 (Num.Bit1 (Num.Bit1 Num.One))))))))))"]]
      rnd_repr [OF repr_numeral [of "Num.Bit0 (Num.Bit0 (Num.Bit0 (Num.Bit0 (Num.Bit1 (Num.Bit0 (Num.Bit1 (Num.Bit1 (Num.Bit1 (Num.Bit1 Num.One)))))))))"]]
    by simp_all
  have "\<exists>u. binance_message ?s 7 [] ?m = (Some u, None)"
    by (simp add: binance_message_def parseBinanceBookTicker_def trim spec parse_2000 f_le_def r
        no_price_def price_sane_def f_is_nan_def f_is_inf_def Let_def)
  then obtain u where u: "binance_message ?s 7 [] ?m = (Some u, None)" by blast
  then have "pu_Symbol u = ''ETH/USDT''" "\<exists>x. pu_Price u = Fin x \<and> 500 \<le> x \<and> x \<le> 100000"
    using feed_prices_sane [of ?s 7 "[]" ?m u None] spec by simp_all
  with u show ?thesis by blast
qed

lemma digit_not: "is_digit c \<Longrightarrow> c \<notin> set ''nN'' \<and> c \<notin> set ''+-'' \<and> c \<notin> set ''iI'' \<and> \<not> ascii_space c \<and> c \<noteq> CHR 0x0A"
  by (auto simp: is_digit_def ascii_space_def)

lemma digit_scan: "is_digit c \<Longrightarrow> c \<in> set scan_digits"
proof -
  assume "is_digit c"
  then have "of_char c \<in> set [48 ..< 58 :: nat]"
    unfolding is_digit_def set_upt atLeastLessThan_iff by linarith
  moreover have "list_all (\<lambda>n. char_of n \<in> set scan_digits) [48 ..< 58 :: nat]" by code_simp
  ultimately have "char_of (of_char c :: nat) \<in> set scan_digits" unfolding list_all_iff by blast
  then show ?thesis by simp
qed

lemma digits_token:
  assumes "ds \<noteq> []" "list_all is_digit ds"
    "rest = [] \<or> hd rest \<notin> set ''0123456789_.eEpP''"
  shows "float_token (ds @ rest) = ds" "skip_space (ds @ rest) = Some (ds @ rest)"
proof -
  obtain d dt where d: "ds = d # dt" "is_digit d" using assms(1,2) by (cases ds) auto
  have run: "takeWhile (\<lambda>c. c \<in> set scan_digits) (ds @ rest) = ds"
    "dropWhile (\<lambda>c. c \<in> set scan_digits) (ds @ rest) = rest"
    using assms(2,3) digit_scan
    by (auto simp: list_all_iff takeWhile_append dropWhile_append scan_digits_def
        takeWhile_eq_Nil_iff dropWhile_eq_self_iff)
  have "accept3 ''nN'' ''aA'' ''nN'' ([], ds @ rest) = (False, ([], ds @ rest))"
    "accept ''+-'' ([], ds @ rest) = (False, ([], ds @ rest))"
    "accept3 ''iI'' ''nN'' ''fF'' ([], ds @ rest) = (False, ([], ds @ rest))"
    using d digit_not [OF d(2)] by (auto simp: accept3_def accept_def)
  moreover have "accept_run scan_digits ([], ds @ rest) = (ds, rest)"
    by (simp add: accept_run_def run)
  moreover have "accept ''.'' (ds, rest) = (False, (ds, rest))"
    "accept ''eEpP'' (ds, rest) = (False, (ds, rest))"
    using assms(3) by (auto simp: accept_def split: list.splits)
  ultimately show "float_token (ds @ rest) = ds" by (simp add: float_token_def)
  show "skip_space (ds @ rest) = Some (ds @ rest)" using d digit_not [OF d(2)] by simp
qed

text \<open>The strict parser is not strict: it reads the number at the beginning and ignores what
  follows, so that a quote with any text behind its digits is taken for the number.\<close>

theorem strict_parser_ignores_rest:
  assumes "ds \<noteq> []" "list_all is_digit ds" "hd rest \<notin> set ''0123456789_.eEpP''"
  shows "parseFloatStrict (ds @ rest) = parseFloatStrict ds"
  using digits_token [of ds rest] digits_token [of ds "[]"] assms
  by (simp add: parseFloatStrict_def sscanf_float_def)

theorem strict_parser_ignores_rest_witness:
  "parseFloatStrict ''2000 ETH?'' = parseFloatStrict ''2000''"
  using strict_parser_ignores_rest [of "''2000''" "'' ETH?''"] by (simp add: is_digit_def)

subsection \<open>Reconnecting\<close>

definition conn_ok :: "conn_state \<Rightarrow> bool" where
  "conn_ok c \<longleftrightarrow> second \<le> cn_backoff c \<and> cn_backoff c \<le> 30 * second"

lemma nextBackoff_range:
  assumes "second \<le> b" "b \<le> 30 * second"
  shows "2 * second \<le> nextBackoff b" "nextBackoff b \<le> 30 * second"
    "nextBackoff b = min (2 * b) (30 * second)"
proof -
  have "mul64 b 2 = 2 * b"
    using assms by (simp add: mul64_def wrap64_id is_i64_def min_i64_def max_i64_def second_def)
  then show "2 * second \<le> nextBackoff b" "nextBackoff b \<le> 30 * second"
    "nextBackoff b = min (2 * b) (30 * second)"
    using assms by (auto simp: nextBackoff_def second_def)
qed

lemma with_backoff_ok:
  assumes "conn_ok c" "with_backoff c = (c', d)"
  shows "conn_ok c' \<and> 2 * second \<le> d \<and> d \<le> 30 * second"
  using assms nextBackoff_range [of "cn_backoff c"]
  by (auto simp: with_backoff_def conn_ok_def Let_def second_def)

lemma okx_turn_ok:
  assumes "conn_ok c" "okx_turn now a c = (c', evs, d)"
  shows "conn_ok c' \<and> 250 * millisecond \<le> d \<and> d \<le> 30 * second"
proof -
  have w: "conn_ok c1 \<and> 250 * millisecond \<le> d1 \<and> d1 \<le> 30 * second"
    if "with_backoff c0 = (c1, d1)" "conn_ok c0" for c0 c1 d1
    using with_backoff_ok [OF that(2,1)] by (simp add: second_def millisecond_def)
  have ok: "conn_ok (c\<lparr>cn_idx := n\<rparr>)" "conn_ok (c\<lparr>cn_idx := n, cn_backoff := second\<rparr>)" for n
    using assms(1) by (simp_all add: conn_ok_def second_def)
  have q: "250 * millisecond \<le> 30 * second" by (simp add: second_def millisecond_def)
  show ?thesis
    using assms(2) w [OF _ ok(1)] w [OF _ ok(2)] ok(1) q
    by (auto simp: okx_turn_def Let_def split: okx_attempt.splits attempt.splits prod.splits if_splits)
qed

lemma binance_turn_ok:
  assumes "conn_ok c" "binance_turn now a c = (c', evs, d)"
  shows "conn_ok c' \<and> 2 * second \<le> d \<and> d \<le> 30 * second"
proof -
  have ok: "conn_ok (c\<lparr>cn_idx := n\<rparr>)" "conn_ok (c\<lparr>cn_idx := n, cn_backoff := second\<rparr>)" for n
    using assms(1) by (simp_all add: conn_ok_def second_def)
  show ?thesis
    using assms(2) with_backoff_ok [OF ok(1)] with_backoff_ok [OF ok(2)]
    by (auto simp: binance_turn_def Let_def split: attempt.splits prod.splits)
qed

lemma turns_all:
  assumes "\<And>now a c c' evs d. I c \<Longrightarrow> f now a c = (c', evs, d) \<Longrightarrow> I c' \<and> P d" "I c"
    "turns f as c = (c', ds)"
  shows "I c' \<and> list_all P ds \<and> length ds = length as"
  using assms(2,3)
proof (induction as arbitrary: c ds)
  case (Cons x as)
  obtain now a where x: "x = (now, a)" by (cases x)
  obtain c1 evs d where f: "f now a c = (c1, evs, d)" by (cases "f now a c")
  obtain ds1 where t: "turns f as c1 = (c', ds1)" "ds = d # ds1"
    using Cons.prems(2) by (auto simp: x f split: prod.splits)
  from assms(1) [OF Cons.prems(1) f] Cons.IH [OF _ t(1)] t(2) show ?case by simp
qed simp

text \<open>However the network behaves, a client of a venue waits between two attempts at least
  250 milliseconds (Binance: two seconds) and at most half a minute.\<close>

theorem reconnect_waits_bounded:
  "(\<forall>as c ds. turns okx_turn as new_conn = (c, ds) \<longrightarrow>
      length ds = length as \<and> list_all (\<lambda>d. 250 * millisecond \<le> d \<and> d \<le> 30 * second) ds)
   \<and> (\<forall>as c ds. turns binance_turn as new_conn = (c, ds) \<longrightarrow>
      length ds = length as \<and> list_all (\<lambda>d. 2 * second \<le> d \<and> d \<le> 30 * second) ds)"
proof -
  have i: "conn_ok new_conn" by (simp add: conn_ok_def new_conn_def second_def)
  have o: "list_all (\<lambda>d. 250 * millisecond \<le> d \<and> d \<le> 30 * second) ds \<and> length ds = length as"
    if "turns okx_turn as new_conn = (c, ds)" for as c ds
    using turns_all [of conn_ok okx_turn "\<lambda>d. 250 * millisecond \<le> d \<and> d \<le> 30 * second", OF okx_turn_ok i that]
    by simp
  have "list_all (\<lambda>d. 2 * second \<le> d \<and> d \<le> 30 * second) ds \<and> length ds = length as"
    if "turns binance_turn as new_conn = (c, ds)" for as c ds
    using turns_all [of conn_ok binance_turn "\<lambda>d. 2 * second \<le> d \<and> d \<le> 30 * second", OF binance_turn_ok i that]
    by simp
  with o show ?thesis by simp
qed

definition ex_dns_error :: dial_error where
  "ex_dns_error = \<lparr>er_Text = ''dial: no such host'', er_Inner = Some ''no such host''\<rparr>"

theorem reconnect_waits_bounded_witness:
  "\<exists>c ds. turns okx_turn [(0, Attempt (DialFails ex_dns_error))] new_conn = (c, ds)
     \<and> list_all (\<lambda>d. 250 * millisecond \<le> d \<and> d \<le> 30 * second) ds"
proof -
  obtain c ds where t: "turns okx_turn [(0, Attempt (DialFails ex_dns_error))] new_conn = (c, ds)"
    by fastforce
  from conjunct1 [OF reconnect_waits_bounded] t
  have "list_all (\<lambda>d. 250 * millisecond \<le> d \<and> d \<le> 30 * second) ds" by blast
  with t show ?thesis by blast
qed

subsection \<open>The REST fallback of Binance\<close>

text \<open>\<open>failed\<close> and \<open>shut\<close>: the reader has failed, the channel has been closed.\<close>

definition rest_ok :: "bool \<Rightarrow> bool \<Rightarrow> rest_feed \<Rightarrow> bool" where
  "rest_ok failed shut b \<longleftrightarrow>
     rf_closed b = shut \<and> (rf_returning b \<or> rf_closed b) = failed
     \<and> (failed \<longrightarrow> \<not> rf_reading b \<and> rf_polling b)
     \<and> (rf_reading b \<longrightarrow> \<not> rf_polling b) \<and> (rf_reading b \<or> rf_polling b)
     \<and> length (rf_chan b) \<le> rest_cap"

definition is_ws_error :: "rest_action \<Rightarrow> bool" where
  "is_ws_error a \<longleftrightarrow> (case a of WsError t \<Rightarrow> True | _ \<Rightarrow> False)"

definition is_poll_ok :: "rest_action \<Rightarrow> bool" where
  "is_poll_ok a \<longleftrightarrow> (case a of PollOk t p \<Rightarrow> True | _ \<Rightarrow> False)"

lemma rest_step_ok:
  assumes "rest_step symbol a b = Some b'" "rest_ok failed shut b" "\<not> rf_panicked b"
  shows "rest_ok (failed \<or> is_ws_error a) (shut \<or> CloseOut = a) b'
    \<and> rf_panicked b' = (shut \<and> is_poll_ok a)"
  using assms
  by (cases a)
    (auto simp: rest_ok_def rest_send_def is_ws_error_def is_poll_ok_def
      split: if_splits option.splits list.splits)

lemma rest_run_ok:
  assumes "rest_run symbol b as b'" "rest_ok failed shut b" "\<not> rf_panicked b"
  shows "rest_ok (failed \<or> list_ex is_ws_error as) (shut \<or> CloseOut \<in> set as) b' \<and>
    rf_panicked b' = (as \<noteq> [] \<and> is_poll_ok (List.last as) \<and> (shut \<or> CloseOut \<in> set (butlast as)))"
  using assms
proof (induction arbitrary: failed shut rule: rest_run.induct)
  case (rest_cons b a b1 as b2)
  note one = rest_step_ok [OF rest_cons.hyps(2) rest_cons.prems]
  have no: "\<not> is_poll_ok CloseOut" by (simp add: is_poll_ok_def)
  show ?case
  proof (cases "rf_panicked b1")
    case True
    then have "as = [] \<and> b2 = b1" using rest_cons.hyps(3) by (cases as) auto
    then show ?thesis using one True by auto
  next
    case False
    have "\<not> (shut \<and> is_poll_ok a)" using one False by blast
    then show ?thesis
      using rest_cons.IH [OF conjunct1 [OF one] False] no by (cases as) auto
  qed
qed simp_all

lemma rest_start: "rest_ok False False (SubscribeTicker now p b)" "\<not> rf_panicked (SubscribeTicker now p b)"
  by (simp_all add: rest_ok_def SubscribeTicker_def Let_def)

text \<open>C25. The polling that replaces a failed WebSocket reader of Binance crashes the process: the
  reader starts the polling and closes the channel on its way out.  A price that the polling sends
  before the close is delivered; the first one after the close panics, and nothing else does, in
  particular not the polling without a reader.  The close comes only after a failure of the
  reader, and after the failure it is pending until it has happened; from then on every price
  that is obtained panics.\<close>

theorem rest_feed_panics_after_error:
  assumes "rest_run symbol (SubscribeTicker now p b) as s"
  shows "(rf_panicked s \<longleftrightarrow> as \<noteq> [] \<and> is_poll_ok (List.last as) \<and> CloseOut \<in> set (butlast as))
    \<and> (CloseOut \<in> set as \<longrightarrow> list_ex is_ws_error as)
    \<and> (list_ex is_ws_error as \<and> CloseOut \<notin> set as \<longrightarrow> rest_step symbol CloseOut s \<noteq> None)
    \<and> (CloseOut \<in> set as \<and> \<not> rf_panicked s \<longrightarrow>
      (\<exists>s'. rest_step symbol (PollOk t price) s = Some s' \<and> rf_panicked s'))"
  using rest_run_ok [OF assms rest_start] by (auto simp: rest_ok_def rest_send_def)

text \<open>The run of the example delivers one price before the close and panics with the next.\<close>

definition ex_rest_run :: "rest_action list" where
  "ex_rest_run = [WsError 1, PollOk 2 (Fin 2000), CloseOut, PollOk 3 (Fin 2001)]"

theorem rest_feed_panics_after_error_witness:
  "\<exists>s. rest_run ''ETHUSDT'' (SubscribeTicker 0 True True) ex_rest_run s \<and> rf_panicked s
     \<and> map tk_Price (rf_chan s) = [Fin 2000]"
proof -
  have "\<exists>s. rest_run ''ETHUSDT'' (SubscribeTicker 0 True True) ex_rest_run s
      \<and> map tk_Price (rf_chan s) = [Fin 2000]"
    unfolding ex_rest_run_def
    by (simp add: rest_run_simps SubscribeTicker_def Let_def rest_send_def rest_cap_def)
  then obtain s where s: "rest_run ''ETHUSDT'' (SubscribeTicker 0 True True) ex_rest_run s"
    "map tk_Price (rf_chan s) = [Fin 2000]" by (elim exE conjE)
  from rest_feed_panics_after_error [OF s(1)] have "rf_panicked s"
    by (simp add: is_poll_ok_def ex_rest_run_def)
  with s show ?thesis by (intro exI conjI)
qed

subsection \<open>The event log\<close>

definition line_of :: "gotime \<times> log_faults \<times> string \<times> json option \<Rightarrow> log_line list" where
  "line_of e = (case e of (now, ft, typ, data) \<Rightarrow>
     case data of None \<Rightarrow> []
     | Some v \<Rightarrow> [\<lparr>ln_Type = trim_space typ, ln_TsMS = unix_ms now, ln_Data = redactAny v\<rparr>])"

definition cut_short :: "gotime \<times> log_faults \<times> string \<times> json option \<Rightarrow> bool" where
  "cut_short e \<longleftrightarrow> lf_write (fst (snd e)) \<noteq> None"

lemma log_run_subseq:
  "\<exists>new. log_run es w lines = lines @ new \<and> subseq (map entry_line new) (concat (map line_of es))
     \<and> length (filter is_cut new) \<le> length (filter cut_short es)"
proof (induction es arbitrary: lines)
  case (Cons e es)
  obtain now ft ty data where e: "e = (now, ft, ty, data)" by (cases e) auto
  obtain l1 err where w: "WriteEvent now ft w ty data lines = (l1, err)" by fastforce
  from Cons.IH [of l1] obtain new
    where new: "log_run es w l1 = l1 @ new" "subseq (map entry_line new) (concat (map line_of es))"
      "length (filter is_cut new) \<le> length (filter cut_short es)" by blast
  from WriteEvent_out [OF w] consider "l1 = lines"
    | x where "l1 = lines @ [x]" "line_of e = [entry_line x]" "is_cut x \<Longrightarrow> cut_short e"
    by (auto simp: e line_of_def cut_short_def)
  then show ?case
  proof cases
    case 1
    then show ?thesis using new e w by (auto intro: list_emb_append2)
  next
    case 2
    then show ?thesis using new e w
      by (intro exI [of _ "x # new"]) auto
  qed
qed simp

lemma line_of_clean: "l \<in> set (concat (map line_of es)) \<Longrightarrow> clean (ln_Data l)"
  by (auto simp: line_of_def redact_clean split: option.splits)

text \<open>C24. Whatever is written to the event log, the file only grows, its new lines are redacted
  events in the order in which they were written, and none of them carries, at any depth, the
  value of a sensitive key.  A write that fails half-way leaves the beginning of such a line; there
  are no more of those than failing writes.\<close>

theorem log_redacted:
  "\<exists>new. log_run es w lines = lines @ new \<and> subseq (map entry_line new) (concat (map line_of es))
     \<and> list_all (\<lambda>l. clean (ln_Data (entry_line l))) new
     \<and> length (filter is_cut new) \<le> length (filter cut_short es)"
proof -
  obtain new where new: "log_run es w lines = lines @ new"
    "subseq (map entry_line new) (concat (map line_of es))"
    "length (filter is_cut new) \<le> length (filter cut_short es)"
    using log_run_subseq by blast
  have "list_all (\<lambda>l. clean (ln_Data l)) (map entry_line new)"
    unfolding list_all_iff
    using list_emb_set [OF new(2)] line_of_clean by metis
  then have "list_all (\<lambda>l. clean (ln_Data (entry_line l))) new" by (simp add: list_all_iff)
  with new show ?thesis by blast
qed

text \<open>C26. Redaction keeps the type of a document: an object with distinct member names stays one,
  a value reached through public names only is the redacted value that was there, a second
  redaction changes nothing, and a document without sensitive keys is kept as it is.\<close>

theorem redaction_keeps_type:
  assumes "json_wf v" "public_path p"
  shows "json_wf (redactAny v) \<and> at_path p (redactAny v) = map_option redactAny (at_path p v)
     \<and> redactAny (redactAny v) = redactAny v \<and> (has_sensitive v \<or> redactAny v = v)"
  using redact_wf [OF assms(1)] redact_path [OF assms(2)] clean_redact_id [OF redact_clean]
    no_secret_same by blast

theorem redaction_keeps_type_witness:
  "at_path [Member ''a'', Item 1] (redactAny (JsObj [(''a'', JsArr [JsNull, JsObj [(''token'', JsStr ''x'')]])]))
     = Some (JsObj [(''token'', redacted)])"
proof -
  let ?v = "JsObj [(''a'', JsArr [JsNull, JsObj [(''token'', JsStr ''x'')]])]"
  have "sensitive_key ''token''" "\<not> sensitive_key ''a''" by code_simp+
  then show ?thesis
    using redaction_keeps_type [of ?v "[Member ''a'', Item 1]"] by (simp add: public_path_def)
qed

end
