(* ===== verification/Eth_Gateway.thy ===== *)
theory Eth_Gateway
  imports Executor Pnl_Loop
begin

text \<open>
  internal/chain/gateway with the receipts and allowances of cmd/bot, and what
  internal/storage does with a receipt.

  The node is an input: the answers that one operation gets to its calls.  Signing and hashing,
  the ABI of ERC-20 tokens and the hexadecimal form of addresses are fields of \<open>gateway_lib\<close>.
  The channel of receipts is a list, a transaction that the node accepted an entry of
  \<open>eg_sent\<close>, and a goroutine that waits for a receipt its hash in \<open>eg_waiting\<close>.
\<close>

subsection \<open>Transactions\<close>

type_synonym tx_hash = string
type_synonym uint64 = "64 word"

record dynamic_tx =
  dt_ChainID :: int
  dt_Nonce :: uint64
  dt_To :: address
  dt_Value :: int
  dt_Gas :: uint64
  dt_TipCap :: int
  dt_FeeCap :: int
  dt_Data :: bytes

record gateway_lib =
  gl_addr :: addr_lib
  gl_sign :: "dynamic_tx \<Rightarrow> tx_hash option"
  gl_pack_approve :: "address \<Rightarrow> int \<Rightarrow> bytes option"
  gl_pack_balance :: "address \<Rightarrow> bytes option"
  gl_pack_allowance :: "address \<Rightarrow> address \<Rightarrow> bytes option"
  gl_unpack :: "bytes \<Rightarrow> int option"

text \<open>The answers to the calls of one submission; \<open>None\<close> is an error, for the base fee also a
  header without one.\<close>

record node_answers =
  na_estimate :: "uint64 option"
  na_tip :: "int option"
  na_baseFee :: "int option"
  na_accepts :: bool

record receipt =
  rc_Status :: uint64
  rc_GasUsed :: uint64
  rc_Price :: "int option"

record receipt_result =
  rr_Hash :: tx_hash
  rr_Status :: string
  rr_GasUsed :: uint64
  rr_GasPriceWei :: int

record eth_gateway =
  eg_chainID :: int
  eg_wallet :: address
  eg_nonce :: uint64
  eg_sent :: "(tx_hash \<times> dynamic_tx) list"
  eg_waiting :: "tx_hash list"
  eg_receipts :: "receipt_result list"

datatype gateway_error =
  ApprovePackFailed | GasTipError | BaseFeeUnavailable | SignFailed | SendFailed
| DialFailed | WalletFailed string | ChainIdFailed | NonceFailed

definition wallet_key :: "string \<Rightarrow> string" where
  "wallet_key k = (if 2 < length k \<and> take 2 k = ''0x'' then drop 2 k else k)"

definition NewWallet :: "(string \<Rightarrow> address option) \<Rightarrow> string \<Rightarrow> string + address" where
  "NewWallet hexToECDSA k =
     (if k = [] then Inl ''private key is empty''
      else case hexToECDSA (wallet_key k) of None \<Rightarrow> Inl ''invalid private key'' | Some a \<Rightarrow> Inr a)"

definition syncNonce :: "uint64 option \<Rightarrow> eth_gateway \<Rightarrow> gateway_error + eth_gateway" where
  "syncNonce pending g =
     (case pending of None \<Rightarrow> Inl NonceFailed | Some n \<Rightarrow> Inr (g\<lparr>eg_nonce := n\<rparr>))"

definition NewEthGateway ::
    "bool \<Rightarrow> (string \<Rightarrow> address option) \<Rightarrow> int option \<Rightarrow> uint64 option \<Rightarrow> string
      \<Rightarrow> gateway_error + eth_gateway" where
  "NewEthGateway dial hexToECDSA chainID pending privKey =
     (if \<not> dial then Inl DialFailed
      else case NewWallet hexToECDSA privKey of Inl e \<Rightarrow> Inl (WalletFailed e)
      | Inr wallet \<Rightarrow>
          (case chainID of None \<Rightarrow> Inl ChainIdFailed
           | Some c \<Rightarrow>
               syncNonce pending
                 \<lparr>eg_chainID = c, eg_wallet = wallet, eg_nonce = 0, eg_sent = [], eg_waiting = [],
                  eg_receipts = []\<rparr>))"

subsection \<open>Sending\<close>

definition gas_limit :: "uint64 \<Rightarrow> uint64 \<Rightarrow> uint64 option \<Rightarrow> uint64" where
  "gas_limit dflt extra est =
     (case est of None \<Rightarrow> dflt | Some e \<Rightarrow> if 0 < e then e + extra else dflt)"

definition min_tip :: int where "min_tip = 1000000"

definition tip_cap :: "int \<Rightarrow> int" where
  "tip_cap tip = (if tip < min_tip then min_tip else tip)"

definition fee_cap :: "int \<Rightarrow> int \<Rightarrow> int" where
  "fee_cap baseFee tip = baseFee * 2 + tip * 2"

text \<open>The part that \<open>Send\<close> and \<open>ApproveERC20\<close> share.\<close>

definition submit ::
    "gateway_lib \<Rightarrow> node_answers \<Rightarrow> uint64 \<Rightarrow> address \<Rightarrow> int \<Rightarrow> bytes \<Rightarrow> eth_gateway
      \<Rightarrow> eth_gateway \<times> (gateway_error + tx_hash)" where
  "submit lib a gas to val data g =
     (case na_tip a of None \<Rightarrow> (g, Inl GasTipError)
      | Some tip \<Rightarrow>
        (case na_baseFee a of None \<Rightarrow> (g, Inl BaseFeeUnavailable)
         | Some base \<Rightarrow>
           let tx = \<lparr>dt_ChainID = eg_chainID g, dt_Nonce = eg_nonce g, dt_To = to, dt_Value = val,
                     dt_Gas = gas, dt_TipCap = tip_cap tip,
                     dt_FeeCap = fee_cap base (tip_cap tip), dt_Data = data\<rparr>
           in case gl_sign lib tx of None \<Rightarrow> (g, Inl SignFailed)
              | Some h \<Rightarrow>
                  if \<not> na_accepts a then (g, Inl SendFailed)
                  else (g\<lparr>eg_nonce := eg_nonce g + 1, eg_sent := eg_sent g @ [(h, tx)],
                         eg_waiting := eg_waiting g @ [h]\<rparr>, Inr h)))"

definition hex_digit :: "char \<Rightarrow> nat option" where
  "hex_digit c =
     (let n = (of_char c :: nat) in
      if 48 \<le> n \<and> n \<le> 57 then Some (n - 48)
      else if 97 \<le> n \<and> n \<le> 102 then Some (n - 87)
      else if 65 \<le> n \<and> n \<le> 70 then Some (n - 55) else None)"

fun hex_decode :: "string \<Rightarrow> bytes option" where
  "hex_decode [] = Some []"
| "hex_decode [c] = None"
| "hex_decode (c # d # s) =
     (case (hex_digit c, hex_digit d) of
        (Some x, Some y) \<Rightarrow> map_option (\<lambda>bs. (16 * x + y) # bs) (hex_decode s)
      | _ \<Rightarrow> None)"

definition trim_0x :: "string \<Rightarrow> string" where
  "trim_0x s = (if has_prefix s ''0x'' then drop 2 s else s)"

definition zero_address :: string where
  "zero_address = ''0x0000000000000000000000000000000000000000''"

definition call_data :: "metadata \<Rightarrow> bytes" where
  "call_data m =
     (let h = meta_get m ''calldata''
      in if h = [] then [] else (case hex_decode (trim_0x h) of None \<Rightarrow> [] | Some bs \<Rightarrow> bs))"

definition call_target :: "addr_lib \<Rightarrow> metadata \<Rightarrow> address" where
  "call_target al m =
     (let t = meta_get m ''target'' in al_ToAddress al (if t = [] then zero_address else t))"

definition call_value :: "metadata \<Rightarrow> int" where
  "call_value m =
     (let v = meta_get m ''value''
      in if v = [] then 0 else (case big_set_string v of None \<Rightarrow> 0 | Some n \<Rightarrow> n))"

definition Send ::
    "gateway_lib \<Rightarrow> node_answers \<Rightarrow> intent \<Rightarrow> eth_gateway \<Rightarrow> eth_gateway \<times> (gateway_error + tx_hash)" where
  "Send lib a it g =
     submit lib a (gas_limit 800000 50000 (na_estimate a)) (call_target (gl_addr lib) (int_Metadata it))
       (call_value (int_Metadata it)) (call_data (int_Metadata it)) g"

definition ApproveERC20 ::
    "gateway_lib \<Rightarrow> node_answers \<Rightarrow> address \<Rightarrow> address \<Rightarrow> int option \<Rightarrow> eth_gateway
      \<Rightarrow> eth_gateway \<times> (gateway_error + tx_hash)" where
  "ApproveERC20 lib a token spender amount g =
     (let n = (case amount of None \<Rightarrow> 0 | Some n \<Rightarrow> n)
      in case gl_pack_approve lib spender n of None \<Rightarrow> (g, Inl ApprovePackFailed)
         | Some data \<Rightarrow> submit lib a (gas_limit 120000 20000 (na_estimate a)) token 0 data g)"

text \<open>The view calls; \<open>call\<close> is the RPC call of a contract.\<close>

datatype call_error = PackError | CallError | UnpackError

definition view_call ::
    "(address \<Rightarrow> bytes \<Rightarrow> bytes option) \<Rightarrow> (bytes \<Rightarrow> int option) \<Rightarrow> address \<Rightarrow> bytes option
      \<Rightarrow> call_error + int" where
  "view_call call unpack token data =
     (case data of None \<Rightarrow> Inl PackError
      | Some d \<Rightarrow> (case call token d of None \<Rightarrow> Inl CallError
         | Some r \<Rightarrow> (case unpack r of None \<Rightarrow> Inl UnpackError | Some n \<Rightarrow> Inr n)))"

definition BalanceOfERC20 ::
    "gateway_lib \<Rightarrow> (address \<Rightarrow> bytes \<Rightarrow> bytes option) \<Rightarrow> eth_gateway \<Rightarrow> address \<Rightarrow> call_error + int" where
  "BalanceOfERC20 lib call g token =
     view_call call (gl_unpack lib) token (gl_pack_balance lib (eg_wallet g))"

definition AllowanceERC20 ::
    "gateway_lib \<Rightarrow> (address \<Rightarrow> bytes \<Rightarrow> bytes option) \<Rightarrow> address \<Rightarrow> address \<Rightarrow> address
      \<Rightarrow> call_error + int" where
  "AllowanceERC20 lib call token owner spender =
     view_call call (gl_unpack lib) token (gl_pack_allowance lib owner spender)"

definition BalanceOfNative :: "bool \<Rightarrow> (address \<Rightarrow> int option) \<Rightarrow> eth_gateway \<Rightarrow> int option" where
  "BalanceOfNative hasClient balanceAt g = (if \<not> hasClient then None else balanceAt (eg_wallet g))"

subsection \<open>Receipts\<close>

text \<open>\<open>WaitMined\<close> asks every two seconds until its context ends; the list holds the answers until
  then.\<close>

fun WaitMined :: "receipt option list \<Rightarrow> receipt option" where
  "WaitMined [] = None"
| "WaitMined (None # as) = WaitMined as"
| "WaitMined (Some r # as) = Some r"

datatype receipt_answer = GotReceipt receipt | RpcError | CtxEnded

fun await_receipt :: "receipt_answer list \<Rightarrow> receipt option" where
  "await_receipt [] = None"
| "await_receipt (GotReceipt r # as) = Some r"
| "await_receipt (RpcError # as) = await_receipt as"
| "await_receipt (CtxEnded # as) = None"

definition receipt_cap :: nat where "receipt_cap = 64"

definition result_of :: "tx_hash \<Rightarrow> receipt \<Rightarrow> receipt_result" where
  "result_of h r =
     \<lparr>rr_Hash = h, rr_Status = (if rc_Status r = 1 then ''mined'' else ''reverted''),
      rr_GasUsed = rc_GasUsed r,
      rr_GasPriceWei = (case rc_Price r of None \<Rightarrow> 0 | Some p \<Rightarrow> p)\<rparr>"

text \<open>The goroutine of one hash ends with a receipt, which is dropped when the channel is full, or
  with its context.\<close>

definition waitReceipt :: "receipt_answer list \<Rightarrow> tx_hash \<Rightarrow> eth_gateway \<Rightarrow> eth_gateway" where
  "waitReceipt as h g =
     (let g = g\<lparr>eg_waiting := remove1 h (eg_waiting g)\<rparr>
      in case await_receipt as of None \<Rightarrow> g
         | Some r \<Rightarrow> if length (eg_receipts g) < receipt_cap
                    then g\<lparr>eg_receipts := eg_receipts g @ [result_of h r]\<rparr> else g)"

subsection \<open>Stored trades\<close>

text \<open>The table of trades in the order of the primary key.  An error of the database is a flag.\<close>

definition SaveTrade :: "bool \<Rightarrow> trade_record \<Rightarrow> trade_record list \<Rightarrow> trade_record list \<times> bool" where
  "SaveTrade err t trades = (if err then (trades, True) else (trades @ [t], False))"

definition GetTotalPnL :: "bool \<Rightarrow> trade_record list \<Rightarrow> float64" where
  "GetTotalPnL sim trades =
     fold (\<lambda>t acc. f_add acc (tr_PnL t)) (filter (\<lambda>t. tr_IsSimulation t = sim) trades) (Fin 0)"

definition UpdateTradeStatusByHash ::
    "bool \<Rightarrow> string \<Rightarrow> string \<Rightarrow> trade_record list \<Rightarrow> trade_record list \<times> bool" where
  "UpdateTradeStatusByHash err h status trades =
     (if err then (trades, True)
      else (map (\<lambda>t. if tr_TxHash t = h then t\<lparr>tr_Status := status\<rparr> else t) trades, False))"

definition receipt_meta :: "gotime \<Rightarrow> string \<Rightarrow> uint64 \<Rightarrow> int option \<Rightarrow> jmap \<Rightarrow> jmap" where
  "receipt_meta now status gasUsed price m =
     (let m = m(''receipt_status'' \<mapsto> JStr status, ''gas_used'' \<mapsto> JInt (uint gasUsed));
          m = (case price of None \<Rightarrow> m
               | Some p \<Rightarrow>
                   if p < 0 then m
                   else let m = m(''gas_price_wei'' \<mapsto> JStr (itoa p))
                        in if 0 < gasUsed \<and> 0 < p
                           then m(''gas_cost_wei'' \<mapsto> JStr (itoa (uint gasUsed * p))) else m)
      in m(''receipt_updated_at'' \<mapsto> JStr (rfc3339nano now)))"

fun update_first :: "('a \<Rightarrow> bool) \<Rightarrow> ('a \<Rightarrow> 'a) \<Rightarrow> 'a list \<Rightarrow> 'a list" where
  "update_first p f [] = []"
| "update_first p f (x # xs) = (if p x then f x # xs else x # update_first p f xs)"

definition UpdateTradeReceiptByHash ::
    "gotime \<Rightarrow> bool \<Rightarrow> bool \<Rightarrow> string \<Rightarrow> string \<Rightarrow> uint64 \<Rightarrow> int option \<Rightarrow> trade_record list
      \<Rightarrow> trade_record list \<times> bool" where
  "UpdateTradeReceiptByHash now readErr writeErr h status gasUsed price trades =
     (if h = [] then (trades, False)
      else if readErr then (trades, True)
      else if \<forall>t \<in> set trades. tr_TxHash t \<noteq> h then (trades, False)
      else if writeErr then (trades, True)
      else (update_first (\<lambda>t. tr_TxHash t = h)
              (\<lambda>t. t\<lparr>tr_Status := status, tr_Meta := receipt_meta now status gasUsed price (tr_Meta t)\<rparr>)
              trades, False))"

text \<open>One round of \<open>startReceiptWatcher\<close>.\<close>

definition watch_receipt ::
    "gotime \<Rightarrow> bool \<Rightarrow> bool \<Rightarrow> eth_gateway \<Rightarrow> trade_record list \<Rightarrow> (eth_gateway \<times> trade_record list) option" where
  "watch_receipt now readErr writeErr g trades =
     (case eg_receipts g of [] \<Rightarrow> None
      | r # rs \<Rightarrow>
          Some (g\<lparr>eg_receipts := rs\<rparr>,
            fst (UpdateTradeReceiptByHash now readErr writeErr (rr_Hash r) (rr_Status r)
                   (rr_GasUsed r) (Some (rr_GasPriceWei r)) trades)))"

subsection \<open>Allowances\<close>

definition max_uint256 :: int where "max_uint256 = 2 ^ 256 - 1"

definition approve_trade ::
    "addr_lib \<Rightarrow> gotime \<Rightarrow> intent \<Rightarrow> address \<Rightarrow> address \<Rightarrow> int option \<Rightarrow> string \<Rightarrow> bool \<Rightarrow> trade_record" where
  "approve_trade al now it token spender amount h ok =
     \<lparr>tr_Time = now, tr_IntentID = int_ID it, tr_Type = ''approve'', tr_PoolID = int_PoolID it,
      tr_ChainID = int_ChainID it, tr_TxHash = h, tr_Status = (if ok then ''success'' else ''failed''),
      tr_Meta = [''action'' \<mapsto> JStr ''approve'', ''approve_token'' \<mapsto> JStr (al_Hex al token),
                 ''approve_spender'' \<mapsto> JStr (al_Hex al spender),
                 ''approve_amount'' \<mapsto> JStr (case amount of None \<Rightarrow> ''0'' | Some n \<Rightarrow> itoa n)],
      tr_PnL = Fin 0, tr_IsSimulation = False, tr_StrategyVersion = int_StrategyVersion it,
      tr_RiskMode = int_RiskMode it, tr_NotionalUSD = Fin 0, tr_GasCostUSD = Fin 0\<rparr>"

definition saveApproveTradeRecord ::
    "addr_lib \<Rightarrow> gotime \<Rightarrow> bool \<Rightarrow> intent \<Rightarrow> address \<Rightarrow> address \<Rightarrow> int option \<Rightarrow> string \<Rightarrow> bool
      \<Rightarrow> trade_record list \<Rightarrow> trade_record list" where
  "saveApproveTradeRecord al now err it token spender amount h ok trades =
     (if h = [] then trades
      else fst (SaveTrade err (approve_trade al now it token spender amount h ok) trades))"

datatype allowance_error =
  AllowanceFailed call_error | ApproveFailed gateway_error | WaitFailed | ApproveReverted int tx_hash

text \<open>The input of one call: the answers to each of the two approvals and to the polls of their
  receipts, the clock and the database at each record.\<close>

record allowance_env =
  ae_call :: "address \<Rightarrow> bytes \<Rightarrow> bytes option"
  ae_node :: "nat \<Rightarrow> node_answers"
  ae_mined :: "nat \<Rightarrow> receipt option list"
  ae_now :: "nat \<Rightarrow> gotime"
  ae_dbErr :: "nat \<Rightarrow> bool"

type_synonym chain_world = "eth_gateway \<times> trade_record list"

definition approve_and_wait ::
    "gateway_lib \<Rightarrow> allowance_env \<Rightarrow> nat \<Rightarrow> intent \<Rightarrow> address \<Rightarrow> address \<Rightarrow> int \<Rightarrow> chain_world
      \<Rightarrow> chain_world \<times> allowance_error option" where
  "approve_and_wait lib e k it token spender n w =
     (case ApproveERC20 lib (ae_node e k) token spender (Some n) (fst w) of
        (g, Inl err) \<Rightarrow> ((g, snd w), Some (ApproveFailed err))
      | (g, Inr h) \<Rightarrow>
          (case WaitMined (ae_mined e k) of
             None \<Rightarrow> ((g, snd w), Some WaitFailed)
           | Some r \<Rightarrow>
               if rc_Status r \<noteq> 1 then ((g, snd w), Some (ApproveReverted n h))
               else ((g, saveApproveTradeRecord (gl_addr lib) (ae_now e k) (ae_dbErr e k) it token spender
                          (Some n) h True (snd w)), None)))"

text \<open>The token, the spender and the amount of a swap that needs an allowance.\<close>

definition allowance_request :: "addr_lib \<Rightarrow> intent \<Rightarrow> (address \<times> address \<times> int) option" where
  "allowance_request al it =
     (let meta = \<lambda>k. trim_space (meta_get (int_Metadata it) k);
          tok = meta ''swap_token_in''; amt = meta ''swap_amount_in'';
          spender = (if meta ''swap_helper'' = [] then meta ''target'' else meta ''swap_helper'')
      in if \<not> is_swap it then None
         else if tok = [] \<or> amt = [] \<or> spender = [] then None
         else if \<not> al_IsHex al tok \<or> \<not> al_IsHex al spender then None
         else case parse_amount_in amt of None \<Rightarrow> None
         | Some n \<Rightarrow> Some (al_ToAddress al tok, al_ToAddress al spender, n))"

definition maybeEnsureSwapAllowance ::
    "gateway_lib \<Rightarrow> allowance_env \<Rightarrow> intent \<Rightarrow> chain_world \<Rightarrow> chain_world \<times> allowance_error option" where
  "maybeEnsureSwapAllowance lib e it w =
     (case allowance_request (gl_addr lib) it of None \<Rightarrow> (w, None)
      | Some (token, spender, amountIn) \<Rightarrow>
        (case AllowanceERC20 lib (ae_call e) token (eg_wallet (fst w)) spender of
           Inl err \<Rightarrow> (w, Some (AllowanceFailed err))
         | Inr allow \<Rightarrow>
             if amountIn \<le> allow then (w, None)
             else
               case (if 0 < allow then approve_and_wait lib e 0 it token spender 0 w else (w, None)) of
                 (w, Some err) \<Rightarrow> (w, Some err)
               | (w, None) \<Rightarrow> approve_and_wait lib e 1 it token spender max_uint256 w))"

subsection \<open>Balances\<close>

datatype balance_verdict = BalanceOk | BalanceUnknown address | BalanceShort string address int int

text \<open>One requirement: \<open>None\<close> when the metadata states none.\<close>

definition balance_check ::
    "(address \<Rightarrow> call_error + int) \<Rightarrow> string \<Rightarrow> (address \<times> int) option \<Rightarrow> balance_verdict" where
  "balance_check balance what need =
     (case need of None \<Rightarrow> BalanceOk
      | Some (token, n) \<Rightarrow>
          (case balance token of Inl err \<Rightarrow> BalanceUnknown token
           | Inr b \<Rightarrow> if b < n then BalanceShort what token b n else BalanceOk))"

definition swap_need :: "addr_lib \<Rightarrow> metadata \<Rightarrow> (address \<times> int) option" where
  "swap_need al m =
     (let tok = trim_space (meta_get m ''swap_token_in''); amt = trim_space (meta_get m ''swap_amount_in'')
      in if tok \<noteq> [] \<and> amt \<noteq> [] \<and> al_IsHex al tok
         then map_option (\<lambda>n. (al_ToAddress al tok, n)) (parse_amount_in amt) else None)"

definition token_need :: "addr_lib \<Rightarrow> metadata \<Rightarrow> string \<Rightarrow> string \<Rightarrow> (address \<times> int) option" where
  "token_need al m tokenKey amountKey =
     (let tok = meta_get m tokenKey; amt = meta_get m amountKey
      in if tok \<noteq> [] \<and> amt \<noteq> []
         then map_option (\<lambda>n. (al_ToAddress al tok, n)) (big_set_string amt) else None)"

fun first_verdict :: "balance_verdict list \<Rightarrow> balance_verdict" where
  "first_verdict [] = BalanceOk"
| "first_verdict (BalanceOk # vs) = first_verdict vs"
| "first_verdict (v # vs) = v"

definition hasSufficientBalances ::
    "addr_lib \<Rightarrow> (address \<Rightarrow> call_error + int) \<Rightarrow> metadata \<Rightarrow> balance_verdict" where
  "hasSufficientBalances al balance m =
     first_verdict
       [balance_check balance ''swap tokenIn'' (swap_need al m),
        balance_check balance ''token0'' (token_need al m ''token0'' ''amount0''),
        balance_check balance ''token1'' (token_need al m ''token1'' ''amount1'')]"


subsection \<open>The live branch of the executor\<close>

text \<open>What \<open>executeIntent\<close> does between preparing a swap and recording the result when it is not a
  dry run.  In this program \<open>isDryRun\<close> is the constant \<open>true\<close>, so that the branch never runs; it
  is the code that a live build would use.  What is recorded afterwards is in Executor.\<close>

record adapter =
  ad_target :: address
  ad_mintSig :: bytes
  ad_pack :: "mint_params \<Rightarrow> bytes option"

datatype live_outcome =
  AllowanceBlocked allowance_error | BalanceBlocked balance_verdict
| NotSent gateway_error | Sent tx_hash

definition live_metadata :: "addr_lib \<Rightarrow> address \<Rightarrow> adapter option \<Rightarrow> intent \<Rightarrow> intent" where
  "live_metadata al wallet ad it =
     (case ad of None \<Rightarrow> it
      | Some ad \<Rightarrow>
          let it = put_meta ''target'' (al_Hex al (ad_target ad))
                     (put_meta ''recipient'' (al_Hex al wallet) it)
          in case BuildMintData (al_ToAddress al) (ad_mintSig ad) (ad_pack ad) it of
               None \<Rightarrow> it
             | Some data \<Rightarrow> put_meta ''calldata'' (hex_encode data) it)"

definition live_branch ::
    "gateway_lib \<Rightarrow> adapter option \<Rightarrow> allowance_env \<Rightarrow> (address \<Rightarrow> call_error + int) \<Rightarrow> node_answers
      \<Rightarrow> intent \<Rightarrow> chain_world \<Rightarrow> chain_world \<times> live_outcome" where
  "live_branch lib ad e balance a it w =
     (let it = live_metadata (gl_addr lib) (eg_wallet (fst w)) ad it
      in case maybeEnsureSwapAllowance lib e it w of
           (w, Some err) \<Rightarrow> (w, AllowanceBlocked err)
         | (w, None) \<Rightarrow>
             (case hasSufficientBalances (gl_addr lib) balance (int_Metadata it) of
                BalanceOk \<Rightarrow>
                  (case Send lib a it (fst w) of
                     (g, Inl err) \<Rightarrow> ((g, snd w), NotSent err)
                   | (g, Inr h) \<Rightarrow> ((g, snd w), Sent h))
              | v \<Rightarrow> (w, BalanceBlocked v)))"

subsection \<open>Operations as steps\<close>

datatype gateway_op =
  OpSend node_answers intent
| OpApprove node_answers address address "int option"
| OpReceipt "receipt_answer list" tx_hash

fun gateway_step :: "gateway_lib \<Rightarrow> gateway_op \<Rightarrow> eth_gateway \<Rightarrow> eth_gateway" where
  "gateway_step lib (OpSend a it) g = fst (Send lib a it g)"
| "gateway_step lib (OpApprove a token spender n) g = fst (ApproveERC20 lib a token spender n g)"
| "gateway_step lib (OpReceipt as h) g = waitReceipt as h g"

subsection \<open>Lemmas\<close>

lemma submit_cases:
  obtains (failed) err where "submit lib a gas to val data g = (g, Inl err)"
  | (accepted) h tx tip base where "na_tip a = Some tip" "na_baseFee a = Some base" "gl_sign lib tx = Some h"
      "tx = \<lparr>dt_ChainID = eg_chainID g, dt_Nonce = eg_nonce g, dt_To = to, dt_Value = val,
             dt_Gas = gas, dt_TipCap = tip_cap tip, dt_FeeCap = fee_cap base (tip_cap tip), dt_Data = data\<rparr>"
      "submit lib a gas to val data g =
         (g\<lparr>eg_nonce := eg_nonce g + 1, eg_sent := eg_sent g @ [(h, tx)],
            eg_waiting := eg_waiting g @ [h]\<rparr>, Inr h)"
proof (cases "na_tip a")
  case None
  then show ?thesis using failed by (simp add: submit_def)
next
  case tip: (Some tip)
  show ?thesis
  proof (cases "na_baseFee a")
    case None
    then show ?thesis using failed tip by (simp add: submit_def)
  next
    case base: (Some base)
    define tx where "tx = \<lparr>dt_ChainID = eg_chainID g, dt_Nonce = eg_nonce g, dt_To = to, dt_Value = val,
      dt_Gas = gas, dt_TipCap = tip_cap tip, dt_FeeCap = fee_cap base (tip_cap tip), dt_Data = data\<rparr>"
    have sub: "submit lib a gas to val data g =
        (case gl_sign lib tx of None \<Rightarrow> (g, Inl SignFailed)
         | Some h \<Rightarrow> if \<not> na_accepts a then (g, Inl SendFailed)
             else (g\<lparr>eg_nonce := eg_nonce g + 1, eg_sent := eg_sent g @ [(h, tx)],
                     eg_waiting := eg_waiting g @ [h]\<rparr>, Inr h))"
      unfolding submit_def tip base option.case Let_def tx_def by (rule refl)
    show ?thesis
      using failed accepted [OF tip base _ tx_def] sub
      by (cases "gl_sign lib tx"; cases "na_accepts a") auto
  qed
qed

subsection \<open>Nonces\<close>

text \<open>What a source of transactions promises to the chain, which executes the transactions of an
  account in the order of their nonces: a step sends nothing and keeps the next nonce, or sends
  one transaction with it and advances it by one.\<close>

locale nonce_source =
  fixes step :: "'a \<Rightarrow> 's \<Rightarrow> 's"
    and ok :: "'a \<Rightarrow> bool"
    and sent :: "'s \<Rightarrow> 't list"
    and upcoming :: "'s \<Rightarrow> uint64"
    and nonce :: "'t \<Rightarrow> uint64"
    and good :: "'s \<Rightarrow> 't \<Rightarrow> bool"
  assumes step_sends: "ok a \<Longrightarrow> (sent (step a s) = sent s \<and> upcoming (step a s) = upcoming s)
      \<or> (\<exists>t. sent (step a s) = sent s @ [t] \<and> nonce t = upcoming s \<and> good s t
            \<and> upcoming (step a s) = upcoming s + 1)"
    and good_stable: "good (step a s) t = good s t"
begin

definition consecutive :: "uint64 \<Rightarrow> 't list \<Rightarrow> bool" where
  "consecutive n ts \<longleftrightarrow> map nonce ts = map (\<lambda>i. n + of_nat i) [0 ..< length ts]"

lemma consecutive_Cons: "consecutive n (t # ts) \<longleftrightarrow> nonce t = n \<and> consecutive (n + 1) ts"
proof -
  have "[0 ..< Suc (length ts)] = 0 # map Suc [0 ..< length ts]"
    by (simp add: map_Suc_upt upt_conv_Cons del: upt_Suc)
  then show ?thesis by (simp add: consecutive_def comp_def add.assoc del: upt_Suc)
qed

lemma run_nonces:
  "list_all ok as \<Longrightarrow> \<exists>new. sent (fold step as s) = sent s @ new \<and> consecutive (upcoming s) new
     \<and> upcoming (fold step as s) = upcoming s + of_nat (length new) \<and> list_all (good s) new"
proof (induction as arbitrary: s)
  case Nil
  then show ?case by (simp add: consecutive_def)
next
  case (Cons a as)
  have a: "ok a" "list_all ok as" using Cons.prems by simp_all
  obtain new where new: "sent (fold step as (step a s)) = sent (step a s) @ new"
    "consecutive (upcoming (step a s)) new"
    "upcoming (fold step as (step a s)) = upcoming (step a s) + of_nat (length new)"
    "list_all (good (step a s)) new"
    using Cons.IH [OF a(2)] by blast
  have g: "list_all (good s) new" using new(4) by (simp add: list_all_iff good_stable)
  from step_sends [OF a(1), of s] show ?case
  proof (elim disjE exE conjE)
    assume "sent (step a s) = sent s" "upcoming (step a s) = upcoming s"
    then show ?thesis using new g by (intro exI [of _ new]) simp
  next
    fix t assume t: "sent (step a s) = sent s @ [t]" "nonce t = upcoming s" "good s t"
      "upcoming (step a s) = upcoming s + 1"
    then show ?thesis using new g
      by (intro exI [of _ "t # new"]) (simp add: consecutive_Cons)
  qed
qed

end

text \<open>The gateway is such a source, as long as the node answers base fees that are not negative.\<close>

fun op_answers_ok :: "gateway_op \<Rightarrow> bool" where
  "op_answers_ok (OpSend a it) = (case na_baseFee a of None \<Rightarrow> True | Some b \<Rightarrow> 0 \<le> b)"
| "op_answers_ok (OpApprove a token spender n) = (case na_baseFee a of None \<Rightarrow> True | Some b \<Rightarrow> 0 \<le> b)"
| "op_answers_ok (OpReceipt as h) = True"

definition tx_ok :: "eth_gateway \<Rightarrow> tx_hash \<times> dynamic_tx \<Rightarrow> bool" where
  "tx_ok g p \<longleftrightarrow> dt_ChainID (snd p) = eg_chainID g \<and> min_tip \<le> dt_TipCap (snd p)
     \<and> 2 * dt_TipCap (snd p) \<le> dt_FeeCap (snd p)"

lemma submit_sends:
  assumes "case na_baseFee a of None \<Rightarrow> True | Some b \<Rightarrow> 0 \<le> b" "submit lib a gas to val data g = (g', r)"
  shows "(eg_sent g' = eg_sent g \<and> eg_nonce g' = eg_nonce g)
    \<or> (\<exists>t. eg_sent g' = eg_sent g @ [t] \<and> dt_Nonce (snd t) = eg_nonce g \<and> tx_ok g t
          \<and> eg_nonce g' = eg_nonce g + 1)"
proof (cases rule: submit_cases [of lib a gas to val data g])
  case (accepted h tx tip base)
  have "tx_ok g (h, tx)"
    using assms(1) accepted(2) by (simp add: tx_ok_def accepted(4) fee_cap_def tip_cap_def min_tip_def)
  moreover have "eg_sent g' = eg_sent g @ [(h, tx)]" "eg_nonce g' = eg_nonce g + 1"
    using assms(2) by (auto simp: accepted(5))
  moreover have "dt_Nonce tx = eg_nonce g" by (simp add: accepted(4))
  ultimately show ?thesis by (intro disjI2 exI [of _ "(h, tx)"]) simp
qed (use assms(2) in simp)

lemma submit_keeps: "eg_chainID (fst (submit lib a gas to val data g)) = eg_chainID g"
  "eg_receipts (fst (submit lib a gas to val data g)) = eg_receipts g"
  by (cases rule: submit_cases [of lib a gas to val data g]; simp)+

lemma gateway_step_keeps:
  "eg_chainID (gateway_step lib x g) = eg_chainID g"
  "length (eg_receipts (gateway_step lib x g)) \<le> max receipt_cap (length (eg_receipts g))"
  by (cases x; simp add: Send_def ApproveERC20_def waitReceipt_def Let_def submit_keeps receipt_cap_def
      split: option.splits)+

lemma gateway_step_sends:
  assumes "op_answers_ok x"
  shows "(eg_sent (gateway_step lib x g) = eg_sent g \<and> eg_nonce (gateway_step lib x g) = eg_nonce g)
    \<or> (\<exists>t. eg_sent (gateway_step lib x g) = eg_sent g @ [t] \<and> dt_Nonce (snd t) = eg_nonce g \<and> tx_ok g t
          \<and> eg_nonce (gateway_step lib x g) = eg_nonce g + 1)"
proof (cases x)
  case (OpSend a it)
  then show ?thesis
    using assms submit_sends [OF _ prod.collapse [symmetric]] by (simp add: Send_def)
next
  case (OpApprove a token spender n)
  then show ?thesis
    using assms submit_sends [OF _ prod.collapse [symmetric]]
    by (simp add: ApproveERC20_def Let_def split: option.splits)
next
  case (OpReceipt as h)
  then show ?thesis by (simp add: waitReceipt_def Let_def split: option.splits)
qed

interpretation gw: nonce_source "gateway_step lib" op_answers_ok eg_sent eg_nonce "\<lambda>p. dt_Nonce (snd p)" tx_ok
  for lib
  by unfold_locales (rule gateway_step_sends, simp_all add: gateway_step_keeps tx_ok_def)

lemma receipts_bounded:
  "length (eg_receipts (fold (gateway_step lib) ops g)) \<le> max receipt_cap (length (eg_receipts g))"
proof (induction ops arbitrary: g)
  case (Cons x ops)
  show ?case using Cons [of "gateway_step lib x g"] gateway_step_keeps(2) [of lib x g] by simp
qed simp

subsection \<open>Bytes and lists\<close>

lemma hex_digit_char: "d < 16 \<Longrightarrow> hex_digit (hex_char d) = Some d"
  by (auto simp: hex_digit_def hex_char_def Let_def of_char_of)

lemma hex_decode_encode: "list_all (\<lambda>b. b < 256) bs \<Longrightarrow> hex_decode (hex_encode bs) = Some bs"
proof (induction bs)
  case (Cons b bs)
  have "b div 16 < 16" "b mod 16 < 16" using Cons.prems by auto
  then show ?case using Cons by (simp add: hex_encode_def hex_digit_char)
qed (simp add: hex_encode_def)

lemma hex_encode_no_prefix: "trim_0x (hex_encode bs) = hex_encode bs"
proof -
  have "\<not> has_prefix (hex_encode bs) ''0x''"
  proof (cases bs)
    case (Cons b bt)
    have "hex_char d \<noteq> CHR ''x''" if "d < 16" for d
      using hex_digit_char [OF that] by (auto simp: hex_digit_def)
    then have "hex_char (b mod 16) \<noteq> CHR ''x''" by simp
    then show ?thesis by (auto simp: Cons hex_encode_def has_prefix_def)
  qed (simp add: hex_encode_def has_prefix_def)
  then show ?thesis by (simp add: trim_0x_def)
qed

lemma hex_encode_empty: "hex_encode bs = [] \<longleftrightarrow> bs = []"
  by (cases bs) (auto simp: hex_encode_def)

lemma call_data_encoded:
  assumes "meta_get m ''calldata'' = hex_encode bs" "list_all (\<lambda>b. b < 256) bs"
  shows "call_data m = bs"
  using assms by (simp add: call_data_def hex_encode_no_prefix hex_decode_encode hex_encode_empty Let_def)

lemma update_first_simps:
  "length (update_first p f xs) = length xs"
  "\<forall>x \<in> set xs. \<not> p x \<Longrightarrow> update_first p f xs = xs"
  by (induction xs) auto

lemma update_first_split:
  assumes "\<exists>x \<in> set xs. p x"
  obtains ys x zs where "xs = ys @ x # zs" "\<forall>y \<in> set ys. \<not> p y" "p x" "update_first p f xs = ys @ f x # zs"
  using assms
proof (induction xs arbitrary: thesis)
  case (Cons a xs)
  show ?case
  proof (cases "p a")
    case True
    then show ?thesis using Cons.prems(1) [of "[]" a xs] by simp
  next
    case False
    then obtain ys x zs where "xs = ys @ x # zs" "\<forall>y \<in> set ys. \<not> p y" "p x" "update_first p f xs = ys @ f x # zs"
      using Cons by auto
    then show ?thesis using Cons.prems(1) [of "a # ys" x zs] False by simp
  qed
qed simp

end
