(* ===== verification/Props_Gateway.thy ===== *)
theory Props_Gateway
  imports Eth_Gateway Props_Swap
begin

text \<open>
  The properties of the gateway, of receipts and allowances, and of the live branch.
\<close>

subsection \<open>Nonces and fees\<close>

text \<open>C16. Over any sequence of sends, approvals and receipts, with any answers of the node, the
  transactions that it accepted carry consecutive nonces from the one at the start, so that no
  nonce is used twice and none is left out; each is for the gateway's chain, offers at least the
  minimal tip and a fee of at least twice its tip; and the channel of receipts stays bounded.\<close>

theorem gateway_nonces:
  assumes "list_all op_answers_ok ops"
  shows "\<exists>new. eg_sent (fold (gateway_step lib) ops g) = eg_sent g @ new
     \<and> map (\<lambda>p. dt_Nonce (snd p)) new = map (\<lambda>i. eg_nonce g + of_nat i) [0 ..< length new]
     \<and> eg_nonce (fold (gateway_step lib) ops g) = eg_nonce g + of_nat (length new)
     \<and> list_all (\<lambda>(h, t). dt_ChainID t = eg_chainID g \<and> min_tip \<le> dt_TipCap t
          \<and> 2 * dt_TipCap t \<le> dt_FeeCap t) new
     \<and> length (eg_receipts (fold (gateway_step lib) ops g)) \<le> max receipt_cap (length (eg_receipts g))"
proof -
  have "tx_ok g = (\<lambda>(h, t). dt_ChainID t = eg_chainID g \<and> min_tip \<le> dt_TipCap t \<and> 2 * dt_TipCap t \<le> dt_FeeCap t)"
    by (auto simp: tx_ok_def)
  then show ?thesis
    using gw.run_nonces [OF assms, of lib g] receipts_bounded [of lib ops g]
    unfolding gw.consecutive_def by auto
qed

definition ex_answers :: node_answers where
  "ex_answers = \<lparr>na_estimate = Some 21000, na_tip = Some 5, na_baseFee = Some 100, na_accepts = True\<rparr>"

definition ex_gateway_lib :: gateway_lib where
  "ex_gateway_lib =
     \<lparr>gl_addr = ex_addr, gl_sign = (\<lambda>t. Some (''0x'' @ itoa (uint (dt_Nonce t)))),
      gl_pack_approve = (\<lambda>a n. Some [9]), gl_pack_balance = (\<lambda>a. Some [8]),
      gl_pack_allowance = (\<lambda>a b. Some [7]), gl_unpack = (\<lambda>bs. Some 10)\<rparr>"

definition ex_gateway :: eth_gateway where
  "ex_gateway = \<lparr>eg_chainID = 1, eg_wallet = 2, eg_nonce = 4, eg_sent = [], eg_waiting = [], eg_receipts = []\<rparr>"

theorem gateway_nonces_witness:
  "\<exists>new. eg_sent (fold (gateway_step ex_gateway_lib) [OpSend ex_answers ex_swap, OpApprove ex_answers 1 2 None]
      ex_gateway) = new \<and> map (\<lambda>p. dt_Nonce (snd p)) new = map (\<lambda>i. 4 + of_nat i) [0 ..< length new]"
proof -
  have "list_all op_answers_ok [OpSend ex_answers ex_swap, OpApprove ex_answers 1 2 None]"
    by (simp add: ex_answers_def)
  from gateway_nonces [OF this, of ex_gateway_lib ex_gateway] show ?thesis
    by (elim exE conjE) (simp add: ex_gateway_def)
qed

subsection \<open>A prepared swap on its way to the node\<close>

text \<open>What go-ethereum documents of its hexadecimal form of addresses.\<close>

definition hex_stable :: "addr_lib \<Rightarrow> bool" where
  "hex_stable al \<longleftrightarrow> (\<forall>a. al_Hex al a \<noteq> [])
     \<and> (\<forall>s. al_ToAddress al (al_Hex al (al_ToAddress al s)) = al_ToAddress al s)"

definition byte_list :: "bytes \<Rightarrow> bool" where
  "byte_list bs \<longleftrightarrow> list_all (\<lambda>b. b < 256) bs"

lemma swap_call_meta:
  assumes "swap_call lib helper pool tin tout n minOut slip it = (it', None)" "int_Metadata it \<noteq> None"
  shows "\<exists>pack d. sl_pack lib = Some pack
     \<and> pack (al_ToAddress (sl_addr lib) pool) (al_ToAddress (sl_addr lib) tin)
         (al_ToAddress (sl_addr lib) tout) n minOut 0 = Some d
     \<and> meta_get (int_Metadata it') ''calldata'' = hex_encode d
     \<and> meta_get (int_Metadata it') ''target'' = al_Hex (sl_addr lib) (al_ToAddress (sl_addr lib) helper)
     \<and> meta_get (int_Metadata it') ''value'' = ''0'' \<and> 0 \<le> minOut \<and> 0 < n"
  using assms
  by (auto simp: swap_call_def Let_def BuildSwapExactInputSingleMinOutData_def put_meta_get
      split: option.splits sum.splits if_splits)

lemma prepared_swap_parts:
  assumes "maybePrepareSwapHelperCall lib env (Some cfg) it = (it', None)" "is_swap it"
  obtains r minOut it2 where
    "swap_request_of (sl_addr lib) env (hd (ap_Chains cfg)) (hd (ap_Pools cfg))
       (fst (enforceSwapPolicy (sl_addr lib) env (Some cfg) it)) = Inr r"
    "swap_call lib (sq_helper r) (sq_pool r) (sq_in r) (sq_out r) (sq_amount r) minOut
       (sq_slippage r) it2 = (it', None)" "int_Metadata it2 \<noteq> None"
proof -
  let ?al = "sl_addr lib"
  obtain chain cs pool ps where cp: "ap_Chains cfg = chain # cs" "ap_Pools cfg = pool # ps"
    using assms by (auto simp: maybePrepareSwapHelperCall_def split: list.splits)
  obtain it1 where e: "enforceSwapPolicy ?al env (Some cfg) it = (it1, None)"
    using assms cp by (auto simp: maybePrepareSwapHelperCall_def split: prod.splits option.splits)
  obtain r where r: "swap_request_of ?al env chain pool it1 = Inr r"
    using assms cp e by (auto simp: maybePrepareSwapHelperCall_def split: sum.splits)
  obtain it2 minOut where q: "swap_quote lib (ch_RPC chain) (sq_quoter r) (sq_require r) (sq_in r)
      (sq_out r) (sq_fee r) (sq_amount r) (sq_slippage r) it1 = Inr (it2, minOut)"
    and c: "swap_call lib (sq_helper r) (sq_pool r) (sq_in r) (sq_out r) (sq_amount r) minOut
      (sq_slippage r) it2 = (it', None)"
    using assms cp e r by (auto simp: maybePrepareSwapHelperCall_def split: sum.splits prod.splits)
  have "int_Metadata it1 \<noteq> None"
    using e assms(2) unfolding enforceSwapPolicy_def Let_def by (auto split: if_splits option.splits)
  moreover have "int_Metadata it2 = None \<longleftrightarrow> int_Metadata it1 = None"
    using q by (auto simp: swap_quote_def Let_def put_meta_get(2) split: if_splits option.splits sum.splits)
  ultimately have "int_Metadata it2 \<noteq> None" by simp
  then show ?thesis using that r c cp e by simp
qed

lemma Send_accepted:
  assumes "Send lib a it g = (g', Inr h)"
  obtains tx where "eg_sent g' = eg_sent g @ [(h, tx)]" "dt_Nonce tx = eg_nonce g"
    "dt_To tx = call_target (gl_addr lib) (int_Metadata it)" "dt_Value tx = call_value (int_Metadata it)"
    "dt_Data tx = call_data (int_Metadata it)" "gl_sign lib tx = Some h"
proof (cases rule: submit_cases [of lib a "gas_limit 800000 50000 (na_estimate a)"
      "call_target (gl_addr lib) (int_Metadata it)" "call_value (int_Metadata it)"
      "call_data (int_Metadata it)" g])
  case (failed err)
  then show ?thesis using assms by (simp add: Send_def)
next
  case (accepted h' tx tip base)
  then show ?thesis using assms that [of tx] by (auto simp: Send_def)
qed

text \<open>C13. When the gateway sends the intent that the bot has prepared for a swap, the transaction
  that the node accepts is the call of the configured helper, with value zero and exactly the
  bytes that the ABI encoder made for the stated pool, tokens and amount: nothing is lost between
  the two components, which talk through text in the metadata.\<close>

theorem prepared_swap_sent:
  assumes "maybePrepareSwapHelperCall slib env (Some cfg) it = (it', None)" "is_swap it"
    "sl_addr slib = gl_addr lib" "hex_stable (gl_addr lib)"
    "\<forall>pack a b c n m l d. sl_pack slib = Some pack \<and> pack a b c n m l = Some d \<longrightarrow> byte_list d"
    "Send lib ans it' g = (g', Inr h)"
  shows "\<exists>r pack minOut d tx.
     swap_request_of (sl_addr slib) env (hd (ap_Chains cfg)) (hd (ap_Pools cfg))
       (fst (enforceSwapPolicy (sl_addr slib) env (Some cfg) it)) = Inr r
     \<and> sl_pack slib = Some pack \<and> 0 \<le> minOut
     \<and> pack (al_ToAddress (sl_addr slib) (sq_pool r)) (al_ToAddress (sl_addr slib) (sq_in r))
          (al_ToAddress (sl_addr slib) (sq_out r)) (sq_amount r) minOut 0 = Some d
     \<and> eg_sent g' = eg_sent g @ [(h, tx)] \<and> dt_To tx = al_ToAddress (sl_addr slib) (sq_helper r)
     \<and> dt_Value tx = 0 \<and> dt_Data tx = d"
proof -
  obtain r minOut it2 where r: "swap_request_of (sl_addr slib) env (hd (ap_Chains cfg)) (hd (ap_Pools cfg))
       (fst (enforceSwapPolicy (sl_addr slib) env (Some cfg) it)) = Inr r"
    and c: "swap_call slib (sq_helper r) (sq_pool r) (sq_in r) (sq_out r) (sq_amount r) minOut
       (sq_slippage r) it2 = (it', None)" "int_Metadata it2 \<noteq> None"
    using prepared_swap_parts [OF assms(1,2)] by blast
  from swap_call_meta [OF c] obtain pack d where p: "sl_pack slib = Some pack"
    "pack (al_ToAddress (sl_addr slib) (sq_pool r)) (al_ToAddress (sl_addr slib) (sq_in r))
       (al_ToAddress (sl_addr slib) (sq_out r)) (sq_amount r) minOut 0 = Some d"
    "meta_get (int_Metadata it') ''calldata'' = hex_encode d"
    "meta_get (int_Metadata it') ''target'' = al_Hex (sl_addr slib) (al_ToAddress (sl_addr slib) (sq_helper r))"
    "meta_get (int_Metadata it') ''value'' = ''0''" "0 \<le> minOut" by blast
  from Send_accepted [OF assms(6)] obtain tx where tx: "eg_sent g' = eg_sent g @ [(h, tx)]"
    "dt_To tx = call_target (gl_addr lib) (int_Metadata it')" "dt_Value tx = call_value (int_Metadata it')"
    "dt_Data tx = call_data (int_Metadata it')" by metis
  have "list_all (\<lambda>b. b < 256) d" using assms(5) p(1,2) by (auto simp: byte_list_def)
  then have "dt_Data tx = d" using call_data_encoded [OF p(3)] tx(4) by simp
  moreover have "dt_To tx = al_ToAddress (sl_addr slib) (sq_helper r)"
    using tx(2) p(4) assms(3,4) by (simp add: call_target_def hex_stable_def Let_def)
  moreover have "big_set_string ''0'' = Some 0" by code_simp
  then have "dt_Value tx = 0" using tx(3) p(5) by (simp add: call_value_def Let_def)
  ultimately show ?thesis using r p tx(1) by blast
qed

lemma ex_send_accepted: "\<exists>g' h. Send ex_gateway_lib ex_answers it g = (g', Inr h)"
  by (simp add: Send_def submit_def Let_def ex_answers_def ex_gateway_lib_def)

theorem prepared_swap_sent_witness:
  "\<exists>g' h tx. Send ex_gateway_lib ex_answers
       (fst (maybePrepareSwapHelperCall ex_swap_lib ex_env_quoter (Some ex_cfg_dry) ex_swap)) ex_gateway = (g', Inr h)
     \<and> eg_sent g' = [(h, tx)] \<and> dt_Data tx = [1, 171] \<and> dt_Value tx = 0"
proof -
  let ?it = "fst (maybePrepareSwapHelperCall ex_swap_lib ex_env_quoter (Some ex_cfg_dry) ex_swap)"
  have prep: "maybePrepareSwapHelperCall ex_swap_lib ex_env_quoter (Some ex_cfg_dry) ex_swap = (?it, None)"
    using ex_prepared by (simp add: prod_eq_iff)
  have al: "sl_addr ex_swap_lib = gl_addr ex_gateway_lib" by (simp add: ex_swap_lib_def ex_gateway_lib_def)
  have "last_digit ''0x1'' = CHR ''1''" "last_digit ''0x0'' = CHR ''0''" by code_simp+
  then have st: "hex_stable (gl_addr ex_gateway_lib)"
    by (simp add: hex_stable_def ex_gateway_lib_def ex_addr_def)
  have bl: "\<forall>pack a b c n m l d. sl_pack ex_swap_lib = Some pack \<and> pack a b c n m l = Some d \<longrightarrow> byte_list d"
    by (auto simp: ex_swap_lib_def byte_list_def)
  from ex_send_accepted [of ?it ex_gateway]
  obtain g' h where s: "Send ex_gateway_lib ex_answers ?it ex_gateway = (g', Inr h)" by (elim exE)
  show ?thesis
    using prepared_swap_sent [OF prep ex_prepare_steps(1) al st bl s]
  proof (elim exE conjE, goal_cases)
    case (1 r pack minOut d tx)
    have "pack = (\<lambda>_ _ _ _ _ _. Some [1, 171])" using 1(2) by (simp add: ex_swap_lib_def)
    then have "dt_Data tx = [1, 171]" using 1(4,8) by simp
    moreover have "eg_sent g' = [(h, tx)]" using 1(5) by (simp add: ex_gateway_def)
    ultimately show ?case using s 1(7) by (intro exI conjI)
  qed
qed

subsection \<open>The live branch\<close>

lemma live_metadata_target:
  assumes "int_Metadata it \<noteq> None"
  shows "meta_get (int_Metadata (live_metadata al wallet (Some ad) it)) ''target'' = al_Hex al (ad_target ad)"
  using assms by (auto simp: live_metadata_def Let_def put_meta_get split: option.splits)

text \<open>C29. With a position manager configured, the live branch sends every intent - a prepared swap
  too - to the position manager: the target that the swap helper needs is overwritten, and so is
  the calldata whenever the mint call can be built.\<close>

theorem live_swap_misdirected:
  assumes "live_branch lib (Some ad) e balance ans it w = (w', Sent h)" "int_Metadata it \<noteq> None"
    "al_ToAddress (gl_addr lib) (al_Hex (gl_addr lib) (ad_target ad)) = ad_target ad"
    "al_Hex (gl_addr lib) (ad_target ad) \<noteq> []"
  shows "\<exists>old tx. eg_sent (fst w') = old @ [(h, tx)] \<and> dt_To tx = ad_target ad"
proof -
  let ?it = "live_metadata (gl_addr lib) (eg_wallet (fst w)) (Some ad) it"
  obtain g g' where s: "Send lib ans ?it g = (g', Inr h)" "fst w' = g'"
    using assms(1)
    by (auto simp: live_branch_def Let_def split: prod.splits option.splits balance_verdict.splits sum.splits)
  from Send_accepted [OF s(1)] obtain tx where tx: "eg_sent g' = eg_sent g @ [(h, tx)]"
    "dt_To tx = call_target (gl_addr lib) (int_Metadata ?it)" by metis
  have "dt_To tx = ad_target ad"
    using tx(2) assms(3,4) live_metadata_target [OF assms(2)] by (simp add: call_target_def Let_def)
  with tx(1) s(2) show ?thesis by blast
qed

definition ex_adapter :: adapter where
  "ex_adapter = \<lparr>ad_target = 1, ad_mintSig = [1], ad_pack = (\<lambda>p. Some [2])\<rparr>"

definition ex_rebalance :: intent where
  "ex_rebalance = zero_intent\<lparr>int_Metadata := Some Map.empty\<rparr>"

definition ex_allowance_env :: allowance_env where
  "ex_allowance_env =
     \<lparr>ae_call = (\<lambda>a d. Some [10]), ae_node = (\<lambda>k. ex_answers),
      ae_mined = (\<lambda>k. [None, Some \<lparr>rc_Status = 1, rc_GasUsed = 5, rc_Price = Some 3\<rparr>]),
      ae_now = (\<lambda>k. 0), ae_dbErr = (\<lambda>k. False)\<rparr>"

theorem live_swap_misdirected_witness:
  "\<exists>w' h old tx. live_branch ex_gateway_lib (Some ex_adapter) ex_allowance_env (\<lambda>a. Inr 5) ex_answers
       ex_rebalance (ex_gateway, []) = (w', Sent h)
     \<and> eg_sent (fst w') = old @ [(h, tx)] \<and> dt_To tx = 1"
proof -
  have md: "int_Metadata ex_rebalance \<noteq> None" by (simp add: ex_rebalance_def)
  let ?it = "live_metadata (gl_addr ex_gateway_lib) (eg_wallet ex_gateway) (Some ex_adapter) ex_rebalance"
  have m: "meta_get (int_Metadata ?it) k = []" if "k \<notin> {''target'', ''recipient'', ''calldata''}" for k
  proof -
    have "meta_get (int_Metadata ex_rebalance) k = []"
      by (simp add: ex_rebalance_def meta_get_def map_get_def)
    then show ?thesis
      using that md by (simp add: live_metadata_def Let_def put_meta_get ex_adapter_def BuildMintData_def)
  qed
  have ty: "int_Type ?it = []"
    by (simp add: live_metadata_def Let_def ex_adapter_def BuildMintData_def put_meta_def ex_rebalance_def zero_intent_def)
  have nil: "trim_space [] = []" "to_lower [] = []" by code_simp+
  have "\<not> is_swap ?it" using m [of "''action''"] by (simp add: is_swap_def ty nil)
  then have a: "maybeEnsureSwapAllowance ex_gateway_lib ex_allowance_env ?it (ex_gateway, []) = ((ex_gateway, []), None)"
    by (simp add: maybeEnsureSwapAllowance_def allowance_request_def Let_def)
  have b: "hasSufficientBalances al f (int_Metadata ?it) = BalanceOk" for al f
    using m [of "''swap_token_in''"] m [of "''token0''"] m [of "''token1''"]
    by (simp add: hasSufficientBalances_def swap_need_def token_need_def balance_check_def nil)
  from ex_send_accepted [of ?it ex_gateway]
  obtain g' h where s: "Send ex_gateway_lib ex_answers ?it ex_gateway = (g', Inr h)" by (elim exE)
  have l: "live_branch ex_gateway_lib (Some ex_adapter) ex_allowance_env (\<lambda>a. Inr 5) ex_answers
       ex_rebalance (ex_gateway, []) = ((g', []), Sent h)"
    unfolding live_branch_def Let_def fst_conv a prod.case option.case b balance_verdict.case s sum.case snd_conv
    by (rule refl)
  have "last_digit ''0x1'' = CHR ''1''" by code_simp
  then have "al_ToAddress (gl_addr ex_gateway_lib) (al_Hex (gl_addr ex_gateway_lib) (ad_target ex_adapter)) = ad_target ex_adapter"
    "al_Hex (gl_addr ex_gateway_lib) (ad_target ex_adapter) \<noteq> []"
    by (simp_all add: ex_gateway_lib_def ex_addr_def ex_adapter_def)
  from live_swap_misdirected [OF l md this] l show ?thesis by (auto simp: ex_adapter_def)
qed

subsection \<open>Allowances\<close>

definition is_approval :: "gateway_lib \<Rightarrow> address \<Rightarrow> address \<Rightarrow> int set \<Rightarrow> tx_hash \<times> dynamic_tx \<Rightarrow> bool" where
  "is_approval lib token spender ns p \<longleftrightarrow> dt_To (snd p) = token \<and> dt_Value (snd p) = 0
     \<and> (\<exists>n \<in> ns. gl_pack_approve lib spender n = Some (dt_Data (snd p)))"

lemma Approve_cases:
  assumes "ApproveERC20 lib a token spender (Some n) g = (g', res)"
  shows "(\<exists>err. res = Inl err \<and> g' = g)
    \<or> (\<exists>h tx. res = Inr h \<and> eg_sent g' = eg_sent g @ [(h, tx)] \<and> is_approval lib token spender {n} (h, tx)
         \<and> eg_wallet g' = eg_wallet g)"
proof (cases "gl_pack_approve lib spender n")
  case None
  then show ?thesis using assms by (auto simp: ApproveERC20_def)
next
  case (Some d)
  have sub: "submit lib a (gas_limit 120000 20000 (na_estimate a)) token 0 d g = (g', res)"
    using assms Some by (simp add: ApproveERC20_def)
  show ?thesis
    by (cases rule: submit_cases [of lib a "gas_limit 120000 20000 (na_estimate a)" token 0 d g])
      (use sub Some in \<open>auto simp: is_approval_def\<close>)
qed

lemma approve_and_wait_cases:
  assumes "approve_and_wait lib e k it token spender n w = (w', res)"
  shows "(\<exists>new. eg_sent (fst w') = eg_sent (fst w) @ new \<and> length new \<le> 1
       \<and> list_all (is_approval lib token spender {n}) new \<and> (res = None \<longrightarrow> length new = 1))
    \<and> (res = None \<longrightarrow> (\<exists>r. WaitMined (ae_mined e k) = Some r \<and> rc_Status r = 1))"
proof -
  obtain g gres where a: "ApproveERC20 lib (ae_node e k) token spender (Some n) (fst w) = (g, gres)" by fastforce
  from Approve_cases [OF a] show ?thesis
  proof (elim disjE exE conjE)
    fix err assume "gres = Inl err" "g = fst w"
    then have "w' = (fst w, snd w)" "res = None \<longleftrightarrow> False" using assms a by (auto simp: approve_and_wait_def)
    then show ?thesis by (cases res) auto
  next
    fix h tx assume h: "gres = Inr h" "eg_sent g = eg_sent (fst w) @ [(h, tx)]" "is_approval lib token spender {n} (h, tx)"
    have "fst w' = g" "res = None \<longrightarrow> (\<exists>r. WaitMined (ae_mined e k) = Some r \<and> rc_Status r = 1)"
      using assms a h(1) by (auto simp: approve_and_wait_def split: option.splits if_splits)
    then show ?thesis using h(2,3) by simp
  qed
qed

text \<open>C15. When the check of a swap's allowance succeeds, either the allowance covered the amount
  already and nothing was sent, or the last transaction that the node accepted approves the
  spender, and its receipt says that it succeeded.  Every transaction that the check sends, in
  any outcome, is an approval of that spender for that token, at most two of them, and the amount
  is zero or the largest number, never the amount of the swap.\<close>

theorem allowance_ensured:
  assumes "maybeEnsureSwapAllowance lib e it w = (w', res)"
    "allowance_request (gl_addr lib) it = Some (token, spender, n)"
  shows "(\<exists>new. eg_sent (fst w') = eg_sent (fst w) @ new \<and> length new \<le> 2
       \<and> list_all (is_approval lib token spender {0, max_uint256}) new
       \<and> (res = None \<longrightarrow>
            (\<exists>allow. AllowanceERC20 lib (ae_call e) token (eg_wallet (fst w)) spender = Inr allow
               \<and> (if n \<le> allow then w' = w
                  else \<exists>h tx r. List.last new = (h, tx) \<and> new \<noteq> [] \<and> is_approval lib token spender {max_uint256} (h, tx)
                    \<and> WaitMined (ae_mined e 1) = Some r \<and> rc_Status r = 1))))"
proof -
  have weak: "is_approval lib token spender {k} p \<Longrightarrow> k \<in> {0, max_uint256} \<Longrightarrow>
      is_approval lib token spender {0, max_uint256} p" for k p
    by (auto simp: is_approval_def)
  have weaks: "list_all (is_approval lib token spender {k}) ps \<Longrightarrow> k \<in> {0, max_uint256} \<Longrightarrow>
      list_all (is_approval lib token spender {0, max_uint256}) ps" for k ps
    using weak by (auto simp: list_all_iff)
  show ?thesis
  proof (cases "AllowanceERC20 lib (ae_call e) token (eg_wallet (fst w)) spender")
    case (Inl err)
    then show ?thesis using assms by (auto simp: maybeEnsureSwapAllowance_def)
  next
    case (Inr allow)
    show ?thesis
    proof (cases "n \<le> allow")
      case True
      then show ?thesis using assms Inr by (auto simp: maybeEnsureSwapAllowance_def)
    next
      case False
      obtain w1 r1 where one: "(if 0 < allow then approve_and_wait lib e 0 it token spender 0 w else (w, None)) = (w1, r1)"
        by (cases "if 0 < allow then approve_and_wait lib e 0 it token spender 0 w else (w, None)")
      obtain new1 where n1: "eg_sent (fst w1) = eg_sent (fst w) @ new1" "length new1 \<le> 1"
        "list_all (is_approval lib token spender {0}) new1"
        using one approve_and_wait_cases [of lib e 0 it token spender 0 w w1 r1] by (auto split: if_splits)
      show ?thesis
      proof (cases r1)
        case (Some err)
        then have "w' = w1" "res = Some err"
          using assms Inr False one by (auto simp: maybeEnsureSwapAllowance_def)
        then show ?thesis using n1 weaks by (intro exI [of _ new1]) auto
      next
        case None
        then have two: "approve_and_wait lib e 1 it token spender max_uint256 w1 = (w', res)"
          using assms Inr False one by (simp add: maybeEnsureSwapAllowance_def)
        from approve_and_wait_cases [OF two] obtain new2 where n2: "eg_sent (fst w') = eg_sent (fst w1) @ new2"
          "length new2 \<le> 1" "list_all (is_approval lib token spender {max_uint256}) new2"
          "res = None \<longrightarrow> length new2 = 1"
          and m: "res = None \<longrightarrow> (\<exists>r. WaitMined (ae_mined e 1) = Some r \<and> rc_Status r = 1)" by blast
        have ok: "\<exists>h tx r. List.last (new1 @ new2) = (h, tx) \<and> new1 @ new2 \<noteq> []
            \<and> is_approval lib token spender {max_uint256} (h, tx)
            \<and> WaitMined (ae_mined e 1) = Some r \<and> rc_Status r = 1" if res: "res = None"
        proof -
          obtain p where "new2 = [p]" using n2(4) res by (auto simp: length_Suc_conv)
          then show ?thesis using n2(3) m res by (cases p) auto
        qed
        show ?thesis
          using n1 n2(1,2) weaks [OF n1(3)] weaks [OF n2(3)] ok Inr False
          by (intro exI [of _ "new1 @ new2"]) auto
      qed
    qed
  qed
qed


definition ex_needs_allowance :: intent where
  "ex_needs_allowance = put_meta ''swap_helper'' (ex_address CHR ''1'') ex_swap"

lemma ex_allowance_request: "allowance_request (gl_addr ex_gateway_lib) ex_needs_allowance = Some (0, 1, 1000)"
  by code_simp

theorem allowance_ensured_witness:
  "\<exists>w' new. maybeEnsureSwapAllowance ex_gateway_lib ex_allowance_env ex_needs_allowance (ex_gateway, []) = (w', None)
     \<and> eg_sent (fst w') = new \<and> list_all (is_approval ex_gateway_lib 0 1 {0, max_uint256}) new"
proof -
  obtain w' where w: "maybeEnsureSwapAllowance ex_gateway_lib ex_allowance_env ex_needs_allowance (ex_gateway, [])
      = (w', None)"
    unfolding maybeEnsureSwapAllowance_def ex_allowance_request
    by (simp add: AllowanceERC20_def view_call_def approve_and_wait_def ApproveERC20_def submit_def Let_def
        ex_gateway_lib_def ex_allowance_env_def ex_answers_def)
  show ?thesis
    using w allowance_ensured [OF w ex_allowance_request] by (auto simp: ex_gateway_def)
qed

subsection \<open>Receipts\<close>

lemma receipt_meta_gas:
  assumes "0 < p" "0 < gasUsed"
  shows "receipt_meta now status gasUsed (Some p) m ''gas_cost_wei'' = Some (JStr (itoa (uint gasUsed * p)))"
  using assms by (simp add: receipt_meta_def Let_def)

lemma receipt_meta_other:
  assumes "k \<notin> {''receipt_status'', ''gas_used'', ''gas_price_wei'', ''gas_cost_wei'', ''receipt_updated_at''}"
  shows "receipt_meta now status gasUsed price m k = m k"
  using assms by (auto simp: receipt_meta_def Let_def split: option.splits)

lemma update_at:
  assumes "\<forall>y \<in> set ys. \<not> P y" "P t"
  shows "update_first P f (ys @ t # zs) = ys @ f t # zs"
  using assms by (induction ys) auto

text \<open>C27. A receipt that the node gives reaches the first stored trade of its transaction and no
  other: the status is the one of the receipt, what the trade said otherwise is kept, and the
  cost that the accounting later reads from it is the gas used times the effective price.\<close>

theorem receipt_reaches_trade:
  assumes "eg_receipts g = []" "await_receipt as = Some r" "h \<noteq> []" "tr_TxHash t = h"
    "\<forall>y \<in> set ys. tr_TxHash y \<noteq> h"
  shows "\<exists>g' t'. watch_receipt now False False (waitReceipt as h g) (ys @ t # zs) = Some (g', ys @ t' # zs)
     \<and> eg_receipts g' = [] \<and> tr_TxHash t' = h
     \<and> tr_Status t' = (if rc_Status r = 1 then ''mined'' else ''reverted'')
     \<and> (\<forall>p. rc_Price r = Some p \<and> 0 < p \<and> 0 < rc_GasUsed r \<longrightarrow>
          gas_wei t' = Some (uint (rc_GasUsed r) * p))
     \<and> (\<forall>k. k \<notin> {''receipt_status'', ''gas_used'', ''gas_price_wei'', ''gas_cost_wei'', ''receipt_updated_at''} \<longrightarrow>
          tr_Meta t' k = tr_Meta t k)"
proof -
  let ?rr = "result_of h r"
  let ?t = "t\<lparr>tr_Status := rr_Status ?rr,
     tr_Meta := receipt_meta now (rr_Status ?rr) (rc_GasUsed r) (Some (rr_GasPriceWei ?rr)) (tr_Meta t)\<rparr>"
  have q: "eg_receipts (waitReceipt as h g) = [?rr]"
    using assms(1,2) by (simp add: waitReceipt_def Let_def receipt_cap_def)
  have u: "update_first (\<lambda>u. tr_TxHash u = h) f (ys @ t # zs) = ys @ f t # zs" for f
    using assms(4,5) by (intro update_at) auto
  have w: "watch_receipt now False False (waitReceipt as h g) (ys @ t # zs) =
      Some ((waitReceipt as h g)\<lparr>eg_receipts := []\<rparr>, ys @ ?t # zs)"
    using assms(3,4) by (simp add: watch_receipt_def q UpdateTradeReceiptByHash_def u result_of_def)
  have g: "gas_wei ?t = Some (uint (rc_GasUsed r) * p)" if "rc_Price r = Some p" "0 < p" "0 < rc_GasUsed r" for p
  proof -
    have "0 < uint (rc_GasUsed r)" using that(3) by (simp add: word_less_def)
    then have "0 < uint (rc_GasUsed r) * p" using that(2) by simp
    then show ?thesis
      using receipt_meta_gas [OF that(2,3)] that(1)
      by (simp add: gas_wei_def result_of_def big_set_string_def)
  qed
  show ?thesis
    by (intro exI [of _ "(waitReceipt as h g)\<lparr>eg_receipts := []\<rparr>"] exI [of _ ?t])
      (simp add: w g receipt_meta_other assms(4), simp add: result_of_def)
qed

text \<open>C28. A receipt that is taken before its trade is stored is lost: nothing is updated, nothing
  is retried, and the trade keeps the status and the missing gas that it is stored with, while
  the other order of the two goroutines records the receipt.\<close>

theorem early_receipt_lost:
  assumes "eg_receipts g = rr # rest" "\<forall>u \<in> set trades. tr_TxHash u \<noteq> rr_Hash rr"
    "tr_TxHash t = rr_Hash rr" "rr_Hash rr \<noteq> []"
  shows "\<exists>g' t'. watch_receipt now False False g trades = Some (g', trades) \<and> eg_receipts g' = rest
     \<and> fst (SaveTrade False t (snd (the (watch_receipt now False False g trades)))) = trades @ [t]
     \<and> snd (the (watch_receipt now False False g (fst (SaveTrade False t trades)))) = trades @ [t']
     \<and> tr_Status t' = rr_Status rr"
proof -
  have a: "watch_receipt now False False g trades = Some (g\<lparr>eg_receipts := rest\<rparr>, trades)"
    using assms(1,2) by (simp add: watch_receipt_def UpdateTradeReceiptByHash_def)
  have "update_first (\<lambda>u. tr_TxHash u = rr_Hash rr) f (trades @ t # []) = trades @ f t # []" for f
    using assms(2,3) by (intro update_at) auto
  then show ?thesis
    using assms(1,3,4) a by (simp add: watch_receipt_def UpdateTradeReceiptByHash_def SaveTrade_def)
qed

definition ex_trade :: trade_record where
  "ex_trade = approve_trade ex_addr 0 ex_swap 1 2 (Some 0) ''0x4'' True"

definition ex_receipt :: receipt where
  "ex_receipt = \<lparr>rc_Status = 1, rc_GasUsed = 21000, rc_Price = Some 3\<rparr>"

theorem receipt_reaches_trade_witness:
  "\<exists>g' t'. watch_receipt 7 False False (waitReceipt [RpcError, GotReceipt ex_receipt] ''0x4'' ex_gateway) [ex_trade]
       = Some (g', [t']) \<and> gas_wei t' = Some 63000"
proof -
  have "eg_receipts ex_gateway = []" by (simp add: ex_gateway_def)
  moreover have "await_receipt [RpcError, GotReceipt ex_receipt] = Some ex_receipt" by simp
  moreover have "tr_TxHash ex_trade = ''0x4''" by (simp add: ex_trade_def approve_trade_def)
  ultimately obtain g' t' where "watch_receipt 7 False False
       (waitReceipt [RpcError, GotReceipt ex_receipt] ''0x4'' ex_gateway) ([] @ ex_trade # []) = Some (g', [] @ t' # [])"
    "\<forall>p. rc_Price ex_receipt = Some p \<and> 0 < p \<and> 0 < rc_GasUsed ex_receipt \<longrightarrow>
        gas_wei t' = Some (uint (rc_GasUsed ex_receipt) * p)"
    using receipt_reaches_trade [of ex_gateway "[RpcError, GotReceipt ex_receipt]" ex_receipt "''0x4''" ex_trade "[]" 7 "[]"]
    by auto
  then show ?thesis by (auto simp: ex_receipt_def)
qed

theorem early_receipt_lost_witness:
  "watch_receipt 7 False False (ex_gateway\<lparr>eg_receipts := [result_of ''0x4'' ex_receipt]\<rparr>) []
     = Some (ex_gateway, [])"
proof -
  let ?g = "ex_gateway\<lparr>eg_receipts := [result_of ''0x4'' ex_receipt]\<rparr>"
  have "\<exists>g' t'. watch_receipt 7 False False ?g [] = Some (g', []) \<and> eg_receipts g' = []
     \<and> fst (SaveTrade False ex_trade (snd (the (watch_receipt 7 False False ?g [])))) = [] @ [ex_trade]
     \<and> snd (the (watch_receipt 7 False False ?g (fst (SaveTrade False ex_trade [])))) = [] @ [t']
     \<and> tr_Status t' = rr_Status (result_of ''0x4'' ex_receipt)"
    by (rule early_receipt_lost) (simp_all add: result_of_def ex_trade_def approve_trade_def)
  then show ?thesis by (auto simp: watch_receipt_def ex_gateway_def UpdateTradeReceiptByHash_def)
qed

subsection \<open>Balances\<close>

definition covered :: "(address \<Rightarrow> call_error + int) \<Rightarrow> (address \<times> int) option \<Rightarrow> bool" where
  "covered balance need \<longleftrightarrow>
     (case need of None \<Rightarrow> True
      | Some (token, n) \<Rightarrow> (case balance token of Inl e \<Rightarrow> False | Inr b \<Rightarrow> n \<le> b))"

lemma balance_check_ok: "balance_check balance what need = BalanceOk \<longleftrightarrow> covered balance need"
  by (auto simp: balance_check_def covered_def split: option.splits sum.splits)

lemma first_verdict_ok: "first_verdict vs = BalanceOk \<longleftrightarrow> (\<forall>v \<in> set vs. v = BalanceOk)"
  by (induction vs rule: first_verdict.induct) auto

text \<open>The balance guard lets an intent pass exactly if every amount that its metadata states in
  a readable way - of the swap's token, of token0 and of token1 - is covered by a balance that
  could be read.\<close>

theorem balances_checked:
  "hasSufficientBalances al balance m = BalanceOk \<longleftrightarrow>
     covered balance (swap_need al m) \<and> covered balance (token_need al m ''token0'' ''amount0'')
     \<and> covered balance (token_need al m ''token1'' ''amount1'')"
  by (simp add: hasSufficientBalances_def first_verdict_ok balance_check_ok)

end
