(* ===== verification/Startup.thy ===== *)
theory Startup
  imports Decision_Loop Eth_Gateway Price_Feeds
begin

text \<open>
  How cmd/bot starts: the configuration, the rules and their switches in the environment, the
  choice of the event stream and of the database, the check of the quoter, the gateway and the
  adapter, and which of the long-running parts are started.

  Files, connections and third-party constructors are inputs.
\<close>

subsection \<open>Switches and rules\<close>

definition switched_on :: "environ \<Rightarrow> string \<Rightarrow> bool" where
  "switched_on env key \<longleftrightarrow>
     (let v = trim_space (env key)
      in v = [] \<or> to_lower v \<notin> {''0'', ''false'', ''no'', ''off''})"

definition path_or :: "environ \<Rightarrow> string \<Rightarrow> string \<Rightarrow> string" where
  "path_or env key dflt = (let p = trim_space (env key) in if p = [] then dflt else p)"

definition startup_cooldown :: "environ \<Rightarrow> cooldown_config" where
  "startup_cooldown env =
     NewCooldownAndFrequencyRule
       \<lparr>cc_Enabled = switched_on env ''RISK_COOLDOWN_ENABLED'', cc_Target = ''phoenix'',
        cc_MinInterval = 60 * second, cc_FailureThreshold = 3, cc_CooldownFor = 300 * second\<rparr>"

definition start_align_ms :: "environ \<Rightarrow> int64" where
  "start_align_ms env =
     (let v = trim_space (env ''RISK_PRICE_DIVERGENCE_ALIGN_MAX_GAP_MS'')
      in if v = [] then 5000
         else case parse_int v of None \<Rightarrow> 5000 | Some n \<Rightarrow> if 0 < n then n else 5000)"

text \<open>\<open>override_env\<close> is the variable that the constructor of the rule reads.\<close>

definition startup_divergence :: "environ \<Rightarrow> string \<Rightarrow> divergence_rule" where
  "startup_divergence env override_env =
     NewPriceSourceDivergenceRule override_env
       \<lparr>dc_Enabled = switched_on env ''RISK_PRICE_DIVERGENCE_ENABLED'', dc_MaxDeviationBps = 100,
        dc_MaxStaleness = 30 * second, dc_AlignMaxGap = mul64 (start_align_ms env) millisecond,
        dc_SourceA = ''onchain'', dc_SourceB = ''exchange''\<rparr>"

definition startup_manager :: "app_config \<Rightarrow> manager" where
  "startup_manager cfg =
     new_risk_manager (rk_MaxDailyGas (ap_Risk cfg)) (rk_ConsecutiveFails (ap_Risk cfg))
       (rk_MaxDrawdown (ap_Risk cfg))"

definition dead_token :: string where
  "dead_token = ''0x000000000000000000000000000000000000dead''"

definition startup_guard :: "(string \<Rightarrow> address) \<Rightarrow> guard" where
  "startup_guard hexaddr = AddBlacklistToken hexaddr dead_token new_guard"

subsection \<open>Event stream and database\<close>

datatype stream_choice = MemoryEvents nat | RedisEvents string string string

definition initEventStream :: "(string \<Rightarrow> string \<Rightarrow> string \<Rightarrow> bool) \<Rightarrow> app_config option \<Rightarrow> stream_choice" where
  "initEventStream connect cfg =
     (case cfg of
        Some c \<Rightarrow>
          let e = ap_Events c in
          if ec_Driver e = ''redis'' \<and> connect (ec_RedisURL e) (ec_RedisPrefix e) (ec_RedisGroup e)
          then RedisEvents (ec_RedisURL e) (ec_RedisPrefix e) (ec_RedisGroup e)
          else MemoryEvents 256
      | None \<Rightarrow> MemoryEvents 256)"

text \<open>The error of a migration: the code of Postgres, if it is one of Postgres, and its text.\<close>

definition migrate :: "(string option \<times> string) option \<Rightarrow> bool" where
  "migrate err =
     (case err of None \<Rightarrow> True
      | Some (code, txt) \<Rightarrow>
          code \<in> {Some ''42P07'', Some ''42P05''} \<or> contains txt ''already exists'')"

datatype db_choice = Postgres string | SQLite string

text \<open>\<open>simple\<close> sets the option of the simple protocol in a data source name.\<close>

definition NewStore ::
    "(string \<Rightarrow> string) \<Rightarrow> environ \<Rightarrow> (db_choice \<Rightarrow> bool) \<Rightarrow> (string option \<times> string) option
      \<Rightarrow> string \<Rightarrow> db_choice option" where
  "NewStore simple env canOpen migration path =
     (let dsn = env ''SUPABASE_DB_URL'';
          db = (if dsn = [] then SQLite path else Postgres (simple dsn))
      in if \<not> canOpen db then None else if migrate migration then Some db else None)"

subsection \<open>The check of the quoter\<close>

datatype preflight_error =
  BadQuoterAddress string | PreflightDial | PreflightAbi | PreflightCode | NoCodeAt address
| PreflightQuote quote_error | BadQuote int

text \<open>\<open>big.Int.SetString\<close> leaves an undefined value behind when it fails: \<open>undef\<close>.\<close>

definition preflight_amount :: "(string \<Rightarrow> int) \<Rightarrow> environ \<Rightarrow> pool_config \<Rightarrow> int" where
  "preflight_amount undef env pool =
     (let set_string = (\<lambda>s. case big_set_string s of None \<Rightarrow> undef s | Some n \<Rightarrow> n);
          given = trim_space (env ''PHOENIX_QUOTER_PREFLIGHT_AMOUNT_IN'');
          n = (if given \<noteq> [] then set_string given
               else if pc_Amount0 pool \<noteq> [] then set_string (pc_Amount0 pool)
               else if pc_Amount1 pool \<noteq> [] then set_string (pc_Amount1 pool) else 0)
      in if n \<le> 0 then 1000000 else n)"

definition quoterRuntimePreflight ::
    "swap_lib \<Rightarrow> (address \<Rightarrow> bytes option) \<Rightarrow> (string \<Rightarrow> int) \<Rightarrow> environ \<Rightarrow> app_config option
      \<Rightarrow> preflight_error option" where
  "quoterRuntimePreflight lib codeAt undef env cfg =
     (let al = sl_addr lib in
      case cfg of None \<Rightarrow> None
      | Some c \<Rightarrow>
        (case (ap_Chains c, ap_Pools c) of
           (chain # _, pool # _) \<Rightarrow>
             let quoter = or_env env (ch_QuoterAddress chain) ''ARBITRUM_SEPOLIA_QUOTER_ADDRESS''
             in if quoter = [] then None
                else if \<not> al_IsHex al quoter then Some (BadQuoterAddress quoter)
                else if ch_RPC chain = [] \<or> \<not> al_IsHex al (pc_Token0 pool)
                     \<or> \<not> al_IsHex al (pc_Token1 pool) \<or> pc_Fee pool \<le> 0 then None
                else
                  let amountIn = preflight_amount undef env pool
                  in case sl_dial lib (ch_RPC chain) of None \<Rightarrow> Some PreflightDial
                  | Some call \<Rightarrow>
                    (case sl_quoter lib of None \<Rightarrow> Some PreflightAbi
                     | Some qa \<Rightarrow>
                       (case codeAt (al_ToAddress al quoter) of None \<Rightarrow> Some PreflightCode
                        | Some code \<Rightarrow>
                          if code = [] then Some (NoCodeAt (al_ToAddress al quoter))
                          else
                            let q = qa\<lparr>qa_caller := Some (call (al_ToAddress al quoter))\<rparr>;
                                tin = al_ToAddress al (pc_Token0 pool);
                                tout = al_ToAddress al (pc_Token1 pool);
                                fee = (word_of_int (pc_Fee pool) :: 32 word);
                                path = (case QuoteExactInput q tin tout fee (Some amountIn) of
                                          Inl e \<Rightarrow> Some (PreflightQuote e)
                                        | Inr out \<Rightarrow> if out \<le> 0 then Some (BadQuote out) else None)
                            in case QuoteExactInputSingle q tin tout fee (Some amountIn) (Some 0) of
                                 Inr out \<Rightarrow> if 0 < out then None else path
                               | Inl _ \<Rightarrow> path))
         | _ \<Rightarrow> None))"

subsection \<open>The start of the bot\<close>

datatype start_error = ConfigFatal config_error | DatabaseFatal | KeyMissing | QuoterFatal preflight_error

text \<open>The gateway is a pointer that is converted to an interface: the pointer \<open>nil\<close> gives an
  interface that is not \<open>nil\<close>.\<close>

datatype gateway_iface = NilInterface | NilPointer | Gateway eth_gateway

fun iface_of :: "eth_gateway option \<Rightarrow> gateway_iface" where
  "iface_of None = NilPointer" | "iface_of (Some g) = Gateway g"

definition would_send :: "bool \<Rightarrow> gateway_iface \<Rightarrow> bool" where
  "would_send isDryRun gw \<longleftrightarrow> \<not> (isDryRun \<or> gw = NilInterface)"

record start_input =
  si_env :: environ
  si_config :: "string \<Rightarrow> app_config option option"
  si_connect :: "string \<Rightarrow> string \<Rightarrow> string \<Rightarrow> bool"
  si_canOpen :: "db_choice \<Rightarrow> bool"
  si_migration :: "(string option \<times> string) option"
  si_simple :: "string \<Rightarrow> string"
  si_swap :: swap_lib
  si_codeAt :: "address \<Rightarrow> bytes option"
  si_undef :: "string \<Rightarrow> int"
  si_gateway :: "string \<Rightarrow> string \<Rightarrow> gateway_error + eth_gateway"
  si_override :: string
  si_now :: gotime
  si_riskDisk :: "risk_state disk"
  si_statsFile :: "stats_snapshot option"
  si_reportJSON :: "samples_report option"
  si_reportTXT :: "string list option"
  si_faults :: "nat \<Rightarrow> faults"
  si_fmt_g12 :: "float64 \<Rightarrow> string"

record started =
  sd_cfg :: app_config
  sd_events :: stream_choice
  sd_feed :: feed_config
  sd_rest :: bool
  sd_db :: db_choice
  sd_gateway :: "eth_gateway option"
  sd_adapter :: "string option"
  sd_rules :: "cooldown_world rule list"
  sd_cooldown :: cooldown_config
  sd_manager :: manager
  sd_guard :: guard
  sd_statePath :: string
  sd_statsPath :: string
  sd_apiPort :: string
  sd_pnlLoop :: bool
  sd_receipts :: bool
  sd_world :: exec_world

text \<open>The world of the executor at the start: the store of the risk state as it is on disk, new
  statistics and an empty collector, both written at once, and no trade of this run.\<close>

definition start_runID :: "gotime \<Rightarrow> string" where
  "start_runID now = ''phoenix-'' @ itoa (unix_nano now)"

definition start_server :: "gotime \<Rightarrow> bool \<Rightarrow> server" where
  "start_server now binance =
     UpdateCEXPrice now \<lparr>tk_Symbol = ''ETHUSDT'', tk_Price = Fin 2005, tk_Timestamp = now\<rparr>
       (SetMarketAggregator True
         (SetContractV1RunID (start_runID now)
           (NewServerWithConfig now now binance (if binance then ''Binance'' else ''Fallback''))))"

definition start_world :: "start_input \<Rightarrow> app_config \<Rightarrow> bool \<Rightarrow> exec_world" where
  "start_world i cfg binance =
     (let env = si_env i; now = si_now i;
          (stats, statsFile, _) = SaveIfDue now 0 (si_faults i 1)
             (NewRiskStats (path_or env ''RISK_STATS_PATH'' ''var/risk_stats.json'')) (si_statsFile i);
          collector = NewDivergenceRejectCollector 10 10 (start_runID now) now;
          rep = samples_snapshot rfc3339 100 now (Some collector)
      in \<lparr>xw_cool = \<lparr>cw_store = Some (store_load now (si_faults i 0) (si_riskDisk i) NewRiskStateStore),
                      cw_disk = si_riskDisk i, cw_faults = si_faults i, cw_lastMatchKey = [],
                      cw_lastUntilMS = 0\<rparr>,
          xw_stats = Some stats, xw_statsFile = statsFile, xw_samples = Some collector,
          xw_samplesJSON =
            (if trim_space (env ''PHOENIX_DIVERGENCE_SAMPLES_JSON'') = [] \<or> ft_write (si_faults i 2)
             then si_reportJSON i else Some rep),
          xw_samplesTXT =
            (if trim_space (env ''PHOENIX_DIVERGENCE_SAMPLES_TXT'') = [] \<or> ft_write (si_faults i 3)
             then si_reportTXT i else Some (report_lines (si_fmt_g12 i) rep)),
          xw_risk = startup_manager cfg, xw_server = Some (start_server now binance),
          xw_events = [], xw_trades = [], xw_published = []\<rparr>)"

definition start_gateway :: "start_input \<Rightarrow> app_config \<Rightarrow> eth_gateway option" where
  "start_gateway i cfg =
     (let key = si_env i ''BOT_PRIVATE_KEY''
      in if key = [] then None
         else case si_gateway i (ch_RPC (hd (ap_Chains cfg))) key of Inl e \<Rightarrow> None | Inr g \<Rightarrow> Some g)"

definition start_adapter :: "app_config \<Rightarrow> string option" where
  "start_adapter cfg =
     (case ap_Pools cfg of [] \<Rightarrow> None
      | p # ps \<Rightarrow> if pc_PositionManager p = [] then None else Some (pc_PositionManager p))"

definition start_checks :: "start_input \<Rightarrow> app_config \<Rightarrow> start_error + db_choice" where
  "start_checks i cfg =
     (let env = si_env i in
      case NewStore (si_simple i) env (si_canOpen i) (si_migration i) ''phoenix.db'' of
        None \<Rightarrow> Inl DatabaseFatal
      | Some db \<Rightarrow>
          if env ''BOT_PRIVATE_KEY'' = [] \<and> \<not> sc_DryRun (ap_Strategy cfg) then Inl KeyMissing
          else (case quoterRuntimePreflight (si_swap i) (si_codeAt i) (si_undef i) env (Some cfg) of
                  Some e \<Rightarrow> if env ''PHOENIX_SWAP_REQUIRE_QUOTER'' = ''1'' then Inl (QuoterFatal e) else Inr db
                | None \<Rightarrow> Inr db))"

definition start_bot :: "start_input \<Rightarrow> start_error + started" where
  "start_bot i =
     (let env = si_env i;
          path = (if env ''PHOENIX_CONFIG'' = [] then ''configs/config.yaml'' else env ''PHOENIX_CONFIG'')
      in case NewManager path (si_config i path) of
           Inl e \<Rightarrow> Inl (ConfigFatal e)
         | Inr m \<Rightarrow>
             let cfg = startup_config env (cm_current m); gw = start_gateway i cfg;
                 rest = \<not> WSOnly (LoadPriceAggregatorConfigFromEnv env);
                 cool = startup_cooldown env
             in case start_checks i cfg of Inl e \<Rightarrow> Inl e
                | Inr db \<Rightarrow>
                    Inr \<lparr>sd_cfg = cfg, sd_events = initEventStream (si_connect i) (Some cfg),
                         sd_feed = LoadPriceAggregatorConfigFromEnv env,
                         sd_rest = rest,
                         sd_db = db, sd_gateway = gw, sd_adapter = start_adapter cfg,
                         sd_rules = bot_rules cool (startup_divergence env (si_override i)),
                         sd_cooldown = cool, sd_manager = startup_manager cfg,
                         sd_guard = startup_guard (al_ToAddress (sl_addr (si_swap i))),
                         sd_statePath = path_or env ''RISK_STATE_PATH'' ''var/risk_state.json'',
                         sd_statsPath = path_or env ''RISK_STATS_PATH'' ''var/risk_stats.json'',
                         sd_apiPort = (if env ''API_PORT'' = [] then ''8081'' else env ''API_PORT''),
                         sd_pnlLoop = (gw \<noteq> None), sd_receipts = (gw \<noteq> None),
                         sd_world = start_world i cfg rest\<rparr>)"

subsection \<open>Lemmas\<close>

lemma startup_cooldown_fixed:
  "startup_cooldown env =
     \<lparr>cc_Enabled = switched_on env ''RISK_COOLDOWN_ENABLED'', cc_Target = ''phoenix'',
      cc_MinInterval = 60 * second, cc_FailureThreshold = 3, cc_CooldownFor = 300 * second\<rparr>"
proof -
  have "trim_space ''phoenix'' = ''phoenix''" by code_simp
  then show ?thesis
    by (simp add: startup_cooldown_def NewCooldownAndFrequencyRule_def Let_def second_def)
qed

lemma startup_config_dry:
  "sc_DryRun (ap_Strategy cfg) \<or> env ''PHOENIX_FORCE_DRY_RUN'' = ''1''
     \<or> env ''PHOENIX_AUTO_EVAL'' = ''1'' \<and> env ''PHOENIX_ALLOW_LIVE'' \<noteq> ''1''
   \<longleftrightarrow> sc_DryRun (ap_Strategy (startup_config env cfg))"
  by (auto simp: startup_config_def Let_def)

lemma start_align_pos: "0 < start_align_ms env"
  by (auto simp: start_align_ms_def Let_def split: option.splits)

lemma start_world_empty: "xw_trades (start_world i cfg b) = []" "xw_published (start_world i cfg b) = []"
  by (simp_all add: start_world_def Let_def split: prod.splits)

lemma start_bot_parts:
  assumes "start_bot i = Inr s"
  obtains cfg0 where "ValidateConfig cfg0 = Inr cfg0 \<or> (\<exists>c. ValidateConfig c = Inr cfg0)"
    "sd_cfg s = startup_config (si_env i) cfg0" "start_checks i (sd_cfg s) = Inr (sd_db s)"
    "sd_gateway s = start_gateway i (sd_cfg s)" "sd_cooldown s = startup_cooldown (si_env i)"
    "sd_rules s = bot_rules (sd_cooldown s) (startup_divergence (si_env i) (si_override i))"
    "sd_guard s = startup_guard (al_ToAddress (sl_addr (si_swap i)))" "sd_manager s = startup_manager (sd_cfg s)"
    "sd_pnlLoop s = (sd_gateway s \<noteq> None)" "sd_receipts s = (sd_gateway s \<noteq> None)"
    "sd_world s = start_world i (sd_cfg s) (sd_rest s)"
proof -
  define path where "path = (if si_env i ''PHOENIX_CONFIG'' = [] then ''configs/config.yaml'' else si_env i ''PHOENIX_CONFIG'')"
  obtain m where m: "NewManager path (si_config i path) = Inr m"
    using assms by (auto simp: start_bot_def Let_def path_def split: sum.splits)
  then have "\<exists>c. ValidateConfig c = Inr (cm_current m)"
    by (auto simp: NewManager_def LoadConfig_def split: sum.splits option.splits)
  moreover obtain db where db: "start_checks i (startup_config (si_env i) (cm_current m)) = Inr db"
    using assms m by (auto simp: start_bot_def Let_def path_def split: sum.splits)
  ultimately show ?thesis
    using that [of "cm_current m"] assms m
    by (auto simp: start_bot_def Let_def path_def split: sum.splits)
qed

end
