(* ===== verification/Redis_Stream.thy ===== *)
theory Redis_Stream
  imports Event_Stream Json_Log
begin

text \<open>
  internal/events/redis_stream.go: publishing to a Redis stream and reading it as a member of a
  consumer group.

  The Redis client is an input: what a command answers.  A subscriber is a goroutine with its
  channel; its actions are the answers that it gets, the sends, what the reader of the channel
  takes and the cancellation.
\<close>

record redis_stream =
  rs_prefix :: string
  rs_group :: string

datatype redis_error = UrlRequired | UrlInvalid | PingFailed | EncodingFailed | CommandFailed

definition NewRedisStream ::
    "(string \<Rightarrow> bool) \<Rightarrow> (string \<Rightarrow> bool) \<Rightarrow> string \<Rightarrow> string \<Rightarrow> string \<Rightarrow> redis_error + redis_stream" where
  "NewRedisStream parses pings url pfx grp =
     (if url = [] then Inl UrlRequired
      else if \<not> parses url then Inl UrlInvalid
      else if \<not> pings url then Inl PingFailed
      else Inr \<lparr>rs_prefix = (if pfx = [] then ''phoenix'' else pfx),
                rs_group = (if grp = [] then ''phoenix-consumer'' else grp)\<rparr>)"

definition streamName :: "redis_stream \<Rightarrow> topic \<Rightarrow> string" where
  "streamName r t = rs_prefix r @ '':'' @ t"

subsection \<open>Publishing\<close>

text \<open>Bytes are sent as they are and refused if they are no document; any other value is
  encoded first.  Both are \<open>None\<close> when there is no document.\<close>

datatype redis_payload = RawPayload "json option" | GoPayload "json option"

record redis_event =
  re_Timestamp :: gotime
  re_Payload :: json

fun payload_json :: "redis_payload \<Rightarrow> json option" where
  "payload_json (RawPayload d) = d" | "payload_json (GoPayload d) = d"

text \<open>The log of every Redis stream is the list of its entries; \<open>xadd\<close> says whether the command
  succeeds.\<close>

definition redis_publish ::
    "redis_stream \<Rightarrow> gotime \<Rightarrow> bool \<Rightarrow> topic \<Rightarrow> redis_payload \<Rightarrow> (string \<Rightarrow> redis_event list)
      \<Rightarrow> (string \<Rightarrow> redis_event list) \<times> redis_error option" where
  "redis_publish r now xadd t p logs =
     (case payload_json p of None \<Rightarrow> (logs, Some EncodingFailed)
      | Some d \<Rightarrow>
          if \<not> xadd then (logs, Some CommandFailed)
          else (logs(streamName r t := logs (streamName r t) @ [\<lparr>re_Timestamp = now, re_Payload = d\<rparr>]), None))"

subsection \<open>Subscribing\<close>

text \<open>\<open>ensureGroup\<close> accepts the error that the group exists.\<close>

definition ensureGroup :: "string option \<Rightarrow> bool" where
  "ensureGroup err = (case err of None \<Rightarrow> True | Some e \<Rightarrow> contains e ''BUSYGROUP'')"

text \<open>A message of Redis: its identifier and the event that is stored in it, \<open>None\<close> when the
  value is missing or is not a document; then the event is the zero event.\<close>

type_synonym msg_id = nat

record redis_msg =
  rm_id :: msg_id
  rm_event :: "redis_event option"

definition event_of_msg :: "topic \<Rightarrow> redis_msg \<Rightarrow> json event" where
  "event_of_msg t m =
     (case rm_event m of
        None \<Rightarrow> \<lparr>ev_Topic = t, ev_Payload = JsNull, ev_Timestamp = 0\<rparr>
      | Some e \<Rightarrow> \<lparr>ev_Topic = t, ev_Payload = re_Payload e, ev_Timestamp = re_Timestamp e\<rparr>)"

definition redis_cap :: nat where "redis_cap = 128"

record consumer =
  co_topic :: topic
  co_buf :: "json event list"
  co_batch :: "redis_msg list"
  co_read :: "redis_msg list"
  co_sent :: "redis_msg list"
  co_acked :: "msg_id list"
  co_cancelled :: bool
  co_closed :: bool

definition redis_subscribe :: "topic \<Rightarrow> string option \<Rightarrow> consumer option" where
  "redis_subscribe t groupErr =
     (if ensureGroup groupErr
      then Some \<lparr>co_topic = t, co_buf = [], co_batch = [], co_read = [], co_sent = [], co_acked = [],
                 co_cancelled = False, co_closed = False\<rparr>
      else None)"

datatype redis_action =
  ReadBatch "redis_msg list"  \<comment> \<open>the messages of an answer of \<open>XReadGroup\<close>\<close>
| ReadNothing                 \<comment> \<open>no message in time, or an error other than the cancellation\<close>
| ReadCancelled
| SendEvent bool              \<comment> \<open>whether the acknowledgement succeeds\<close>
| GiveUp                      \<comment> \<open>the cancellation wins while the goroutine offers an event\<close>
| TakeEvent
| CancelSub

fun consumer_step :: "redis_action \<Rightarrow> consumer \<Rightarrow> consumer option" where
  "consumer_step (ReadBatch ms) c =
     (if co_closed c \<or> co_batch c \<noteq> [] then None
      else if co_cancelled c then Some (c\<lparr>co_closed := True\<rparr>)
      else Some (c\<lparr>co_batch := ms, co_read := co_read c @ ms\<rparr>))"
| "consumer_step ReadNothing c =
     (if co_closed c \<or> co_batch c \<noteq> [] then None
      else if co_cancelled c then Some (c\<lparr>co_closed := True\<rparr>) else Some c)"
| "consumer_step ReadCancelled c =
     (if co_closed c \<or> co_batch c \<noteq> [] \<or> \<not> co_cancelled c then None else Some (c\<lparr>co_closed := True\<rparr>))"
| "consumer_step (SendEvent acked) c =
     (case co_batch c of [] \<Rightarrow> None
      | m # ms \<Rightarrow>
          if co_closed c \<or> redis_cap \<le> length (co_buf c) then None
          else Some (c\<lparr>co_batch := ms, co_buf := co_buf c @ [event_of_msg (co_topic c) m],
                      co_sent := co_sent c @ [m],
                      co_acked := (if acked then co_acked c @ [rm_id m] else co_acked c)\<rparr>))"
| "consumer_step GiveUp c =
     (if co_closed c \<or> co_batch c = [] \<or> \<not> co_cancelled c then None else Some (c\<lparr>co_closed := True\<rparr>))"
| "consumer_step TakeEvent c =
     (case co_buf c of [] \<Rightarrow> None | e # es \<Rightarrow> Some (c\<lparr>co_buf := es\<rparr>))"
| "consumer_step CancelSub c = Some (c\<lparr>co_cancelled := True\<rparr>)"

text \<open>All subscribers of one group: an action is one of a numbered subscriber.\<close>

inductive group_run :: "(nat \<times> redis_action) list \<Rightarrow> (nat \<Rightarrow> consumer) \<Rightarrow> (nat \<Rightarrow> consumer) \<Rightarrow> bool" where
  group_nil: "group_run [] s s"
| group_cons: "consumer_step a (s n) = Some c \<Longrightarrow> group_run as (s(n := c)) s' \<Longrightarrow>
    group_run ((n, a) # as) s s'"

inductive_cases group_nil_cases [elim!]: "group_run [] s s'"
inductive_cases group_cons_cases [elim!]: "group_run (a # as) s s'"

text \<open>What Redis hands out with \<open>XReadGroup\<close> and the identifier \<open>>\<close>: messages that it has not
  given to any member of the group before.\<close>

definition handed_out :: "(nat \<times> redis_action) list \<Rightarrow> msg_id list" where
  "handed_out as = concat (map (\<lambda>(n, a). case a of ReadBatch ms \<Rightarrow> map rm_id ms | _ \<Rightarrow> []) as)"

subsection \<open>The invariant of a subscriber\<close>

definition consumer_ok :: "consumer \<Rightarrow> bool" where
  "consumer_ok c \<longleftrightarrow> co_read c = co_sent c @ co_batch c \<and> length (co_buf c) \<le> redis_cap
     \<and> set (co_acked c) \<subseteq> rm_id ` set (co_sent c) \<and> (\<forall>e \<in> set (co_buf c). ev_Topic e = co_topic c)
     \<and> (co_closed c \<longrightarrow> co_cancelled c)"

lemma event_topic [simp]: "ev_Topic (event_of_msg t m) = t"
  by (simp add: event_of_msg_def split: option.splits)

lemma consumer_step_ok: "consumer_step a c = Some c' \<Longrightarrow> consumer_ok c \<Longrightarrow> consumer_ok c'"
  by (cases a)
    (auto simp: consumer_ok_def redis_cap_def split: if_splits list.splits)

lemma consumer_step_read:
  "consumer_step a c = Some c' \<Longrightarrow>
     co_read c' = co_read c @ (case a of ReadBatch ms \<Rightarrow> if co_cancelled c then [] else ms | _ \<Rightarrow> [])"
  by (cases a) (auto split: if_splits list.splits)

lemma consumer_closed_read:
  "consumer_step a c = Some c' \<Longrightarrow> co_closed c \<Longrightarrow>
     co_closed c' \<and> co_sent c' = co_sent c \<and> co_batch c' = co_batch c \<and> co_acked c' = co_acked c"
  by (cases a) (auto split: if_splits list.splits)

lemma group_run_ok:
  assumes "group_run as s s'" "\<And>n. consumer_ok (s n)"
  shows "consumer_ok (s' n)"
  using assms
proof (induction arbitrary: n rule: group_run.induct)
  case (group_cons a s m c as s')
  have "consumer_ok ((s(m := c)) k)" for k
    using consumer_step_ok [OF group_cons.hyps(1)] group_cons.prems by simp
  then show ?case using group_cons.IH by blast
qed

text \<open>What every subscriber has read is what it had read before and a part of what Redis handed
  out, each message to one subscriber.\<close>

definition split_up :: "msg_id list \<Rightarrow> (nat \<Rightarrow> redis_msg list) \<Rightarrow> bool" where
  "split_up ids f \<longleftrightarrow> (\<forall>n. distinct (map rm_id (f n)) \<and> rm_id ` set (f n) \<subseteq> set ids)
     \<and> (\<forall>m n. m \<noteq> n \<longrightarrow> rm_id ` set (f m) \<inter> rm_id ` set (f n) = {})"

lemma split_up_cons:
  assumes "split_up ids f" "distinct (new @ ids)" "map rm_id b = [] \<or> map rm_id b = new"
  shows "split_up (new @ ids) (\<lambda>n. (if n = k then b else []) @ f n)"
proof -
  have bs: "distinct (map rm_id b)" "rm_id ` set b \<subseteq> set new"
    using assms(2,3) by (auto simp flip: set_map)
  have fs: "distinct (map rm_id (f n))" "rm_id ` set (f n) \<subseteq> set ids"
    "m \<noteq> n \<Longrightarrow> rm_id ` set (f m) \<inter> rm_id ` set (f n) = {}" for m n
    using assms(1) unfolding split_up_def by metis+
  have apart: "rm_id ` set b \<inter> rm_id ` set (f n) = {}" for n
    using bs(2) fs(2) [of n] assms(2) by auto
  have g1: "distinct (map rm_id ((if n = k then b else []) @ f n))" for n
    using bs(1) fs(1) [of n] apart [of n] by auto
  have g2: "rm_id ` set ((if n = k then b else []) @ f n) \<subseteq> set (new @ ids)" for n
    using bs(2) fs(2) [of n] by (auto split: if_splits)
  have g3: "rm_id ` set ((if m = k then b else []) @ f m) \<inter> rm_id ` set ((if n = k then b else []) @ f n) = {}"
    if "m \<noteq> n" for m n
    using fs(3) [OF that] apart [of m] apart [of n] that
    by (cases "m = k"; cases "n = k") (simp_all add: image_Un Int_Un_distrib Int_Un_distrib2 Int_commute)
  show ?thesis unfolding split_up_def using g1 g2 g3 by simp
qed

lemma group_run_reads:
  assumes "group_run as s s'"
  shows "\<exists>f. (\<forall>n. co_read (s' n) = co_read (s n) @ f n) \<and> (distinct (handed_out as) \<longrightarrow> split_up (handed_out as) f)"
  using assms
proof (induction rule: group_run.induct)
  case (group_nil s)
  then show ?case by (intro exI [of _ "\<lambda>n. []"]) (simp add: split_up_def)
next
  case (group_cons a s k c as s')
  obtain f where f: "\<forall>n. co_read (s' n) = co_read ((s(k := c)) n) @ f n"
    "distinct (handed_out as) \<longrightarrow> split_up (handed_out as) f"
    using group_cons.IH by (elim exE conjE)
  define b where "b = (case a of ReadBatch ms \<Rightarrow> if co_cancelled (s k) then [] else ms | _ \<Rightarrow> [])"
  define new where "new = (case a of ReadBatch ms \<Rightarrow> map rm_id ms | _ \<Rightarrow> [])"
  have b: "map rm_id b = [] \<or> map rm_id b = new" by (auto simp: b_def new_def split: redis_action.splits)
  have h: "handed_out ((k, a) # as) = new @ handed_out as" by (simp add: handed_out_def new_def)
  have r: "co_read (s' n) = co_read (s n) @ (if n = k then b else []) @ f n" for n
    using f(1) consumer_step_read [OF group_cons.hyps(1)] by (simp add: b_def)
  have "split_up (handed_out ((k, a) # as)) (\<lambda>n. (if n = k then b else []) @ f n)"
    if "distinct (handed_out ((k, a) # as))"
    using split_up_cons [OF _ _ b] f(2) that unfolding h by simp
  with r show ?case by (intro exI [of _ "\<lambda>n. (if n = k then b else []) @ f n"] conjI allI impI)
qed

lemma group_closed_stays:
  assumes "group_run as s s'" "co_closed (s n)"
  shows "co_closed (s' n) \<and> co_sent (s' n) = co_sent (s n) \<and> co_batch (s' n) = co_batch (s n)
     \<and> co_acked (s' n) = co_acked (s n)"
  using assms
proof (induction rule: group_run.induct)
  case (group_cons a s m c as s')
  then show ?case using consumer_closed_read [OF group_cons.hyps(1)] by (cases "m = n") auto
qed simp

lemma group_run_app:
  "group_run as s s1 \<Longrightarrow> group_run bs s1 s2 \<Longrightarrow> group_run (as @ bs) s s2"
  by (induction rule: group_run.induct) (auto intro: group_run.intros)

end
