(* ===== verification/Tools.thy ===== *)
theory Tools
  imports Redis_Stream Decision_Loop
begin

text \<open>
  The pool watcher with internal/dexstate, and the command line tools contract_v1_dump and
  replay.  The RPC call of a contract and the ABI decoder are parameters.
\<close>

subsection \<open>The state of a pool\<close>

record pool_state =
  ps_ChainID :: int64
  ps_PoolAddress :: address
  ps_CurrentTick :: int64
  ps_Liquidity :: int

datatype dex_error = DexPackFailed string | DexCallFailed string | DexDecodeFailed string

text \<open>\<open>pack\<close> gives the call data of a method, \<open>call\<close> what the node answers.\<close>

definition callView ::
    "(string \<Rightarrow> bytes option) \<Rightarrow> (address \<Rightarrow> bytes \<Rightarrow> bytes option) \<Rightarrow> address \<Rightarrow> string
      \<Rightarrow> dex_error + bytes" where
  "callView pack call a meth =
     (case pack meth of None \<Rightarrow> Inl (DexPackFailed meth)
      | Some d \<Rightarrow> (case call a d of None \<Rightarrow> Inl (DexCallFailed meth) | Some r \<Rightarrow> Inr r))"

definition GetPoolState ::
    "(string \<Rightarrow> bytes option) \<Rightarrow> (address \<Rightarrow> bytes \<Rightarrow> bytes option) \<Rightarrow> (bytes \<Rightarrow> int option)
      \<Rightarrow> (bytes \<Rightarrow> int option) \<Rightarrow> int64 \<Rightarrow> address \<Rightarrow> dex_error + pool_state" where
  "GetPoolState pack call unpackTick unpackLiquidity chainID a =
     (case callView pack call a ''slot0'' of Inl e \<Rightarrow> Inl e
      | Inr s \<Rightarrow>
        (case unpackTick s of None \<Rightarrow> Inl (DexDecodeFailed ''slot0'')
         | Some tick \<Rightarrow>
           (case callView pack call a ''liquidity'' of Inl e \<Rightarrow> Inl e
            | Inr l \<Rightarrow>
              (case unpackLiquidity l of None \<Rightarrow> Inl (DexDecodeFailed ''liquidity'')
               | Some liq \<Rightarrow>
                   Inr \<lparr>ps_ChainID = chainID, ps_PoolAddress = a, ps_CurrentTick = wrap64 tick,
                        ps_Liquidity = liq\<rparr>))))"

text \<open>One tick of \<open>startPoolWatcher\<close>: what it publishes.  \<open>fetch\<close> is \<open>GetPoolState\<close>, absent when
  there is no connection.\<close>

definition pool_payload :: "addr_lib \<Rightarrow> pool_state \<Rightarrow> pool_event" where
  "pool_payload al st =
     \<lparr>pe_ChainID = ps_ChainID st, pe_PoolAddress = al_Hex al (ps_PoolAddress st),
      pe_CurrentTick = ps_CurrentTick st, pe_Liquidity = itoa (ps_Liquidity st)\<rparr>"

definition watch_pool ::
    "addr_lib \<Rightarrow> (int64 \<Rightarrow> address \<Rightarrow> dex_error + pool_state) option \<Rightarrow> app_config option \<Rightarrow> pool_event option" where
  "watch_pool al fetch cfg =
     (case (fetch, cfg) of
        (Some f, Some c) \<Rightarrow>
          (case ap_Pools c of [] \<Rightarrow> None
           | pool # _ \<Rightarrow>
               if pc_Address pool = [] then None
               else case f (pc_ChainID pool) (al_ToAddress al (pc_Address pool)) of
                 Inl e \<Rightarrow> None | Inr st \<Rightarrow> Some (pool_payload al st))
      | _ \<Rightarrow> None)"

subsection \<open>contract\_v1\_dump\<close>

definition example_intent :: "gotime \<Rightarrow> intent_v1" where
  "example_intent now =
     \<lparr>iv_SchemaVersion = SchemaVersion, iv_IntentID = ''intent_example_1'',
      iv_IntentType = RebalanceV3_v1, iv_TsLocalMS = unix_ms now, iv_DryRun = True, iv_TTLms = 0,
      iv_Params = [''pool'' \<mapsto> JStr ''v3'', ''tick_lower'' \<mapsto> JInt 200000, ''tick_upper'' \<mapsto> JInt 202000,
        ''target_lower_tick'' \<mapsto> JInt 200060, ''target_upper_tick'' \<mapsto> JInt 202060,
        ''reason'' \<mapsto> JStr ''near_edge''],
      iv_Fields = [''summary'' \<mapsto> JStr ''near_edge cur=[200000,202000] tick=201000 new=[200060,202060]''],
      iv_Summary = ''near_edge cur=[200000,202000] tick=201000 new=[200060,202060]''\<rparr>"

definition example_risk :: "gotime \<Rightarrow> risk_decision_v1" where
  "example_risk now =
     \<lparr>rv_SchemaVersion = SchemaVersion, rv_RunID = ''run_example_1'', rv_TsLocalMS = unix_ms now,
      rv_Level = LevelSafe, rv_Reasons = [], rv_Fields = Map.empty, rv_CooldownMS = 0\<rparr>"

definition example_exec :: "gotime \<Rightarrow> executor_result_v1" where
  "example_exec now =
     \<lparr>xv_SchemaVersion = SchemaVersion, xv_IntentID = iv_IntentID (example_intent now),
      xv_TsLocalMS = unix_ms now, xv_Status = ExecSimulated, xv_ErrorKind = ErrNone,
      xv_Receipt = [''simulated'' \<mapsto> JBool True, ''would_broadcast'' \<mapsto> JBool False,
        ''tx_hash'' \<mapsto> JStr ''0xSIMULATED_intent_example_1'']\<rparr>"

definition example_status :: "gotime \<Rightarrow> status_v1" where
  "example_status now =
     (let i = example_intent now; r = example_risk now; x = example_exec now in
      \<lparr>sv_SchemaVersion = SchemaVersion, sv_RunID = ''run_example_1'', sv_Mode = ModeDryRun,
       sv_State = StateRunning,
       sv_LastIntent = Some \<lparr>si_IntentType = iv_IntentType i, si_IntentID = iv_IntentID i,
         si_TsLocalMS = iv_TsLocalMS i, si_Summary = iv_Summary i, si_Fields = iv_Fields i\<rparr>,
       sv_LastRisk = Some \<lparr>sr_Level = rv_Level r, sr_TsLocalMS = rv_TsLocalMS r,
         sr_ReasonsCount = length (rv_Reasons r)\<rparr>,
       sv_LastExec = Some \<lparr>se_Status = xv_Status x, se_TsLocalMS = xv_TsLocalMS x,
         se_ErrorKind = xv_ErrorKind x\<rparr>,
       sv_UptimeSec = 123\<rparr>)"

record v1_enums =
  en_IntentType :: "intent_type_v1 list"
  en_RiskLevel :: "risk_level list"
  en_ExecutionStatus :: "exec_status list"
  en_ErrorKind :: "error_kind list"
  en_Mode :: "v1_mode list"
  en_State :: "v1_state list"
  en_SchemaVersion :: string

definition enum_list :: v1_enums where
  "enum_list =
     \<lparr>en_IntentType = [RebalanceV3_v1, CexMake_v1, Arbitrage_v1, HedgePerp_v1],
      en_RiskLevel = [LevelSafe, LevelDeny, LevelPause, LevelSafeMode, LevelHalt],
      en_ExecutionStatus = [ExecSimulated, ExecSkipped, ExecSubmitted, ExecPartiallyFilled,
        ExecFilled, ExecCanceled, ExecFailed],
      en_ErrorKind = [ErrNone, ErrTransient, ErrAuth, ErrRateLimit, ErrInsufficientBalance,
        ErrBadParams, ErrUnknown],
      en_Mode = [ModeDryRun, ModeShadow, ModeLive, ModePaper],
      en_State = [StateRunning, StatePaused, StateSafeMode, StateError],
      en_SchemaVersion = SchemaVersion\<rparr>"

definition validate ::
    "intent_v1 \<Rightarrow> risk_decision_v1 \<Rightarrow> executor_result_v1 \<Rightarrow> status_v1 \<Rightarrow> string option" where
  "validate i r x s =
     (if iv_SchemaVersion i \<noteq> SchemaVersion
      then Some (''IntentV1.schema_version must be '' @ quote SchemaVersion)
      else if rv_SchemaVersion r \<noteq> SchemaVersion
      then Some (''RiskDecisionV1.schema_version must be '' @ quote SchemaVersion)
      else if xv_SchemaVersion x \<noteq> SchemaVersion
      then Some (''ExecutorResultV1.schema_version must be '' @ quote SchemaVersion)
      else if sv_SchemaVersion s \<noteq> SchemaVersion
      then Some (''StatusV1.schema_version must be '' @ quote SchemaVersion)
      else None)"

datatype dump_line =
  DumpIntent intent_v1 | DumpRisk risk_decision_v1 | DumpExec executor_result_v1
| DumpStatus status_v1 | DumpEnums v1_enums

definition dump :: "gotime \<Rightarrow> string + dump_line list" where
  "dump now =
     (case validate (example_intent now) (example_risk now) (example_exec now) (example_status now) of
        Some e \<Rightarrow> Inl e
      | None \<Rightarrow> Inr [DumpIntent (example_intent now), DumpRisk (example_risk now),
                     DumpExec (example_exec now), DumpStatus (example_status now), DumpEnums enum_list])"

subsection \<open>replay\<close>

record replayed =
  ro_ID :: msg_id
  ro_Timestamp :: gotime
  ro_Payload :: json

text \<open>\<open>values\<close> is the document of all fields of a message, which stands in for an event that cannot
  be read.\<close>

definition replay_msg :: "(redis_msg \<Rightarrow> json) \<Rightarrow> redis_msg \<Rightarrow> replayed" where
  "replay_msg values m =
     (case rm_event m of
        Some e \<Rightarrow> \<lparr>ro_ID = rm_id m, ro_Timestamp = re_Timestamp e, ro_Payload = re_Payload e\<rparr>
      | None \<Rightarrow> \<lparr>ro_ID = rm_id m, ro_Timestamp = 0, ro_Payload = values m\<rparr>)"

datatype replay_error = OnlyRedis | ReplayUrlMissing | ReplayUrlInvalid | ReplayPingFailed | ReadFailedRedis

definition replay ::
    "string \<Rightarrow> string \<Rightarrow> (string \<Rightarrow> bool) \<Rightarrow> (string \<Rightarrow> bool) \<Rightarrow> redis_msg list option \<Rightarrow> (redis_msg \<Rightarrow> json)
      \<Rightarrow> replay_error + replayed list" where
  "replay driver url parses pings answer values =
     (if driver \<noteq> ''redis'' then Inl OnlyRedis
      else if url = [] then Inl ReplayUrlMissing
      else if \<not> parses url then Inl ReplayUrlInvalid
      else if \<not> pings url then Inl ReplayPingFailed
      else case answer of None \<Rightarrow> Inl ReadFailedRedis | Some ms \<Rightarrow> Inr (map (replay_msg values) ms))"

end
