(* ===== verification/Props_Start.thy ===== *)
theory Props_Start
  imports Startup Tools Bot_System Props_Swap
begin

text \<open>
  The properties of the start of the bot, of the Redis event stream and of the tools.
\<close>

subsection \<open>Starting\<close>

lemma started_valid:
  assumes "ValidateConfig c = Inr cfg"
  shows "ap_Chains cfg \<noteq> [] \<and> ap_Pools cfg \<noteq> []"
  using assms by (auto simp: ValidateConfig_def split: if_splits option.splits sum.splits)

lemma startup_config_lists [simp]:
  "ap_Chains (startup_config env c) = ap_Chains c" "ap_Pools (startup_config env c) = ap_Pools c"
  by (simp_all add: startup_config_def Let_def)

text \<open>C14. Whatever the environment and the files hold, a bot that starts has a chain and a pool; is
  dry when it has no key, when a dry run is forced and when it evaluates on its own without being
  allowed to go live; has passed the check of the quoter when that is required; cools a target
  down for five minutes after three failures; refuses the blacklisted token; runs the
  accounting and the receipts exactly if it has a gateway; and begins in a state that satisfies
  the invariant of the bot.\<close>

theorem started_bot_safe:
  assumes "start_bot i = Inr s"
  shows "ap_Chains (sd_cfg s) \<noteq> [] \<and> ap_Pools (sd_cfg s) \<noteq> []
     \<and> (sc_DryRun (ap_Strategy (sd_cfg s))
        \<or> si_env i ''BOT_PRIVATE_KEY'' \<noteq> [] \<and> si_env i ''PHOENIX_FORCE_DRY_RUN'' \<noteq> ''1''
          \<and> (si_env i ''PHOENIX_AUTO_EVAL'' = ''1'' \<longrightarrow> si_env i ''PHOENIX_ALLOW_LIVE'' = ''1''))
     \<and> (si_env i ''PHOENIX_SWAP_REQUIRE_QUOTER'' = ''1'' \<longrightarrow>
          quoterRuntimePreflight (si_swap i) (si_codeAt i) (si_undef i) (si_env i) (Some (sd_cfg s)) = None)
     \<and> FailurePolicy (Some (sd_cooldown s)) = (3, 300 * second)
     \<and> pk_Risk (CheckPool (al_ToAddress (sl_addr (si_swap i))) now (sd_guard s) pool dead_token t1) = RiskDanger
     \<and> sd_pnlLoop s = (sd_gateway s \<noteq> None) \<and> sd_receipts s = (sd_gateway s \<noteq> None)
     \<and> bot_inv (initial_bot (start_runID (si_now i)) mv (sd_cfg s) (sd_world s))"
proof -
  obtain cfg0 c where cfg: "ValidateConfig c = Inr cfg0" "sd_cfg s = startup_config (si_env i) cfg0"
    and chk: "start_checks i (sd_cfg s) = Inr (sd_db s)"
    and rest: "sd_cooldown s = startup_cooldown (si_env i)"
      "sd_guard s = startup_guard (al_ToAddress (sl_addr (si_swap i)))"
      "sd_pnlLoop s = (sd_gateway s \<noteq> None)" "sd_receipts s = (sd_gateway s \<noteq> None)" "sd_world s = start_world i (sd_cfg s) (sd_rest s)"
    using start_bot_parts [OF assms] by metis
  have lists: "ap_Chains (sd_cfg s) \<noteq> [] \<and> ap_Pools (sd_cfg s) \<noteq> []"
    using started_valid [OF cfg(1)] cfg(2) by simp
  have dry: "sc_DryRun (ap_Strategy (sd_cfg s))
     \<or> si_env i ''BOT_PRIVATE_KEY'' \<noteq> [] \<and> si_env i ''PHOENIX_FORCE_DRY_RUN'' \<noteq> ''1''
       \<and> (si_env i ''PHOENIX_AUTO_EVAL'' = ''1'' \<longrightarrow> si_env i ''PHOENIX_ALLOW_LIVE'' = ''1'')"
    using chk startup_config_dry [of cfg0 "si_env i"] cfg(2)
    by (auto simp: start_checks_def Let_def split: option.splits if_splits)
  have quoter: "si_env i ''PHOENIX_SWAP_REQUIRE_QUOTER'' = ''1'' \<longrightarrow>
      quoterRuntimePreflight (si_swap i) (si_codeAt i) (si_undef i) (si_env i) (Some (sd_cfg s)) = None"
    using chk by (auto simp: start_checks_def Let_def split: option.splits if_splits)
  have policy: "FailurePolicy (Some (sd_cooldown s)) = (3, 300 * second)"
    by (simp add: rest(1) startup_cooldown_fixed FailurePolicy_def)
  have guard: "pk_Risk (CheckPool (al_ToAddress (sl_addr (si_swap i))) now (sd_guard s) pool dead_token t1) = RiskDanger"
    by (simp add: rest(2) startup_guard_def AddBlacklistToken_def CheckPool_def)
  have inv: "bot_inv (initial_bot (start_runID (si_now i)) mv (sd_cfg s) (sd_world s))"
    unfolding rest(5) by (rule initial_bot_inv [OF start_world_empty])
  show ?thesis
    using conjunct1 [OF lists] conjunct2 [OF lists] dry quoter policy guard rest(3,4) inv by (intro conjI)
qed

text \<open>Without a key the executor does not get the absent gateway that it asks for: the pointer
  nil becomes an interface that is not nil, so that, were the run not a dry run, the executor
  would go on to send through it.\<close>

theorem typed_nil_gateway:
  assumes "start_bot i = Inr s" "si_env i ''BOT_PRIVATE_KEY'' = []"
  shows "sd_gateway s = None \<and> iface_of (sd_gateway s) \<noteq> NilInterface \<and> would_send False (iface_of (sd_gateway s))"
proof -
  have "sd_gateway s = start_gateway i (sd_cfg s)" using start_bot_parts [OF assms(1)] by metis
  then have "sd_gateway s = None" using assms(2) by (simp add: start_gateway_def)
  then show ?thesis by (simp add: would_send_def)
qed

definition ex_start_cfg :: app_config where
  "ex_start_cfg =
     \<lparr>ap_SchemaVersion = [], ap_StrategyVersion = ''v1'',
      ap_Events = \<lparr>ec_Driver = ''memory'', ec_RedisURL = [], ec_RedisPrefix = [], ec_RedisGroup = []\<rparr>,
      ap_Chains = [\<lparr>ch_ID = 1, ch_Name = [], ch_RPC = ''http'', ch_QuoterAddress = [], ch_SwapHelperAddress = []\<rparr>],
      ap_Pools = [\<lparr>pc_ID = ''p'', pc_ChainID = 1, pc_Token0 = [], pc_Token1 = [], pc_Fee = 500, pc_Address = [],
        pc_MaxInvestment = [], pc_PositionManager = [], pc_Amount0 = [], pc_Amount1 = [],
        pc_Token0Decimals = 18, pc_Token1Decimals = 18\<rparr>],
      ap_Strategy = \<lparr>sc_Name = [], sc_Params = None, sc_DryRun = True\<rparr>,
      ap_Risk = \<lparr>rk_MaxDailyGas = Fin 1, rk_MaxDrawdown = Fin (1 / 2), rk_ConsecutiveFails = 3\<rparr>,
      ap_MonitoringPort = 9090\<rparr>"

definition ex_start :: start_input where
  "ex_start =
     \<lparr>si_env = (\<lambda>k. []), si_config = (\<lambda>p. Some (Some ex_start_cfg)), si_connect = (\<lambda>a b c. False),
      si_canOpen = (\<lambda>d. True), si_migration = None, si_simple = id, si_swap = ex_swap_lib,
      si_codeAt = (\<lambda>a. None), si_undef = (\<lambda>s. 0), si_gateway = (\<lambda>r k. Inl DialFailed), si_override = [],
      si_now = 0, si_riskDisk = None, si_statsFile = None, si_reportJSON = None, si_reportTXT = None,
      si_faults = (\<lambda>k. no_faults 0 0), si_fmt_g12 = (\<lambda>x. [])\<rparr>"

lemma ex_started: "\<exists>s. start_bot ex_start = Inr s"
proof -
  have v: "ValidateConfig ex_start_cfg = Inr ex_start_cfg"
    by (simp add: ValidateConfig_def ex_start_cfg_def check_risk_def check_events_def Let_def)
  have m: "NewManager p (si_config ex_start p) = Inr \<lparr>cm_path = p, cm_current = ex_start_cfg, cm_updates = []\<rparr>" for p
    by (simp add: NewManager_def LoadConfig_def ex_start_def v)
  have c: "startup_config (si_env ex_start) ex_start_cfg = ex_start_cfg"
    by (simp add: startup_config_def ex_start_def ex_start_cfg_def)
  have "trim_space [] = []" by code_simp
  then have "start_checks ex_start ex_start_cfg = Inr (SQLite ''phoenix.db'')"
    by (simp add: start_checks_def NewStore_def migrate_def ex_start_def ex_start_cfg_def Let_def
        quoterRuntimePreflight_def or_env_def)
  then show ?thesis by (simp add: start_bot_def Let_def m c)
qed

theorem started_bot_safe_witness:
  "\<exists>s. start_bot ex_start = Inr s \<and> FailurePolicy (Some (sd_cooldown s)) = (3, 300 * second)"
proof -
  obtain s where s: "start_bot ex_start = Inr s" using ex_started by blast
  from started_bot_safe [OF s] have "FailurePolicy (Some (sd_cooldown s)) = (3, 300 * second)" by blast
  with s show ?thesis by blast
qed

theorem typed_nil_gateway_witness:
  "\<exists>s. start_bot ex_start = Inr s \<and> would_send False (iface_of (sd_gateway s))"
proof -
  obtain s where s: "start_bot ex_start = Inr s" using ex_started by blast
  have "si_env ex_start ''BOT_PRIVATE_KEY'' = []" by (simp add: ex_start_def)
  from typed_nil_gateway [OF s this] s show ?thesis by blast
qed

subsection \<open>Redis\<close>

definition fresh_consumer :: "consumer \<Rightarrow> bool" where
  "fresh_consumer c \<longleftrightarrow> consumer_ok c \<and> co_read c = [] \<and> co_sent c = []"

text \<open>C30. With Redis a topic is not broadcast: two subscribers, which always belong to one group, never
  receive the same event, unlike with the stream in memory.  And the events that a subscriber has
  read but not passed on when it is cancelled are lost: whatever happens afterwards, nobody
  receives them and nobody acknowledges them.\<close>

theorem redis_group_splits:
  assumes "group_run as s s1" "group_run bs s1 s2" "\<And>n. fresh_consumer (s n)"
    "distinct (handed_out (as @ bs))"
  shows "(\<forall>m n. m \<noteq> n \<longrightarrow> rm_id ` set (co_sent (s2 m)) \<inter> rm_id ` set (co_sent (s2 n)) = {})
    \<and> (\<forall>n m x. co_closed (s1 n) \<and> x \<in> set (co_batch (s1 n)) \<longrightarrow>
         rm_id x \<notin> rm_id ` set (co_sent (s2 m)) \<and> rm_id x \<notin> set (co_acked (s2 m)))"
proof -
  have ok: "consumer_ok (s2 n)" for n
    using group_run_ok [OF group_run_app [OF assms(1,2)]] assms(3) by (simp add: fresh_consumer_def)
  obtain f where f: "\<forall>n. co_read (s2 n) = co_read (s n) @ f n"
    "distinct (handed_out (as @ bs)) \<longrightarrow> split_up (handed_out (as @ bs)) f"
    using group_run_reads [OF group_run_app [OF assms(1,2)]] by (elim exE conjE)
  note su = mp [OF f(2) assms(4)]
  have rd: "co_read (s2 n) = f n" for n using f(1) assms(3) by (simp add: fresh_consumer_def)
  have parts: "f n = co_sent (s2 n) @ co_batch (s2 n)" for n
    using ok [of n] rd [of n] by (simp add: consumer_ok_def)
  have apart: "rm_id ` set (f m) \<inter> rm_id ` set (f n) = {}" if "m \<noteq> n" for m n
    using su that unfolding split_up_def by (elim conjE allE impE)
  have dist: "distinct (map rm_id (f n))" for n using su by (simp add: split_up_def)
  have acked: "set (co_acked (s2 m)) \<subseteq> rm_id ` set (co_sent (s2 m))" for m
    using ok [of m] by (simp add: consumer_ok_def)
  have A: "rm_id ` set (co_sent (s2 m)) \<inter> rm_id ` set (co_sent (s2 n)) = {}" if "m \<noteq> n" for m n
    using apart [OF that] parts [of m] parts [of n] by auto
  have B: "rm_id x \<notin> rm_id ` set (co_sent (s2 m))"
    if x: "co_closed (s1 n)" "x \<in> set (co_batch (s1 n))" for n m x
  proof -
    have b: "x \<in> set (co_batch (s2 n))" using group_closed_stays [OF assms(2) x(1)] x(2) by simp
    show ?thesis
    proof (cases "m = n")
      case True
      then show ?thesis using dist [of n] parts [of n] b by auto
    next
      case False
      then show ?thesis using apart [OF False] parts [of m] parts [of n] b by auto
    qed
  qed
  have C: "rm_id x \<notin> set (co_acked (s2 m))" if "co_closed (s1 n)" "x \<in> set (co_batch (s1 n))" for n m x
    using B [OF that, of m] acked [of m] by blast
  show ?thesis
  proof (intro conjI allI impI)
    show "rm_id ` set (co_sent (s2 m)) \<inter> rm_id ` set (co_sent (s2 n)) = {}" if "m \<noteq> n" for m n
      using that by (rule A)
    show "rm_id x \<notin> rm_id ` set (co_sent (s2 m))" "rm_id x \<notin> set (co_acked (s2 m))"
      if "co_closed (s1 n) \<and> x \<in> set (co_batch (s1 n))" for n m x
      by (rule B [OF conjunct1 [OF that] conjunct2 [OF that]], rule C [OF conjunct1 [OF that] conjunct2 [OF that]])
  qed
qed

definition ex_consumer :: consumer where
  "ex_consumer = \<lparr>co_topic = TopicTicker, co_buf = [], co_batch = [], co_read = [], co_sent = [], co_acked = [],
     co_cancelled = False, co_closed = False\<rparr>"

theorem redis_group_splits_witness:
  "\<exists>s2. group_run [(0, ReadBatch [\<lparr>rm_id = 1, rm_event = None\<rparr>]), (0, CancelSub), (0, GiveUp)]
     (\<lambda>n. ex_consumer) s2 \<and> 1 \<notin> rm_id ` set (co_sent (s2 1))"
proof -
  let ?as = "[(0, ReadBatch [\<lparr>rm_id = 1, rm_event = None\<rparr>]), (0, CancelSub), (0 :: nat, GiveUp)]"
  obtain s1 where r: "group_run ?as (\<lambda>n. ex_consumer) s1"
    and c: "co_closed (s1 0)" "\<lparr>rm_id = 1, rm_event = None\<rparr> \<in> set (co_batch (s1 0))"
  proof
    let ?s = "(\<lambda>n. ex_consumer)(0 := ex_consumer\<lparr>co_batch := [\<lparr>rm_id = 1, rm_event = None\<rparr>],
      co_read := [\<lparr>rm_id = 1, rm_event = None\<rparr>], co_cancelled := True, co_closed := True\<rparr>)"
    show "group_run ?as (\<lambda>n. ex_consumer) ?s"
      by (rule group_cons, simp add: ex_consumer_def, rule group_cons, simp add: ex_consumer_def,
          rule group_cons, simp add: ex_consumer_def) (simp add: group_nil ex_consumer_def)
    show "co_closed (?s 0)" "\<lparr>rm_id = 1, rm_event = None\<rparr> \<in> set (co_batch (?s 0))" by simp_all
  qed
  have fr: "fresh_consumer ex_consumer" by (simp add: fresh_consumer_def ex_consumer_def consumer_ok_def)
  have "distinct (handed_out (?as @ []))" by (simp add: handed_out_def)
  note t = conjunct2 [OF redis_group_splits [OF r group_nil fr this], rule_format, OF conjI [OF c]]
  have "rm_id \<lparr>rm_id = 1, rm_event = None\<rparr> \<notin> rm_id ` set (co_sent (s1 1))" by (rule conjunct1 [OF t])
  then have "1 \<notin> rm_id ` set (co_sent (s1 1))" by simp
  with r show ?thesis by (intro exI conjI)
qed

subsection \<open>The dump of the contract\<close>

text \<open>The dump of the contract always succeeds, its example documents carry the schema version,
  and its lists of values are complete and without repetition: a value that is added to one of
  the types without being listed would show.\<close>

theorem dump_complete:
  "dump now = Inr [DumpIntent (example_intent now), DumpRisk (example_risk now), DumpExec (example_exec now),
     DumpStatus (example_status now), DumpEnums enum_list]
   \<and> set (en_IntentType enum_list) = UNIV \<and> distinct (en_IntentType enum_list)
   \<and> set (en_RiskLevel enum_list) = UNIV \<and> sorted_wrt (<) (en_RiskLevel enum_list)
   \<and> set (en_ExecutionStatus enum_list) = UNIV \<and> distinct (en_ExecutionStatus enum_list)
   \<and> set (en_ErrorKind enum_list) = UNIV \<and> distinct (en_ErrorKind enum_list)
   \<and> set (en_Mode enum_list) = UNIV \<and> distinct (en_Mode enum_list)
   \<and> set (en_State enum_list) = UNIV \<and> distinct (en_State enum_list)"
proof (intro conjI)
  show "dump now = Inr [DumpIntent (example_intent now), DumpRisk (example_risk now), DumpExec (example_exec now),
     DumpStatus (example_status now), DumpEnums enum_list]"
    by (simp add: dump_def validate_def example_intent_def example_risk_def example_exec_def
        example_status_def Let_def)
  have "x \<in> set (en_IntentType enum_list)" for x by (cases x) (simp_all add: enum_list_def)
  then show "set (en_IntentType enum_list) = UNIV" by blast
  have "x \<in> set (en_RiskLevel enum_list)" for x by (cases x) (simp_all add: enum_list_def)
  then show "set (en_RiskLevel enum_list) = UNIV" by blast
  have "x \<in> set (en_ExecutionStatus enum_list)" for x by (cases x) (simp_all add: enum_list_def)
  then show "set (en_ExecutionStatus enum_list) = UNIV" by blast
  have "x \<in> set (en_ErrorKind enum_list)" for x by (cases x) (simp_all add: enum_list_def)
  then show "set (en_ErrorKind enum_list) = UNIV" by blast
  have "x \<in> set (en_Mode enum_list)" for x by (cases x) (simp_all add: enum_list_def)
  then show "set (en_Mode enum_list) = UNIV" by blast
  have "x \<in> set (en_State enum_list)" for x by (cases x) (simp_all add: enum_list_def)
  then show "set (en_State enum_list) = UNIV" by blast
qed (simp_all add: enum_list_def less_risk_level_def)

end
