(* ===== verification/Spec2Isabelle.thy ===== *)
theory Spec2Isabelle
  imports Props_Risk Props_Market Props_Strategy Props_Exec Props_Swap Props_Events Props_System
    Props_Pnl Props_Feeds Props_Gateway Props_Start Advisory
begin

text \<open>
  A verification development for Phoenix V3, a bot that keeps a Uniswap V3 position in range and
  executes swaps, written in Go.

  \<^bold>\<open>The program.\<close>  cmd/bot is one process.  Two WebSocket clients (internal/feed) send prices to
  an aggregator, which judges the market; its tickers and the states of the pool go through an
  event stream (internal/events) to the main loop of cmd/bot.  The loop reads the control file
  of the operators (internal/control/filecontrol), asks the strategies (internal/strategy,
  internal/engine) and puts what they want, an intent, into a priority queue.  The HTTP server
  (internal/api) puts manual intents into the same queue and publishes the state.  The executor
  takes intents out of the queue, one at a time: the risk control (internal/riskcontrol), the
  control file, the time to live, the market, the risk manager (internal/risk), the blacklist
  (internal/poolguard) and the swap policy can each refuse it.  What remains is simulated (the
  constant \<open>isDryRun\<close> of \<open>executeIntent\<close>), stored (internal/storage), published and logged
  (internal/obs/v1jsonl).  Beside it run the accounting with its alerts, the watcher of the pool
  (internal/dexstate) and the watcher of receipts of the gateway (internal/chain/gateway).

  \<^bold>\<open>Theories and sources.\<close>
  \<^item> Prelude, Go_Strings, Go_Float64, Go_Time, Files: the integers, strings, floating-point
    numbers and times of Go and the files that the program polls, with the lemmas that all
    components share and the collections of rewrite rules.
  \<^item> Contracts: internal/contracts and the contract v1 records of shared/contracts.
  \<^item> Price_Aggregator, Price_Feeds: internal/feed.  The aggregator is a state with one step per
    message (\<open>agg_step\<close>); a client of a venue is a turn of its loop (\<open>okx_turn\<close>, \<open>binance_turn\<close>)
    and the function that checks a message; the REST fallback is the machine \<open>rest_step\<close>, in
    which the failure of the reader and its deferred close of the channel are two steps.
  \<^item> Event_Stream, Redis_Stream: internal/events.  Both are machines whose steps are what
    goroutines can interleave.
  \<^item> File_Control: internal/control/filecontrol.  Config: internal/config.
  \<^item> Risk_Types, Risk_Evaluator, Risk_Rules, Risk_State, Cooldown_Rule, Price_Normalization,
    Risk_Stats, Divergence_Samples: internal/riskcontrol.
  \<^item> Intent_Queue, Tick_Range, V3_Rebalance, Strategies: internal/strategy and internal/engine.
  \<^item> Univ3: internal/chain/univ3.  Eth_Gateway: internal/chain/gateway, the allowances, balances
    and receipts of cmd/bot, the updates of internal/storage, and the live branch of the executor.
  \<^item> Risk_Manager: internal/risk and internal/poolguard.  Swap_Policy: the swap policies and the
    preparation of a swap call of cmd/bot and internal/api.  Api_Server: internal/api.
  \<^item> Executor, Executor_Facts: \<open>executeIntent\<close> and \<open>startIntentExecutor\<close> of cmd/bot, gate by
    gate; saving the trade and publishing it can each fail.  Executor_Steps: the same function
    cut into steps (\<open>job_step\<close>), since it holds no lock, with the proof that the steps without
    interruption are the function.  Decision_Loop: the loop of \<open>main\<close>.  Bot_System: the handlers
    of the loop, the single steps of the executor, reload and HTTP handler interleaved on one
    state.  Pnl_Loop: the accounting; a post to the webhook has the time of its round and its own.
    Startup: what \<open>main\<close> builds first.
  \<^item> Json_Log: internal/obs/v1jsonl.  Advisory: internal/advisory and cmd/riskadvisory.  Tools:
    internal/dexstate, the watcher of the pool, cmd/contract_v1_dump and cmd/replay.
  \<^item> Props_*: the properties with their concrete instances, by component.

  A struct is a record with its fields, an enumeration a datatype (a string type where the code
  compares strings), a method a function of the same name from the old state to the new one and
  the result; a Go map is a partial map, \<open>None\<close> when it is nil; a pointer that may be nil an
  option.  An error is a constructor of a datatype that keeps the values printed in it.  Lines
  that only log or update a Prometheus gauge are left out.

  \<^bold>\<open>Interfaces.\<close>  Laws that one part promises another are locales, interpreted on the model in
  the theory that provides them: the queue (\<open>iq\<close>), the risk rules (\<open>veto_rule\<close>, once per rule), the
  alignment of ticks (\<open>tick_floor\<close>, twice: the strategy and the adapter agree), the nonces of the
  gateway (\<open>nonce_source\<close>) and others.

  \<^bold>\<open>What is shown.\<close>  For the risk control: one veto decides, which rule decides when, when a
  target cools down, that the store refines a map.  For the executor: when an intent is executed,
  that it is never broadcast, what is published and stored on every path, that a frozen manager
  stops it.  For the whole bot: an invariant of every reachable state of every interleaving, that
  the control file stops every execution that begins after it was loaded (one under way is not
  stopped), which intents a tick may add.  For swaps: what an accepted swap
  satisfies, the protection by the minimal output computed from the answer of the quoter, that API and bot agree, and that the gateway
  sends exactly the prepared call.  For the gateway: consecutive nonces, fees, allowances and
  receipts.  For the market: what the mode \<open>normal\<close> of any reachable state means and that no
  venue gets an absurd price through.  For the streams: bounded channels, progress, what a slow subscriber keeps, and what
  consumer groups lose.  For the log: no secret under a sensitive name is written.  For the
  start: what every bot that starts satisfies.  Several properties state how the code behaves
  where that is not what it means to do; they are named in the findings of the manifest.

  \<^bold>\<open>Parameters.\<close>  Code that is not in the repository is an argument: the address functions of
  go-ethereum (\<open>addr_lib\<close>), signing, ABI and RPC (\<open>gateway_lib\<close>, \<open>swap_lib\<close>, \<open>quoter_api\<close>, the answers
  of the node), SHA-256, \<open>math.Pow\<close> and \<open>math.Log\<close>, the verb \<open>%g\<close>, what Redis answers, sockets and
  HTTP.  \<open>json.Unmarshal\<close> and the YAML parser give the document of a file or message, or an error.
  Every reading of the clock is an argument of its own, and so is every system call that may
  fail.  Hypotheses on parameters are stated in the theorems: that a base fee is not negative,
  that an address survives its hexadecimal form, that Redis hands out a message once.

  \<^bold>\<open>Bounds and loops.\<close>  Integers are kept at their width: \<open>int64\<close> by \<open>wrap64\<close>, unsigned ones as
  words; floating-point numbers are the rationals they denote with every operation rounded.
  There is no fuel: loops are recursions over their input (the messages, the answers of the node,
  the events), the loops of the heap have measures, and the long-running loops are runs of a step
  function or relation of any length.

  \<^bold>\<open>Assumptions on Go.\<close>  64-bit targets with the conversion of amd64 from floats to integers;
  \<open>sort.Slice\<close> keeps the order of equal elements; lower and upper case of ASCII letters only;
  handlers that hold a lock are atomic, and so is each handler of the main loop and each gate of
  the executor; \<open>ApplyDegradation\<close>'s copy does not alias the original.

  \<^bold>\<open>Not modelled.\<close>  The Prometheus registration of internal/monitor, the routing and encoding of
  HTTP, flags and printing of the tools, cmd/configcheck, cmd/contract_v1_demo and
  cmd/contract_v1_chain_sample (they print what the packages return), and the interface
  declarations, which have no behaviour.  The branches of \<open>executeIntent\<close> behind \<open>isDryRun = false\<close>
  are dead code in this program; the part of them that prepares and sends is \<open>live_branch\<close> of
  Eth_Gateway.
\<close>

end
